(* ===== verification/GoPrelude.thy ===== *)
theory GoPrelude
  imports Main "HOL-Library.Word" "HOL-Library.Signed_Division" "HOL-Library.Sublist"
    "HOL-Library.List_Lexorder" "HOL-Library.Char_ord" "HOL-Library.AList"
begin

text \<open>
  The part of Go and of its standard library that the modelled code uses, and the generic lemmas
  the components share.  A Go \<open>string\<close> is a list of bytes (\<open>string\<close>), an \<open>int64\<close> a 64-bit word
  read as two's complement, a \<open>map[string]string\<close> an association list whose order stands for the
  (unspecified) iteration order, and an \<open>error\<close> a value of the type \<open>goerr\<close> below, in which
  wrapping is kept, since \<open>errors.Is\<close> looks through it and \<open>os.IsNotExist\<close> does not.
\<close>

named_theorems go_defs \<open>definitions of the Go standard library functions\<close>
named_theorems frame_rules \<open>what an operation leaves unchanged\<close>

section \<open>Strings\<close>

fun cmp_Or :: "string list \<Rightarrow> string" where
  "cmp_Or [] = ''''"
| "cmp_Or (x # xs) = (if x \<noteq> '''' then x else cmp_Or xs)"

definition strings_HasPrefix :: "string \<Rightarrow> string \<Rightarrow> bool" where
  "strings_HasPrefix s p = prefix p s"

definition strings_TrimPrefix :: "string \<Rightarrow> string \<Rightarrow> string" where
  "strings_TrimPrefix s p = (if prefix p s then drop (length p) s else s)"

text \<open>\<open>strings.Cut\<close> and \<open>strings.Split\<close> for a separator of one byte, the only kind the code uses.\<close>

definition strings_Cut :: "string \<Rightarrow> char \<Rightarrow> string \<times> string \<times> bool" where
  "strings_Cut s c = (if c \<in> set s
     then (takeWhile (\<lambda>x. x \<noteq> c) s, tl (dropWhile (\<lambda>x. x \<noteq> c) s), True)
     else (s, '''', False))"

fun strings_Split :: "string \<Rightarrow> char \<Rightarrow> string list" where
  "strings_Split [] c = ['''']"
| "strings_Split (x # xs) c =
     (if x = c then '''' # strings_Split xs c
      else (case strings_Split xs c of [] \<Rightarrow> [[x]] | w # ws \<Rightarrow> (x # w) # ws))"

fun strings_Contains :: "string \<Rightarrow> string \<Rightarrow> bool" where
  "strings_Contains [] sub = (sub = '''')"
| "strings_Contains (x # xs) sub = (prefix sub (x # xs) \<or> strings_Contains xs sub)"

text \<open>\<open>strings.ToLower\<close>, \<open>strings.TrimSpace\<close> and \<open>strings.TrimRight\<close> on ASCII text.\<close>

definition ascii_lower :: "char \<Rightarrow> char" where
  "ascii_lower c = (if CHR ''A'' \<le> c \<and> c \<le> CHR ''Z'' then char_of (of_char c + (32::nat)) else c)"

definition strings_ToLower :: "string \<Rightarrow> string" where
  "strings_ToLower s = map ascii_lower s"

definition ascii_space :: "char \<Rightarrow> bool" where
  "ascii_space c = (c \<in> {CHR '' '', CHR 0x09, CHR 0x0A, CHR 0x0B, CHR 0x0C, CHR 0x0D})"

definition strings_TrimSpace :: "string \<Rightarrow> string" where
  "strings_TrimSpace s = rev (dropWhile ascii_space (rev (dropWhile ascii_space s)))"

definition strings_TrimRight :: "string \<Rightarrow> char \<Rightarrow> string" where
  "strings_TrimRight s c = rev (dropWhile (\<lambda>x. x = c) (rev s))"

text \<open>The \<open>%q\<close> verb, for text that needs no escape.\<close>

definition fmt_q :: "string \<Rightarrow> string" where
  "fmt_q s = CHR 0x22 # s @ [CHR 0x22]"

lemmas string_defs = strings_HasPrefix_def strings_TrimPrefix_def strings_Cut_def
  strings_ToLower_def ascii_lower_def strings_TrimSpace_def strings_TrimRight_def ascii_space_def

lemma cmp_Or_eq_Nil [simp]: "cmp_Or xs = '''' \<longleftrightarrow> (\<forall>x \<in> set xs. x = '''')"
  by (induction xs) auto

lemma cmp_Or_in: "cmp_Or xs \<noteq> '''' \<Longrightarrow> cmp_Or xs \<in> set xs"
  by (induction xs) auto

lemma strings_Cut_join [simp]:
  "c \<notin> set a \<Longrightarrow> strings_Cut (a @ c # b) c = (a, b, True)"
  by (simp add: strings_Cut_def takeWhile_append dropWhile_append)

lemma strings_Cut_none: "c \<notin> set s \<Longrightarrow> strings_Cut s c = (s, '''', False)"
  by (simp add: strings_Cut_def)

lemma strings_Split_nonempty [simp]: "strings_Split s c \<noteq> []"
  by (cases s) (auto split: list.splits)

lemma strings_Split_none: "c \<notin> set s \<Longrightarrow> strings_Split s c = [s]"
  by (induction s) auto

lemma strings_Split_append:
  "c \<notin> set a \<Longrightarrow> strings_Split (a @ c # b) c = a # strings_Split b c"
  by (induction a) auto

lemma length_strings_Split: "length (strings_Split s c) = Suc (count_list s c)"
  by (induction s) (auto split: list.splits)

section \<open>Numbers\<close>

type_synonym i64 = "64 word"

text \<open>Go's \<open>/\<close> and \<open>%\<close> on \<open>int64\<close> truncate towards zero.\<close>

definition go_div :: "i64 \<Rightarrow> i64 \<Rightarrow> i64" where
  "go_div a b = word_of_int (sint a sdiv sint b)"

definition go_rem :: "i64 \<Rightarrow> i64 \<Rightarrow> i64" where
  "go_rem a b = word_of_int (sint a smod sint b)"

definition int64_ok :: "int \<Rightarrow> bool" where
  "int64_ok x = (- (2 ^ 63) \<le> x \<and> x < 2 ^ 63)"

definition digit_char :: "nat \<Rightarrow> char" where
  "digit_char n = char_of (48 + n)"

fun nat_digits :: "nat \<Rightarrow> string" where
  "nat_digits n = (if n < 10 then [digit_char n] else nat_digits (n div 10) @ [digit_char (n mod 10)])"

declare nat_digits.simps [simp del]

definition strconv_Itoa :: "int \<Rightarrow> string" where
  "strconv_Itoa x = (if x < 0 then CHR ''-'' # nat_digits (nat (- x)) else nat_digits (nat x))"

definition is_digit :: "char \<Rightarrow> bool" where
  "is_digit c = (CHR ''0'' \<le> c \<and> c \<le> CHR ''9'')"

definition digits_value :: "string \<Rightarrow> nat" where
  "digits_value s = foldl (\<lambda>acc c. acc * 10 + (of_char c - 48)) 0 s"

definition strconv_Atoi :: "string \<Rightarrow> int option" where
  "strconv_Atoi s =
     (let (neg, body) = (case s of
            [] \<Rightarrow> (False, [])
          | c # cs \<Rightarrow> if c = CHR ''-'' then (True, cs) else if c = CHR ''+'' then (False, cs) else (False, s));
          value = (if neg then - int (digits_value body) else int (digits_value body))
      in if body \<noteq> [] \<and> list_all is_digit body \<and> int64_ok value then Some value else None)"

definition strconv_ParseBool :: "string \<Rightarrow> bool option" where
  "strconv_ParseBool s =
     (if s \<in> {''1'', ''t'', ''T'', ''true'', ''TRUE'', ''True''} then Some True
      else if s \<in> {''0'', ''f'', ''F'', ''false'', ''FALSE'', ''False''} then Some False
      else None)"

definition strconv_FormatBool :: "bool \<Rightarrow> string" where
  "strconv_FormatBool b = (if b then ''true'' else ''false'')"

lemma ParseBool_FormatBool [simp]: "strconv_ParseBool (strconv_FormatBool b) = Some b"
  by (simp add: strconv_ParseBool_def strconv_FormatBool_def)

lemma of_char_digit: "n < 10 \<Longrightarrow> of_char (digit_char n) = 48 + n"
  by (simp add: digit_char_def)

lemma is_digit_digit_char: "n < 10 \<Longrightarrow> is_digit (digit_char n)"
  by (simp add: is_digit_def digit_char_def less_eq_char_def)

lemma digits_value_snoc: "digits_value (s @ [c]) = digits_value s * 10 + (of_char c - 48)"
  by (simp add: digits_value_def)

lemma nat_digits_nonempty [simp]: "nat_digits n \<noteq> []"
  by (subst nat_digits.simps) simp

lemma nat_digits_all: "list_all is_digit (nat_digits n)"
proof (induction n rule: nat_digits.induct)
  case (1 n)
  then show ?case
    by (subst nat_digits.simps) (auto simp: is_digit_digit_char)
qed

lemma digits_value_nat_digits [simp]: "digits_value (nat_digits n) = n"
proof (induction n rule: nat_digits.induct)
  case (1 n)
  show ?case
  proof (cases "n < 10")
    case True
    then show ?thesis
      by (subst nat_digits.simps) (simp add: digits_value_def of_char_digit)
  next
    case False
    with 1 show ?thesis
      by (subst nat_digits.simps) (simp add: digits_value_snoc of_char_digit)
  qed
qed

lemma nat_digits_inject: "nat_digits m = nat_digits n \<Longrightarrow> m = n"
  by (metis digits_value_nat_digits)

lemma nat_digits_hd: "hd (nat_digits n) \<noteq> CHR ''-'' \<and> hd (nat_digits n) \<noteq> CHR ''+''"
proof -
  have "is_digit (hd (nat_digits n))"
    using nat_digits_all [of n] nat_digits_nonempty [of n] by (cases "nat_digits n") auto
  then show ?thesis by (auto simp: is_digit_def less_eq_char_def)
qed

lemma Atoi_Itoa_nat: "n < 2 ^ 63 \<Longrightarrow> strconv_Atoi (strconv_Itoa (int n)) = Some (int n)"
  using nat_digits_hd [of n] nat_digits_all [of n] nat_digits_nonempty [of n]
  by (cases "nat_digits n")
     (auto simp: strconv_Atoi_def strconv_Itoa_def int64_ok_def
        dest: arg_cong [of _ _ digits_value])

section \<open>64-bit arithmetic\<close>

text \<open>
  The lemmas that carry statements about \<open>sint\<close> through Go's arithmetic, for results that fit.
\<close>

lemma sint_range: "int64_ok (sint (a :: i64))"
  using sint_ge [of a] sint_lt [of a] by (simp add: int64_ok_def)

lemma sint_word_of_int64 [simp]: "int64_ok x \<Longrightarrow> sint (word_of_int x :: i64) = x"
  by (simp add: sint_sbintrunc' int64_ok_def signed_take_bit_int_eq_self_iff)

lemma i64_of_sint: "word_of_int (sint a) = (a :: i64)"
  by simp

lemma sint_add64: "int64_ok (sint a + sint b) \<Longrightarrow> sint (a + b :: i64) = sint a + sint b"
  using sint_word_of_int64 [of "sint a + sint b"]
  by (simp only: of_int_add i64_of_sint)

lemma sint_mult64: "int64_ok (sint a * sint b) \<Longrightarrow> sint (a * b :: i64) = sint a * sint b"
  using sint_word_of_int64 [of "sint a * sint b"]
  by (simp only: of_int_mult i64_of_sint)

lemma sint_diff64: "int64_ok (sint a - sint b) \<Longrightarrow> sint (a - b :: i64) = sint a - sint b"
  using sint_word_of_int64 [of "sint a - sint b"]
  by (simp only: of_int_diff i64_of_sint)

lemma div_int64_ok: "0 \<le> x \<Longrightarrow> 0 < y \<Longrightarrow> int64_ok x \<Longrightarrow> int64_ok (x div y)"
  using int_div_le_self [of x y] pos_imp_zdiv_nonneg_iff [of y x]
  by (cases "x = 0") (auto simp: int64_ok_def)

lemma sint_go_div:
  assumes "0 \<le> sint a" and "0 < sint b"
  shows "sint (go_div a b) = sint a div sint b"
proof -
  have "sint a sdiv sint b = sint a div sint b"
    using assms by (auto simp: signed_divide_int_def sgn_if)
  then show ?thesis
    using assms div_int64_ok [OF assms sint_range] by (simp add: go_div_def)
qed

lemma sint_go_rem:
  assumes "0 \<le> sint a" and "0 < sint b"
  shows "sint (go_rem a b) = sint a mod sint b"
proof -
  have "sint a smod sint b = sint a mod sint b"
    using assms by (auto simp: signed_modulo_int_def sgn_if)
  moreover have "int64_ok (sint a mod sint b)"
    using assms sint_range [of b] pos_mod_bound [of "sint b" "sint a"] pos_mod_sign [of "sint b" "sint a"]
    unfolding int64_ok_def by linarith
  ultimately show ?thesis by (simp add: go_rem_def)
qed

end
