(* ===== verification/GoErrors.thy ===== *)
theory GoErrors
  imports GoPrelude
begin

text \<open>
  Errors.  \<open>goerr\<close> keeps the shape of a Go error tree: a sentinel value made by \<open>errors.New\<close>, a
  gRPC status error, a wrapper made by \<open>fmt.Errorf\<close> with \<open>%w\<close> or by \<open>errors.Join\<close>, an
  \<open>os.PathError\<close>, or an error of some other package.  Then the mapping to gRPC codes of
  \<open>internal/driver/errors.go\<close>.
\<close>

section \<open>Error values\<close>

text \<open>The sentinels of \<open>internal/cloud/errors.go\<close>, with those of \<open>context\<close> and \<open>os\<close>.\<close>

datatype sentinel =
    ErrNotFound | ErrAlreadyExists | ErrQuotaExceeded | ErrConflict | ErrRateLimited
  | ErrUnavailable | ErrOutOfRange | ErrUnauthorized | ErrInvalid
  | context_Canceled | context_DeadlineExceeded | os_ErrNotExist | os_ErrInvalid

datatype grpc_code =
    codes_Canceled | codes_DeadlineExceeded | codes_NotFound | codes_AlreadyExists
  | codes_ResourceExhausted | codes_FailedPrecondition | codes_Unavailable | codes_OutOfRange
  | codes_PermissionDenied | codes_InvalidArgument | codes_Aborted | codes_Internal

datatype errno = ENOENT | EINVAL | EACCES | Errno string

datatype goerr =
    Sentinel sentinel
  | Status grpc_code string
  | Wrap string "goerr list"
  | PathError string string errno
  | Foreign string

type_synonym ('a, 's) result = "(goerr + 'a) \<times> 's"

fun errno_is :: "errno \<Rightarrow> sentinel \<Rightarrow> bool" where
  "errno_is ENOENT t = (t = os_ErrNotExist)"
| "errno_is _ t = False"

text \<open>\<open>errors.Is\<close>: the target occurs in the tree of wrapped errors.\<close>

fun errors_is :: "goerr \<Rightarrow> sentinel \<Rightarrow> bool" where
  "errors_is (Sentinel s) t = (s = t)"
| "errors_is (Status c m) t = False"
| "errors_is (Wrap m es) t = list_ex (\<lambda>e. errors_is e t) es"
| "errors_is (PathError op p n) t = errno_is n t"
| "errors_is (Foreign m) t = False"

text \<open>The second result of \<open>status.FromError\<close>: a status error occurs in the tree.\<close>

fun status_FromError :: "goerr \<Rightarrow> bool" where
  "status_FromError (Status c m) = True"
| "status_FromError (Wrap m es) = list_ex status_FromError es"
| "status_FromError _ = False"

text \<open>
  \<open>os.IsNotExist\<close> predates wrapping: it looks at the error itself, and under an
  \<open>os.PathError\<close>, and never through \<open>fmt.Errorf\<close>.
\<close>

fun os_IsNotExist :: "goerr \<Rightarrow> bool" where
  "os_IsNotExist (Sentinel s) = (s = os_ErrNotExist)"
| "os_IsNotExist (PathError op p n) = (n = ENOENT)"
| "os_IsNotExist _ = False"

lemma os_IsNotExist_Wrap: "\<not> os_IsNotExist (Wrap m es)"
  by simp

lemma os_IsNotExist_errors_is: "os_IsNotExist e \<Longrightarrow> errors_is e os_ErrNotExist"
  by (cases e) auto

section \<open>\<open>internal/driver/errors.go\<close>\<close>

text \<open>
  Both functions are called under \<open>err != nil\<close> only, so the argument is an error; a nil error
  would be returned as nil.  The order of the cases is the order of the \<open>switch\<close>.
\<close>

definition statusError :: "goerr \<Rightarrow> goerr" where
  "statusError err =
     (if errors_is err context_Canceled then Status codes_Canceled ''operation canceled''
      else if errors_is err context_DeadlineExceeded then Status codes_DeadlineExceeded ''operation timed out''
      else if errors_is err ErrNotFound then Status codes_NotFound ''resource not found''
      else if errors_is err ErrAlreadyExists then Status codes_AlreadyExists ''resource already exists''
      else if errors_is err ErrQuotaExceeded then Status codes_ResourceExhausted ''provider quota exhausted''
      else if errors_is err ErrConflict then Status codes_FailedPrecondition ''resource is in an incompatible state''
      else if errors_is err ErrRateLimited \<or> errors_is err ErrUnavailable then Status codes_Unavailable ''provider is unavailable''
      else if errors_is err ErrOutOfRange then Status codes_OutOfRange ''requested capacity is out of range''
      else if errors_is err ErrUnauthorized then Status codes_PermissionDenied ''provider credentials are not authorized''
      else if errors_is err ErrInvalid then Status codes_InvalidArgument ''provider rejected the request''
      else Status codes_Internal ''internal driver error'')"

definition grpcError :: "goerr \<Rightarrow> goerr" where
  "grpcError err = (if status_FromError err then err else statusError err)"

text \<open>\<open>status.Error\<close>'s text, which \<open>capabilityMessage\<close> returns to the client.\<close>

fun code_name :: "grpc_code \<Rightarrow> string" where
  "code_name codes_Canceled = ''Canceled''"
| "code_name codes_DeadlineExceeded = ''DeadlineExceeded''"
| "code_name codes_NotFound = ''NotFound''"
| "code_name codes_AlreadyExists = ''AlreadyExists''"
| "code_name codes_ResourceExhausted = ''ResourceExhausted''"
| "code_name codes_FailedPrecondition = ''FailedPrecondition''"
| "code_name codes_Unavailable = ''Unavailable''"
| "code_name codes_OutOfRange = ''OutOfRange''"
| "code_name codes_PermissionDenied = ''PermissionDenied''"
| "code_name codes_InvalidArgument = ''InvalidArgument''"
| "code_name codes_Aborted = ''Aborted''"
| "code_name codes_Internal = ''Internal''"

definition status_text :: "grpc_code \<Rightarrow> string \<Rightarrow> string" where
  "status_text c m = ''rpc error: code = '' @ code_name c @ '' desc = '' @ m"

lemma statusError_is_Status: "\<exists>c m. statusError err = Status c m"
  by (simp add: statusError_def)

lemma statusError_FromError [simp]: "status_FromError (statusError err)"
  by (simp add: statusError_def)

lemma grpcError_FromError [simp]: "status_FromError (grpcError err)"
  by (simp add: grpcError_def)

lemma grpcError_Status [simp]: "grpcError (Status c m) = Status c m"
  by (simp add: grpcError_def)

lemma statusError_Sentinel_simps [simp]:
  "statusError (Sentinel ErrNotFound) = Status codes_NotFound ''resource not found''"
  "statusError (Sentinel ErrAlreadyExists) = Status codes_AlreadyExists ''resource already exists''"
  "statusError (Sentinel ErrConflict) = Status codes_FailedPrecondition ''resource is in an incompatible state''"
  "statusError (Sentinel ErrUnavailable) = Status codes_Unavailable ''provider is unavailable''"
  "statusError (Sentinel ErrOutOfRange) = Status codes_OutOfRange ''requested capacity is out of range''"
  "statusError (Sentinel ErrInvalid) = Status codes_InvalidArgument ''provider rejected the request''"
  by (simp_all add: statusError_def)

text \<open>
  The code a client sees, and when.  The reference specification is a table from
  sentinels to codes, read in priority order; \<open>statusError\<close> implements it.
\<close>

definition sentinel_table :: "(sentinel \<times> grpc_code) list" where
  "sentinel_table =
     [(context_Canceled, codes_Canceled), (context_DeadlineExceeded, codes_DeadlineExceeded),
      (ErrNotFound, codes_NotFound), (ErrAlreadyExists, codes_AlreadyExists),
      (ErrQuotaExceeded, codes_ResourceExhausted), (ErrConflict, codes_FailedPrecondition),
      (ErrRateLimited, codes_Unavailable), (ErrUnavailable, codes_Unavailable),
      (ErrOutOfRange, codes_OutOfRange), (ErrUnauthorized, codes_PermissionDenied),
      (ErrInvalid, codes_InvalidArgument)]"

definition spec_code :: "goerr \<Rightarrow> grpc_code" where
  "spec_code err = (case find (\<lambda>(s, c). errors_is err s) sentinel_table of
     Some (s, c) \<Rightarrow> c | None \<Rightarrow> codes_Internal)"

fun code_of :: "goerr \<Rightarrow> grpc_code option" where
  "code_of (Status c m) = Some c"
| "code_of _ = None"

text \<open>
  The error table.  The gRPC code that \<open>statusError\<close> answers is the one the table gives to the
  first sentinel found in the error, however deeply it is wrapped, and Internal when there is none.
\<close>

theorem statusError_refines_table: "code_of (statusError err) = Some (spec_code err)"
  by (simp add: statusError_def spec_code_def sentinel_table_def)

end
