(* ===== verification/CloudTypes.thy ===== *)
theory CloudTypes
  imports GoErrors
begin

text \<open>
  The domain types of \<open>internal/cloud/cloud.go\<close> and the \<open>Cloud\<close> interface.  An interface value is
  a record of its methods; \<open>'s\<close> is the state of the world they act on, which each method
  takes and returns.  A \<open>context.Context\<close> is what the code uses of it: the outcome of a
  \<open>select\<close> between \<open>ctx.Done()\<close> and a timer, and \<open>ctx.Err()\<close>.
\<close>

type_synonym gomap = "(string \<times> string) list"

text \<open>\<open>m[key]\<close> on a \<open>map[string]string\<close>: the zero value for a key that is not there.\<close>

definition map_index :: "gomap \<Rightarrow> string \<Rightarrow> string" where
  "map_index m k = (case map_of m k of Some v \<Rightarrow> v | None \<Rightarrow> '''')"

record 's Context =
  ctx_timer :: "nat \<Rightarrow> 's \<Rightarrow> bool \<times> 's" \<comment> \<open>milliseconds; True: the timer fired first\<close>
  ctx_Err :: "'s \<Rightarrow> goerr option"

definition context_Background :: "'s Context" where
  "context_Background = \<lparr>ctx_timer = (\<lambda>_ s. (True, s)), ctx_Err = (\<lambda>_. None)\<rparr>"

record Page =
  page_Token :: string
  page_Size :: int
  page_Name :: string
  page_AvailabilityZone :: string

record VolumeSpec =
  spec_Name :: string
  spec_SizeBytes :: i64
  spec_AvailabilityZone :: string
  spec_ProjectID :: string
  spec_Type :: string
  spec_SnapshotID :: string
  spec_Encrypted :: bool
  spec_Metadata :: gomap

type_synonym VolumeStatus = string
type_synonym SnapshotStatus = string

definition VolumeStatusAvailable :: VolumeStatus where "VolumeStatusAvailable = ''available''"
definition VolumeStatusInUse :: VolumeStatus where "VolumeStatusInUse = ''in-use''"
definition SnapshotStatusAvailable :: SnapshotStatus where "SnapshotStatusAvailable = ''available''"
definition DefaultVolumeType :: string where "DefaultVolumeType = ''__DEFAULT__''"
definition EncryptedVolumeType :: string where "EncryptedVolumeType = ''Encrypted-v1''"

record Attachment =
  att_InstanceID :: string
  att_DevicePath :: string

record Volume =
  vol_ID :: string
  vol_Name :: string
  vol_SizeBytes :: i64
  vol_Status :: VolumeStatus
  vol_AvailabilityZone :: string
  vol_Type :: string
  vol_Encrypted :: bool
  vol_Multiattach :: bool
  vol_Metadata :: gomap
  vol_Attachments :: "Attachment list"

record SnapshotSpec =
  snapspec_Name :: string
  snapspec_VolumeID :: string
  snapspec_ProjectID :: string
  snapspec_AvailabilityZone :: string
  snapspec_Force :: bool
  snapspec_Metadata :: gomap

text \<open>
  \<open>time.Time\<close> is the text it was parsed from, \<open>None\<close> the zero time: the code only tests
  \<open>IsZero\<close> and hands the value on.
\<close>

type_synonym gotime = "string option"

record Snapshot =
  snap_ID :: string
  snap_Name :: string
  snap_VolumeID :: string
  snap_SizeBytes :: i64
  snap_Status :: SnapshotStatus
  snap_CreatedAt :: gotime
  snap_AvailabilityZone :: string
  snap_Metadata :: gomap

record InstanceMetadata =
  im_InstanceID :: string
  im_AvailabilityZone :: string
  im_Region :: string
  im_MaxVolumesPerNode :: i64

record 's Cloud =
  cloud_CreateVolume :: "VolumeSpec \<Rightarrow> 's \<Rightarrow> (Volume, 's) result"
  cloud_GetVolumeByID :: "string \<Rightarrow> 's \<Rightarrow> (Volume, 's) result"
  cloud_ListVolumes :: "Page \<Rightarrow> 's \<Rightarrow> (Volume list \<times> string, 's) result"
  cloud_DeleteVolume :: "string \<Rightarrow> 's \<Rightarrow> (unit, 's) result"
  cloud_ResizeVolume :: "string \<Rightarrow> i64 \<Rightarrow> string \<Rightarrow> 's \<Rightarrow> (i64, 's) result"
  cloud_AttachVolume :: "string \<Rightarrow> string \<Rightarrow> string \<Rightarrow> 's \<Rightarrow> (string, 's) result"
  cloud_DetachVolume :: "string \<Rightarrow> string \<Rightarrow> string \<Rightarrow> 's \<Rightarrow> (unit, 's) result"
  cloud_CreateSnapshot :: "SnapshotSpec \<Rightarrow> 's \<Rightarrow> (Snapshot, 's) result"
  cloud_DeleteSnapshot :: "string \<Rightarrow> string \<Rightarrow> 's \<Rightarrow> (unit, 's) result"
  cloud_ListSnapshots :: "Page \<Rightarrow> 's \<Rightarrow> (Snapshot list \<times> string, 's) result"
  cloud_GetInstanceMetadata :: "'s \<Rightarrow> (InstanceMetadata, 's) result"

text \<open>
  \<open>slices.SortFunc\<close> by identifier.  \<open>SortFunc\<close> does not promise stability; the model keeps the
  order of elements with equal identifiers, and identifiers are unique in a provider's answer.
\<close>

definition sort_by_ID :: "('a \<Rightarrow> string) \<Rightarrow> 'a list \<Rightarrow> 'a list" where
  "sort_by_ID f xs = sort_key f xs"

lemma set_sort_by_ID [simp]: "set (sort_by_ID f xs) = set xs"
  by (simp add: sort_by_ID_def)

lemma length_sort_by_ID [simp]: "length (sort_by_ID f xs) = length xs"
  by (simp add: sort_by_ID_def)

lemma sort_by_ID_eq_Nil [simp]: "sort_by_ID f xs = [] \<longleftrightarrow> xs = []"
  by (metis length_0_conv length_sort_by_ID)

lemma sorted_sort_by_ID: "sorted (map f (sort_by_ID f xs))"
  by (simp add: sort_by_ID_def)

lemma sort_by_ID_hd_least: "x \<in> set xs \<Longrightarrow> f (hd (sort_by_ID f xs)) \<le> f x"
proof -
  assume x: "x \<in> set xs"
  then obtain y ys where ys: "sort_by_ID f xs = y # ys"
    by (metis list.exhaust list.set_cases sort_by_ID_eq_Nil list.distinct(1) empty_iff list.set(1))
  with sorted_sort_by_ID [of f xs] have "\<forall>z \<in> set ys. f y \<le> f z" by simp
  moreover from x ys have "x \<in> set (y # ys)" by (metis set_sort_by_ID)
  ultimately show ?thesis using ys by auto
qed

lemma map_index_map_of: "map_of m k = Some v \<Longrightarrow> map_index m k = v"
  by (simp add: map_index_def)

end
