(* ===== verification/CsiTypes.thy ===== *)
theory CsiTypes
  imports CloudTypes
begin

text \<open>
  The messages of the CSI protocol, with the fields the driver reads and writes.  A message
  pointer is an \<open>option\<close>; the generated getters return the zero value on a nil pointer.
\<close>

record CapacityRange =
  required_bytes :: i64
  limit_bytes :: i64

datatype AccessModeKind =
    UNKNOWN | SINGLE_NODE_WRITER | SINGLE_NODE_READER_ONLY | MULTI_NODE_READER_ONLY
  | MULTI_NODE_SINGLE_WRITER | MULTI_NODE_MULTI_WRITER | SINGLE_NODE_SINGLE_WRITER
  | SINGLE_NODE_MULTI_WRITER

fun mode_String :: "AccessModeKind \<Rightarrow> string" where
  "mode_String UNKNOWN = ''UNKNOWN''"
| "mode_String SINGLE_NODE_WRITER = ''SINGLE_NODE_WRITER''"
| "mode_String SINGLE_NODE_READER_ONLY = ''SINGLE_NODE_READER_ONLY''"
| "mode_String MULTI_NODE_READER_ONLY = ''MULTI_NODE_READER_ONLY''"
| "mode_String MULTI_NODE_SINGLE_WRITER = ''MULTI_NODE_SINGLE_WRITER''"
| "mode_String MULTI_NODE_MULTI_WRITER = ''MULTI_NODE_MULTI_WRITER''"
| "mode_String SINGLE_NODE_SINGLE_WRITER = ''SINGLE_NODE_SINGLE_WRITER''"
| "mode_String SINGLE_NODE_MULTI_WRITER = ''SINGLE_NODE_MULTI_WRITER''"

record MountVolume =
  mv_fs_type :: string
  mv_mount_flags :: "string list"

text \<open>The oneof \<open>access_type\<close>: a mount, a block device, or not set.\<close>

datatype AccessType = AccessMount MountVolume | AccessBlock

record VolumeCapability =
  vc_access_mode :: "AccessModeKind option"
  vc_access_type :: "AccessType option"

fun GetMode :: "AccessModeKind option \<Rightarrow> AccessModeKind" where
  "GetMode None = UNKNOWN"
| "GetMode (Some m) = m"

fun GetMount :: "VolumeCapability \<Rightarrow> MountVolume option" where
  "GetMount cap = (case vc_access_type cap of Some (AccessMount m) \<Rightarrow> Some m | _ \<Rightarrow> None)"

fun GetBlock :: "VolumeCapability \<Rightarrow> unit option" where
  "GetBlock cap = (case vc_access_type cap of Some AccessBlock \<Rightarrow> Some () | _ \<Rightarrow> None)"

text \<open>A topology is its segments; a nil topology has none.\<close>

type_synonym Topology = "gomap option"

fun GetSegments :: "Topology \<Rightarrow> gomap" where
  "GetSegments None = []"
| "GetSegments (Some segments) = segments"

record TopologyRequirement =
  tr_requisite :: "Topology list"
  tr_preferred :: "Topology list"

datatype VolumeContentSource = SourceSnapshot string | SourceVolume string | SourceUnset

record CreateVolumeRequest =
  cvr_name :: string
  cvr_capacity_range :: "CapacityRange option"
  cvr_volume_capabilities :: "VolumeCapability option list"
  cvr_parameters :: gomap
  cvr_volume_content_source :: "VolumeContentSource option"
  cvr_accessibility_requirements :: "TopologyRequirement option"

fun GetRequisite :: "TopologyRequirement option \<Rightarrow> Topology list" where
  "GetRequisite None = []"
| "GetRequisite (Some r) = tr_requisite r"

fun GetPreferred :: "TopologyRequirement option \<Rightarrow> Topology list" where
  "GetPreferred None = []"
| "GetPreferred (Some r) = tr_preferred r"

fun GetRequiredBytes :: "CapacityRange option \<Rightarrow> i64" where
  "GetRequiredBytes None = 0"
| "GetRequiredBytes (Some r) = required_bytes r"

fun GetLimitBytes :: "CapacityRange option \<Rightarrow> i64" where
  "GetLimitBytes None = 0"
| "GetLimitBytes (Some r) = limit_bytes r"

record csi_Volume =
  cv_volume_id :: string
  cv_capacity_bytes :: i64
  cv_volume_context :: gomap
  cv_accessible_topology :: "Topology list"

record csi_Snapshot =
  cs_size_bytes :: i64
  cs_snapshot_id :: string
  cs_source_volume_id :: string
  cs_creation_time :: "string option"
  cs_ready_to_use :: bool

record ControllerPublishVolumeRequest =
  cpr_volume_id :: string
  cpr_node_id :: string
  cpr_volume_context :: gomap

record ControllerUnpublishVolumeRequest =
  cur_volume_id :: string
  cur_node_id :: string

record ValidateVolumeCapabilitiesRequest =
  vvr_volume_id :: string
  vvr_volume_capabilities :: "VolumeCapability option list"
  vvr_parameters :: gomap
  vvr_volume_context :: gomap

record Confirmed =
  cf_volume_capabilities :: "VolumeCapability option list"
  cf_parameters :: gomap
  cf_volume_context :: gomap

record ValidateVolumeCapabilitiesResponse =
  vv_message :: string
  vv_confirmed :: "Confirmed option"

record ListRequest =
  lr_max_entries :: "32 word"
  lr_starting_token :: string
  lr_source_volume_id :: string \<comment> \<open>set by ListSnapshots requests only\<close>
  lr_snapshot_id :: string \<comment> \<open>set by ListSnapshots requests only\<close>

record ControllerExpandVolumeRequest =
  cer_volume_id :: string
  cer_capacity_range :: "CapacityRange option"

record ControllerExpandVolumeResponse =
  ce_capacity_bytes :: i64
  ce_node_expansion_required :: bool

record CreateSnapshotRequest =
  csr_name :: string
  csr_source_volume_id :: string

record NodeStageVolumeRequest =
  nsr_volume_id :: string
  nsr_publish_context :: gomap
  nsr_staging_target_path :: string
  nsr_volume_capability :: "VolumeCapability option"

record NodePublishVolumeRequest =
  npr_volume_id :: string
  npr_publish_context :: gomap
  npr_staging_target_path :: string
  npr_target_path :: string
  npr_volume_capability :: "VolumeCapability option"
  npr_readonly :: bool

record NodeExpandVolumeRequest =
  ner_volume_path :: string
  ner_volume_capability :: "VolumeCapability option"
  ner_capacity_range :: "CapacityRange option"

datatype UsageUnit = BYTES | INODES

record VolumeUsage =
  vu_unit :: UsageUnit
  vu_total :: i64
  vu_available :: i64
  vu_used :: i64

record NodeGetInfoResponse =
  ngi_node_id :: string
  ngi_max_volumes_per_node :: i64
  ngi_accessible_topology :: Topology

end
