(* ===== verification/Config.thy ===== *)
theory Config
  imports CloudTypes
begin

text \<open>
  \<open>internal/driver/config.go\<close>: the driver's configuration, read from the environment (the
  parameter \<open>env\<close> is \<open>os.Getenv\<close>) and validated.  The logger is left out: it is only written to.
\<close>

definition DefaultDriverName :: string where "DefaultDriverName = ''csi.nobus.io''"
definition DefaultVersion :: string where "DefaultVersion = ''0.1.0''"
definition DefaultEndpoint :: string where "DefaultEndpoint = ''unix:///csi/csi.sock''"
definition DefaultMinimumVolumeBytes :: i64 where "DefaultMinimumVolumeBytes = 2 ^ 30"
definition DefaultVolumeGranularityBytes :: i64 where "DefaultVolumeGranularityBytes = 2 ^ 30"

type_synonym Mode = string

definition ModeController :: Mode where "ModeController = ''controller''"
definition ModeNode :: Mode where "ModeNode = ''node''"
definition ModeAll :: Mode where "ModeAll = ''all''"

lemmas mode_defs = ModeController_def ModeNode_def ModeAll_def

record Config =
  cfg_DriverName :: string
  cfg_Version :: string
  cfg_Endpoint :: string
  cfg_Mode :: Mode
  cfg_APIURL :: string
  cfg_APIKey :: string
  cfg_AllowFake :: bool
  cfg_ProjectID :: string
  cfg_AvailabilityZone :: string
  cfg_VolumeType :: string
  cfg_MinimumVolumeBytes :: i64
  cfg_VolumeGranularityBytes :: i64

definition envString :: "(string \<Rightarrow> string) \<Rightarrow> string \<Rightarrow> string \<Rightarrow> string" where
  "envString env key fallback = (let value = env key in if value \<noteq> '''' then value else fallback)"

definition ConfigFromEnv :: "(string \<Rightarrow> string) \<Rightarrow> Config" where
  "ConfigFromEnv env =
     (let endpoint = (if env ''CSI_ENDPOINT'' = '''' then DefaultEndpoint else env ''CSI_ENDPOINT'')
      in \<lparr>cfg_DriverName = envString env ''NOBUS_DRIVER_NAME'' DefaultDriverName,
          cfg_Version = envString env ''NOBUS_DRIVER_VERSION'' DefaultVersion,
          cfg_Endpoint = endpoint,
          cfg_Mode = ModeAll,
          cfg_APIURL = env ''NOBUS_API_URL'',
          cfg_APIKey = env ''NOBUS_API_KEY'',
          cfg_AllowFake = (env ''NOBUS_ALLOW_FAKE'' = ''true''),
          cfg_ProjectID = env ''NOBUS_PROJECT_ID'',
          cfg_AvailabilityZone = env ''NOBUS_AVAILABILITY_ZONE'',
          cfg_VolumeType = env ''NOBUS_VOLUME_TYPE'',
          cfg_MinimumVolumeBytes = DefaultMinimumVolumeBytes,
          cfg_VolumeGranularityBytes = DefaultVolumeGranularityBytes\<rparr>)"

definition Validate :: "Config \<Rightarrow> goerr option" where
  "Validate c =
     (if cfg_DriverName c = '''' then Some (Foreign ''driver name is required'')
      else if cfg_Version c = '''' then Some (Foreign ''driver version is required'')
      else if cfg_Endpoint c = '''' then Some (Foreign ''endpoint is required'')
      else if cfg_Mode c \<noteq> ModeController \<and> cfg_Mode c \<noteq> ModeNode \<and> cfg_Mode c \<noteq> ModeAll
      then Some (Foreign (''unsupported mode '' @ fmt_q (cfg_Mode c)))
      else None)"

lemma Validate_None_iff:
  "Validate c = None \<longleftrightarrow> cfg_DriverName c \<noteq> '''' \<and> cfg_Version c \<noteq> '''' \<and> cfg_Endpoint c \<noteq> '''' \<and>
     cfg_Mode c \<in> {ModeController, ModeNode, ModeAll}"
  by (auto simp: Validate_def)

lemma envString_nonempty: "fallback \<noteq> '''' \<Longrightarrow> envString env key fallback \<noteq> ''''"
  by (simp add: envString_def Let_def)

end
