(* ===== verification/Params.thy ===== *)
theory Params
  imports CsiTypes Config
begin

text \<open>
  \<open>internal/driver/params.go\<close>, with the snapshot identifiers of \<open>internal/driver/snapshot.go\<close> that
  it uses: from a CSI request and the configuration to a \<open>VolumeSpec\<close>, and the checks on
  volume capabilities.
\<close>

section \<open>Snapshot identifiers\<close>

definition encodeSnapshotID :: "string \<Rightarrow> string \<Rightarrow> string" where
  "encodeSnapshotID sid availabilityZone =
     (if availabilityZone = '''' then sid else availabilityZone @ ''/'' @ sid)"

definition decodeSnapshotID :: "string \<Rightarrow> string \<Rightarrow> string \<times> string" where
  "decodeSnapshotID sid fallbackZone =
     (case strings_Cut sid (CHR ''/'') of
        (zone, snapshot, ok) \<Rightarrow> if \<not> ok then (sid, fallbackZone) else (snapshot, zone))"

section \<open>Capacity\<close>

definition roundUp :: "i64 \<Rightarrow> i64 \<Rightarrow> i64" where
  "roundUp value granularity =
     (if granularity \<le>s 0 \<or> go_rem value granularity = 0 then value
      else (go_div value granularity + 1) * granularity)"

definition requestedBytes :: "CapacityRange option \<Rightarrow> i64 \<Rightarrow> i64 \<Rightarrow> goerr + i64" where
  "requestedBytes capacity minimumBytes granularityBytes =
     (let required = GetRequiredBytes capacity;
          required = (if required = 0 then minimumBytes else required);
          rounded = roundUp required granularityBytes;
          limit = GetLimitBytes capacity
      in if 0 <s limit \<and> limit <s rounded
         then Inl (Status codes_OutOfRange
                (''requested capacity '' @ strconv_Itoa (sint rounded) @
                 '' exceeds limit '' @ strconv_Itoa (sint limit) @ '' after rounding''))
         else Inr rounded)"

section \<open>Topology\<close>

definition paramAvailabilityZone :: string where "paramAvailabilityZone = ''availability_zone''"
definition paramProjectID :: string where "paramProjectID = ''project_id''"
definition paramVolumeType :: string where "paramVolumeType = ''volume_type''"
definition paramEncrypted :: string where "paramEncrypted = ''encrypted''"
definition paramRegion :: string where "paramRegion = ''region''"
definition TopologyZoneKey :: string where "TopologyZoneKey = ''topology.csi.nobus.io/zone''"
definition TopologyRegionKey :: string where "TopologyRegionKey = ''topology.csi.nobus.io/region''"

lemmas param_defs = paramAvailabilityZone_def paramProjectID_def paramVolumeType_def
  paramEncrypted_def paramRegion_def TopologyZoneKey_def TopologyRegionKey_def

definition supportedParameters :: "string list" where
  "supportedParameters =
     [paramAvailabilityZone, paramProjectID, paramRegion, paramVolumeType, paramEncrypted]"

fun topologyZones_loop :: "Topology list \<Rightarrow> string list \<Rightarrow> string list" where
  "topologyZones_loop [] zones = zones"
| "topologyZones_loop (topology # rest) zones =
     (let zone = map_index (GetSegments topology) TopologyZoneKey
      in topologyZones_loop rest
           (if zone \<noteq> '''' \<and> zone \<notin> set zones then zones @ [zone] else zones))"

definition topologyZones :: "Topology list \<Rightarrow> string list" where
  "topologyZones topologies = topologyZones_loop topologies []"

text \<open>The loop over the preferred topologies: the zone it returns from, if it does.\<close>

fun preferredZone :: "string list \<Rightarrow> Topology list \<Rightarrow> string option" where
  "preferredZone requisite [] = None"
| "preferredZone requisite (topology # rest) =
     (let zone = map_index (GetSegments topology) TopologyZoneKey
      in if zone \<noteq> ''''
         then if length requisite > 0 \<and> zone \<notin> set requisite then preferredZone requisite rest
              else Some zone
         else preferredZone requisite rest)"

definition selectedZone :: "CreateVolumeRequest \<Rightarrow> string \<Rightarrow> string" where
  "selectedZone req fallback =
     (let requirements = cvr_accessibility_requirements req;
          requisite = topologyZones (GetRequisite requirements)
      in case preferredZone requisite (GetPreferred requirements) of
           Some zone \<Rightarrow> zone
         | None \<Rightarrow>
             if length requisite > 0
             then if fallback \<noteq> '''' \<and> fallback \<in> set requisite then fallback else requisite ! 0
             else fallback)"

section \<open>The volume specification\<close>

definition snapshotSource :: "CreateVolumeRequest \<Rightarrow> string \<Rightarrow> string" where
  "snapshotSource req fallbackZone =
     (case cvr_volume_content_source req of
        None \<Rightarrow> ''''
      | Some source \<Rightarrow> (case source of
            SourceSnapshot sid \<Rightarrow> fst (decodeSnapshotID sid fallbackZone)
          | _ \<Rightarrow> ''''))"

definition volumeSpec :: "CreateVolumeRequest \<Rightarrow> Config \<Rightarrow> goerr + VolumeSpec" where
  "volumeSpec req defaults =
     (if cvr_name req = '''' then Inl (Status codes_InvalidArgument ''volume name is required'')
      else case find (\<lambda>key. key \<notin> set supportedParameters) (map fst (cvr_parameters req)) of
        Some key \<Rightarrow> Inl (Status codes_InvalidArgument (''unknown parameter '' @ fmt_q key))
      | None \<Rightarrow>
     (case requestedBytes (cvr_capacity_range req) (cfg_MinimumVolumeBytes defaults)
             (cfg_VolumeGranularityBytes defaults) of
        Inl err \<Rightarrow> Inl err
      | Inr sizeBytes \<Rightarrow>
     (let params = cvr_parameters req;
          zone = selectedZone req
            (cmp_Or [map_index params paramAvailabilityZone, cfg_AvailabilityZone defaults]);
          project = cmp_Or [map_index params paramProjectID, cfg_ProjectID defaults]
      in if zone = '''' then Inl (Status codes_InvalidArgument ''availability_zone is required'')
         else if project = '''' then Inl (Status codes_InvalidArgument ''project_id is required'')
         else case (case map_of params paramEncrypted of
                      None \<Rightarrow> Some False
                    | Some raw \<Rightarrow> strconv_ParseBool raw) of
           None \<Rightarrow> Inl (Status codes_InvalidArgument ''encrypted must be true or false'')
         | Some encrypted \<Rightarrow> Inr
             \<lparr>spec_Name = cvr_name req,
              spec_SizeBytes = sizeBytes,
              spec_AvailabilityZone = zone,
              spec_ProjectID = project,
              spec_Type = cmp_Or [map_index params paramVolumeType, cfg_VolumeType defaults],
              spec_SnapshotID = snapshotSource req (cfg_AvailabilityZone defaults),
              spec_Encrypted = encrypted,
              spec_Metadata = [(''csi.driver'', cfg_DriverName defaults)]\<rparr>)))"

section \<open>Capabilities\<close>

definition supportedMode :: "AccessModeKind \<Rightarrow> bool" where
  "supportedMode mode = (case mode of
       SINGLE_NODE_WRITER \<Rightarrow> True
     | SINGLE_NODE_SINGLE_WRITER \<Rightarrow> True
     | SINGLE_NODE_READER_ONLY \<Rightarrow> True
     | SINGLE_NODE_MULTI_WRITER \<Rightarrow> True
     | _ \<Rightarrow> False)"

fun validateCapabilities_from :: "nat \<Rightarrow> VolumeCapability option list \<Rightarrow> (grpc_code \<times> string) option" where
  "validateCapabilities_from index [] = None"
| "validateCapabilities_from index (None # rest) =
     Some (codes_InvalidArgument, ''volume capability '' @ strconv_Itoa (int index) @ '' is empty'')"
| "validateCapabilities_from index (Some capability # rest) =
     (let mode = GetMode (vc_access_mode capability)
      in if \<not> supportedMode mode
         then Some (codes_InvalidArgument, ''unsupported access mode '' @ mode_String mode)
         else if GetMount capability = None \<and> GetBlock capability = None
         then Some (codes_InvalidArgument, ''volume capability '' @ strconv_Itoa (int index) @
                      '' requires mount or block access type'')
         else validateCapabilities_from (Suc index) rest)"

text \<open>The code and message of the status error \<open>validateCapabilities\<close> returns, if it does.\<close>

definition validateCapabilities :: "VolumeCapability option list \<Rightarrow> (grpc_code \<times> string) option" where
  "validateCapabilities capabilities =
     (if length capabilities = 0 then Some (codes_InvalidArgument, ''volume capabilities are required'')
      else validateCapabilities_from 0 capabilities)"

definition capabilityMessage :: "VolumeCapability option list \<Rightarrow> string" where
  "capabilityMessage capabilities = (case validateCapabilities capabilities of
       Some (c, m) \<Rightarrow> status_text c m
     | None \<Rightarrow> '''')"

definition volumeContext :: "Volume \<Rightarrow> gomap" where
  "volumeContext volume =
     [(paramAvailabilityZone, vol_AvailabilityZone volume)] @
     (if vol_Type volume \<noteq> '''' then [(paramVolumeType, vol_Type volume)] else []) @
     [(paramEncrypted, strconv_FormatBool (vol_Encrypted volume))]"

section \<open>Lemmas\<close>

subsection \<open>Capacity\<close>

abbreviation ceil_to :: "int \<Rightarrow> int \<Rightarrow> int" where
  "ceil_to r g \<equiv> (r + g - 1) div g * g"

lemma ceil_to_mod_0: "0 < g \<Longrightarrow> r mod g = 0 \<Longrightarrow> ceil_to r g = (r :: int)"
proof -
  assume g: "0 < g" and m: "r mod g = 0"
  from m obtain q where r: "r = g * q" by (auto elim: dvdE)
  have "(g * q + (g - 1)) div g = q + (g - 1) div g" using g by simp
  with g have "(g * q + (g - 1)) div g = q" by (simp add: div_pos_pos_trivial)
  with r show ?thesis by (simp add: algebra_simps)
qed

lemma ceil_to_mod_pos: "0 < g \<Longrightarrow> r mod g \<noteq> 0 \<Longrightarrow> ceil_to r g = (r div g + 1) * (g :: int)"
proof -
  assume g: "0 < g" and m: "r mod g \<noteq> 0"
  have "r + g - 1 = g * (r div g + 1) + (r mod g - 1)"
    using mult_div_mod_eq [of g r] by (simp add: algebra_simps)
  moreover have "0 \<le> r mod g - 1" and "r mod g - 1 < g"
    using g m pos_mod_sign [of g r] pos_mod_bound [of g r] by linarith+
  ultimately have "(r + g - 1) div g = r div g + 1"
    using g by (metis add.right_neutral div_mult_self4 div_pos_pos_trivial less_irrefl add.commute)
  then show ?thesis by simp
qed

lemma ceil_to_bounds:
  assumes "0 < g"
  shows "r \<le> ceil_to r g" and "ceil_to r g < r + g" and "g dvd ceil_to r (g :: int)"
proof -
  have "ceil_to r g + (r + g - 1) mod g = r + g - 1" by (rule div_mult_mod_eq)
  moreover have "0 \<le> (r + g - 1) mod g" and "(r + g - 1) mod g < g"
    using assms by (simp_all add: pos_mod_sign pos_mod_bound)
  ultimately show "r \<le> ceil_to r g" and "ceil_to r g < r + g" by linarith+
qed simp

lemma ceil_to_least: "0 < g \<Longrightarrow> r \<le> k \<Longrightarrow> g dvd k \<Longrightarrow> ceil_to r g \<le> (k :: int)"
proof -
  assume g: "0 < g" and k: "r \<le> k" "g dvd k"
  then obtain q where q: "k = g * q" by (auto elim: dvdE)
  have "(r + g - 1) div g \<le> (k + g - 1) div g" using g k by (intro zdiv_mono1) auto
  also have "\<dots> = q" using ceil_to_mod_0 [OF g, of k] g q by (simp add: mult.commute)
  finally show ?thesis using g q by (simp add: mult.commute mult_left_mono)
qed

lemma div_int_bounds:
  assumes "0 < (g :: int)" and "q * g \<le> x" and "x < (q + 1) * g"
  shows "x div g = q"
proof -
  have "x div g = ((x - q * g) + q * g) div g" by simp
  also have "\<dots> = q + (x - q * g) div g" using assms(1) by (subst div_mult_self1) auto
  also have "(x - q * g) div g = 0"
    using assms by (intro div_pos_pos_trivial) (simp_all add: algebra_simps)
  finally show ?thesis by simp
qed

lemma sint_zero_iff [simp]: "sint (w :: i64) = 0 \<longleftrightarrow> w = 0"
  by (metis signed_0 i64_of_sint)

lemma sint_roundUp:
  assumes g: "0 < sint g" and v: "0 \<le> sint v" and fits: "sint v + sint g \<le> 2 ^ 63"
  shows "sint (roundUp v g) = ceil_to (sint v) (sint g)"
proof (cases "sint v mod sint g = 0")
  case True
  then have "go_rem v g = 0" using sint_go_rem [OF v g] by (metis sint_zero_iff)
  with True g show ?thesis by (simp add: roundUp_def ceil_to_mod_0)
next
  case False
  let ?q = "sint v div sint g"
  have "go_rem v g \<noteq> 0" using False sint_go_rem [OF v g] by auto
  moreover have "\<not> g \<le>s 0" using g by (simp add: word_sle_eq)
  ultimately have r: "roundUp v g = (go_div v g + 1) * g" by (simp add: roundUp_def)
  have q0: "0 \<le> ?q" using v g by (simp add: pos_imp_zdiv_nonneg_iff)
  have up: "(?q + 1) * sint g = ceil_to (sint v) (sint g)"
    by (rule ceil_to_mod_pos [OF g False, symmetric])
  have less: "(?q + 1) * sint g < 2 ^ 63"
    using ceil_to_bounds(2) [OF g, of "sint v"] fits up by linarith
  moreover have "?q + 1 \<le> (?q + 1) * sint g" using q0 g by simp
  ultimately have ok: "int64_ok (?q + 1)" "int64_ok ((?q + 1) * sint g)"
    using q0 unfolding int64_ok_def by linarith+
  have "sint (go_div v g + 1) = ?q + 1"
    using sint_add64 [of "go_div v g" 1] sint_go_div [OF v g] ok by simp
  then show ?thesis using sint_mult64 [of "go_div v g + 1" g] ok r up by simp
qed

text \<open>The capacity in effect: the minimum stands in for a request that names none.\<close>

abbreviation effective_bytes :: "CapacityRange option \<Rightarrow> i64 \<Rightarrow> i64" where
  "effective_bytes capacity minimumBytes \<equiv>
     (if GetRequiredBytes capacity = 0 then minimumBytes else GetRequiredBytes capacity)"

text \<open>
  C18. Capacity.  For a request that leaves room for rounding below \<open>2 ^ 63\<close>, \<open>requestedBytes\<close>
  answers the least multiple of the granularity that is at least the requested size, and fails
  exactly when that multiple exceeds a positive limit, with code OutOfRange.
\<close>

theorem requestedBytes_least_multiple:
  assumes "0 < sint g" and "0 \<le> sint (effective_bytes cap m)"
    and "sint (effective_bytes cap m) + sint g \<le> 2 ^ 63"
  shows "case requestedBytes cap m g of
      Inr r \<Rightarrow> sint (effective_bytes cap m) \<le> sint r \<and> sint g dvd sint r \<and>
        (\<forall>k. sint (effective_bytes cap m) \<le> k \<and> sint g dvd k \<longrightarrow> sint r \<le> k) \<and>
        (0 < sint (GetLimitBytes cap) \<longrightarrow> sint r \<le> sint (GetLimitBytes cap))
    | Inl e \<Rightarrow> code_of e = Some codes_OutOfRange \<and> 0 < sint (GetLimitBytes cap) \<and>
        \<not> (\<exists>k. sint (effective_bytes cap m) \<le> k \<and> sint g dvd k \<and> k \<le> sint (GetLimitBytes cap))"
proof -
  let ?R = "sint (effective_bytes cap m)" and ?G = "sint g"
  have up: "sint (roundUp (effective_bytes cap m) g) = ceil_to ?R ?G"
    using assms by (rule sint_roundUp)
  have least: "ceil_to ?R ?G \<le> k" if "?R \<le> k" and "?G dvd k" for k
    using ceil_to_least [OF assms(1)] that by blast
  note b = ceil_to_bounds [OF assms(1), of ?R]
  show ?thesis
  proof (cases "0 <s GetLimitBytes cap \<and> GetLimitBytes cap <s roundUp (effective_bytes cap m) g")
    case True
    then have lim: "0 < sint (GetLimitBytes cap)" "sint (GetLimitBytes cap) < ceil_to ?R ?G"
      using up by (simp_all add: word_sless_alt)
    then have "\<not> k \<le> sint (GetLimitBytes cap)" if "?R \<le> k" and "?G dvd k" for k
      using least [OF that] by linarith
    with True lim(1) show ?thesis unfolding requestedBytes_def Let_def by auto
  next
    case False
    then have "0 < sint (GetLimitBytes cap) \<longrightarrow> ceil_to ?R ?G \<le> sint (GetLimitBytes cap)"
      using up by (auto simp: word_sless_alt)
    moreover have "requestedBytes cap m g = Inr (roundUp (effective_bytes cap m) g)"
      using False unfolding requestedBytes_def Let_def by simp
    ultimately show ?thesis using up b(1,3) least by simp
  qed
qed

theorem requestedBytes_least_multiple_witness:
  "case requestedBytes (Some \<lparr>required_bytes = 2 ^ 30 + 1, limit_bytes = 0\<rparr>) (2 ^ 30) (2 ^ 30) of
      Inr r \<Rightarrow> sint r \<le> 2 ^ 31 \<and> (2 ^ 30 + 1 :: int) \<le> sint r | Inl e \<Rightarrow> False"
  using requestedBytes_least_multiple
    [of "2 ^ 30" "Some \<lparr>required_bytes = 2 ^ 30 + 1, limit_bytes = 0\<rparr>" "2 ^ 30"]
  by (auto split: sum.splits dest: spec [of _ "2 ^ 31"])

text \<open>
  C19. Capacity overflow.  For a request within one granule of \<open>2 ^ 63\<close> the rounding wraps
  around: \<open>requestedBytes\<close> answers the negative size \<open>- (2 ^ 63)\<close>, which no positive limit stops.
\<close>

theorem requestedBytes_overflow:
  assumes "2 ^ 63 - 2 ^ 30 < sint (GetRequiredBytes cap)"
  shows "requestedBytes cap m DefaultVolumeGranularityBytes = Inr (2 ^ 63) \<and> sint (2 ^ 63 :: i64) = - (2 ^ 63)"
proof -
  let ?r = "GetRequiredBytes cap" and ?g = "DefaultVolumeGranularityBytes"
  have g: "sint ?g = 2 ^ 30" by (simp add: DefaultVolumeGranularityBytes_def)
  have r: "0 \<le> sint ?r" and r0: "?r \<noteq> 0" using assms by auto
  have bound: "sint ?r < 2 ^ 63" using sint_range [of ?r] by (simp add: int64_ok_def)
  have q: "sint ?r div 2 ^ 30 = 2 ^ 33 - 1"
    using assms bound by (intro div_int_bounds) auto
  have m: "sint ?r mod 2 ^ 30 \<noteq> 0"
    using assms q mult_div_mod_eq [of "2 ^ 30" "sint ?r"] by auto
  have "go_rem ?r ?g \<noteq> 0" using sint_go_rem [OF r, of ?g] m g by auto
  moreover have "go_div ?r ?g = word_of_int (2 ^ 33 - 1)"
    using sint_go_div [OF r, of ?g] q g i64_of_sint [of "go_div ?r ?g"] by simp
  moreover have "\<not> ?g \<le>s 0" using g by (simp add: word_sle_eq)
  ultimately have "roundUp ?r ?g = (word_of_int (2 ^ 33 - 1) + 1) * ?g"
    by (simp add: roundUp_def)
  also have "\<dots> = 2 ^ 63" by (simp add: DefaultVolumeGranularityBytes_def)
  finally show ?thesis using r0 sint_range [of "GetLimitBytes cap"]
    by (simp add: requestedBytes_def Let_def word_sless_alt int64_ok_def not_less)
qed

theorem requestedBytes_overflow_witness:
  "requestedBytes (Some \<lparr>required_bytes = 2 ^ 63 - 1, limit_bytes = 2 ^ 63 - 1\<rparr>) DefaultMinimumVolumeBytes
     DefaultVolumeGranularityBytes = Inr (2 ^ 63)"
  using requestedBytes_overflow [of "Some \<lparr>required_bytes = 2 ^ 63 - 1, limit_bytes = 2 ^ 63 - 1\<rparr>"
      DefaultMinimumVolumeBytes]
  by simp

subsection \<open>Topology\<close>

abbreviation zone_of :: "Topology \<Rightarrow> string" where
  "zone_of topology \<equiv> map_index (GetSegments topology) TopologyZoneKey"

lemma topologyZones_loop_set:
  "set (topologyZones_loop ts zones) = set zones \<union> {zone_of t | t. t \<in> set ts \<and> zone_of t \<noteq> ''''}"
  by (induction ts arbitrary: zones) (auto simp: Let_def)

lemma topologyZones_loop_distinct:
  "distinct zones \<Longrightarrow> distinct (topologyZones_loop ts zones)"
  by (induction ts arbitrary: zones) (auto simp: Let_def)

lemma set_topologyZones: "set (topologyZones ts) = {zone_of t | t. t \<in> set ts \<and> zone_of t \<noteq> ''''}"
  by (simp add: topologyZones_def topologyZones_loop_set)

lemma preferredZone_find:
  "preferredZone requisite ts =
     find (\<lambda>z. z \<noteq> '''' \<and> (requisite = [] \<or> z \<in> set requisite)) (map zone_of ts)"
  by (induction ts) (auto simp: Let_def)

lemma find_SomeD2: "find P xs = Some x \<Longrightarrow> x \<in> set xs \<and> P x"
  by (auto simp: find_Some_iff in_set_conv_nth)

text \<open>
  Zone selection.  When the request restricts the zones (some requisite topology names one),
  the selected zone is one of them; and the first preferred zone that the restriction allows
  wins over the fallback.
\<close>

theorem selectedZone_admissible:
  fixes req fallback
  defines "requisite \<equiv> topologyZones (GetRequisite (cvr_accessibility_requirements req))"
    and "preferred \<equiv> map zone_of (GetPreferred (cvr_accessibility_requirements req))"
  shows "(requisite \<noteq> [] \<longrightarrow> selectedZone req fallback \<in> set requisite) \<and>
    (\<forall>z. find (\<lambda>z. z \<noteq> '''' \<and> (requisite = [] \<or> z \<in> set requisite)) preferred = Some z \<longrightarrow>
       selectedZone req fallback = z) \<and>
    (requisite = [] \<and> (\<forall>z \<in> set preferred. z = '''') \<longrightarrow> selectedZone req fallback = fallback)"
proof (cases "preferredZone requisite (GetPreferred (cvr_accessibility_requirements req))")
  case None
  then have "find (\<lambda>z. z \<noteq> '''' \<and> (requisite = [] \<or> z \<in> set requisite)) preferred = None"
    by (simp add: preferredZone_find preferred_def)
  with None show ?thesis
    by (auto simp: selectedZone_def Let_def simp flip: requisite_def)
next
  case (Some zone)
  then have find: "find (\<lambda>z. z \<noteq> '''' \<and> (requisite = [] \<or> z \<in> set requisite)) preferred = Some zone"
    by (simp add: preferredZone_find preferred_def)
  moreover have "selectedZone req fallback = zone"
    using Some by (simp add: selectedZone_def Let_def flip: requisite_def)
  ultimately show ?thesis by (auto dest: find_SomeD2)
qed

theorem selectedZone_admissible_witness:
  "selectedZone \<lparr>cvr_name = ''v'', cvr_capacity_range = None, cvr_volume_capabilities = [],
      cvr_parameters = [], cvr_volume_content_source = None,
      cvr_accessibility_requirements = Some \<lparr>tr_requisite = [Some [(TopologyZoneKey, ''az1'')]],
        tr_preferred = [Some [(TopologyZoneKey, ''az2'')]]\<rparr>\<rparr> ''az3'' = ''az1''"
  using selectedZone_admissible [of "\<lparr>cvr_name = ''v'', cvr_capacity_range = None, cvr_volume_capabilities = [],
      cvr_parameters = [], cvr_volume_content_source = None,
      cvr_accessibility_requirements = Some \<lparr>tr_requisite = [Some [(TopologyZoneKey, ''az1'')]],
        tr_preferred = [Some [(TopologyZoneKey, ''az2'')]]\<rparr>\<rparr>" "''az3''"]
  by (simp add: topologyZones_def map_index_def)

subsection \<open>The specification and the capabilities\<close>

lemma volumeSpec_Inr:
  assumes "volumeSpec req cfg = Inr spec"
  shows "spec_Name spec = cvr_name req" and "cvr_name req \<noteq> ''''"
    and "spec_AvailabilityZone spec \<noteq> ''''" and "spec_ProjectID spec \<noteq> ''''"
    and "fst ` set (cvr_parameters req) \<subseteq> set supportedParameters"
    and "requestedBytes (cvr_capacity_range req) (cfg_MinimumVolumeBytes cfg)
           (cfg_VolumeGranularityBytes cfg) = Inr (spec_SizeBytes spec)"
proof -
  have none: "find (\<lambda>key. key \<notin> set supportedParameters) (map fst (cvr_parameters req)) = None"
    using assms by (auto simp: volumeSpec_def split: if_splits option.splits)
  then show "fst ` set (cvr_parameters req) \<subseteq> set supportedParameters"
    by (auto simp: find_None_iff)
  show "spec_Name spec = cvr_name req" "cvr_name req \<noteq> ''''" "spec_AvailabilityZone spec \<noteq> ''''"
    "spec_ProjectID spec \<noteq> ''''"
    "requestedBytes (cvr_capacity_range req) (cfg_MinimumVolumeBytes cfg)
       (cfg_VolumeGranularityBytes cfg) = Inr (spec_SizeBytes spec)"
    using assms none
    by (auto simp: volumeSpec_def Let_def simp del: cmp_Or.simps split: if_splits option.splits sum.splits)
qed

lemma volumeSpec_Inl: "volumeSpec req cfg = Inl e \<Longrightarrow>
    code_of e \<in> {Some codes_InvalidArgument, Some codes_OutOfRange}"
  by (auto simp: volumeSpec_def requestedBytes_def Let_def simp del: cmp_Or.simps
      split: if_splits option.splits sum.splits)

lemma validateCapabilities_from_None:
  "validateCapabilities_from n caps = None \<longleftrightarrow>
     (\<forall>c \<in> set caps. \<exists>cap. c = Some cap \<and> supportedMode (GetMode (vc_access_mode cap)) \<and>
        vc_access_type cap \<noteq> None)"
proof (induction n caps rule: validateCapabilities_from.induct)
  case (3 index capability rest)
  have "GetMount capability = None \<and> GetBlock capability = None \<longleftrightarrow> vc_access_type capability = None"
    by (cases "vc_access_type capability") (auto split: AccessType.splits)
  with 3 show ?case by (auto simp: Let_def simp del: GetMount.simps GetBlock.simps)
qed auto

text \<open>
  Capability validation.  The request passes exactly when it lists at least one capability
  and every one is set, has an access type, and asks for a single-node access mode.
\<close>

theorem validateCapabilities_accepts:
  "capabilityMessage caps = '''' \<longleftrightarrow> caps \<noteq> [] \<and>
     (\<forall>c \<in> set caps. \<exists>cap m. c = Some cap \<and> vc_access_type cap \<noteq> None \<and>
        vc_access_mode cap = Some m \<and>
        m \<in> {SINGLE_NODE_WRITER, SINGLE_NODE_SINGLE_WRITER, SINGLE_NODE_READER_ONLY, SINGLE_NODE_MULTI_WRITER})"
proof -
  have mode: "supportedMode (GetMode am) \<longleftrightarrow> (\<exists>m. am = Some m \<and>
      m \<in> {SINGLE_NODE_WRITER, SINGLE_NODE_SINGLE_WRITER, SINGLE_NODE_READER_ONLY, SINGLE_NODE_MULTI_WRITER})" for am
    by (cases am) (auto simp: supportedMode_def split: AccessModeKind.splits)
  have "capabilityMessage caps = '''' \<longleftrightarrow> validateCapabilities caps = None"
    by (auto simp: capabilityMessage_def status_text_def split: option.splits)
  then show ?thesis
    by (auto simp: validateCapabilities_def validateCapabilities_from_None mode)
qed

theorem validateCapabilities_accepts_witness:
  "capabilityMessage [Some \<lparr>vc_access_mode = Some SINGLE_NODE_WRITER, vc_access_type = Some AccessBlock\<rparr>] = ''''
   \<and> capabilityMessage [Some \<lparr>vc_access_mode = Some MULTI_NODE_MULTI_WRITER, vc_access_type = Some AccessBlock\<rparr>] \<noteq> ''''"
  by (simp add: validateCapabilities_accepts)

text \<open>
  Snapshot identifiers.  Decoding an encoded snapshot identifier gives back the provider's
  identifier and zone, for every zone without a slash; identifiers without a zone and without a
  slash decode to the configured zone.
\<close>

theorem decode_encode_SnapshotID:
  assumes "CHR ''/'' \<notin> set zone" and "zone = '''' \<longrightarrow> CHR ''/'' \<notin> set sid"
  shows "decodeSnapshotID (encodeSnapshotID sid zone) fallback =
    (sid, if zone = '''' then fallback else zone)"
  using assms strings_Cut_join [of "CHR ''/''" zone sid]
  by (simp add: decodeSnapshotID_def encodeSnapshotID_def strings_Cut_none)

theorem decode_encode_SnapshotID_witness:
  "decodeSnapshotID (encodeSnapshotID ''snap-1'' ''az1'') ''az9'' = (''snap-1'', ''az1'')"
  using decode_encode_SnapshotID [of "''az1''" "''snap-1''" "''az9''"] by simp

lemma volumeContext_supported: "fst ` set (volumeContext v) \<subseteq> set supportedParameters"
  by (auto simp: volumeContext_def supportedParameters_def)

end
