(* ===== verification/Locks.thy ===== *)
theory Locks
  imports GoErrors
begin

text \<open>
  \<open>internal/driver/locks.go\<close>: the non-blocking locks on volume identifiers and names.  The map
  \<open>map[string]struct\<close> is a set of identifiers; its mutex makes \<open>TryLock\<close> and the returned
  unlock function atomic steps.  The second half is the protocol that the handlers follow when
  they run concurrently: a call begins with \<open>TryLock\<close>, and \<open>defer unlock()\<close> ends it.
\<close>

type_synonym VolumeLocks = "string set"

definition NewVolumeLocks :: VolumeLocks where
  "NewVolumeLocks = {}"

definition TryLock :: "string \<Rightarrow> VolumeLocks \<Rightarrow> VolumeLocks option" where
  "TryLock vid l = (if vid \<in> l then None else Some (insert vid l))"

definition unlock :: "string \<Rightarrow> VolumeLocks \<Rightarrow> VolumeLocks" where
  "unlock vid l = l - {vid}"

lemma TryLock_None_iff [simp]: "TryLock vid l = None \<longleftrightarrow> vid \<in> l"
  by (simp add: TryLock_def)

lemma TryLock_SomeD: "TryLock vid l = Some l' \<Longrightarrow> vid \<notin> l \<and> l' = insert vid l"
  by (simp add: TryLock_def split: if_splits)

lemma unlock_TryLock: "TryLock vid l = Some l' \<Longrightarrow> unlock vid l' = l"
  by (auto simp: unlock_def dest: TryLock_SomeD)

section \<open>Concurrent calls\<close>

text \<open>A call is known by a number; it is in flight between its \<open>TryLock\<close> and its \<open>unlock\<close>.\<close>

record calls =
  held :: VolumeLocks
  inflight :: "(nat \<times> string) list"

definition no_calls :: calls where
  "no_calls = \<lparr>held = NewVolumeLocks, inflight = []\<rparr>"

inductive call_step :: "calls \<Rightarrow> calls \<Rightarrow> bool" where
  begin_call: "TryLock v (held s) = Some l \<Longrightarrow> c \<notin> fst ` set (inflight s) \<Longrightarrow>
     call_step s (s\<lparr>held := l, inflight := (c, v) # inflight s\<rparr>)"
| abort_call: "TryLock v (held s) = None \<Longrightarrow> call_step s s"
| end_call: "(c, v) \<in> set (inflight s) \<Longrightarrow>
     call_step s (s\<lparr>held := unlock v (held s), inflight := filter (\<lambda>(c', v'). c' \<noteq> c) (inflight s)\<rparr>)"

inductive_cases call_stepE: "call_step s t"

inductive calls_reachable :: "calls \<Rightarrow> bool" where
  start: "calls_reachable no_calls"
| step: "calls_reachable s \<Longrightarrow> call_step s t \<Longrightarrow> calls_reachable t"

definition calls_inv :: "calls \<Rightarrow> bool" where
  "calls_inv s \<longleftrightarrow> held s = snd ` set (inflight s) \<and>
     distinct (map fst (inflight s)) \<and> distinct (map snd (inflight s))"

lemma calls_inv_no_calls: "calls_inv no_calls"
  by (simp add: calls_inv_def no_calls_def NewVolumeLocks_def)

lemma snd_filter_fst:
  assumes "distinct (map fst xs)" and "distinct (map snd xs)" and "(c, v) \<in> set xs"
  shows "snd ` set (filter (\<lambda>(c', v'). c' \<noteq> c) xs) = snd ` set xs - {v}"
proof -
  have "fst x = c \<longleftrightarrow> snd x = v" if "x \<in> set xs" for x
    using assms that by (metis eq_key_imp_eq_value fst_conv inj_onD distinct_map snd_conv)
  then show ?thesis by (force simp: image_iff)
qed

lemma distinct_map_filter_step:
  "distinct (map f xs) \<Longrightarrow> distinct (map f (filter P xs))"
  by (simp add: distinct_map_filter)

lemma call_step_inv: "call_step s t \<Longrightarrow> calls_inv s \<Longrightarrow> calls_inv t"
proof (induction rule: call_step.induct)
  case (begin_call v s l c)
  then show ?case by (auto simp: calls_inv_def dest: TryLock_SomeD)
next
  case (abort_call v s)
  then show ?case by simp
next
  case (end_call c v s)
  then show ?case
    using snd_filter_fst [of "inflight s" c v]
    by (simp add: calls_inv_def unlock_def distinct_map_filter_step)
qed

lemma calls_reachable_inv: "calls_reachable s \<Longrightarrow> calls_inv s"
  by (induction rule: calls_reachable.induct) (auto intro: calls_inv_no_calls call_step_inv)

text \<open>
  C16. Locks.  However concurrent calls interleave, two calls in flight never hold the same
  identifier, an identifier is locked exactly while a call in flight holds it, and a new call gets
  the lock exactly when no call in flight has it.
\<close>

theorem locks_exclude:
  assumes "calls_reachable s"
  shows "((c, v) \<in> set (inflight s) \<and> (c', v) \<in> set (inflight s) \<longrightarrow> c = c') \<and>
    (v \<in> held s \<longleftrightarrow> (\<exists>c. (c, v) \<in> set (inflight s))) \<and>
    (TryLock v (held s) = None \<longleftrightarrow> (\<exists>c. (c, v) \<in> set (inflight s)))"
proof -
  have inv: "calls_inv s" using assms by (rule calls_reachable_inv)
  have "c = c'" if "(c, v) \<in> set (inflight s)" "(c', v) \<in> set (inflight s)"
  proof -
    have "inj_on snd (set (inflight s))" using inv by (simp add: calls_inv_def distinct_map)
    with that show ?thesis by (metis inj_onD prod.inject snd_conv)
  qed
  moreover have "v \<in> held s \<longleftrightarrow> (\<exists>c. (c, v) \<in> set (inflight s))" using inv by (force simp: calls_inv_def)
  ultimately show ?thesis by simp
qed

lemma one_call_reachable: "calls_reachable \<lparr>held = {''vol-1''}, inflight = [(7, ''vol-1'')]\<rparr>"
proof -
  have "call_step no_calls (no_calls\<lparr>held := {''vol-1''}, inflight := (7, ''vol-1'') # inflight no_calls\<rparr>)"
    by (rule call_step.begin_call) (simp_all add: no_calls_def NewVolumeLocks_def TryLock_def)
  then show ?thesis using calls_reachable.start calls_reachable.step by (fastforce simp: no_calls_def)
qed

lemma locks_exclude_witness: "TryLock ''vol-1'' (held \<lparr>held = {''vol-1''}, inflight = [(7, ''vol-1'')]\<rparr>) = None"
  using locks_exclude [OF one_call_reachable, of 7 "''vol-1''" 7] by simp

end
