(* ===== verification/Driver.thy ===== *)
theory Driver
  imports Params Locks
begin

text \<open>
  \<open>internal/driver/driver.go\<close>, \<open>identity.go\<close> and the interface of \<open>internal/mount/interface.go\<close>:
  a driver is its configuration and the two interfaces it calls.  What changes while it runs is
  the state \<open>DState\<close>: the two lock tables, and the world the interfaces act on.
\<close>

record Stats =
  st_TotalBytes :: i64
  st_AvailableBytes :: i64
  st_UsedBytes :: i64
  st_TotalInodes :: i64
  st_FreeInodes :: i64
  st_UsedInodes :: i64

record 's Mounter =
  mnt_IsMounted :: "string \<Rightarrow> 's \<Rightarrow> (bool, 's) result"
  mnt_Stage :: "string \<Rightarrow> string \<Rightarrow> string \<Rightarrow> string list \<Rightarrow> 's \<Rightarrow> (unit, 's) result"
  mnt_Publish :: "string \<Rightarrow> string \<Rightarrow> bool \<Rightarrow> bool \<Rightarrow> string list \<Rightarrow> 's \<Rightarrow> (unit, 's) result"
  mnt_Unmount :: "string \<Rightarrow> 's \<Rightarrow> (unit, 's) result"
  mnt_Stats :: "string \<Rightarrow> bool \<Rightarrow> 's \<Rightarrow> (Stats, 's) result"
  mnt_IsBlock :: "string \<Rightarrow> 's \<Rightarrow> (bool, 's) result"
  mnt_Expand :: "string \<Rightarrow> string \<Rightarrow> 's \<Rightarrow> (unit, 's) result"
  mnt_FindDevice :: "string \<Rightarrow> string \<Rightarrow> 's \<Rightarrow> (string, 's) result"

record 's Driver =
  drv_config :: Config
  drv_cloud :: "'s Cloud"
  drv_mount :: "'s Mounter"

record 's DState =
  locks :: VolumeLocks
  names :: VolumeLocks
  world :: 's

definition New :: "Config \<Rightarrow> 's Cloud \<Rightarrow> 's Mounter \<Rightarrow> 's \<Rightarrow> 's Driver \<times> 's DState" where
  "New config provider mounter w =
     (\<lparr>drv_config = config, drv_cloud = provider, drv_mount = mounter\<rparr>,
      \<lparr>locks = NewVolumeLocks, names = NewVolumeLocks, world = w\<rparr>)"

section \<open>Locked sections\<close>

text \<open>
  The pattern \<open>unlock := d.locks.TryLock(id); if unlock == nil { return Aborted }; defer unlock()\<close>
  around the rest of a handler, for the volume locks and for the name locks.  A handler whose
  lock is taken never reaches the world.
\<close>

definition with_volume_lock :: "string \<Rightarrow> ('s \<Rightarrow> ('a, 's) result) \<Rightarrow> 's DState \<Rightarrow> ('a, 's DState) result" where
  "with_volume_lock vid body st =
     (case TryLock vid (locks st) of
        None \<Rightarrow> (Inl (Status codes_Aborted ''another operation is in flight for this volume''), st)
      | Some l \<Rightarrow> (case body (world st) of
            (r, w) \<Rightarrow> (r, st\<lparr>locks := unlock vid l, world := w\<rparr>)))"

definition with_name_lock ::
  "string \<Rightarrow> string \<Rightarrow> ('s \<Rightarrow> ('a, 's) result) \<Rightarrow> 's DState \<Rightarrow> ('a, 's DState) result" where
  "with_name_lock name message body st =
     (case TryLock name (names st) of
        None \<Rightarrow> (Inl (Status codes_Aborted message), st)
      | Some l \<Rightarrow> (case body (world st) of
            (r, w) \<Rightarrow> (r, st\<lparr>names := unlock name l, world := w\<rparr>)))"

text \<open>A handler without a lock runs on the world alone.\<close>

definition on_world :: "('s \<Rightarrow> ('a, 's) result) \<Rightarrow> 's DState \<Rightarrow> ('a, 's DState) result" where
  "on_world body st = (case body (world st) of (r, w) \<Rightarrow> (r, st\<lparr>world := w\<rparr>))"

definition same_locks :: "'s DState \<Rightarrow> 's DState \<Rightarrow> bool" where
  "same_locks st st' \<longleftrightarrow> locks st' = locks st \<and> names st' = names st"

lemma with_volume_lock_same [frame_rules]: "same_locks st (snd (with_volume_lock vid body st))"
  by (auto simp: with_volume_lock_def same_locks_def unlock_TryLock split: option.splits prod.splits)

lemma with_name_lock_same [frame_rules]: "same_locks st (snd (with_name_lock n m body st))"
  by (auto simp: with_name_lock_def same_locks_def unlock_TryLock split: option.splits prod.splits)

lemma on_world_same [frame_rules]: "same_locks st (snd (on_world body st))"
  by (simp add: on_world_def same_locks_def split: prod.splits)

lemma same_locks_refl [frame_rules]: "same_locks st st"
  by (simp add: same_locks_def)

lemma with_volume_lock_free:
  "vid \<notin> locks st \<Longrightarrow> with_volume_lock vid body st =
     (fst (body (world st)), st\<lparr>world := snd (body (world st))\<rparr>)"
  by (auto simp: with_volume_lock_def TryLock_def unlock_def split: prod.splits)

lemma with_name_lock_free:
  "name \<notin> names st \<Longrightarrow> with_name_lock name m body st =
     (fst (body (world st)), st\<lparr>world := snd (body (world st))\<rparr>)"
  by (auto simp: with_name_lock_def TryLock_def unlock_def split: prod.splits)

lemma with_volume_lock_taken:
  "vid \<in> locks st \<Longrightarrow> with_volume_lock vid body st =
     (Inl (Status codes_Aborted ''another operation is in flight for this volume''), st)"
  by (simp add: with_volume_lock_def TryLock_def)

lemma with_name_lock_taken:
  "name \<in> names st \<Longrightarrow> with_name_lock name m body st = (Inl (Status codes_Aborted m), st)"
  by (simp add: with_name_lock_def TryLock_def)

section \<open>The identity service\<close>

definition GetPluginInfo :: "'s Driver \<Rightarrow> string \<times> string" where
  "GetPluginInfo d = (cfg_DriverName (drv_config d), cfg_Version (drv_config d))"

datatype PluginCapability = CONTROLLER_SERVICE | VOLUME_ACCESSIBILITY_CONSTRAINTS

definition GetPluginCapabilities :: "'s Driver \<Rightarrow> PluginCapability list" where
  "GetPluginCapabilities d = [CONTROLLER_SERVICE, VOLUME_ACCESSIBILITY_CONSTRAINTS]"

definition Probe :: "'s Driver \<Rightarrow> bool" where
  "Probe d = True"

end
