(* ===== verification/Controller.thy ===== *)
theory Controller
  imports Driver
begin

text \<open>
  \<open>internal/driver/controller.go\<close>: the controller service.  Every handler is a function of the
  driver, the request and the state; a call on the cloud interface threads the world through, and
  each \<open>if err != nil\<close> is a case on the first component of its result.
\<close>

definition createReconcileAttempts :: nat where "createReconcileAttempts = 7"
definition createReconcileInitialDelay :: nat where "createReconcileInitialDelay = 100"
definition createReconcileStableSamples :: nat where "createReconcileStableSamples = 3"

definition csiVolume :: "Volume \<Rightarrow> csi_Volume" where
  "csiVolume volume =
     \<lparr>cv_volume_id = vol_ID volume,
      cv_capacity_bytes = vol_SizeBytes volume,
      cv_volume_context = volumeContext volume,
      cv_accessible_topology = [Some [(TopologyZoneKey, vol_AvailabilityZone volume)]]\<rparr>"

fun attachedDevice_loop :: "Attachment list \<Rightarrow> string \<Rightarrow> string option" where
  "attachedDevice_loop [] node = None"
| "attachedDevice_loop (attachment # rest) node =
     (if att_InstanceID attachment = node then Some (att_DevicePath attachment)
      else attachedDevice_loop rest node)"

definition attachedDevice :: "Volume \<Rightarrow> string \<Rightarrow> string \<times> bool" where
  "attachedDevice volume node =
     (case attachedDevice_loop (vol_Attachments volume) node of
        Some device \<Rightarrow> (device, False)
      | None \<Rightarrow> ('''', length (vol_Attachments volume) > 0))"

fun attachedToNode_loop :: "Attachment list \<Rightarrow> string \<Rightarrow> bool" where
  "attachedToNode_loop [] node = False"
| "attachedToNode_loop (attachment # rest) node =
     (if att_InstanceID attachment = node then True else attachedToNode_loop rest node)"

definition attachedToNode :: "Volume \<Rightarrow> string \<Rightarrow> bool" where
  "attachedToNode volume node = attachedToNode_loop (vol_Attachments volume) node"

definition compatibleVolume :: "Volume \<Rightarrow> VolumeSpec \<Rightarrow> bool" where
  "compatibleVolume volume spec \<longleftrightarrow>
     vol_SizeBytes volume = spec_SizeBytes spec \<and>
     vol_AvailabilityZone volume = spec_AvailabilityZone spec \<and>
     (spec_Type spec = '''' \<or> vol_Type volume = spec_Type spec) \<and>
     vol_Encrypted volume = spec_Encrypted spec"

definition deletableDuplicateVolume :: "Volume \<Rightarrow> bool" where
  "deletableDuplicateVolume volume \<longleftrightarrow>
     length (vol_Attachments volume) = 0 \<and> vol_Status volume \<noteq> VolumeStatusInUse"

definition wait :: "'s Context \<Rightarrow> nat \<Rightarrow> 's \<Rightarrow> (unit, 's) result" where
  "wait ctx delay s =
     (case ctx_timer ctx delay s of
        (True, s') \<Rightarrow> (Inr (), s')
      | (False, s') \<Rightarrow> (Inl (Sentinel ErrUnavailable), s'))"

section \<open>Reconciliation\<close>

definition different_parameters :: goerr where
  "different_parameters = Status codes_AlreadyExists ''volume name exists with different parameters''"

text \<open>The loop that collects the compatible volumes of the requested name.\<close>

fun collect_compatible :: "VolumeSpec \<Rightarrow> Volume list \<Rightarrow> goerr + Volume list" where
  "collect_compatible spec [] = Inr []"
| "collect_compatible spec (volume # rest) =
     (if vol_Name volume \<noteq> spec_Name spec then collect_compatible spec rest
      else if \<not> compatibleVolume volume spec then Inl different_parameters
      else (case collect_compatible spec rest of
              Inl err \<Rightarrow> Inl err
            | Inr compatible \<Rightarrow> Inr (volume # compatible)))"

text \<open>The loop over \<open>compatible[1:]\<close> that removes the duplicates.\<close>

fun delete_duplicates :: "'s Cloud \<Rightarrow> Volume list \<Rightarrow> 's \<Rightarrow> (unit, 's) result" where
  "delete_duplicates c [] s = (Inr (), s)"
| "delete_duplicates c (duplicate # rest) s =
     (if \<not> deletableDuplicateVolume duplicate then delete_duplicates c rest s
      else (case cloud_DeleteVolume c (vol_ID duplicate) s of
          (Inl err, s') \<Rightarrow>
            if \<not> errors_is err ErrNotFound
            then if errors_is err ErrConflict then delete_duplicates c rest s'
                 else (Inl err, s')
            else delete_duplicates c rest s'
        | (Inr _, s') \<Rightarrow> delete_duplicates c rest s'))"

definition reconcileVolumeByName :: "'s Driver \<Rightarrow> VolumeSpec \<Rightarrow> 's \<Rightarrow> (Volume, 's) result" where
  "reconcileVolumeByName d spec s =
     (case cloud_ListVolumes (drv_cloud d)
             \<lparr>page_Token = '''', page_Size = 0, page_Name = spec_Name spec,
              page_AvailabilityZone = spec_AvailabilityZone spec\<rparr> s of
        (Inl err, s1) \<Rightarrow> (Inl err, s1)
      | (Inr (volumes, _), s1) \<Rightarrow>
     (case collect_compatible spec volumes of
        Inl err \<Rightarrow> (Inl err, s1)
      | Inr compatible \<Rightarrow>
     (case sort_by_ID vol_ID compatible of
        [] \<Rightarrow> (Inl (Sentinel ErrNotFound), s1)
      | canonical # duplicates \<Rightarrow>
          (case delete_duplicates (drv_cloud d) duplicates s1 of
             (Inl err, s2) \<Rightarrow> (Inl err, s2)
           | (Inr _, s2) \<Rightarrow> (Inr canonical, s2)))))"

text \<open>
  The retry loop shared by \<open>reconcileCreatedVolume\<close> and \<open>reconcileCreatedSnapshot\<close>, which differ
  only in what they fetch: \<open>attempts\<close> counts down, \<open>delay\<close> is in milliseconds.
\<close>

fun reconcile_created ::
  "'s Context \<Rightarrow> ('s \<Rightarrow> ('a, 's) result) \<Rightarrow> ('a \<Rightarrow> string) \<Rightarrow> nat \<Rightarrow> string \<Rightarrow> nat \<Rightarrow> nat \<Rightarrow> 's \<Rightarrow> ('a, 's) result" where
  "reconcile_created ctx fetch ident 0 previous stableCount delay s =
     (case fetch s of
        (Inl err, s1) \<Rightarrow>
          if errors_is err ErrNotFound then (Inl (statusError (Sentinel ErrUnavailable)), s1)
          else (Inl (grpcError err), s1)
      | (Inr canonical, s1) \<Rightarrow> (Inr canonical, s1))"
| "reconcile_created ctx fetch ident (Suc attempts) previous stableCount delay s =
     (case fetch s of
        (Inl err, s1) \<Rightarrow>
          if \<not> errors_is err ErrNotFound then (Inl (grpcError err), s1)
          else (case wait ctx delay s1 of
              (Inl err, s2) \<Rightarrow> (Inl (statusError err), s2)
            | (Inr _, s2) \<Rightarrow> reconcile_created ctx fetch ident attempts previous stableCount (delay * 2) s2)
      | (Inr canonical, s1) \<Rightarrow>
          (let (previous', stableCount') = (if ident canonical = previous then (previous, stableCount + 1)
                                       else (ident canonical, 1))
           in if stableCount' \<ge> createReconcileStableSamples then (Inr canonical, s1)
              else (case wait ctx delay s1 of
                  (Inl err, s2) \<Rightarrow> (Inl (statusError err), s2)
                | (Inr _, s2) \<Rightarrow> reconcile_created ctx fetch ident attempts previous' stableCount' (delay * 2) s2)))"

definition reconcileCreatedVolume :: "'s Context \<Rightarrow> 's Driver \<Rightarrow> VolumeSpec \<Rightarrow> 's \<Rightarrow> (Volume, 's) result" where
  "reconcileCreatedVolume ctx d spec =
     reconcile_created ctx (reconcileVolumeByName d spec) vol_ID createReconcileAttempts
       '''' 0 createReconcileInitialDelay"

definition verifyVolume :: "'s Driver \<Rightarrow> Volume \<Rightarrow> VolumeSpec \<Rightarrow> 's \<Rightarrow> (Volume, 's) result" where
  "verifyVolume d volume spec s =
     (case cloud_GetVolumeByID (drv_cloud d) (vol_ID volume) s of
        (Inl err, s1) \<Rightarrow>
          if errors_is err ErrNotFound then (Inl (statusError (Sentinel ErrUnavailable)), s1)
          else (Inl (statusError err), s1)
      | (Inr verified, s1) \<Rightarrow>
          (let verified = (if vol_AvailabilityZone verified = ''''
                           then verified\<lparr>vol_AvailabilityZone := spec_AvailabilityZone spec\<rparr>
                           else verified)
           in if \<not> compatibleVolume verified spec then (Inl different_parameters, s1)
              else (Inr verified, s1)))"

section \<open>CreateVolume and DeleteVolume\<close>

text \<open>\<open>verified, err := d.verifyVolume(...)\<close> and the response, which occurs three times.\<close>

definition verifiedResponse :: "'s Driver \<Rightarrow> Volume \<Rightarrow> VolumeSpec \<Rightarrow> 's \<Rightarrow> (csi_Volume, 's) result" where
  "verifiedResponse d volume spec s =
     (case verifyVolume d volume spec s of
        (Inl err, s1) \<Rightarrow> (Inl err, s1)
      | (Inr verified, s1) \<Rightarrow> (Inr (csiVolume verified), s1))"

text \<open>The body of \<open>CreateVolume\<close> under the lock on the name.\<close>

definition CreateVolume_locked :: "'s Context \<Rightarrow> 's Driver \<Rightarrow> VolumeSpec \<Rightarrow> 's \<Rightarrow> (csi_Volume, 's) result" where
  "CreateVolume_locked ctx d spec s =
     (case reconcileVolumeByName d spec s of
        (Inr existing, s1) \<Rightarrow> verifiedResponse d existing spec s1
      | (Inl err, s1) \<Rightarrow>
          if \<not> errors_is err ErrNotFound then (Inl (grpcError err), s1)
          else (case cloud_CreateVolume (drv_cloud d) spec s1 of
              (Inl err, s2) \<Rightarrow>
                if errors_is err ErrAlreadyExists
                then (case reconcileVolumeByName d spec s2 of
                        (Inr reconciled, s3) \<Rightarrow> verifiedResponse d reconciled spec s3
                      | (Inl _, s3) \<Rightarrow> (Inl (statusError err), s3))
                else (Inl (statusError err), s2)
            | (Inr _, s2) \<Rightarrow>
                (case reconcileCreatedVolume ctx d spec s2 of
                   (Inl err, s3) \<Rightarrow> (Inl err, s3)
                 | (Inr reconciled, s3) \<Rightarrow> verifiedResponse d reconciled spec s3)))"

definition CreateVolume ::
  "'s Context \<Rightarrow> 's Driver \<Rightarrow> CreateVolumeRequest \<Rightarrow> 's DState \<Rightarrow> (csi_Volume, 's DState) result" where
  "CreateVolume ctx d req st =
     (case validateCapabilities (cvr_volume_capabilities req) of
        Some (c, m) \<Rightarrow> (Inl (Status c m), st)
      | None \<Rightarrow>
     (case volumeSpec req (drv_config d) of
        Inl err \<Rightarrow> (Inl err, st)
      | Inr spec \<Rightarrow>
          with_name_lock (cvr_name req) ''another create operation is in flight for this volume name''
            (CreateVolume_locked ctx d spec) st))"

definition DeleteVolume_locked :: "'s Driver \<Rightarrow> string \<Rightarrow> 's \<Rightarrow> (unit, 's) result" where
  "DeleteVolume_locked d volumeId s =
     (case cloud_DeleteVolume (drv_cloud d) volumeId s of
        (Inl err, s1) \<Rightarrow>
          if errors_is err ErrNotFound then (Inr (), s1) else (Inl (statusError err), s1)
      | (Inr _, s1) \<Rightarrow> (Inr (), s1))"

definition DeleteVolume :: "'s Driver \<Rightarrow> string \<Rightarrow> 's DState \<Rightarrow> (unit, 's DState) result" where
  "DeleteVolume d volumeId st =
     (if volumeId = '''' then (Inl (Status codes_InvalidArgument ''volume id is required''), st)
      else with_volume_lock volumeId (DeleteVolume_locked d volumeId) st)"

section \<open>ControllerPublishVolume and ControllerUnpublishVolume\<close>

definition attachedDeviceAfterPublishError ::
  "'s Driver \<Rightarrow> string \<Rightarrow> string \<Rightarrow> 's \<Rightarrow> (string \<times> bool) \<times> 's" where
  "attachedDeviceAfterPublishError d volumeID node s =
     (case cloud_GetVolumeByID (drv_cloud d) volumeID s of
        (Inl err, s1) \<Rightarrow> (('''', False), s1)
      | (Inr volume, s1) \<Rightarrow>
          (case attachedDevice volume node of (device, attachedElsewhere) \<Rightarrow>
             if attachedElsewhere then (('''', False), s1)
             else ((device, device \<noteq> ''''), s1)))"

text \<open>The response of \<open>ControllerPublishVolume\<close> is its publish context.\<close>

definition publish_context :: "string \<Rightarrow> gomap" where
  "publish_context device = [(''device_path'', device)]"

definition ControllerPublishVolume_locked ::
  "'s Driver \<Rightarrow> ControllerPublishVolumeRequest \<Rightarrow> 's \<Rightarrow> (gomap, 's) result" where
  "ControllerPublishVolume_locked d req s =
     (case cloud_GetVolumeByID (drv_cloud d) (cpr_volume_id req) s of
        (Inl err, s1) \<Rightarrow> (Inl (statusError err), s1)
      | (Inr volume, s1) \<Rightarrow>
          (let zone = cmp_Or [vol_AvailabilityZone volume,
                        map_index (cpr_volume_context req) paramAvailabilityZone,
                        cfg_AvailabilityZone (drv_config d)]
           in if vol_Multiattach volume then (Inl (statusError (Sentinel ErrConflict)), s1)
              else (case attachedDevice volume (cpr_node_id req) of (device, attachedElsewhere) \<Rightarrow>
                if device \<noteq> '''' then (Inr (publish_context device), s1)
                else if attachedElsewhere then (Inl (statusError (Sentinel ErrConflict)), s1)
                else (case cloud_AttachVolume (drv_cloud d) (cpr_volume_id req) (cpr_node_id req) zone s1 of
                    (Inl err, s2) \<Rightarrow>
                      (case attachedDeviceAfterPublishError d (cpr_volume_id req) (cpr_node_id req) s2 of
                         ((device, ok), s3) \<Rightarrow>
                           if ok then (Inr (publish_context device), s3)
                           else (Inl (statusError err), s3))
                  | (Inr device, s2) \<Rightarrow> (Inr (publish_context device), s2)))))"

definition ControllerPublishVolume ::
  "'s Driver \<Rightarrow> ControllerPublishVolumeRequest \<Rightarrow> 's DState \<Rightarrow> (gomap, 's DState) result" where
  "ControllerPublishVolume d req st =
     (if cpr_volume_id req = '''' then (Inl (Status codes_InvalidArgument ''volume id is required''), st)
      else if cpr_node_id req = '''' then (Inl (Status codes_InvalidArgument ''node id is required''), st)
      else with_volume_lock (cpr_volume_id req) (ControllerPublishVolume_locked d req) st)"

definition ControllerUnpublishVolume_locked ::
  "'s Driver \<Rightarrow> ControllerUnpublishVolumeRequest \<Rightarrow> 's \<Rightarrow> (unit, 's) result" where
  "ControllerUnpublishVolume_locked d req s =
     (let zone = cfg_AvailabilityZone (drv_config d)
      in case cloud_GetVolumeByID (drv_cloud d) (cur_volume_id req) s of
           (Inl err, s1) \<Rightarrow>
             if errors_is err ErrNotFound then (Inr (), s1) else (Inl (statusError err), s1)
         | (Inr volume, s1) \<Rightarrow>
             (let zone = (if vol_AvailabilityZone volume \<noteq> '''' then vol_AvailabilityZone volume else zone)
              in if \<not> attachedToNode volume (cur_node_id req) then (Inr (), s1)
                 else (case cloud_DetachVolume (drv_cloud d) (cur_volume_id req) (cur_node_id req) zone s1 of
                     (Inl err, s2) \<Rightarrow>
                       if errors_is err ErrNotFound then (Inr (), s2) else (Inl (statusError err), s2)
                   | (Inr _, s2) \<Rightarrow> (Inr (), s2))))"

definition ControllerUnpublishVolume ::
  "'s Driver \<Rightarrow> ControllerUnpublishVolumeRequest \<Rightarrow> 's DState \<Rightarrow> (unit, 's DState) result" where
  "ControllerUnpublishVolume d req st =
     (if cur_volume_id req = '''' then (Inl (Status codes_InvalidArgument ''volume id is required''), st)
      else if cur_node_id req = '''' then (Inl (Status codes_InvalidArgument ''node id is required''), st)
      else with_volume_lock (cur_volume_id req) (ControllerUnpublishVolume_locked d req) st)"

section \<open>The other controller calls\<close>

definition ValidateVolumeCapabilities ::
  "ValidateVolumeCapabilitiesRequest \<Rightarrow> goerr + ValidateVolumeCapabilitiesResponse" where
  "ValidateVolumeCapabilities req =
     (if vvr_volume_id req = '''' then Inl (Status codes_InvalidArgument ''volume id is required'')
      else let message = capabilityMessage (vvr_volume_capabilities req)
           in if message \<noteq> '''' then Inr \<lparr>vv_message = message, vv_confirmed = None\<rparr>
              else Inr \<lparr>vv_message = '''',
                     vv_confirmed = Some
                       \<lparr>cf_volume_capabilities = vvr_volume_capabilities req,
                        cf_parameters = vvr_parameters req,
                        cf_volume_context = vvr_volume_context req\<rparr>\<rparr>)"

definition ListVolumes ::
  "'s Driver \<Rightarrow> ListRequest \<Rightarrow> 's DState \<Rightarrow> (csi_Volume list \<times> string, 's DState) result" where
  "ListVolumes d req =
     on_world (\<lambda>s. case cloud_ListVolumes (drv_cloud d)
           \<lparr>page_Token = lr_starting_token req, page_Size = sint (lr_max_entries req),
            page_Name = '''', page_AvailabilityZone = ''''\<rparr> s of
         (Inl err, s1) \<Rightarrow> (Inl (statusError err), s1)
       | (Inr (volumes, token), s1) \<Rightarrow> (Inr (map csiVolume volumes, token), s1))"

datatype ControllerRPC =
    CREATE_DELETE_VOLUME | PUBLISH_UNPUBLISH_VOLUME | EXPAND_VOLUME | LIST_VOLUMES
  | CREATE_DELETE_SNAPSHOT | LIST_SNAPSHOTS | GET_VOLUME

definition ControllerGetCapabilities :: "ControllerRPC list" where
  "ControllerGetCapabilities =
     [CREATE_DELETE_VOLUME, PUBLISH_UNPUBLISH_VOLUME, EXPAND_VOLUME, LIST_VOLUMES,
      CREATE_DELETE_SNAPSHOT, LIST_SNAPSHOTS, GET_VOLUME]"

definition ControllerExpandVolume_locked ::
  "'s Driver \<Rightarrow> ControllerExpandVolumeRequest \<Rightarrow> 's \<Rightarrow> (ControllerExpandVolumeResponse, 's) result" where
  "ControllerExpandVolume_locked d req s =
     (case requestedBytes (cer_capacity_range req) (cfg_MinimumVolumeBytes (drv_config d))
             (cfg_VolumeGranularityBytes (drv_config d)) of
        Inl err \<Rightarrow> (Inl err, s)
      | Inr sizeBytes \<Rightarrow>
     (case cloud_GetVolumeByID (drv_cloud d) (cer_volume_id req) s of
        (Inl err, s1) \<Rightarrow> (Inl (statusError err), s1)
      | (Inr volume, s1) \<Rightarrow>
          if sizeBytes \<le>s vol_SizeBytes volume
          then (Inr \<lparr>ce_capacity_bytes = vol_SizeBytes volume, ce_node_expansion_required = True\<rparr>, s1)
          else (case cloud_ResizeVolume (drv_cloud d) (cer_volume_id req) sizeBytes
                       (vol_AvailabilityZone volume) s1 of
              (Inl err, s2) \<Rightarrow> (Inl (statusError err), s2)
            | (Inr allocated, s2) \<Rightarrow>
                (Inr \<lparr>ce_capacity_bytes = allocated, ce_node_expansion_required = True\<rparr>, s2))))"

definition ControllerExpandVolume ::
  "'s Driver \<Rightarrow> ControllerExpandVolumeRequest \<Rightarrow> 's DState \<Rightarrow> (ControllerExpandVolumeResponse, 's DState) result" where
  "ControllerExpandVolume d req st =
     (if cer_volume_id req = '''' then (Inl (Status codes_InvalidArgument ''volume id is required''), st)
      else with_volume_lock (cer_volume_id req) (ControllerExpandVolume_locked d req) st)"

definition ControllerGetVolume :: "'s Driver \<Rightarrow> string \<Rightarrow> 's DState \<Rightarrow> (csi_Volume, 's DState) result" where
  "ControllerGetVolume d volumeId st =
     (if volumeId = '''' then (Inl (Status codes_InvalidArgument ''volume id is required''), st)
      else on_world (\<lambda>s. case cloud_GetVolumeByID (drv_cloud d) volumeId s of
          (Inl err, s1) \<Rightarrow> (Inl (statusError err), s1)
        | (Inr volume, s1) \<Rightarrow> (Inr (csiVolume volume), s1)) st)"

end
