(* ===== verification/SnapshotService.thy ===== *)
theory SnapshotService
  imports Controller
begin

text \<open>
  \<open>internal/driver/snapshot.go\<close>: the snapshot calls of the controller service.  The retry loop is
  the one of \<open>Controller\<close>, over \<open>reconcileSnapshotByName\<close>.
\<close>

definition csiSnapshot :: "Snapshot \<Rightarrow> csi_Snapshot" where
  "csiSnapshot snapshot =
     \<lparr>cs_size_bytes = snap_SizeBytes snapshot,
      cs_snapshot_id = encodeSnapshotID (snap_ID snapshot) (snap_AvailabilityZone snapshot),
      cs_source_volume_id = snap_VolumeID snapshot,
      cs_creation_time = snap_CreatedAt snapshot,
      cs_ready_to_use = (snap_Status snapshot = SnapshotStatusAvailable)\<rparr>"

definition different_source :: goerr where
  "different_source = Status codes_AlreadyExists ''snapshot name exists for a different source volume''"

fun collect_snapshots :: "string \<Rightarrow> string \<Rightarrow> string \<Rightarrow> Snapshot list \<Rightarrow> goerr + Snapshot list" where
  "collect_snapshots name sourceVolumeID zone [] = Inr []"
| "collect_snapshots name sourceVolumeID zone (snapshot # rest) =
     (if snap_Name snapshot \<noteq> name then collect_snapshots name sourceVolumeID zone rest
      else if snap_VolumeID snapshot \<noteq> sourceVolumeID then Inl different_source
      else let snapshot = (if snap_AvailabilityZone snapshot = ''''
                           then snapshot\<lparr>snap_AvailabilityZone := zone\<rparr> else snapshot)
           in (case collect_snapshots name sourceVolumeID zone rest of
                 Inl err \<Rightarrow> Inl err
               | Inr compatible \<Rightarrow> Inr (snapshot # compatible)))"

fun delete_duplicate_snapshots :: "'s Cloud \<Rightarrow> string \<Rightarrow> Snapshot list \<Rightarrow> 's \<Rightarrow> (unit, 's) result" where
  "delete_duplicate_snapshots c zone [] s = (Inr (), s)"
| "delete_duplicate_snapshots c zone (duplicate # rest) s =
     (case cloud_DeleteSnapshot c (snap_ID duplicate) zone s of
        (Inl err, s') \<Rightarrow>
          if \<not> errors_is err ErrNotFound
          then if errors_is err ErrConflict then delete_duplicate_snapshots c zone rest s'
               else (Inl err, s')
          else delete_duplicate_snapshots c zone rest s'
      | (Inr _, s') \<Rightarrow> delete_duplicate_snapshots c zone rest s')"

definition reconcileSnapshotByName ::
  "'s Driver \<Rightarrow> string \<Rightarrow> string \<Rightarrow> string \<Rightarrow> 's \<Rightarrow> (Snapshot, 's) result" where
  "reconcileSnapshotByName d name sourceVolumeID zone s =
     (case cloud_ListSnapshots (drv_cloud d)
             \<lparr>page_Token = '''', page_Size = 0, page_Name = name, page_AvailabilityZone = zone\<rparr> s of
        (Inl err, s1) \<Rightarrow> (Inl err, s1)
      | (Inr (snapshots, _), s1) \<Rightarrow>
     (case collect_snapshots name sourceVolumeID zone snapshots of
        Inl err \<Rightarrow> (Inl err, s1)
      | Inr compatible \<Rightarrow>
     (case sort_by_ID snap_ID compatible of
        [] \<Rightarrow> (Inl (Sentinel ErrNotFound), s1)
      | canonical # duplicates \<Rightarrow>
          (case delete_duplicate_snapshots (drv_cloud d) zone duplicates s1 of
             (Inl err, s2) \<Rightarrow> (Inl err, s2)
           | (Inr _, s2) \<Rightarrow> (Inr canonical, s2)))))"

definition reconcileCreatedSnapshot ::
  "'s Context \<Rightarrow> 's Driver \<Rightarrow> string \<Rightarrow> string \<Rightarrow> string \<Rightarrow> 's \<Rightarrow> (Snapshot, 's) result" where
  "reconcileCreatedSnapshot ctx d name sourceVolumeID zone =
     reconcile_created ctx (reconcileSnapshotByName d name sourceVolumeID zone) snap_ID
       createReconcileAttempts '''' 0 createReconcileInitialDelay"

definition CreateSnapshot_locked ::
  "'s Context \<Rightarrow> 's Driver \<Rightarrow> CreateSnapshotRequest \<Rightarrow> 's \<Rightarrow> (csi_Snapshot, 's) result" where
  "CreateSnapshot_locked ctx d req s =
     (case cloud_GetVolumeByID (drv_cloud d) (csr_source_volume_id req) s of
        (Inl err, s1) \<Rightarrow> (Inl (statusError err), s1)
      | (Inr volume, s1) \<Rightarrow>
     (let zone = cmp_Or [vol_AvailabilityZone volume, cfg_AvailabilityZone (drv_config d)]
      in case reconcileSnapshotByName d (csr_name req) (csr_source_volume_id req) zone s1 of
           (Inr existing, s2) \<Rightarrow> (Inr (csiSnapshot existing), s2)
         | (Inl err, s2) \<Rightarrow>
             if \<not> errors_is err ErrNotFound then (Inl (grpcError err), s2)
             else (case cloud_CreateSnapshot (drv_cloud d)
                      \<lparr>snapspec_Name = csr_name req,
                       snapspec_VolumeID = csr_source_volume_id req,
                       snapspec_ProjectID = cfg_ProjectID (drv_config d),
                       snapspec_AvailabilityZone = zone,
                       snapspec_Force = True,
                       snapspec_Metadata = [(''csi.driver'', cfg_DriverName (drv_config d))]\<rparr> s2 of
                 (Inl err, s3) \<Rightarrow> (Inl (statusError err), s3)
               | (Inr _, s3) \<Rightarrow>
                   (case reconcileCreatedSnapshot ctx d (csr_name req) (csr_source_volume_id req) zone s3 of
                      (Inl err, s4) \<Rightarrow> (Inl err, s4)
                    | (Inr reconciled, s4) \<Rightarrow> (Inr (csiSnapshot reconciled), s4)))))"

definition CreateSnapshot ::
  "'s Context \<Rightarrow> 's Driver \<Rightarrow> CreateSnapshotRequest \<Rightarrow> 's DState \<Rightarrow> (csi_Snapshot, 's DState) result" where
  "CreateSnapshot ctx d req st =
     (if csr_name req = '''' then (Inl (Status codes_InvalidArgument ''snapshot name is required''), st)
      else if csr_source_volume_id req = ''''
      then (Inl (Status codes_InvalidArgument ''source volume id is required''), st)
      else with_name_lock (''snapshot:'' @ csr_name req)
             ''another create operation is in flight for this snapshot name''
             (CreateSnapshot_locked ctx d req) st)"

definition DeleteSnapshot :: "'s Driver \<Rightarrow> string \<Rightarrow> 's DState \<Rightarrow> (unit, 's DState) result" where
  "DeleteSnapshot d snapshotId st =
     (if snapshotId = '''' then (Inl (Status codes_InvalidArgument ''snapshot id is required''), st)
      else (case decodeSnapshotID snapshotId (cfg_AvailabilityZone (drv_config d)) of
        (sid, zone) \<Rightarrow>
          on_world (\<lambda>s. case cloud_DeleteSnapshot (drv_cloud d) sid zone s of
              (Inl err, s1) \<Rightarrow>
                if errors_is err ErrNotFound then (Inr (), s1) else (Inl (statusError err), s1)
            | (Inr _, s1) \<Rightarrow> (Inr (), s1)) st))"

definition ListSnapshots ::
  "'s Driver \<Rightarrow> ListRequest \<Rightarrow> 's DState \<Rightarrow> (csi_Snapshot list \<times> string, 's DState) result" where
  "ListSnapshots d req =
     on_world (\<lambda>s. case cloud_ListSnapshots (drv_cloud d)
           \<lparr>page_Token = lr_starting_token req, page_Size = sint (lr_max_entries req),
            page_Name = '''', page_AvailabilityZone = ''''\<rparr> s of
         (Inl err, s1) \<Rightarrow> (Inl (statusError err), s1)
       | (Inr (snapshots, token), s1) \<Rightarrow> (Inr (map csiSnapshot snapshots, token), s1))"

end
