(* ===== verification/VolumeStore.thy ===== *)
theory VolumeStore
  imports SnapshotService
begin

text \<open>
  What the controller relies on.  The locale \<open>volume_store\<close> is the contract between the controller
  and a provider: an abstraction \<open>vols\<close> of the provider's state to a map from identifiers to
  volumes, and how each call changes it.  Calls may fail; a call that fails changes nothing but,
  for a deletion, the volume it names.  The safety lemmas of \<open>CreateVolume\<close> are proved once, under
  this contract, and \<open>FakeStore\<close> interprets it on the provider of \<open>internal/cloud/fake.go\<close>.
\<close>

text \<open>Volumes that a \<open>CreateVolume\<close> for \<open>spec\<close> must not touch.\<close>

definition protected :: "VolumeSpec \<Rightarrow> Volume \<Rightarrow> bool" where
  "protected spec v \<longleftrightarrow>
     vol_Name v \<noteq> spec_Name spec \<or> \<not> compatibleVolume v spec \<or> \<not> deletableDuplicateVolume v"

lemma collect_compatible_Inr:
  "collect_compatible spec vs = Inr xs \<Longrightarrow>
     xs = filter (\<lambda>v. vol_Name v = spec_Name spec) vs \<and> (\<forall>v \<in> set xs. compatibleVolume v spec)"
  by (induction vs arbitrary: xs) (auto split: if_splits sum.splits)

lemma collect_compatible_Inl:
  "collect_compatible spec vs = Inl e \<Longrightarrow> e = different_parameters \<and>
     (\<exists>v \<in> set vs. vol_Name v = spec_Name spec \<and> \<not> compatibleVolume v spec)"
  by (induction vs) (auto split: if_splits sum.splits)

lemma collect_compatible_ok:
  "\<forall>v \<in> set vs. vol_Name v = spec_Name spec \<longrightarrow> compatibleVolume v spec \<Longrightarrow>
     collect_compatible spec vs = Inr (filter (\<lambda>v. vol_Name v = spec_Name spec) vs)"
  by (induction vs) auto

text \<open>The final check asks the provider for the volume once.\<close>

lemma verifyVolume_world: "snd (verifyVolume d v spec s) = snd (cloud_GetVolumeByID (drv_cloud d) (vol_ID v) s)"
  by (simp add: verifyVolume_def Let_def split: prod.splits sum.splits)

lemma verifiedResponse_world:
  "snd (verifiedResponse d v spec s) = snd (cloud_GetVolumeByID (drv_cloud d) (vol_ID v) s)"
  using verifyVolume_world [of d v spec s] by (auto simp: verifiedResponse_def split: prod.splits sum.splits)

text \<open>One turn of the retry loop ends it, or goes round again after one wait.\<close>

lemma reconcile_created_step:
  assumes "reconcile_created ctx fetch ident (Suc a) prev stb delay s = (r, s')"
    and "fetch s = (r1, s1)" and "ctx_timer ctx delay s1 = (b, s2)"
  shows "s' = s1 \<or> s' = s2 \<or> (\<exists>p k. reconcile_created ctx fetch ident a p k (delay * 2) s2 = (r, s'))"
proof (cases r1)
  case (Inl e)
  with assms show ?thesis by (cases b) (auto simp: wait_def split: if_splits)
next
  case (Inr v)
  define pk where "pk = (if ident v = prev then (prev, stb + 1) else (ident v, 1))"
  obtain p k where pk: "pk = (p, k)" by fastforce
  have "reconcile_created ctx fetch ident (Suc a) prev stb delay s =
      (if k \<ge> createReconcileStableSamples then (Inr v, s1)
       else if b then reconcile_created ctx fetch ident a p k (delay * 2) s2
       else (Inl (statusError (Sentinel ErrUnavailable)), s2))"
    using Inr assms(2,3) pk unfolding pk_def by (cases b) (simp_all add: wait_def)
  with assms(1) show ?thesis by (auto split: if_splits)
qed

locale volume_store =
  fixes c :: "'s Cloud"
    and vols :: "'s \<Rightarrow> string \<Rightarrow> Volume option"
    and ok :: "'s \<Rightarrow> bool"
  assumes vol_key: "ok s \<Longrightarrow> vols s i = Some v \<Longrightarrow> vol_ID v = i"
    and list_frame: "ok s \<Longrightarrow> cloud_ListVolumes c p s = (rl, s') \<Longrightarrow> ok s' \<and> vols s' = vols s"
    and list_sound: "ok s \<Longrightarrow> cloud_ListVolumes c p s = (Inr (vs, t), s') \<Longrightarrow> v \<in> set vs \<Longrightarrow>
          vols s (vol_ID v) = Some v"
    and list_complete: "ok s \<Longrightarrow> page_Token p = '''' \<Longrightarrow> page_Size p \<le> 0 \<Longrightarrow>
          cloud_ListVolumes c p s = (Inr (vs, t), s') \<Longrightarrow> vols s i = Some v \<Longrightarrow>
          page_Name p \<in> {'''', vol_Name v} \<Longrightarrow> page_AvailabilityZone p \<in> {'''', vol_AvailabilityZone v} \<Longrightarrow>
          v \<in> set vs"
    and get_frame: "ok s \<Longrightarrow> cloud_GetVolumeByID c i s = (rg, s') \<Longrightarrow> ok s' \<and> vols s' = vols s"
    and get_sound: "ok s \<Longrightarrow> cloud_GetVolumeByID c i s = (Inr v, s') \<Longrightarrow> vols s i = Some v"
    and delete_frame: "ok s \<Longrightarrow> cloud_DeleteVolume c i s = (rd, s') \<Longrightarrow> ok s' \<and>
          (\<forall>j. j \<noteq> i \<longrightarrow> vols s' j = vols s j)"
    and delete_done: "ok s \<Longrightarrow> cloud_DeleteVolume c i s = (Inr (), s') \<Longrightarrow> vols s' i = None"
    and create_frame: "ok s \<Longrightarrow> cloud_CreateVolume c spec s = (rc, s') \<Longrightarrow> ok s' \<and>
          (\<forall>i v. vols s i = Some v \<longrightarrow> vols s' i = Some v)"
begin

definition keeps :: "VolumeSpec \<Rightarrow> 's \<Rightarrow> 's \<Rightarrow> bool" where
  "keeps spec s s' \<longleftrightarrow> ok s' \<and> (\<forall>i v. vols s i = Some v \<and> protected spec v \<longrightarrow> vols s' i = Some v)"

lemma keeps_refl: "ok s \<Longrightarrow> keeps spec s s"
  by (simp add: keeps_def)

lemma keeps_ok: "keeps spec s s' \<Longrightarrow> ok s'"
  by (simp add: keeps_def)

lemma keeps_trans: "keeps spec s s' \<Longrightarrow> keeps spec s' s'' \<Longrightarrow> keeps spec s s''"
  by (simp add: keeps_def)

lemma keeps_same: "ok s' \<Longrightarrow> vols s' = vols s \<Longrightarrow> keeps spec s s'"
  by (simp add: keeps_def)

text \<open>Removing duplicates leaves everything but the deletable duplicates themselves.\<close>

lemma delete_duplicates_frame:
  assumes "ok s" and "delete_duplicates c dups s = (r, s')"
  shows "ok s' \<and> (\<forall>j. (\<forall>v \<in> set dups. deletableDuplicateVolume v \<longrightarrow> vol_ID v \<noteq> j) \<longrightarrow> vols s' j = vols s j)"
  using assms
proof (induction dups arbitrary: s)
  case Nil
  then show ?case by simp
next
  case (Cons v dups)
  show ?case
  proof (cases "deletableDuplicateVolume v")
    case False
    with Cons show ?thesis by fastforce
  next
    case deletable: True
    obtain r1 s1 where d: "cloud_DeleteVolume c (vol_ID v) s = (r1, s1)" by fastforce
    note f = delete_frame [OF Cons.prems(1) d]
    have "delete_duplicates c dups s1 = (r, s') \<or> s' = s1"
      using Cons.prems(2) deletable d by (auto split: sum.splits if_splits)
    then show ?thesis
    proof
      assume "delete_duplicates c dups s1 = (r, s')"
      with Cons.IH [of s1] f have "ok s'"
        "\<And>j. (\<forall>w \<in> set dups. deletableDuplicateVolume w \<longrightarrow> vol_ID w \<noteq> j) \<Longrightarrow> vols s' j = vols s1 j"
        by blast+
      with f deletable show ?thesis by fastforce
    next
      assume "s' = s1"
      with f deletable show ?thesis by fastforce
    qed
  qed
qed

lemma reconcile_frame:
  assumes "ok s" and d: "drv_cloud d = c" and "reconcileVolumeByName d spec s = (r, s')"
  shows "keeps spec s s'"
proof -
  let ?p = "\<lparr>page_Token = '''', page_Size = 0, page_Name = spec_Name spec,
              page_AvailabilityZone = spec_AvailabilityZone spec\<rparr>"
  obtain r1 s1 where l: "cloud_ListVolumes c ?p s = (r1, s1)" by fastforce
  note f1 = list_frame [OF assms(1) l]
  show ?thesis
  proof (cases "\<exists>vs t xs canon dups r2. r1 = Inr (vs, t) \<and> collect_compatible spec vs = Inr xs \<and>
      sort_by_ID vol_ID xs = canon # dups \<and> delete_duplicates c dups s1 = (r2, s')")
    case False
    then have "s' = s1"
      using assms(3) l d by (auto simp: reconcileVolumeByName_def split: sum.splits list.splits prod.splits)
    with f1 show ?thesis by (simp add: keeps_same)
  next
    case True
    then obtain vs t xs canon dups r2 where r1: "r1 = Inr (vs, t)"
      and xs: "collect_compatible spec vs = Inr xs" and srt: "sort_by_ID vol_ID xs = canon # dups"
      and del: "delete_duplicates c dups s1 = (r2, s')" by blast
    have sub: "set dups \<subseteq> set xs" using srt set_sort_by_ID [of vol_ID xs] by auto
    have dup: "vols s (vol_ID v) = Some v \<and> vol_Name v = spec_Name spec \<and> compatibleVolume v spec"
      if "v \<in> set dups" for v
      using that sub collect_compatible_Inr [OF xs] list_sound [OF assms(1) l [unfolded r1]] by auto
    from delete_duplicates_frame [OF _ del] f1 have k: "ok s'"
      "\<And>j. (\<forall>v \<in> set dups. deletableDuplicateVolume v \<longrightarrow> vol_ID v \<noteq> j) \<Longrightarrow> vols s' j = vols s j"
      by auto
    have "vols s' i = Some v" if v: "vols s i = Some v" "protected spec v" for i v
    proof -
      have "vol_ID w \<noteq> i" if "w \<in> set dups" "deletableDuplicateVolume w" for w
        using dup [OF that(1)] v that(2) by (auto simp: protected_def)
      with k(2) v(1) show ?thesis by simp
    qed
    with k(1) show ?thesis by (simp add: keeps_def)
  qed
qed

text \<open>A successful reconciliation returns the stored volume with the least identifier.\<close>

lemma reconcile_result:
  assumes "ok s" and d: "drv_cloud d = c" and "reconcileVolumeByName d spec s = (Inr v, s')"
  shows "vol_Name v = spec_Name spec" and "compatibleVolume v spec" and "vols s (vol_ID v) = Some v"
    and "vols s i = Some w \<Longrightarrow> vol_Name w = spec_Name spec \<Longrightarrow>
           vol_AvailabilityZone w = spec_AvailabilityZone spec \<Longrightarrow> vol_ID v \<le> i"
proof -
  let ?p = "\<lparr>page_Token = '''', page_Size = 0, page_Name = spec_Name spec,
              page_AvailabilityZone = spec_AvailabilityZone spec\<rparr>"
  obtain vs t s1 xs dups where l: "cloud_ListVolumes c ?p s = (Inr (vs, t), s1)"
    and xs: "collect_compatible spec vs = Inr xs" and srt: "sort_by_ID vol_ID xs = v # dups"
    using assms(3) d
    by (auto simp: reconcileVolumeByName_def split: sum.splits list.splits prod.splits)
  note cc = collect_compatible_Inr [OF xs]
  have v: "v \<in> set xs" using srt set_sort_by_ID [of vol_ID xs] by auto
  with cc list_sound [OF assms(1) l] show "vol_Name v = spec_Name spec" "compatibleVolume v spec"
    "vols s (vol_ID v) = Some v" by auto
  assume w: "vols s i = Some w" "vol_Name w = spec_Name spec"
    "vol_AvailabilityZone w = spec_AvailabilityZone spec"
  have "w \<in> set xs" using list_complete [OF assms(1) _ _ l w(1)] w cc by simp
  then have "vol_ID v \<le> vol_ID w" using sort_by_ID_hd_least [of w xs vol_ID] srt by simp
  then show "vol_ID v \<le> i" using vol_key [OF assms(1) w(1)] by simp
qed

lemma reconcile_created_frame:
  assumes "\<And>s r s'. ok s \<Longrightarrow> fetch s = (r, s') \<Longrightarrow> keeps spec s s'"
    and "\<And>s n b s'. ok s \<Longrightarrow> ctx_timer ctx n s = (b, s') \<Longrightarrow> keeps spec s s'"
    and "ok s" and "reconcile_created ctx fetch ident a prev stb delay s = (r, s')"
  shows "keeps spec s s'"
  using assms(3,4)
proof (induction a arbitrary: prev stb delay s)
  case 0
  then show ?case using assms(1) by (auto split: prod.splits sum.splits if_splits)
next
  case (Suc a)
  obtain r1 s1 where f: "fetch s = (r1, s1)" by fastforce
  have k1: "keeps spec s s1" using assms(1) Suc.prems(1) f by blast
  obtain b s2 where t: "ctx_timer ctx delay s1 = (b, s2)" by fastforce
  have k2: "keeps spec s s2" using k1 keeps_ok [OF k1] assms(2) t keeps_trans by blast
  from reconcile_created_step [OF Suc.prems(2) f t]
  have "s' = s1 \<or> s' = s2 \<or> (\<exists>p k. reconcile_created ctx fetch ident a p k (delay * 2) s2 = (r, s'))" .
  moreover have "keeps spec s s'" if "reconcile_created ctx fetch ident a p k (delay * 2) s2 = (r, s')" for p k
    using keeps_trans [OF k2 Suc.IH [OF keeps_ok [OF k2] that]] .
  ultimately show ?case using k1 k2 by blast
qed

lemma verifiedResponse_frame:
  "ok s \<Longrightarrow> drv_cloud d = c \<Longrightarrow> verifiedResponse d v spec s = (r, s') \<Longrightarrow> keeps spec s s'"
  using verifiedResponse_world [of d v spec s] get_frame [of s "vol_ID v" "fst (cloud_GetVolumeByID c (vol_ID v) s)" s']
  by (auto intro: keeps_same)

text \<open>What \<open>CreateVolume\<close> leaves alone.\<close>

lemma CreateVolume_locked_frame:
  assumes timer: "\<And>s n b s'. ok s \<Longrightarrow> ctx_timer ctx n s = (b, s') \<Longrightarrow> ok s' \<and> vols s' = vols s"
    and "ok s" and d: "drv_cloud d = c" and "CreateVolume_locked ctx d spec s = (r, s')"
  shows "keeps spec s s'"
proof -
  have tk: "keeps spec s s'" if "ok s" "ctx_timer ctx n s = (b, s')" for s n b s'
    using timer [OF that] by (simp add: keeps_same)
  have rc: "keeps spec s s'" if "ok s" "reconcileCreatedVolume ctx d spec s = (r, s')" for s r s'
    using that reconcile_created_frame [of "reconcileVolumeByName d spec" spec ctx s]
      reconcile_frame [OF _ d] tk unfolding reconcileCreatedVolume_def by blast
  have cr: "keeps spec s s'" if "ok s" "cloud_CreateVolume c spec s = (r, s')" for s r s'
    using create_frame [OF that] by (simp add: keeps_def)
  obtain r1 s1 where f1: "reconcileVolumeByName d spec s = (r1, s1)" by fastforce
  obtain r2 s2 where f2: "cloud_CreateVolume c spec s1 = (r2, s2)" by fastforce
  obtain r3 s3 where f3: "reconcileVolumeByName d spec s2 = (r3, s3)" by fastforce
  obtain r4 s4 where f4: "reconcileCreatedVolume ctx d spec s2 = (r4, s4)" by fastforce
  have k1: "keeps spec s s1" using reconcile_frame [OF assms(2) d f1] .
  have k2: "keeps spec s s2" using keeps_trans [OF k1 cr [OF keeps_ok [OF k1] f2]] .
  have k3: "keeps spec s s3" using keeps_trans [OF k2 reconcile_frame [OF keeps_ok [OF k2] d f3]] .
  have k4: "keeps spec s s4" using keeps_trans [OF k2 rc [OF keeps_ok [OF k2] f4]] .
  have "s' \<in> {s1, s2, s3, s4} \<or>
      (\<exists>t \<in> {s1, s3, s4}. \<exists>v. verifiedResponse d v spec t = (r, s'))"
    using assms(4) f1 f2 f3 f4 d
    by (auto simp: CreateVolume_locked_def split: sum.splits if_splits)
  then show ?thesis
    using k1 k2 k3 k4 verifiedResponse_frame [OF _ d] keeps_ok keeps_trans by blast
qed

text \<open>What a successful response says.\<close>

lemma verifiedResponse_result:
  assumes "ok s" and d: "drv_cloud d = c" and "verifiedResponse d v spec s = (Inr cv, s')"
  shows "\<exists>w. vols s' (vol_ID v) = Some w \<and>
    cv = csiVolume (if vol_AvailabilityZone w = '''' then w\<lparr>vol_AvailabilityZone := spec_AvailabilityZone spec\<rparr> else w) \<and>
    compatibleVolume (if vol_AvailabilityZone w = '''' then w\<lparr>vol_AvailabilityZone := spec_AvailabilityZone spec\<rparr> else w) spec"
  using assms(3) d get_frame [OF assms(1)] get_sound [OF assms(1)]
  by (auto simp: verifiedResponse_def verifyVolume_def Let_def split: prod.splits sum.splits if_splits)

end

text \<open>
  A provider whose deletions take effect, and whose listings name a volume once.  Under it a
  reconciliation leaves one volume of the name that could still be removed, at most.
\<close>

locale strict_store = volume_store c vols ok
  for c :: "'s Cloud" and vols :: "'s \<Rightarrow> string \<Rightarrow> Volume option" and ok :: "'s \<Rightarrow> bool" +
  assumes delete_ok: "ok s \<Longrightarrow> fst (cloud_DeleteVolume c i s) = Inr ()"
    and list_distinct: "ok s \<Longrightarrow> cloud_ListVolumes c p s = (Inr (vs, t), s') \<Longrightarrow> distinct (map vol_ID vs)"
begin

lemma delete_duplicates_done:
  assumes "ok s" and "delete_duplicates c dups s = (r, s')"
  shows "r = Inr () \<and> ok s' \<and>
    vols s' j = (if \<exists>v \<in> set dups. deletableDuplicateVolume v \<and> vol_ID v = j then None else vols s j)"
  using assms
proof (induction dups arbitrary: s)
  case Nil
  then show ?case by simp
next
  case (Cons v dups)
  show ?case
  proof (cases "deletableDuplicateVolume v")
    case False
    with Cons show ?thesis by fastforce
  next
    case deletable: True
    obtain s1 where d: "cloud_DeleteVolume c (vol_ID v) s = (Inr (), s1)"
      using delete_ok [OF Cons.prems(1)] by (metis prod.collapse)
    note f = delete_frame [OF Cons.prems(1) d] and gone = delete_done [OF Cons.prems(1) d]
    have "delete_duplicates c dups s1 = (r, s')" using Cons.prems(2) deletable d by simp
    with Cons.IH [of s1] f have "r = Inr () \<and> ok s' \<and>
        vols s' j = (if \<exists>v \<in> set dups. deletableDuplicateVolume v \<and> vol_ID v = j then None else vols s1 j)"
      by blast
    with f gone deletable show ?thesis by (cases "vol_ID v = j") auto
  qed
qed

lemma reconcile_leaves_one:
  assumes ok: "ok s" and d: "drv_cloud d = c" and rec: "reconcileVolumeByName d spec s = (Inr v, s')"
  shows "vols s' (vol_ID v) = Some v"
    and "vols s' i = Some w \<Longrightarrow> vol_Name w = spec_Name spec \<Longrightarrow>
           vol_AvailabilityZone w = spec_AvailabilityZone spec \<Longrightarrow> i = vol_ID v \<or> \<not> deletableDuplicateVolume w"
proof -
  let ?p = "\<lparr>page_Token = '''', page_Size = 0, page_Name = spec_Name spec,
              page_AvailabilityZone = spec_AvailabilityZone spec\<rparr>"
  obtain vs t s1 xs dups r2 where l: "cloud_ListVolumes c ?p s = (Inr (vs, t), s1)"
    and xs: "collect_compatible spec vs = Inr xs" and srt: "sort_by_ID vol_ID xs = v # dups"
    and del: "delete_duplicates c dups s1 = (r2, s')"
    using rec d by (auto simp: reconcileVolumeByName_def split: sum.splits list.splits prod.splits)
  note f1 = list_frame [OF ok l] and cc = collect_compatible_Inr [OF xs]
  have after: "vols s' j = (if \<exists>v \<in> set dups. deletableDuplicateVolume v \<and> vol_ID v = j then None else vols s j)"
    for j using delete_duplicates_done [OF conjunct1 [OF f1] del, of j] f1 by metis
  have "distinct (map vol_ID xs)" using list_distinct [OF ok l] cc by (simp add: distinct_map_filter)
  then have "distinct (map vol_ID (sort_by_ID vol_ID xs))" by (simp add: sort_by_ID_def distinct_map)
  then have other: "vol_ID u \<noteq> vol_ID v" if "u \<in> set dups" for u
    using srt that by (metis distinct.simps(2) image_eqI list.map(2) set_map)
  have stored: "vols s (vol_ID u) = Some u" if "u \<in> set xs" for u
    using that cc list_sound [OF ok l] by auto
  have set: "set xs = insert v (set dups)" using srt set_sort_by_ID [of vol_ID xs] by simp
  show "vols s' (vol_ID v) = Some v" using after [of "vol_ID v"] other stored set by auto
  assume w: "vols s' i = Some w" "vol_Name w = spec_Name spec"
    "vol_AvailabilityZone w = spec_AvailabilityZone spec"
  have ws: "vols s i = Some w" using w(1) after [of i] by (auto split: if_splits)
  then have "w \<in> set xs" using list_complete [OF ok _ _ l ws] w cc by simp
  moreover have "vol_ID w = i" using vol_key [OF ok ws] .
  ultimately show "i = vol_ID v \<or> \<not> deletableDuplicateVolume w"
    using set after [of i] w(1) by (auto split: if_splits)
qed

end

end
