(* ===== verification/NodeService.thy ===== *)
theory NodeService
  imports Driver
begin

text \<open>
  \<open>internal/driver/node.go\<close>: the node service, over the \<open>Mounter\<close> interface.  None of its handlers
  takes a lock.
\<close>

definition defaultFSType :: string where "defaultFSType = ''ext4''"

text \<open>\<open>req.GetVolumeCapability().GetMount()\<close> on a capability that is there.\<close>

definition mount_flags_of :: "VolumeCapability \<Rightarrow> string list" where
  "mount_flags_of capability = (case GetMount capability of
     Some mount \<Rightarrow> mv_mount_flags mount | None \<Rightarrow> [])"

definition fs_type_of :: "VolumeCapability \<Rightarrow> string" where
  "fs_type_of capability = (case GetMount capability of
     Some mount \<Rightarrow> cmp_Or [mv_fs_type mount, defaultFSType] | None \<Rightarrow> defaultFSType)"

definition NodeStageVolume :: "'s Driver \<Rightarrow> NodeStageVolumeRequest \<Rightarrow> 's DState \<Rightarrow> (unit, 's DState) result" where
  "NodeStageVolume d req st =
     (if nsr_volume_id req = '''' then (Inl (Status codes_InvalidArgument ''volume id is required''), st)
      else if nsr_staging_target_path req = ''''
      then (Inl (Status codes_InvalidArgument ''staging target path is required''), st)
      else case nsr_volume_capability req of
        None \<Rightarrow> (Inl (Status codes_InvalidArgument ''volume capability is required''), st)
      | Some capability \<Rightarrow>
          on_world (\<lambda>s. case mnt_IsMounted (drv_mount d) (nsr_staging_target_path req) s of
              (Inl err, s1) \<Rightarrow> (Inl (statusError err), s1)
            | (Inr mounted, s1) \<Rightarrow>
                if mounted then (Inr (), s1)
                else (case mnt_FindDevice (drv_mount d) (nsr_volume_id req)
                        (map_index (nsr_publish_context req) ''device_path'') s1 of
                    (Inl err, s2) \<Rightarrow> (Inl (statusError err), s2)
                  | (Inr device, s2) \<Rightarrow>
                      (case mnt_Stage (drv_mount d) device (nsr_staging_target_path req)
                              (fs_type_of capability) (mount_flags_of capability) s2 of
                         (Inl err, s3) \<Rightarrow> (Inl (statusError err), s3)
                       | (Inr _, s3) \<Rightarrow> (Inr (), s3)))) st)"

definition NodeUnstageVolume :: "'s Driver \<Rightarrow> string \<Rightarrow> string \<Rightarrow> 's DState \<Rightarrow> (unit, 's DState) result" where
  "NodeUnstageVolume d volumeId stagingTargetPath st =
     (if volumeId = '''' then (Inl (Status codes_InvalidArgument ''volume id is required''), st)
      else if stagingTargetPath = ''''
      then (Inl (Status codes_InvalidArgument ''staging target path is required''), st)
      else on_world (\<lambda>s. case mnt_Unmount (drv_mount d) stagingTargetPath s of
          (Inl err, s1) \<Rightarrow> (Inl (statusError err), s1)
        | (Inr _, s1) \<Rightarrow> (Inr (), s1)) st)"

definition NodePublishVolume :: "'s Driver \<Rightarrow> NodePublishVolumeRequest \<Rightarrow> 's DState \<Rightarrow> (unit, 's DState) result" where
  "NodePublishVolume d req st =
     (if npr_volume_id req = '''' then (Inl (Status codes_InvalidArgument ''volume id is required''), st)
      else if npr_target_path req = ''''
      then (Inl (Status codes_InvalidArgument ''target path is required''), st)
      else case npr_volume_capability req of
        None \<Rightarrow> (Inl (Status codes_InvalidArgument ''volume capability is required''), st)
      | Some capability \<Rightarrow>
          on_world (\<lambda>s. case mnt_IsMounted (drv_mount d) (npr_target_path req) s of
              (Inl err, s1) \<Rightarrow> (Inl (statusError err), s1)
            | (Inr mounted, s1) \<Rightarrow>
                if mounted then (Inr (), s1)
                else let block = (GetBlock capability \<noteq> None);
                         flags = mount_flags_of capability
                     in (case (if block
                               then mnt_FindDevice (drv_mount d) (npr_volume_id req)
                                      (map_index (npr_publish_context req) ''device_path'') s1
                               else (Inr (npr_staging_target_path req), s1)) of
                           (Inl err, s2) \<Rightarrow> (Inl (statusError err), s2)
                         | (Inr source, s2) \<Rightarrow>
                             (case mnt_Publish (drv_mount d) source (npr_target_path req)
                                     (npr_readonly req) block flags s2 of
                                (Inl err, s3) \<Rightarrow> (Inl (statusError err), s3)
                              | (Inr _, s3) \<Rightarrow> (Inr (), s3)))) st)"

definition NodeUnpublishVolume :: "'s Driver \<Rightarrow> string \<Rightarrow> string \<Rightarrow> 's DState \<Rightarrow> (unit, 's DState) result" where
  "NodeUnpublishVolume d volumeId targetPath st =
     (if volumeId = '''' then (Inl (Status codes_InvalidArgument ''volume id is required''), st)
      else if targetPath = '''' then (Inl (Status codes_InvalidArgument ''target path is required''), st)
      else on_world (\<lambda>s. case mnt_Unmount (drv_mount d) targetPath s of
          (Inl err, s1) \<Rightarrow> (Inl (statusError err), s1)
        | (Inr _, s1) \<Rightarrow> (Inr (), s1)) st)"

definition NodeGetVolumeStats :: "'s Driver \<Rightarrow> string \<Rightarrow> 's DState \<Rightarrow> (VolumeUsage list, 's DState) result" where
  "NodeGetVolumeStats d volumePath st =
     (if volumePath = '''' then (Inl (Status codes_InvalidArgument ''volume path is required''), st)
      else on_world (\<lambda>s. case mnt_IsBlock (drv_mount d) volumePath s of
          (Inl err, s1) \<Rightarrow> (Inl (statusError err), s1)
        | (Inr block, s1) \<Rightarrow>
            (case mnt_Stats (drv_mount d) volumePath block s1 of
               (Inl err, s2) \<Rightarrow> (Inl (statusError err), s2)
             | (Inr stats, s2) \<Rightarrow>
                 (Inr [\<lparr>vu_unit = BYTES, vu_total = st_TotalBytes stats,
                        vu_available = st_AvailableBytes stats, vu_used = st_UsedBytes stats\<rparr>,
                       \<lparr>vu_unit = INODES, vu_total = st_TotalInodes stats,
                        vu_available = st_FreeInodes stats, vu_used = st_UsedInodes stats\<rparr>], s2))) st)"

definition NodeExpandVolume :: "'s Driver \<Rightarrow> NodeExpandVolumeRequest \<Rightarrow> 's DState \<Rightarrow> (i64, 's DState) result" where
  "NodeExpandVolume d req st =
     (if ner_volume_path req = '''' then (Inl (Status codes_InvalidArgument ''volume path is required''), st)
      else let fsType = (case ner_volume_capability req of
                           Some capability \<Rightarrow> fs_type_of capability | None \<Rightarrow> defaultFSType)
           in on_world (\<lambda>s. case mnt_Expand (drv_mount d) (ner_volume_path req) fsType s of
               (Inl err, s1) \<Rightarrow> (Inl (statusError err), s1)
             | (Inr _, s1) \<Rightarrow> (Inr (GetRequiredBytes (ner_capacity_range req)), s1)) st)"

datatype NodeRPC = STAGE_UNSTAGE_VOLUME | NODE_EXPAND_VOLUME | GET_VOLUME_STATS

definition NodeGetCapabilities :: "NodeRPC list" where
  "NodeGetCapabilities = [STAGE_UNSTAGE_VOLUME, NODE_EXPAND_VOLUME, GET_VOLUME_STATS]"

definition nodeAvailabilityZone :: "string \<Rightarrow> string \<Rightarrow> string" where
  "nodeAvailabilityZone metadataZone configuredZone =
     (if configuredZone \<noteq> '''' \<and> (metadataZone = '''' \<or> metadataZone = ''nova'')
      then configuredZone else metadataZone)"

definition NodeGetInfo :: "'s Driver \<Rightarrow> 's DState \<Rightarrow> (NodeGetInfoResponse, 's DState) result" where
  "NodeGetInfo d =
     on_world (\<lambda>s. case cloud_GetInstanceMetadata (drv_cloud d) s of
         (Inl err, s1) \<Rightarrow> (Inl (statusError err), s1)
       | (Inr metadata, s1) \<Rightarrow>
           (let zone = nodeAvailabilityZone (im_AvailabilityZone metadata)
                         (cfg_AvailabilityZone (drv_config d));
                segments = (if zone \<noteq> '''' then [(TopologyZoneKey, zone)] else []) @
                           (if im_Region metadata \<noteq> '''' then [(TopologyRegionKey, im_Region metadata)] else [])
            in (Inr \<lparr>ngi_node_id = im_InstanceID metadata,
                     ngi_max_volumes_per_node =
                       (if 0 <s im_MaxVolumesPerNode metadata then im_MaxVolumesPerNode metadata else 0),
                     ngi_accessible_topology = (if length segments > 0 then Some segments else None)\<rparr>, s1)))"

end
