(* ===== verification/Handlers.thy ===== *)
theory Handlers
  imports VolumeStore NodeService
begin

text \<open>
  What holds of every handler, for any provider, mounter and context: the calls a driver serves
  are one datatype, \<open>serve\<close> runs the handler that \<open>internal/server/server.go\<close> registers for it,
  and the properties range over all of them.
\<close>

section \<open>The calls\<close>

datatype csi_call =
    CallGetPluginInfo | CallGetPluginCapabilities | CallProbe
  | CallControllerGetCapabilities | CallNodeGetCapabilities
  | CallCreateVolume CreateVolumeRequest
  | CallDeleteVolume string
  | CallControllerPublishVolume ControllerPublishVolumeRequest
  | CallControllerUnpublishVolume ControllerUnpublishVolumeRequest
  | CallValidateVolumeCapabilities ValidateVolumeCapabilitiesRequest
  | CallListVolumes ListRequest
  | CallControllerExpandVolume ControllerExpandVolumeRequest
  | CallControllerGetVolume string
  | CallCreateSnapshot CreateSnapshotRequest
  | CallDeleteSnapshot string
  | CallListSnapshots ListRequest
  | CallNodeStageVolume NodeStageVolumeRequest
  | CallNodeUnstageVolume string string
  | CallNodePublishVolume NodePublishVolumeRequest
  | CallNodeUnpublishVolume string string
  | CallNodeGetVolumeStats string
  | CallNodeExpandVolume NodeExpandVolumeRequest
  | CallNodeGetInfo

datatype csi_reply =
    ReplyInfo string string | ReplyCapabilities "PluginCapability list" | ReplyReady bool
  | ReplyControllerCapabilities "ControllerRPC list" | ReplyNodeCapabilities "NodeRPC list"
  | ReplyVolume csi_Volume | ReplyEmpty | ReplyContext gomap
  | ReplyValidated ValidateVolumeCapabilitiesResponse
  | ReplyVolumes "csi_Volume list" string | ReplyExpanded ControllerExpandVolumeResponse
  | ReplySnapshot csi_Snapshot | ReplySnapshots "csi_Snapshot list" string
  | ReplyUsage "VolumeUsage list" | ReplyBytes i64 | ReplyNode NodeGetInfoResponse

definition reply :: "('a \<Rightarrow> csi_reply) \<Rightarrow> ('a, 's) result \<Rightarrow> (csi_reply, 's) result" where
  "reply f q = (map_sum (\<lambda>e. e) f (fst q), snd q)"

fun serve :: "'s Context \<Rightarrow> 's Driver \<Rightarrow> csi_call \<Rightarrow> 's DState \<Rightarrow> (csi_reply, 's DState) result" where
  "serve ctx d CallGetPluginInfo st = (Inr (case_prod ReplyInfo (GetPluginInfo d)), st)"
| "serve ctx d CallGetPluginCapabilities st = (Inr (ReplyCapabilities (GetPluginCapabilities d)), st)"
| "serve ctx d CallProbe st = (Inr (ReplyReady (Probe d)), st)"
| "serve ctx d CallControllerGetCapabilities st = (Inr (ReplyControllerCapabilities ControllerGetCapabilities), st)"
| "serve ctx d CallNodeGetCapabilities st = (Inr (ReplyNodeCapabilities NodeGetCapabilities), st)"
| "serve ctx d (CallCreateVolume req) st = reply ReplyVolume (CreateVolume ctx d req st)"
| "serve ctx d (CallDeleteVolume v) st = reply (\<lambda>_. ReplyEmpty) (DeleteVolume d v st)"
| "serve ctx d (CallControllerPublishVolume req) st = reply ReplyContext (ControllerPublishVolume d req st)"
| "serve ctx d (CallControllerUnpublishVolume req) st = reply (\<lambda>_. ReplyEmpty) (ControllerUnpublishVolume d req st)"
| "serve ctx d (CallValidateVolumeCapabilities req) st = reply ReplyValidated (ValidateVolumeCapabilities req, st)"
| "serve ctx d (CallListVolumes req) st = reply (case_prod ReplyVolumes) (ListVolumes d req st)"
| "serve ctx d (CallControllerExpandVolume req) st = reply ReplyExpanded (ControllerExpandVolume d req st)"
| "serve ctx d (CallControllerGetVolume v) st = reply ReplyVolume (ControllerGetVolume d v st)"
| "serve ctx d (CallCreateSnapshot req) st = reply ReplySnapshot (CreateSnapshot ctx d req st)"
| "serve ctx d (CallDeleteSnapshot v) st = reply (\<lambda>_. ReplyEmpty) (DeleteSnapshot d v st)"
| "serve ctx d (CallListSnapshots req) st = reply (case_prod ReplySnapshots) (ListSnapshots d req st)"
| "serve ctx d (CallNodeStageVolume req) st = reply (\<lambda>_. ReplyEmpty) (NodeStageVolume d req st)"
| "serve ctx d (CallNodeUnstageVolume v p) st = reply (\<lambda>_. ReplyEmpty) (NodeUnstageVolume d v p st)"
| "serve ctx d (CallNodePublishVolume req) st = reply (\<lambda>_. ReplyEmpty) (NodePublishVolume d req st)"
| "serve ctx d (CallNodeUnpublishVolume v p) st = reply (\<lambda>_. ReplyEmpty) (NodeUnpublishVolume d v p st)"
| "serve ctx d (CallNodeGetVolumeStats p) st = reply ReplyUsage (NodeGetVolumeStats d p st)"
| "serve ctx d (CallNodeExpandVolume req) st = reply ReplyBytes (NodeExpandVolume d req st)"
| "serve ctx d CallNodeGetInfo st = reply ReplyNode (NodeGetInfo d st)"

fun serve_all :: "'s Context \<Rightarrow> 's Driver \<Rightarrow> csi_call list \<Rightarrow> 's DState \<Rightarrow> 's DState" where
  "serve_all ctx d [] st = st"
| "serve_all ctx d (call # calls) st = serve_all ctx d calls (snd (serve ctx d call st))"

lemma reply_simps [simp]: "snd (reply f q) = snd q" "fst (reply f q) = Inl e \<longleftrightarrow> fst q = Inl e"
  by (auto simp: reply_def map_sum_def split: sum.splits)

lemmas handler_defs = CreateVolume_def DeleteVolume_def ControllerPublishVolume_def
  ControllerUnpublishVolume_def ListVolumes_def ControllerExpandVolume_def ControllerGetVolume_def
  CreateSnapshot_def DeleteSnapshot_def ListSnapshots_def NodeStageVolume_def NodeUnstageVolume_def
  NodePublishVolume_def NodeUnpublishVolume_def NodeGetVolumeStats_def NodeExpandVolume_def NodeGetInfo_def

section \<open>Locks\<close>

text \<open>Every handler returns with the lock tables as it found them, however it ends.\<close>

lemma serve_keeps_locks: "same_locks st (snd (serve ctx d call st))"
  by (cases call) (auto simp: handler_defs Let_def intro: frame_rules split: option.splits sum.splits prod.splits)

text \<open>The lock a call needs: of the volume it names, or of a name.\<close>

fun blocked :: "csi_call \<Rightarrow> 's DState \<Rightarrow> bool" where
  "blocked (CallCreateVolume req) st = (cvr_name req \<in> names st)"
| "blocked (CallDeleteVolume v) st = (v \<in> locks st)"
| "blocked (CallControllerPublishVolume req) st = (cpr_volume_id req \<in> locks st)"
| "blocked (CallControllerUnpublishVolume req) st = (cur_volume_id req \<in> locks st)"
| "blocked (CallControllerExpandVolume req) st = (cer_volume_id req \<in> locks st)"
| "blocked (CallCreateSnapshot req) st = (''snapshot:'' @ csr_name req \<in> names st)"
| "blocked _ st = False"

text \<open>The checks on a request's own fields that a handler makes before it asks for the lock.\<close>

fun admissible :: "'s Driver \<Rightarrow> csi_call \<Rightarrow> bool" where
  "admissible d (CallCreateVolume req) = (validateCapabilities (cvr_volume_capabilities req) = None \<and>
     isl (volumeSpec req (drv_config d)) = False)"
| "admissible d (CallDeleteVolume v) = (v \<noteq> '''')"
| "admissible d (CallControllerPublishVolume req) = (cpr_volume_id req \<noteq> '''' \<and> cpr_node_id req \<noteq> '''')"
| "admissible d (CallControllerUnpublishVolume req) = (cur_volume_id req \<noteq> '''' \<and> cur_node_id req \<noteq> '''')"
| "admissible d (CallControllerExpandVolume req) = (cer_volume_id req \<noteq> '''')"
| "admissible d (CallCreateSnapshot req) = (csr_name req \<noteq> '''' \<and> csr_source_volume_id req \<noteq> '''')"
| "admissible d _ = True"

lemma serve_blocked_state: "blocked call st \<Longrightarrow> snd (serve ctx d call st) = st"
  by (cases call) (auto simp: handler_defs with_volume_lock_taken with_name_lock_taken
      split: option.splits sum.splits)

lemma serve_blocked_code: "blocked call st \<Longrightarrow> admissible d call \<Longrightarrow>
    \<exists>m. fst (serve ctx d call st) = Inl (Status codes_Aborted m)"
  by (cases call) (auto simp: handler_defs with_volume_lock_taken with_name_lock_taken
      split: option.splits sum.splits)

section \<open>Errors\<close>

lemma fst_InlI: "q = (Inl e, s) \<Longrightarrow> fst q = Inl e"
  by simp

lemma with_volume_lock_status:
  "(\<And>s e. fst (body s) = Inl e \<Longrightarrow> status_FromError e) \<Longrightarrow>
     fst (with_volume_lock v body st) = Inl e \<Longrightarrow> status_FromError e"
  by (auto simp: with_volume_lock_def split: option.splits prod.splits) (metis fst_conv)

lemma with_name_lock_status:
  "(\<And>s e. fst (body s) = Inl e \<Longrightarrow> status_FromError e) \<Longrightarrow>
     fst (with_name_lock v m body st) = Inl e \<Longrightarrow> status_FromError e"
  by (auto simp: with_name_lock_def split: option.splits prod.splits) (metis fst_conv)

lemma on_world_status:
  "(\<And>s e. fst (body s) = Inl e \<Longrightarrow> status_FromError e) \<Longrightarrow>
     fst (on_world body st) = Inl e \<Longrightarrow> status_FromError e"
  by (auto simp: on_world_def split: prod.splits) (metis fst_conv)

lemma reconcile_created_status:
  "fst (reconcile_created ctx fetch ident a prev stb delay s) = Inl e \<Longrightarrow> status_FromError e"
  by (induction ctx fetch ident a prev stb delay s rule: reconcile_created.induct)
     (auto simp: Let_def split: prod.splits sum.splits if_splits)

lemma requestedBytes_status: "requestedBytes c m g = Inl e \<Longrightarrow> status_FromError e"
  by (auto simp: requestedBytes_def Let_def split: if_splits)

lemma volumeSpec_status: "volumeSpec req cfg = Inl e \<Longrightarrow> status_FromError e"
  by (auto simp: volumeSpec_def Let_def requestedBytes_status split: if_splits option.splits sum.splits)

lemma verifiedResponse_status: "fst (verifiedResponse d v spec s) = Inl e \<Longrightarrow> status_FromError e"
  by (auto simp: verifiedResponse_def verifyVolume_def Let_def different_parameters_def
      split: prod.splits sum.splits if_splits)

lemma CreateVolume_locked_status: "fst (CreateVolume_locked ctx d spec s) = Inl e \<Longrightarrow> status_FromError e"
  by (auto simp: CreateVolume_locked_def reconcileCreatedVolume_def
      split: prod.splits sum.splits if_splits
      dest: verifiedResponse_status reconcile_created_status [OF fst_InlI])

lemma CreateSnapshot_locked_status: "fst (CreateSnapshot_locked d ctx req s) = Inl e \<Longrightarrow> status_FromError e"
  by (auto simp: CreateSnapshot_locked_def reconcileCreatedSnapshot_def Let_def
      split: prod.splits sum.splits if_splits
      dest: reconcile_created_status [OF fst_InlI])

lemmas body_status = with_volume_lock_status with_name_lock_status on_world_status

lemma ControllerPublishVolume_locked_status:
  "fst (ControllerPublishVolume_locked d req s) = Inl e \<Longrightarrow> status_FromError e"
  by (auto simp: ControllerPublishVolume_locked_def Let_def split: prod.splits sum.splits if_splits)

lemma ControllerUnpublishVolume_locked_status:
  "fst (ControllerUnpublishVolume_locked d req s) = Inl e \<Longrightarrow> status_FromError e"
  by (auto simp: ControllerUnpublishVolume_locked_def Let_def split: prod.splits sum.splits if_splits)

lemma ControllerExpandVolume_locked_status:
  "fst (ControllerExpandVolume_locked d req s) = Inl e \<Longrightarrow> status_FromError e"
  by (auto simp: ControllerExpandVolume_locked_def requestedBytes_status split: prod.splits sum.splits if_splits)

lemma DeleteVolume_locked_status: "fst (DeleteVolume_locked d v s) = Inl e \<Longrightarrow> status_FromError e"
  by (auto simp: DeleteVolume_locked_def split: prod.splits sum.splits if_splits)

lemma CreateVolume_status: "fst (CreateVolume ctx d req st) = Inl e \<Longrightarrow> status_FromError e"
  by (auto simp: CreateVolume_def volumeSpec_status split: option.splits sum.splits prod.splits
      dest!: with_name_lock_status [rotated] intro: CreateVolume_locked_status)

lemma CreateSnapshot_status: "fst (CreateSnapshot ctx d req st) = Inl e \<Longrightarrow> status_FromError e"
  by (auto simp: CreateSnapshot_def split: if_splits
      dest!: with_name_lock_status [rotated] intro: CreateSnapshot_locked_status)

lemma volume_handlers_status:
  "fst (DeleteVolume d v st) = Inl e \<Longrightarrow> status_FromError e"
  "fst (ControllerPublishVolume d preq st) = Inl e \<Longrightarrow> status_FromError e"
  "fst (ControllerUnpublishVolume d ureq st) = Inl e \<Longrightarrow> status_FromError e"
  "fst (ControllerExpandVolume d ereq st) = Inl e \<Longrightarrow> status_FromError e"
  by (auto simp: handler_defs split: if_splits dest!: with_volume_lock_status [rotated]
      intro: DeleteVolume_locked_status ControllerPublishVolume_locked_status
        ControllerUnpublishVolume_locked_status ControllerExpandVolume_locked_status)

lemma other_handlers_status:
  "fst (ListVolumes d lreq st) = Inl e \<Longrightarrow> status_FromError e"
  "fst (ControllerGetVolume d v st) = Inl e \<Longrightarrow> status_FromError e"
  "fst (DeleteSnapshot d v st) = Inl e \<Longrightarrow> status_FromError e"
  "fst (ListSnapshots d lreq st) = Inl e \<Longrightarrow> status_FromError e"
  "fst (NodeStageVolume d sreq st) = Inl e \<Longrightarrow> status_FromError e"
  "fst (NodeUnstageVolume d v p st) = Inl e \<Longrightarrow> status_FromError e"
  "fst (NodePublishVolume d npreq st) = Inl e \<Longrightarrow> status_FromError e"
  "fst (NodeUnpublishVolume d v p st) = Inl e \<Longrightarrow> status_FromError e"
  "fst (NodeGetVolumeStats d p st) = Inl e \<Longrightarrow> status_FromError e"
  "fst (NodeExpandVolume d nereq st) = Inl e \<Longrightarrow> status_FromError e"
  "fst (NodeGetInfo d st) = Inl e \<Longrightarrow> status_FromError e"
  by (auto simp: handler_defs on_world_def Let_def
      split: if_splits prod.splits sum.splits option.splits)

lemma serve_status: "fst (serve ctx d call st) = Inl e \<Longrightarrow> status_FromError e"
  by (cases call) (auto simp: ValidateVolumeCapabilities_def Let_def split: if_splits dest: CreateVolume_status CreateSnapshot_status
      volume_handlers_status other_handlers_status)

section \<open>The world\<close>

text \<open>One call on an interface the driver was given, or on a timer of the request's context.\<close>

inductive driver_step :: "'s Context \<Rightarrow> 's Driver \<Rightarrow> 's \<Rightarrow> 's \<Rightarrow> bool" for ctx d where
  "ctx_timer ctx n s = (b, s') \<Longrightarrow> driver_step ctx d s s'"
| "cloud_CreateVolume (drv_cloud d) spec s = (rv, s') \<Longrightarrow> driver_step ctx d s s'"
| "cloud_GetVolumeByID (drv_cloud d) vid s = (rv, s') \<Longrightarrow> driver_step ctx d s s'"
| "cloud_ListVolumes (drv_cloud d) page s = (rvs, s') \<Longrightarrow> driver_step ctx d s s'"
| "cloud_DeleteVolume (drv_cloud d) vid s = (ru, s') \<Longrightarrow> driver_step ctx d s s'"
| "cloud_ResizeVolume (drv_cloud d) vid bytes zone s = (rb, s') \<Longrightarrow> driver_step ctx d s s'"
| "cloud_AttachVolume (drv_cloud d) vid iid zone s = (rp, s') \<Longrightarrow> driver_step ctx d s s'"
| "cloud_DetachVolume (drv_cloud d) vid iid zone s = (ru, s') \<Longrightarrow> driver_step ctx d s s'"
| "cloud_CreateSnapshot (drv_cloud d) sspec s = (rs, s') \<Longrightarrow> driver_step ctx d s s'"
| "cloud_DeleteSnapshot (drv_cloud d) sid zone s = (ru, s') \<Longrightarrow> driver_step ctx d s s'"
| "cloud_ListSnapshots (drv_cloud d) page s = (rss, s') \<Longrightarrow> driver_step ctx d s s'"
| "cloud_GetInstanceMetadata (drv_cloud d) s = (rm, s') \<Longrightarrow> driver_step ctx d s s'"
| "mnt_IsMounted (drv_mount d) path s = (rt, s') \<Longrightarrow> driver_step ctx d s s'"
| "mnt_Stage (drv_mount d) device path fs flags s = (ru, s') \<Longrightarrow> driver_step ctx d s s'"
| "mnt_Publish (drv_mount d) device path ro block flags s = (ru, s') \<Longrightarrow> driver_step ctx d s s'"
| "mnt_Unmount (drv_mount d) path s = (ru, s') \<Longrightarrow> driver_step ctx d s s'"
| "mnt_Stats (drv_mount d) path block s = (rst, s') \<Longrightarrow> driver_step ctx d s s'"
| "mnt_IsBlock (drv_mount d) path s = (rt, s') \<Longrightarrow> driver_step ctx d s s'"
| "mnt_Expand (drv_mount d) path fs s = (ru, s') \<Longrightarrow> driver_step ctx d s s'"
| "mnt_FindDevice (drv_mount d) vid hint s = (rp, s') \<Longrightarrow> driver_step ctx d s s'"

abbreviation driver_run :: "'s Context \<Rightarrow> 's Driver \<Rightarrow> 's \<Rightarrow> 's \<Rightarrow> bool" where
  "driver_run ctx d \<equiv> (driver_step ctx d)\<^sup>*\<^sup>*"

lemmas driver_stepD = driver_step.intros [where ctx = ctx and d = d for ctx d]

lemmas run_step = rtranclp.rtrancl_into_rtrancl [where r = "driver_step ctx d" for ctx d]

lemma delete_duplicates_run:
  "delete_duplicates (drv_cloud d) dups s = (r, s') \<Longrightarrow> driver_run ctx d s s'"
proof (induction dups arbitrary: s)
  case (Cons v dups)
  obtain r1 s1 where f: "cloud_DeleteVolume (drv_cloud d) (vol_ID v) s = (r1, s1)" by fastforce
  then have "driver_run ctx d s s1" by (blast intro: driver_step.intros)
  moreover have "delete_duplicates (drv_cloud d) dups s = (r, s') \<or>
      delete_duplicates (drv_cloud d) dups s1 = (r, s') \<or> s' = s1"
    using Cons.prems f by (auto split: sum.splits if_splits)
  ultimately show ?case using Cons.IH by (meson rtranclp_trans)
qed simp

lemma delete_duplicate_snapshots_run:
  "delete_duplicate_snapshots (drv_cloud d) zone dups s = (r, s') \<Longrightarrow> driver_run ctx d s s'"
proof (induction dups arbitrary: s)
  case (Cons v dups)
  obtain r1 s1 where f: "cloud_DeleteSnapshot (drv_cloud d) (snap_ID v) zone s = (r1, s1)" by fastforce
  then have "driver_run ctx d s s1" by (blast intro: driver_step.intros)
  moreover have "delete_duplicate_snapshots (drv_cloud d) zone dups s1 = (r, s') \<or> s' = s1"
    using Cons.prems f by (auto split: sum.splits if_splits)
  ultimately show ?case using Cons.IH by (meson rtranclp_trans)
qed simp

lemma reconcileVolumeByName_run:
  assumes "reconcileVolumeByName d spec s = (r, s')"
  shows "driver_run ctx d s s'"
proof -
  let ?p = "\<lparr>page_Token = '''', page_Size = 0, page_Name = spec_Name spec,
              page_AvailabilityZone = spec_AvailabilityZone spec\<rparr>"
  obtain r1 s1 where f: "cloud_ListVolumes (drv_cloud d) ?p s = (r1, s1)" by fastforce
  then have "driver_run ctx d s s1" by (blast intro: driver_step.intros)
  moreover have "s' = s1 \<or> (\<exists>dups r2. delete_duplicates (drv_cloud d) dups s1 = (r2, s'))"
    using assms f by (auto simp: reconcileVolumeByName_def split: sum.splits list.splits prod.splits)
  ultimately show ?thesis using delete_duplicates_run [where ctx = ctx] by (meson rtranclp_trans)
qed

lemma reconcileSnapshotByName_run:
  assumes "reconcileSnapshotByName d name source zone s = (r, s')"
  shows "driver_run ctx d s s'"
proof -
  let ?p = "\<lparr>page_Token = '''', page_Size = 0, page_Name = name, page_AvailabilityZone = zone\<rparr>"
  obtain r1 s1 where f: "cloud_ListSnapshots (drv_cloud d) ?p s = (r1, s1)" by fastforce
  then have "driver_run ctx d s s1" by (blast intro: driver_step.intros)
  moreover have "s' = s1 \<or> (\<exists>dups r2. delete_duplicate_snapshots (drv_cloud d) zone dups s1 = (r2, s'))"
    using assms f by (auto simp: reconcileSnapshotByName_def split: sum.splits list.splits prod.splits)
  ultimately show ?thesis using delete_duplicate_snapshots_run [where ctx = ctx] by (meson rtranclp_trans)
qed

lemma reconcile_created_run:
  assumes fetch: "\<And>s r s'. fetch s = (r, s') \<Longrightarrow> driver_run ctx d s s'"
  shows "reconcile_created ctx fetch ident a prev stb delay s = (r, s') \<Longrightarrow> driver_run ctx d s s'"
proof (induction a arbitrary: prev stb delay s)
  case 0
  then show ?case using fetch by (auto split: prod.splits sum.splits if_splits)
next
  case (Suc a)
  obtain r1 s1 where f: "fetch s = (r1, s1)" by fastforce
  obtain b s2 where t: "ctx_timer ctx delay s1 = (b, s2)" by fastforce
  have 1: "driver_run ctx d s s1" using fetch [OF f] .
  have 2: "driver_run ctx d s s2" using 1 t by (meson run_step driver_step.intros(1))
  from reconcile_created_step [OF Suc.prems f t] 1 2 Suc.IH show ?case by (meson rtranclp_trans)
qed

lemma verifiedResponse_run: "verifiedResponse d v spec s = (r, s') \<Longrightarrow> driver_run ctx d s s'"
proof -
  assume "verifiedResponse d v spec s = (r, s')"
  then have "cloud_GetVolumeByID (drv_cloud d) (vol_ID v) s =
      (fst (cloud_GetVolumeByID (drv_cloud d) (vol_ID v) s), s')"
    using verifiedResponse_world [of d v spec s] by (metis prod.collapse snd_conv)
  then show ?thesis by (blast intro: driver_step.intros)
qed

text \<open>Chaining what the parts of a handler do: facts about each part, then transitivity.\<close>

lemma run_into: "driver_run ctx d s t \<Longrightarrow> driver_run ctx d t u \<Longrightarrow> driver_run ctx d s u"
  by (rule rtranclp_trans)

lemma CreateVolume_locked_run:
  assumes "CreateVolume_locked ctx d spec s = (r, s')"
  shows "driver_run ctx d s s'"
proof -
  obtain r1 s1 where f1: "reconcileVolumeByName d spec s = (r1, s1)" by fastforce
  obtain r2 s2 where f2: "cloud_CreateVolume (drv_cloud d) spec s1 = (r2, s2)" by fastforce
  obtain r3 s3 where f3: "reconcileVolumeByName d spec s2 = (r3, s3)" by fastforce
  obtain r4 s4 where f4: "reconcileCreatedVolume ctx d spec s2 = (r4, s4)" by fastforce
  have k1: "driver_run ctx d s s1" using f1 by (rule reconcileVolumeByName_run)
  have k2: "driver_run ctx d s s2" using k1 f2 by (meson run_step driver_step.intros(2))
  have k3: "driver_run ctx d s s3" using k2 reconcileVolumeByName_run [OF f3] by (rule run_into)
  have "driver_run ctx d s2 s4"
    using f4 unfolding reconcileCreatedVolume_def
    by (rule reconcile_created_run [rotated]) (rule reconcileVolumeByName_run)
  with k2 have k4: "driver_run ctx d s s4" by (rule run_into)
  have "s' \<in> {s1, s2, s3, s4} \<or> (\<exists>t \<in> {s1, s3, s4}. \<exists>v. verifiedResponse d v spec t = (r, s'))"
    using assms f1 f2 f3 f4 by (auto simp: CreateVolume_locked_def split: sum.splits if_splits)
  then show ?thesis
    using k1 k2 k3 k4 by (auto dest!: verifiedResponse_run [where ctx = ctx] intro: run_into)
qed

lemma CreateSnapshot_locked_run:
  assumes "CreateSnapshot_locked ctx d req s = (r, s')"
  shows "driver_run ctx d s s'"
proof -
  obtain r1 s1 where f1: "cloud_GetVolumeByID (drv_cloud d) (csr_source_volume_id req) s = (r1, s1)" by fastforce
  have k1: "driver_run ctx d s s1" using f1 by (blast intro: driver_step.intros)
  show ?thesis
  proof (cases r1)
    case (Inl e)
    with assms f1 k1 show ?thesis by (simp add: CreateSnapshot_locked_def)
  next
    case (Inr volume)
    define zone where "zone = cmp_Or [vol_AvailabilityZone volume, cfg_AvailabilityZone (drv_config d)]"
    define sspec where "sspec = \<lparr>snapspec_Name = csr_name req, snapspec_VolumeID = csr_source_volume_id req,
        snapspec_ProjectID = cfg_ProjectID (drv_config d), snapspec_AvailabilityZone = zone,
        snapspec_Force = True, snapspec_Metadata = [(''csi.driver'', cfg_DriverName (drv_config d))]\<rparr>"
    obtain r2 s2 where f2: "reconcileSnapshotByName d (csr_name req) (csr_source_volume_id req) zone s1 = (r2, s2)"
      by fastforce
    obtain r3 s3 where f3: "cloud_CreateSnapshot (drv_cloud d) sspec s2 = (r3, s3)" by fastforce
    obtain r4 s4 where f4: "reconcileCreatedSnapshot ctx d (csr_name req) (csr_source_volume_id req) zone s3 = (r4, s4)"
      by fastforce
    have k2: "driver_run ctx d s s2" using k1 reconcileSnapshotByName_run [OF f2] by (rule run_into)
    have k3: "driver_run ctx d s s3" using k2 f3 by (meson run_step driver_step.intros(9))
    have "driver_run ctx d s3 s4"
      using f4 unfolding reconcileCreatedSnapshot_def
      by (rule reconcile_created_run [rotated]) (rule reconcileSnapshotByName_run)
    with k3 have k4: "driver_run ctx d s s4" by (rule run_into)
    have "s' \<in> {s2, s3, s4}"
      using assms f1 Inr f2 f3 f4 unfolding CreateSnapshot_locked_def sspec_def zone_def
      by (auto simp: Let_def split: sum.splits if_splits)
    with k2 k3 k4 show ?thesis by blast
  qed
qed

text \<open>The handlers whose body is a short sequence of calls: each call is one step.\<close>

lemma with_volume_lock_run:
  "(\<And>s r s'. body s = (r, s') \<Longrightarrow> driver_run ctx d s s') \<Longrightarrow>
     driver_run ctx d (world st) (world (snd (with_volume_lock v body st)))"
  by (simp add: with_volume_lock_def split: option.splits prod.splits)

lemma with_name_lock_run:
  "(\<And>s r s'. body s = (r, s') \<Longrightarrow> driver_run ctx d s s') \<Longrightarrow>
     driver_run ctx d (world st) (world (snd (with_name_lock v m body st)))"
  by (simp add: with_name_lock_def split: option.splits prod.splits)

lemma on_world_run:
  "(\<And>s r s'. body s = (r, s') \<Longrightarrow> driver_run ctx d s s') \<Longrightarrow>
     driver_run ctx d (world st) (world (snd (on_world body st)))"
  by (simp add: on_world_def split: prod.splits)

lemmas lock_run = with_volume_lock_run with_name_lock_run on_world_run

lemma DeleteVolume_locked_run: "DeleteVolume_locked d v s = (r, s') \<Longrightarrow> driver_run ctx d s s'"
  by (auto simp: DeleteVolume_locked_def split: prod.splits sum.splits if_splits
      dest!: driver_step.intros(5) [where ctx = ctx])

lemma ControllerPublishVolume_locked_run:
  "ControllerPublishVolume_locked d req s = (r, s') \<Longrightarrow> driver_run ctx d s s'"
  by (auto simp: ControllerPublishVolume_locked_def attachedDeviceAfterPublishError_def Let_def
      split: prod.splits sum.splits if_splits
      dest!: driver_step.intros(3,7) [where ctx = ctx] intro: run_step)

lemma ControllerUnpublishVolume_locked_run:
  "ControllerUnpublishVolume_locked d req s = (r, s') \<Longrightarrow> driver_run ctx d s s'"
  by (auto simp: ControllerUnpublishVolume_locked_def Let_def
      split: prod.splits sum.splits if_splits
      dest!: driver_step.intros(3,8) [where ctx = ctx] intro: run_step)

lemma ControllerExpandVolume_locked_run:
  "ControllerExpandVolume_locked d req s = (r, s') \<Longrightarrow> driver_run ctx d s s'"
  by (auto simp: ControllerExpandVolume_locked_def
      split: prod.splits sum.splits if_splits
      dest!: driver_step.intros(3,6) [where ctx = ctx] intro: run_step)

lemma volume_handlers_run:
  "driver_run ctx d (world st) (world (snd (CreateVolume ctx d creq st)))"
  "driver_run ctx d (world st) (world (snd (DeleteVolume d v st)))"
  "driver_run ctx d (world st) (world (snd (ControllerPublishVolume d preq st)))"
  "driver_run ctx d (world st) (world (snd (ControllerUnpublishVolume d ureq st)))"
  "driver_run ctx d (world st) (world (snd (ControllerExpandVolume d ereq st)))"
  "driver_run ctx d (world st) (world (snd (CreateSnapshot ctx d sreq st)))"
  unfolding handler_defs
  by (auto split: option.splits sum.splits intro!: lock_run dest!: CreateVolume_locked_run
      CreateSnapshot_locked_run DeleteVolume_locked_run [where ctx = ctx]
      ControllerPublishVolume_locked_run [where ctx = ctx]
      ControllerUnpublishVolume_locked_run [where ctx = ctx]
      ControllerExpandVolume_locked_run [where ctx = ctx])

lemma list_handlers_run:
  "driver_run ctx d (world st) (world (snd (ListVolumes d lreq st)))"
  "driver_run ctx d (world st) (world (snd (ControllerGetVolume d v st)))"
  "driver_run ctx d (world st) (world (snd (DeleteSnapshot d v st)))"
  "driver_run ctx d (world st) (world (snd (ListSnapshots d lreq st)))"
  "driver_run ctx d (world st) (world (snd (NodeGetInfo d st)))"
  unfolding handler_defs
  by (auto simp: Let_def split: prod.splits sum.splits if_splits intro!: on_world_run
      dest!: driver_step.intros(3,4,10,11,12) [where ctx = ctx])

lemma node_handlers_run:
  "driver_run ctx d (world st) (world (snd (NodeStageVolume d nsreq st)))"
  "driver_run ctx d (world st) (world (snd (NodeUnstageVolume d v p st)))"
  "driver_run ctx d (world st) (world (snd (NodePublishVolume d npreq st)))"
  "driver_run ctx d (world st) (world (snd (NodeUnpublishVolume d v p st)))"
  "driver_run ctx d (world st) (world (snd (NodeGetVolumeStats d p st)))"
  "driver_run ctx d (world st) (world (snd (NodeExpandVolume d nereq st)))"
  unfolding handler_defs
  by (auto simp: Let_def split: prod.splits sum.splits if_splits option.splits intro!: on_world_run
      dest!: driver_step.intros(13-20) [where ctx = ctx] intro: run_step)

lemma serve_run: "driver_run ctx d (world st) (world (snd (serve ctx d call st)))"
  by (cases call) (simp_all add: volume_handlers_run list_handlers_run node_handlers_run)

lemma serve_all_run: "driver_run ctx d (world st) (world (serve_all ctx d calls st))"
proof (induction calls arbitrary: st)
  case (Cons call calls)
  show ?case using serve_run [of ctx d st call] Cons.IH [of "snd (serve ctx d call st)"]
    by (auto intro: run_into)
qed simp

section \<open>The retry loop is bounded\<close>

text \<open>
  \<open>lists\<close> and \<open>clock\<close> read two numbers off the world: how often the volumes were listed, and the
  milliseconds that passed in timers.
\<close>

lemma reconcile_created_bounds:
  fixes lists clock :: "'s \<Rightarrow> nat"
  assumes fetch: "\<And>s. lists (snd (fetch s)) \<le> lists s + 1 \<and> clock (snd (fetch s)) = clock s"
    and timer: "\<And>n s. lists (snd (ctx_timer ctx n s)) = lists s \<and> clock (snd (ctx_timer ctx n s)) \<le> clock s + n"
  shows "lists (snd (reconcile_created ctx fetch ident a prev stb delay s)) \<le> lists s + Suc a \<and>
    clock (snd (reconcile_created ctx fetch ident a prev stb delay s)) + delay \<le> clock s + delay * 2 ^ a"
proof (induction a arbitrary: prev stb delay s)
  case 0
  then show ?case using fetch [of s] by (auto split: prod.splits sum.splits)
next
  case (Suc a)
  obtain r s' where eq: "reconcile_created ctx fetch ident (Suc a) prev stb delay s = (r, s')" by fastforce
  obtain r1 s1 where f: "fetch s = (r1, s1)" by fastforce
  obtain b s2 where t: "ctx_timer ctx delay s1 = (b, s2)" by fastforce
  have 1: "lists s1 \<le> lists s + 1" "clock s1 = clock s" using fetch [of s] f by auto
  have 2: "lists s2 = lists s1" "clock s2 \<le> clock s1 + delay" using timer [of delay s1] t by auto
  have pow: "delay * 2 \<le> delay * 2 ^ Suc a" by simp
  have at_s1: "lists s1 \<le> lists s + Suc (Suc a) \<and> clock s1 + delay \<le> clock s + delay * 2 ^ Suc a"
    using 1 pow by (intro conjI) linarith+
  have at_s2: "lists s2 \<le> lists s + Suc (Suc a) \<and> clock s2 + delay \<le> clock s + delay * 2 ^ Suc a"
    using 1 2 pow by (intro conjI) linarith+
  from reconcile_created_step [OF eq f t] consider "s' = s1" | "s' = s2"
    | p k where "reconcile_created ctx fetch ident a p k (delay * 2) s2 = (r, s')" by blast
  then have "lists s' \<le> lists s + Suc (Suc a) \<and> clock s' + delay \<le> clock s + delay * 2 ^ Suc a"
  proof cases
    case 3
    then show ?thesis using Suc.IH [of p k "delay * 2" s2] 1 2 by simp
  qed (use at_s1 at_s2 in simp_all)
  with eq show ?case by simp
qed

lemma delete_duplicates_bounds:
  fixes lists clock :: "'s \<Rightarrow> nat"
  assumes "\<And>v s. lists (snd (cloud_DeleteVolume c v s)) = lists s \<and> clock (snd (cloud_DeleteVolume c v s)) = clock s"
  shows "lists (snd (delete_duplicates c dups s)) = lists s \<and> clock (snd (delete_duplicates c dups s)) = clock s"
proof (induction dups arbitrary: s)
  case (Cons v dups)
  obtain r1 s1 where d: "cloud_DeleteVolume c (vol_ID v) s = (r1, s1)" by fastforce
  then have "lists s1 = lists s" "clock s1 = clock s" using assms [of "vol_ID v" s] by auto
  with d Cons.IH [of s] Cons.IH [of s1] show ?case by (simp split: sum.splits)
qed simp

lemma reconcileVolumeByName_bounds:
  fixes lists clock :: "'s \<Rightarrow> nat"
  assumes list: "\<And>p s. lists (snd (cloud_ListVolumes (drv_cloud d) p s)) = lists s + 1 \<and>
        clock (snd (cloud_ListVolumes (drv_cloud d) p s)) = clock s"
    and delete: "\<And>v s. lists (snd (cloud_DeleteVolume (drv_cloud d) v s)) = lists s \<and>
        clock (snd (cloud_DeleteVolume (drv_cloud d) v s)) = clock s"
  shows "lists (snd (reconcileVolumeByName d spec s)) = lists s + 1 \<and>
    clock (snd (reconcileVolumeByName d spec s)) = clock s"
proof -
  let ?p = "\<lparr>page_Token = '''', page_Size = 0, page_Name = spec_Name spec,
              page_AvailabilityZone = spec_AvailabilityZone spec\<rparr>"
  obtain r1 s1 where l: "cloud_ListVolumes (drv_cloud d) ?p s = (r1, s1)" by fastforce
  have 1: "lists s1 = lists s + 1" "clock s1 = clock s" using list [of ?p s] l by auto
  have 2: "lists s2 = lists s1 \<and> clock s2 = clock s1" if "delete_duplicates (drv_cloud d) dups s1 = (r2, s2)"
    for dups r2 s2
    using delete_duplicates_bounds [of lists "drv_cloud d" clock dups s1, OF delete] that by simp
  show ?thesis using l 1 2
    by (auto simp: reconcileVolumeByName_def split: sum.splits list.splits prod.splits)
qed

text \<open>
  C12. Bounded waiting.  After a creation, \<open>reconcileCreatedVolume\<close> lists the volumes at most 8
  times and lets at most 12.7 seconds pass in its timers, whatever the provider answers.
\<close>

theorem reconcileCreatedVolume_bounded:
  fixes lists clock :: "'s \<Rightarrow> nat"
  assumes list: "\<And>p s. lists (snd (cloud_ListVolumes (drv_cloud d) p s)) = lists s + 1 \<and>
        clock (snd (cloud_ListVolumes (drv_cloud d) p s)) = clock s"
    and delete: "\<And>v s. lists (snd (cloud_DeleteVolume (drv_cloud d) v s)) = lists s \<and>
        clock (snd (cloud_DeleteVolume (drv_cloud d) v s)) = clock s"
    and timer: "\<And>n s. lists (snd (ctx_timer ctx n s)) = lists s \<and> clock (snd (ctx_timer ctx n s)) \<le> clock s + n"
  shows "lists (snd (reconcileCreatedVolume ctx d spec s)) \<le> lists s + 8 \<and>
    clock (snd (reconcileCreatedVolume ctx d spec s)) \<le> clock s + 12700"
proof -
  have "lists (snd (reconcileVolumeByName d spec t)) \<le> lists t + 1 \<and>
      clock (snd (reconcileVolumeByName d spec t)) = clock t" for t
    using reconcileVolumeByName_bounds [of lists d clock spec t, OF list delete] by simp
  from reconcile_created_bounds [of lists "reconcileVolumeByName d spec" clock ctx vol_ID
      createReconcileAttempts "''''" 0 createReconcileInitialDelay s, OF this timer]
  show ?thesis
    by (simp add: reconcileCreatedVolume_def createReconcileAttempts_def createReconcileInitialDelay_def)
qed

text \<open>A provider that never finds the volume, over a world that counts lists and milliseconds.\<close>

definition clock_cloud :: "(nat \<times> nat) Cloud" where
  "clock_cloud =
     \<lparr>cloud_CreateVolume = (\<lambda>_ s. (Inl (Sentinel ErrUnavailable), s)),
      cloud_GetVolumeByID = (\<lambda>_ s. (Inl (Sentinel ErrNotFound), s)),
      cloud_ListVolumes = (\<lambda>_ s. (Inr ([], ''''), (fst s + 1, snd s))),
      cloud_DeleteVolume = (\<lambda>_ s. (Inr (), s)),
      cloud_ResizeVolume = (\<lambda>_ _ _ s. (Inl (Sentinel ErrNotFound), s)),
      cloud_AttachVolume = (\<lambda>_ _ _ s. (Inl (Sentinel ErrNotFound), s)),
      cloud_DetachVolume = (\<lambda>_ _ _ s. (Inr (), s)),
      cloud_CreateSnapshot = (\<lambda>_ s. (Inl (Sentinel ErrNotFound), s)),
      cloud_DeleteSnapshot = (\<lambda>_ _ s. (Inr (), s)),
      cloud_ListSnapshots = (\<lambda>_ s. (Inr ([], ''''), s)),
      cloud_GetInstanceMetadata = (\<lambda>s. (Inl (Sentinel ErrUnavailable), s))\<rparr>"

definition clock_context :: "(nat \<times> nat) Context" where
  "clock_context = \<lparr>ctx_timer = (\<lambda>n s. (True, (fst s, snd s + n))), ctx_Err = (\<lambda>_. None)\<rparr>"

definition idle_mounter :: "'s Mounter" where
  "idle_mounter =
     \<lparr>mnt_IsMounted = (\<lambda>_ s. (Inr False, s)), mnt_Stage = (\<lambda>_ _ _ _ s. (Inr (), s)),
      mnt_Publish = (\<lambda>_ _ _ _ _ s. (Inr (), s)), mnt_Unmount = (\<lambda>_ s. (Inr (), s)),
      mnt_Stats = (\<lambda>_ _ s. (Inl (Sentinel ErrNotFound), s)), mnt_IsBlock = (\<lambda>_ s. (Inr False, s)),
      mnt_Expand = (\<lambda>_ _ s. (Inr (), s)), mnt_FindDevice = (\<lambda>_ p s. (Inr p, s))\<rparr>"

definition sample_config :: Config where
  "sample_config = ConfigFromEnv (\<lambda>key.
     if key = ''NOBUS_PROJECT_ID'' then ''p'' else if key = ''NOBUS_AVAILABILITY_ZONE'' then ''nova'' else '''')"

definition sample_spec :: VolumeSpec where
  "sample_spec = \<lparr>spec_Name = ''pvc-1'', spec_SizeBytes = 1073741824, spec_AvailabilityZone = ''nova'',
     spec_ProjectID = ''p'', spec_Type = '''', spec_SnapshotID = '''', spec_Encrypted = False, spec_Metadata = []\<rparr>"

definition clock_driver :: "(nat \<times> nat) Driver" where
  "clock_driver = fst (New sample_config clock_cloud idle_mounter (0, 0))"

lemma clock_simps:
  "drv_cloud clock_driver = clock_cloud"
  "cloud_ListVolumes clock_cloud p s = (Inr ([], ''''), (fst s + 1, snd s))"
  "cloud_DeleteVolume clock_cloud v s = (Inr (), s)"
  "ctx_timer clock_context n s = (True, (fst s, snd s + n))"
  by (simp_all add: clock_driver_def New_def clock_cloud_def clock_context_def)

lemma clock_reconcile: "reconcileVolumeByName clock_driver spec s = (Inl (Sentinel ErrNotFound), (fst s + 1, snd s))"
  by (simp add: reconcileVolumeByName_def clock_simps sort_by_ID_def)

lemma createReconcileAttempts_Suc: "createReconcileAttempts = Suc (Suc (Suc (Suc (Suc (Suc (Suc 0))))))"
  by (simp add: createReconcileAttempts_def)

text \<open>The bound is reached.\<close>

lemma reconcileCreatedVolume_bounded_witness:
  "fst (snd (reconcileCreatedVolume clock_context clock_driver sample_spec (0, 0))) \<le> 8 \<and>
   snd (snd (reconcileCreatedVolume clock_context clock_driver sample_spec (0, 0))) \<le> 12700 \<and>
   snd (reconcileCreatedVolume clock_context clock_driver sample_spec (0, 0)) = (8, 12700)"
proof -
  have "snd (reconcileCreatedVolume clock_context clock_driver sample_spec (0, 0)) = (8, 12700)"
    by (simp add: reconcileCreatedVolume_def createReconcileAttempts_Suc createReconcileInitialDelay_def
        clock_reconcile wait_def clock_simps)
  then show ?thesis
    using reconcileCreatedVolume_bounded [of fst clock_driver snd clock_context sample_spec "(0, 0)"]
    by (simp add: clock_simps)
qed

section \<open>Properties of every handler\<close>

text \<open>
  C15. No lock leaks.  Whatever sequence of calls a driver serves and however each of them ends,
  both lock tables are afterwards what they were before.
\<close>

theorem served_calls_release_locks:
  "locks (serve_all ctx d calls st) = locks st \<and> names (serve_all ctx d calls st) = names st"
proof (induction calls arbitrary: st)
  case (Cons call calls)
  show ?case using Cons.IH [of "snd (serve ctx d call st)"] serve_keeps_locks [of st ctx d call]
    by (simp add: same_locks_def)
qed simp

text \<open>
  C14. Mutual exclusion of handlers.  A call whose volume or name is locked by another call changes
  neither the world nor the locks, and one whose request is well formed fails with Aborted.
\<close>

theorem held_lock_aborts:
  assumes "blocked call st"
  shows "snd (serve ctx d call st) = st \<and>
    (admissible d call \<longrightarrow> (\<exists>m. fst (serve ctx d call st) = Inl (Status codes_Aborted m)))"
  using serve_blocked_state [OF assms] serve_blocked_code [OF assms] by blast

lemma held_lock_aborts_witness:
  "snd (serve clock_context clock_driver (CallDeleteVolume ''vol-1'') \<lparr>locks = {''vol-1''}, names = {}, world = (0, 0)\<rparr>) =
     \<lparr>locks = {''vol-1''}, names = {}, world = (0, 0)\<rparr> \<and>
   (\<exists>m. fst (serve clock_context clock_driver (CallDeleteVolume ''vol-1'')
       \<lparr>locks = {''vol-1''}, names = {}, world = (0, 0)\<rparr>) = Inl (Status codes_Aborted m))"
  using held_lock_aborts [of "CallDeleteVolume ''vol-1''" "\<lparr>locks = {''vol-1''}, names = {}, world = (0, 0)\<rparr>"
      clock_context clock_driver] by simp

text \<open>
  C13. Errors.  Every error a handler returns is a gRPC status error, whatever errors the provider,
  the mounter and the context produce: no internal error reaches the client unclassified.
\<close>

theorem handler_errors_are_statuses:
  assumes "fst (serve ctx d call st) = Inl e"
  shows "status_FromError e"
  using assms by (rule serve_status)

lemma handler_errors_are_statuses_witness:
  "\<exists>e. fst (serve clock_context clock_driver (CallControllerGetVolume ''vol-9'') \<lparr>locks = {}, names = {}, world = (0, 0)\<rparr>) = Inl e \<and>
     status_FromError e"
proof -
  have "fst (serve clock_context clock_driver (CallControllerGetVolume ''vol-9'') \<lparr>locks = {}, names = {}, world = (0, 0)\<rparr>) =
      Inl (statusError (Sentinel ErrNotFound))"
    by (simp add: ControllerGetVolume_def on_world_def clock_driver_def New_def clock_cloud_def reply_def)
  from this handler_errors_are_statuses [OF this] show ?thesis by blast
qed

end
