(* ===== verification/Pagination.thy ===== *)
theory Pagination
  imports CloudTypes
begin

text \<open>
  \<open>paginate\<close> of \<open>internal/cloud/client.go\<close>, which both providers use: a page token is the decimal
  index of the next item.  \<open>page.Size\<close> comes from an \<open>int32\<close> request field, so \<open>start+page.Size\<close>
  cannot overflow and is written over the integers.
\<close>

definition paginate :: "'a list \<Rightarrow> Page \<Rightarrow> goerr + ('a list \<times> string)" where
  "paginate items page =
     (let parsed = (if page_Token page \<noteq> ''''
                    then (case strconv_Atoi (page_Token page) of
                            None \<Rightarrow> Inl (Wrap ''invalid page token'' [Sentinel ErrInvalid])
                          | Some n \<Rightarrow> if n < 0 then Inl (Wrap ''invalid page token'' [Sentinel ErrInvalid])
                                      else Inr n)
                    else Inr 0)
      in case parsed of
           Inl e \<Rightarrow> Inl e
         | Inr start \<Rightarrow>
             if start \<ge> int (length items) then Inr ([], '''')
             else if page_Size page \<le> 0 \<or> start + page_Size page \<ge> int (length items)
             then Inr (drop (nat start) items, '''')
             else let next = start + page_Size page
                  in Inr (take (nat next - nat start) (drop (nat start) items), strconv_Itoa next))"

text \<open>What a client does with it: ask again with the token it was given until there is none.\<close>

fun fetch_pages :: "nat \<Rightarrow> 'a list \<Rightarrow> Page \<Rightarrow> ('a list list) option" where
  "fetch_pages 0 items page = None"
| "fetch_pages (Suc fuel) items page =
     (case paginate items page of
        Inl e \<Rightarrow> None
      | Inr (chunk, token) \<Rightarrow>
          if token = '''' then Some [chunk]
          else map_option ((#) chunk) (fetch_pages fuel items (page\<lparr>page_Token := token\<rparr>)))"

definition token_at :: "nat \<Rightarrow> string" where
  "token_at n = (if n = 0 then '''' else strconv_Itoa (int n))"

lemma strconv_Itoa_nonempty [simp]: "strconv_Itoa x \<noteq> ''''"
  by (simp add: strconv_Itoa_def)

lemma token_at_eq_Nil [simp]: "token_at n = '''' \<longleftrightarrow> n = 0"
  by (simp add: token_at_def)

lemma paginate_unpaged:
  "page_Token page = '''' \<Longrightarrow> page_Size page \<le> 0 \<Longrightarrow> paginate items page = Inr (items, '''')"
  by (cases items) (simp_all add: paginate_def)

lemma paginate_token_at:
  assumes "n < 2 ^ 63" and "page_Token page = token_at n" and "0 < page_Size page"
  shows "paginate items page =
    Inr (take (nat (page_Size page)) (drop n items),
         if n + nat (page_Size page) < length items
         then token_at (n + nat (page_Size page)) else '''')"
proof -
  have "int n + page_Size page \<ge> int (length items) \<longleftrightarrow> \<not> n + nat (page_Size page) < length items"
    using assms(3) by linarith
  moreover have "nat (int n + page_Size page) - n = nat (page_Size page)"
    using assms(3) by linarith
  moreover have "int (n + nat (page_Size page)) = int n + page_Size page"
    using assms(3) by simp
  ultimately show ?thesis
    using assms Atoi_Itoa_nat [of n]
    by (auto simp: paginate_def token_at_def Let_def)
qed

lemma fetch_pages_from:
  assumes "0 < page_Size page" and "length items < 2 ^ 63"
  shows "n \<le> length items \<Longrightarrow> length items - n < fuel \<Longrightarrow> page_Token page = token_at n \<Longrightarrow>
    \<exists>chunks. fetch_pages fuel items page = Some chunks \<and> concat chunks = drop n items"
  using assms
proof (induction fuel arbitrary: n page)
  case 0
  then show ?case by simp
next
  case (Suc fuel)
  let ?k = "nat (page_Size page)"
  have k: "0 < ?k" using Suc.prems by simp
  have pg: "paginate items page =
      Inr (take ?k (drop n items), if n + ?k < length items then token_at (n + ?k) else '''')"
    using Suc.prems by (intro paginate_token_at) auto
  show ?case
  proof (cases "n + ?k < length items")
    case True
    let ?page = "page\<lparr>page_Token := token_at (n + ?k)\<rparr>"
    have "\<exists>chunks. fetch_pages fuel items ?page = Some chunks \<and> concat chunks = drop (n + ?k) items"
      using Suc.prems True k by (intro Suc.IH) auto
    then obtain chunks where "fetch_pages fuel items ?page = Some chunks"
      and c: "concat chunks = drop (n + ?k) items" by blast
    moreover have "take ?k (drop n items) @ drop (n + ?k) items = drop n items"
      by (metis add.commute append_take_drop_id drop_drop)
    ultimately show ?thesis using pg True k by simp
  next
    case False
    then show ?thesis using pg by simp
  qed
qed

text \<open>A page is a contiguous part of the items.\<close>

lemma paginate_slice: "paginate items page = Inr (xs, t) \<Longrightarrow> \<exists>a b. xs = take a (drop b items)"
proof -
  assume p: "paginate items page = Inr (xs, t)"
  have "xs = [] \<or> xs = items \<or> (\<exists>b. xs = drop b items) \<or> (\<exists>a. xs = take a items) \<or>
      (\<exists>a b. xs = take a (drop b items))"
    using p by (auto simp: paginate_def Let_def split: sum.splits if_splits option.splits)
  moreover have "[] = take 0 (drop 0 items)" by simp
  moreover have "drop b items = take (length items) (drop b items)" for b by simp
  moreover have "items = take (length items) (drop 0 items)" and "take a items = take a (drop 0 items)" for a
    by simp_all
  ultimately show ?thesis by metis
qed

lemma paginate_set: "paginate items page = Inr (xs, t) \<Longrightarrow> set xs \<subseteq> set items"
  using paginate_slice by (metis in_set_dropD in_set_takeD subsetI)

text \<open>
  C17. Pages partition the listing.  A client that asks for pages of a positive size and follows the
  tokens gets, page by page, every item once and in order, and is done after at most one request per
  item.
\<close>

theorem pages_concat_to_items:
  assumes "0 < page_Size page" and "page_Token page = ''''" and "length items < 2 ^ 63"
  shows "\<exists>chunks. fetch_pages (length items + 1) items page = Some chunks \<and> concat chunks = items"
  using fetch_pages_from [OF assms(1,3), of 0 "length items + 1"] assms(2) by (simp add: token_at_def)

lemma pages_concat_to_items_witness:
  "\<exists>chunks. fetch_pages (length [''a'', ''b'', ''c''] + 1) [''a'', ''b'', ''c'']
     \<lparr>page_Token = '''', page_Size = 2, page_Name = '''', page_AvailabilityZone = ''''\<rparr> = Some chunks \<and>
     concat chunks = [''a'', ''b'', ''c'']"
  by (rule pages_concat_to_items) simp_all

end
