(* ===== verification/FakeCloud.thy ===== *)
theory FakeCloud
  imports Pagination
begin

text \<open>
  \<open>internal/cloud/fake.go\<close>: the in-memory provider.  The two Go maps are association lists with
  one entry per key; the order of an association list is the order in which \<open>range\<close> visits
  the map, which Go leaves open.  The mutex makes each method one atomic step, so that a slice changed
  in place is seen by nobody before it is stored.  The two counters, of type \<open>int\<close> in the code, are
  natural numbers: they would wrap around only after \<open>2\<close> to the 63 creations.
\<close>

record Fake =
  fk_volumes :: "(string \<times> Volume) list"
  fk_snapshots :: "(string \<times> Snapshot) list"
  fk_metadata :: InstanceMetadata
  fk_nextVolume :: nat
  fk_nextSnapshot :: nat

definition NewFake :: "InstanceMetadata \<Rightarrow> Fake" where
  "NewFake metadata = \<lparr>fk_volumes = [], fk_snapshots = [], fk_metadata = metadata,
     fk_nextVolume = 1, fk_nextSnapshot = 1\<rparr>"

definition providerVolumeType :: "VolumeSpec \<Rightarrow> string" where
  "providerVolumeType spec =
     (if spec_Type spec \<noteq> '''' then spec_Type spec
      else if spec_Encrypted spec then EncryptedVolumeType
      else DefaultVolumeType)"

text \<open>The loop over the volumes: the first of the requested name decides.\<close>

fun fake_existing :: "VolumeSpec \<Rightarrow> (string \<times> Volume) list \<Rightarrow> (goerr + Volume) option" where
  "fake_existing spec [] = None"
| "fake_existing spec ((key, volume) # rest) =
     (if vol_Name volume = spec_Name spec
      then if vol_SizeBytes volume \<noteq> spec_SizeBytes spec \<or>
              vol_AvailabilityZone volume \<noteq> spec_AvailabilityZone spec \<or>
              (spec_Type spec \<noteq> '''' \<and> vol_Type volume \<noteq> spec_Type spec) \<or>
              vol_Encrypted volume \<noteq> spec_Encrypted spec
           then Some (Inl (Sentinel ErrAlreadyExists))
           else Some (Inr volume)
      else fake_existing spec rest)"

definition volume_key :: "nat \<Rightarrow> string" where
  "volume_key n = ''vol-'' @ strconv_Itoa (int n)"

definition fake_CreateVolume :: "VolumeSpec \<Rightarrow> Fake \<Rightarrow> (Volume, Fake) result" where
  "fake_CreateVolume spec f =
     (case fake_existing spec (fk_volumes f) of
        Some r \<Rightarrow> (r, f)
      | None \<Rightarrow>
          (let key = volume_key (fk_nextVolume f);
               volume = \<lparr>vol_ID = key,
                 vol_Name = spec_Name spec,
                 vol_SizeBytes = spec_SizeBytes spec,
                 vol_Status = VolumeStatusAvailable,
                 vol_AvailabilityZone = spec_AvailabilityZone spec,
                 vol_Type = providerVolumeType spec,
                 vol_Encrypted = spec_Encrypted spec,
                 vol_Multiattach = False,
                 vol_Metadata = spec_Metadata spec,
                 vol_Attachments = []\<rparr>
           in (Inr volume, f\<lparr>fk_nextVolume := fk_nextVolume f + 1,
                 fk_volumes := AList.update key volume (fk_volumes f)\<rparr>)))"

definition fake_GetVolumeByID :: "string \<Rightarrow> Fake \<Rightarrow> (Volume, Fake) result" where
  "fake_GetVolumeByID key f =
     (case map_of (fk_volumes f) key of
        None \<Rightarrow> (Inl (Sentinel ErrNotFound), f)
      | Some volume \<Rightarrow> (Inr volume, f))"

definition fake_ListVolumes :: "Page \<Rightarrow> Fake \<Rightarrow> (Volume list \<times> string, Fake) result" where
  "fake_ListVolumes page f =
     (let volumes = filter (\<lambda>volume.
            \<not> (page_AvailabilityZone page \<noteq> '''' \<and> vol_AvailabilityZone volume \<noteq> page_AvailabilityZone page) \<and>
            \<not> (page_Name page \<noteq> '''' \<and> vol_Name volume \<noteq> page_Name page)) (map snd (fk_volumes f))
      in (paginate (sort_by_ID vol_ID volumes) page, f))"

definition fake_DeleteVolume :: "string \<Rightarrow> Fake \<Rightarrow> (unit, Fake) result" where
  "fake_DeleteVolume key f = (Inr (), f\<lparr>fk_volumes := AList.delete key (fk_volumes f)\<rparr>)"

definition fake_ResizeVolume :: "string \<Rightarrow> i64 \<Rightarrow> string \<Rightarrow> Fake \<Rightarrow> (i64, Fake) result" where
  "fake_ResizeVolume key sizeBytes zone f =
     (case map_of (fk_volumes f) key of
        None \<Rightarrow> (Inl (Sentinel ErrNotFound), f)
      | Some volume \<Rightarrow>
          if zone \<noteq> '''' \<and> vol_AvailabilityZone volume \<noteq> zone then (Inl (Sentinel ErrNotFound), f)
          else if sizeBytes <s vol_SizeBytes volume then (Inl (Sentinel ErrOutOfRange), f)
          else (Inr sizeBytes,
                f\<lparr>fk_volumes := AList.update key (volume\<lparr>vol_SizeBytes := sizeBytes\<rparr>) (fk_volumes f)\<rparr>))"

definition fake_AttachVolume :: "string \<Rightarrow> string \<Rightarrow> string \<Rightarrow> Fake \<Rightarrow> (string, Fake) result" where
  "fake_AttachVolume volumeID instanceID zone f =
     (case map_of (fk_volumes f) volumeID of
        None \<Rightarrow> (Inl (Sentinel ErrNotFound), f)
      | Some volume \<Rightarrow>
          if zone \<noteq> '''' \<and> vol_AvailabilityZone volume \<noteq> zone then (Inl (Sentinel ErrNotFound), f)
          else (case vol_Attachments volume of
              attachment # _ \<Rightarrow>
                if att_InstanceID attachment \<noteq> instanceID then (Inl (Sentinel ErrConflict), f)
                else (Inr (att_DevicePath attachment), f)
            | [] \<Rightarrow>
                (let device = ''/dev/disk/by-id/virtio-'' @ volumeID;
                     volume = volume\<lparr>
                       vol_Attachments := vol_Attachments volume @
                         [\<lparr>att_InstanceID = instanceID, att_DevicePath = device\<rparr>],
                       vol_Status := VolumeStatusInUse\<rparr>
                 in (Inr device, f\<lparr>fk_volumes := AList.update volumeID volume (fk_volumes f)\<rparr>))))"

definition fake_DetachVolume :: "string \<Rightarrow> string \<Rightarrow> string \<Rightarrow> Fake \<Rightarrow> (unit, Fake) result" where
  "fake_DetachVolume volumeID instanceID zone f =
     (case map_of (fk_volumes f) volumeID of
        None \<Rightarrow> (Inr (), f)
      | Some volume \<Rightarrow>
          if zone \<noteq> '''' \<and> vol_AvailabilityZone volume \<noteq> zone then (Inr (), f)
          else (let attachments = filter (\<lambda>attachment. \<not> att_InstanceID attachment = instanceID)
                                    (vol_Attachments volume);
                    volume = volume\<lparr>vol_Attachments := attachments\<rparr>;
                    volume = (if length attachments = 0 then volume\<lparr>vol_Status := VolumeStatusAvailable\<rparr>
                              else volume)
                in (Inr (), f\<lparr>fk_volumes := AList.update volumeID volume (fk_volumes f)\<rparr>)))"

fun fake_existing_snapshot :: "SnapshotSpec \<Rightarrow> (string \<times> Snapshot) list \<Rightarrow> (goerr + Snapshot) option" where
  "fake_existing_snapshot spec [] = None"
| "fake_existing_snapshot spec ((key, snapshot) # rest) =
     (if snap_Name snapshot = snapspec_Name spec
      then if snap_VolumeID snapshot \<noteq> snapspec_VolumeID spec
           then Some (Inl (Sentinel ErrAlreadyExists))
           else Some (Inr snapshot)
      else fake_existing_snapshot spec rest)"

definition snapshot_key :: "nat \<Rightarrow> string" where
  "snapshot_key n = ''snap-'' @ strconv_Itoa (int n)"

text \<open>The argument \<open>now\<close> is \<open>time.Now().UTC()\<close>.\<close>

definition fake_CreateSnapshot :: "gotime \<Rightarrow> SnapshotSpec \<Rightarrow> Fake \<Rightarrow> (Snapshot, Fake) result" where
  "fake_CreateSnapshot now spec f =
     (case map_of (fk_volumes f) (snapspec_VolumeID spec) of
        None \<Rightarrow> (Inl (Sentinel ErrNotFound), f)
      | Some volume \<Rightarrow>
     (case fake_existing_snapshot spec (fk_snapshots f) of
        Some r \<Rightarrow> (r, f)
      | None \<Rightarrow>
          (let key = snapshot_key (fk_nextSnapshot f);
               snapshot = \<lparr>snap_ID = key,
                 snap_Name = snapspec_Name spec,
                 snap_VolumeID = snapspec_VolumeID spec,
                 snap_SizeBytes = vol_SizeBytes volume,
                 snap_Status = SnapshotStatusAvailable,
                 snap_CreatedAt = now,
                 snap_AvailabilityZone = snapspec_AvailabilityZone spec,
                 snap_Metadata = snapspec_Metadata spec\<rparr>
           in (Inr snapshot, f\<lparr>fk_nextSnapshot := fk_nextSnapshot f + 1,
                 fk_snapshots := AList.update key snapshot (fk_snapshots f)\<rparr>))))"

definition fake_DeleteSnapshot :: "string \<Rightarrow> string \<Rightarrow> Fake \<Rightarrow> (unit, Fake) result" where
  "fake_DeleteSnapshot key zone f =
     (case map_of (fk_snapshots f) key of
        None \<Rightarrow> (Inr (), f)
      | Some snapshot \<Rightarrow>
          if zone \<noteq> '''' \<and> snap_AvailabilityZone snapshot \<noteq> zone then (Inl (Sentinel ErrNotFound), f)
          else (Inr (), f\<lparr>fk_snapshots := AList.delete key (fk_snapshots f)\<rparr>))"

definition fake_ListSnapshots :: "Page \<Rightarrow> Fake \<Rightarrow> (Snapshot list \<times> string, Fake) result" where
  "fake_ListSnapshots page f =
     (let snapshots = filter (\<lambda>snapshot.
            \<not> (page_AvailabilityZone page \<noteq> '''' \<and> snap_AvailabilityZone snapshot \<noteq> page_AvailabilityZone page) \<and>
            \<not> (page_Name page \<noteq> '''' \<and> snap_Name snapshot \<noteq> page_Name page)) (map snd (fk_snapshots f))
      in (paginate (sort_by_ID snap_ID snapshots) page, f))"

definition fake_GetInstanceMetadata :: "Fake \<Rightarrow> (InstanceMetadata, Fake) result" where
  "fake_GetInstanceMetadata f = (Inr (fk_metadata f), f)"

text \<open>The fake as a value of the interface type.\<close>

definition fake_cloud :: "gotime \<Rightarrow> Fake Cloud" where
  "fake_cloud now =
     \<lparr>cloud_CreateVolume = fake_CreateVolume,
      cloud_GetVolumeByID = fake_GetVolumeByID,
      cloud_ListVolumes = fake_ListVolumes,
      cloud_DeleteVolume = fake_DeleteVolume,
      cloud_ResizeVolume = fake_ResizeVolume,
      cloud_AttachVolume = fake_AttachVolume,
      cloud_DetachVolume = fake_DetachVolume,
      cloud_CreateSnapshot = fake_CreateSnapshot now,
      cloud_DeleteSnapshot = fake_DeleteSnapshot,
      cloud_ListSnapshots = fake_ListSnapshots,
      cloud_GetInstanceMetadata = fake_GetInstanceMetadata\<rparr>"

end
