(* ===== verification/FakeStore.thy ===== *)
theory FakeStore
  imports VolumeStore FakeCloud
begin

text \<open>
  The invariant of the in-memory provider, its preservation by every operation, and the
  interpretation of \<open>volume_store\<close> on it.
\<close>

section \<open>Association lists\<close>

lemma map_of_update [simp]: "map_of (AList.update k v xs) = (map_of xs)(k \<mapsto> v)"
  by (rule update_conv')

lemma map_of_delete [simp]: "map_of (AList.delete k xs) = (map_of xs)(k := None)"
  by (rule delete_conv')

lemma distinct_map_of_iff: "distinct (map fst xs) \<Longrightarrow> (k, v) \<in> set xs \<longleftrightarrow> map_of xs k = Some v"
  by (metis map_of_SomeD map_of_is_SomeI)

lemma distinct_keys_delete [simp]: "distinct (map fst xs) \<Longrightarrow> distinct (map fst (AList.delete k xs))"
  by (rule distinct_delete)

lemma distinct_keys_update [simp]: "distinct (map fst xs) \<Longrightarrow> distinct (map fst (AList.update k v xs))"
  by (rule distinct_update)

section \<open>The invariant\<close>

definition fake_device :: "string \<Rightarrow> string" where
  "fake_device key = ''/dev/disk/by-id/virtio-'' @ key"

text \<open>A stored volume: attached to at most one instance, and its status says whether it is.\<close>

definition fake_volume_ok :: "nat \<Rightarrow> string \<Rightarrow> Volume \<Rightarrow> bool" where
  "fake_volume_ok next key v \<longleftrightarrow>
     vol_ID v = key \<and> (\<exists>n < next. key = volume_key n) \<and> \<not> vol_Multiattach v \<and>
     (vol_Attachments v = [] \<and> vol_Status v = VolumeStatusAvailable \<or>
      (\<exists>i. vol_Attachments v = [\<lparr>att_InstanceID = i, att_DevicePath = fake_device key\<rparr>] \<and>
           vol_Status v = VolumeStatusInUse))"

definition fake_snapshot_ok :: "nat \<Rightarrow> string \<Rightarrow> Snapshot \<Rightarrow> bool" where
  "fake_snapshot_ok next key sn \<longleftrightarrow> snap_ID sn = key \<and> (\<exists>n < next. key = snapshot_key n)"

definition unique_by :: "('a \<Rightarrow> string) \<Rightarrow> (string \<Rightarrow> 'a option) \<Rightarrow> bool" where
  "unique_by f m \<longleftrightarrow> (\<forall>k v k' v'. m k = Some v \<longrightarrow> m k' = Some v' \<longrightarrow> f v = f v' \<longrightarrow> k = k')"

definition fake_inv :: "Fake \<Rightarrow> bool" where
  "fake_inv f \<longleftrightarrow>
     distinct (map fst (fk_volumes f)) \<and>
     (\<forall>k v. map_of (fk_volumes f) k = Some v \<longrightarrow> fake_volume_ok (fk_nextVolume f) k v) \<and>
     unique_by vol_Name (map_of (fk_volumes f)) \<and>
     distinct (map fst (fk_snapshots f)) \<and>
     (\<forall>k sn. map_of (fk_snapshots f) k = Some sn \<longrightarrow> fake_snapshot_ok (fk_nextSnapshot f) k sn) \<and>
     unique_by snap_Name (map_of (fk_snapshots f))"

lemma fake_invD:
  assumes "fake_inv f"
  shows "distinct (map fst (fk_volumes f))"
    and "map_of (fk_volumes f) k = Some v \<Longrightarrow> fake_volume_ok (fk_nextVolume f) k v"
    and "unique_by vol_Name (map_of (fk_volumes f))"
    and "distinct (map fst (fk_snapshots f))"
    and "map_of (fk_snapshots f) k = Some sn \<Longrightarrow> fake_snapshot_ok (fk_nextSnapshot f) k sn"
    and "unique_by snap_Name (map_of (fk_snapshots f))"
  using assms by (auto simp: fake_inv_def)

lemma volume_key_inject [simp]: "volume_key m = volume_key n \<longleftrightarrow> m = n"
  by (auto simp: volume_key_def strconv_Itoa_def dest: nat_digits_inject)

lemma snapshot_key_inject [simp]: "snapshot_key m = snapshot_key n \<longleftrightarrow> m = n"
  by (auto simp: snapshot_key_def strconv_Itoa_def dest: nat_digits_inject)

lemma volume_key_nonempty [simp]: "volume_key n \<noteq> ''''" "snapshot_key n \<noteq> ''''" "fake_device k \<noteq> ''''"
  by (simp_all add: volume_key_def snapshot_key_def fake_device_def)

lemma fresh_volume_key: "fake_inv f \<Longrightarrow> map_of (fk_volumes f) (volume_key (fk_nextVolume f)) = None"
  using fake_invD(2) [of f "volume_key (fk_nextVolume f)"]
  by (cases "map_of (fk_volumes f) (volume_key (fk_nextVolume f))") (auto simp: fake_volume_ok_def)

lemma fresh_snapshot_key: "fake_inv f \<Longrightarrow> map_of (fk_snapshots f) (snapshot_key (fk_nextSnapshot f)) = None"
  using fake_invD(5) [of f "snapshot_key (fk_nextSnapshot f)"]
  by (cases "map_of (fk_snapshots f) (snapshot_key (fk_nextSnapshot f))") (auto simp: fake_snapshot_ok_def)

lemma fake_inv_vol_ID: "fake_inv f \<Longrightarrow> map_of (fk_volumes f) k = Some v \<Longrightarrow> vol_ID v = k"
  using fake_invD(2) by (simp add: fake_volume_ok_def)

lemma fake_inv_name: "fake_inv f \<Longrightarrow> map_of (fk_volumes f) k = Some v \<Longrightarrow>
    map_of (fk_volumes f) k' = Some v' \<Longrightarrow> vol_Name v = vol_Name v' \<Longrightarrow> k' = k \<and> v' = v"
  using fake_invD(3) unfolding unique_by_def by (metis option.inject)

lemma fake_volume_ok_Suc: "fake_volume_ok n k v \<Longrightarrow> fake_volume_ok (Suc n) k v"
  unfolding fake_volume_ok_def by (meson less_SucI)

lemma fake_snapshot_ok_Suc: "fake_snapshot_ok n k v \<Longrightarrow> fake_snapshot_ok (Suc n) k v"
  unfolding fake_snapshot_ok_def by (meson less_SucI)

lemma unique_by_add:
  "unique_by f m \<Longrightarrow> \<forall>k w. m k = Some w \<longrightarrow> f w \<noteq> f v \<Longrightarrow> unique_by f (m(k \<mapsto> v))"
  unfolding unique_by_def by (auto split: if_splits) metis

lemma unique_by_put: "unique_by f m \<Longrightarrow> m k = Some v \<Longrightarrow> f w = f v \<Longrightarrow> unique_by f (m(k \<mapsto> w))"
  unfolding unique_by_def by (auto split: if_splits)

lemma unique_by_remove: "unique_by f m \<Longrightarrow> unique_by f (m(k := None))"
  unfolding unique_by_def by (auto split: if_splits)

lemma fk_volumes_NewFake [simp]: "fk_volumes (NewFake md) = []"
  by (simp add: NewFake_def)

lemma fake_inv_NewFake: "fake_inv (NewFake md)"
  by (simp add: fake_inv_def NewFake_def unique_by_def)

section \<open>The operations keep it\<close>

lemma fake_existing_None_iff:
  "fake_existing spec vs = None \<longleftrightarrow> (\<forall>(k, v) \<in> set vs. vol_Name v \<noteq> spec_Name spec)"
  by (induction spec vs rule: fake_existing.induct) auto

lemma fake_existing_SomeD:
  "fake_existing spec vs = Some r \<Longrightarrow> \<exists>(k, v) \<in> set vs. vol_Name v = spec_Name spec \<and>
     r = (if compatibleVolume v spec then Inr v else Inl (Sentinel ErrAlreadyExists))"
  by (induction spec vs rule: fake_existing.induct) (auto simp: compatibleVolume_def split: if_splits)

lemma fake_existing_snapshot_None_iff:
  "fake_existing_snapshot spec sns = None \<longleftrightarrow> (\<forall>(k, sn) \<in> set sns. snap_Name sn \<noteq> snapspec_Name spec)"
  by (induction spec sns rule: fake_existing_snapshot.induct) auto

lemma fake_existing_snapshot_SomeD:
  "fake_existing_snapshot spec sns = Some r \<Longrightarrow> \<exists>(k, sn) \<in> set sns. snap_Name sn = snapspec_Name spec \<and>
     r = (if snap_VolumeID sn = snapspec_VolumeID spec then Inr sn else Inl (Sentinel ErrAlreadyExists))"
  by (induction spec sns rule: fake_existing_snapshot.induct) (auto split: if_splits)

text \<open>Adding a volume, replacing one, removing one.\<close>

lemma fake_inv_add_volume:
  assumes "fake_inv f" and "fake_existing spec (fk_volumes f) = None"
    and "fake_volume_ok (Suc (fk_nextVolume f)) (volume_key (fk_nextVolume f)) v"
    and "vol_Name v = spec_Name spec"
  shows "fake_inv (f\<lparr>fk_nextVolume := Suc (fk_nextVolume f),
           fk_volumes := AList.update (volume_key (fk_nextVolume f)) v (fk_volumes f)\<rparr>)"
proof -
  have "\<forall>k w. map_of (fk_volumes f) k = Some w \<longrightarrow> vol_Name w \<noteq> spec_Name spec"
    using assms(2) unfolding fake_existing_None_iff by (auto dest: map_of_SomeD)
  then have "unique_by vol_Name ((map_of (fk_volumes f))(volume_key (fk_nextVolume f) \<mapsto> v))"
    using fake_invD(3) [OF assms(1)] assms(4) by (intro unique_by_add) auto
  with assms(1,3) show ?thesis by (simp add: fake_inv_def fake_volume_ok_Suc)
qed

lemma fake_inv_put_volume:
  assumes "fake_inv f" and "map_of (fk_volumes f) k = Some v"
    and "fake_volume_ok (fk_nextVolume f) k w" and "vol_Name w = vol_Name v"
  shows "fake_inv (f\<lparr>fk_volumes := AList.update k w (fk_volumes f)\<rparr>)"
  using assms unique_by_put [OF fake_invD(3) [OF assms(1)] assms(2,4)] by (simp add: fake_inv_def)

lemma fake_inv_delete_volume: "fake_inv f \<Longrightarrow> fake_inv (f\<lparr>fk_volumes := AList.delete k (fk_volumes f)\<rparr>)"
  by (simp add: fake_inv_def unique_by_remove)

lemma fake_inv_add_snapshot:
  assumes "fake_inv f" and "fake_existing_snapshot spec (fk_snapshots f) = None"
    and "snap_ID sn = snapshot_key (fk_nextSnapshot f)" and "snap_Name sn = snapspec_Name spec"
  shows "fake_inv (f\<lparr>fk_nextSnapshot := Suc (fk_nextSnapshot f),
           fk_snapshots := AList.update (snapshot_key (fk_nextSnapshot f)) sn (fk_snapshots f)\<rparr>)"
proof -
  have "\<forall>k w. map_of (fk_snapshots f) k = Some w \<longrightarrow> snap_Name w \<noteq> snapspec_Name spec"
    using assms(2) unfolding fake_existing_snapshot_None_iff by (auto dest: map_of_SomeD)
  then have "unique_by snap_Name ((map_of (fk_snapshots f))(snapshot_key (fk_nextSnapshot f) \<mapsto> sn))"
    using fake_invD(6) [OF assms(1)] assms(4) by (intro unique_by_add) auto
  moreover have "fake_snapshot_ok (Suc (fk_nextSnapshot f)) (snapshot_key (fk_nextSnapshot f)) sn"
    using assms(3) by (auto simp: fake_snapshot_ok_def)
  ultimately show ?thesis using assms(1) by (simp add: fake_inv_def fake_snapshot_ok_Suc)
qed

lemma fake_inv_delete_snapshot:
  "fake_inv f \<Longrightarrow> fake_inv (f\<lparr>fk_snapshots := AList.delete k (fk_snapshots f)\<rparr>)"
  by (simp add: fake_inv_def unique_by_remove)

named_theorems fake_op_inv \<open>the operations of the provider keep its invariant\<close>

lemma fake_CreateVolume_inv [fake_op_inv]: "fake_inv f \<Longrightarrow> fake_inv (snd (fake_CreateVolume spec f))"
  by (auto simp: fake_CreateVolume_def Let_def fake_volume_ok_def
      intro!: fake_inv_add_volume split: option.splits)

lemma fake_DeleteVolume_inv [fake_op_inv]: "fake_inv f \<Longrightarrow> fake_inv (snd (fake_DeleteVolume k f))"
  by (simp add: fake_DeleteVolume_def fake_inv_delete_volume)

lemma fake_ResizeVolume_inv [fake_op_inv]: "fake_inv f \<Longrightarrow> fake_inv (snd (fake_ResizeVolume k b z f))"
  by (auto simp: fake_ResizeVolume_def fake_volume_ok_def
      intro!: fake_inv_put_volume dest: fake_invD(2) split: option.splits)

lemma fake_AttachVolume_inv [fake_op_inv]: "fake_inv f \<Longrightarrow> fake_inv (snd (fake_AttachVolume k i z f))"
  by (auto simp: fake_AttachVolume_def Let_def fake_volume_ok_def fake_device_def
      intro!: fake_inv_put_volume dest: fake_invD(2) split: option.splits list.splits)

text \<open>A stored volume without an instance's attachments: with its one attachment gone it is available.\<close>

definition without_attachment :: "string \<Rightarrow> Volume \<Rightarrow> Volume" where
  "without_attachment i v =
     (if \<exists>a \<in> set (vol_Attachments v). att_InstanceID a = i
      then v\<lparr>vol_Attachments := [], vol_Status := VolumeStatusAvailable\<rparr> else v)"

lemma without_attachment_ok:
  "fake_volume_ok n k v \<Longrightarrow> fake_volume_ok n k (without_attachment i v)"
  "vol_Name (without_attachment i v) = vol_Name v"
  by (auto simp: without_attachment_def fake_volume_ok_def)

lemma fake_DetachVolume_eq:
  assumes "fake_inv f" and "map_of (fk_volumes f) k = Some v" and "z = '''' \<or> vol_AvailabilityZone v = z"
  shows "fake_DetachVolume k i z f =
     (Inr (), f\<lparr>fk_volumes := AList.update k (without_attachment i v) (fk_volumes f)\<rparr>)"
proof -
  have "fake_volume_ok (fk_nextVolume f) k v" using fake_invD(2) assms(1,2) .
  then have "(let as = filter (\<lambda>a. \<not> att_InstanceID a = i) (vol_Attachments v);
      w = v\<lparr>vol_Attachments := as\<rparr>
    in if length as = 0 then w\<lparr>vol_Status := VolumeStatusAvailable\<rparr> else w) = without_attachment i v"
    by (auto simp: fake_volume_ok_def without_attachment_def Let_def)
  with assms show ?thesis by (auto simp: fake_DetachVolume_def Let_def)
qed

lemma fake_DetachVolume_absent:
  "map_of (fk_volumes f) k = None \<Longrightarrow> fake_DetachVolume k i z f = (Inr (), f)"
  "map_of (fk_volumes f) k = Some v \<Longrightarrow> z \<noteq> '''' \<Longrightarrow> vol_AvailabilityZone v \<noteq> z \<Longrightarrow>
     fake_DetachVolume k i z f = (Inr (), f)"
  by (simp_all add: fake_DetachVolume_def)

lemma fake_DetachVolume_inv [fake_op_inv]:
  assumes "fake_inv f"
  shows "fake_inv (snd (fake_DetachVolume k i z f))"
proof (cases "map_of (fk_volumes f) k")
  case None
  then show ?thesis by (simp add: fake_DetachVolume_absent assms)
next
  case (Some v)
  have "fake_inv (f\<lparr>fk_volumes := AList.update k (without_attachment i v) (fk_volumes f)\<rparr>)"
    using assms Some fake_invD(2) [OF assms Some] by (intro fake_inv_put_volume) (simp_all add: without_attachment_ok)
  then show ?thesis
    using fake_DetachVolume_eq [OF assms Some, of z i] fake_DetachVolume_absent(2) [OF Some, of z i] assms
    by (cases "z = '''' \<or> vol_AvailabilityZone v = z") auto
qed

lemma fake_CreateSnapshot_inv [fake_op_inv]: "fake_inv f \<Longrightarrow> fake_inv (snd (fake_CreateSnapshot now spec f))"
  by (auto simp: fake_CreateSnapshot_def Let_def intro!: fake_inv_add_snapshot split: option.splits)

lemma fake_DeleteSnapshot_inv [fake_op_inv]: "fake_inv f \<Longrightarrow> fake_inv (snd (fake_DeleteSnapshot k z f))"
  by (auto simp: fake_DeleteSnapshot_def fake_inv_delete_snapshot split: option.splits)

lemma fake_read_only [simp]:
  "snd (fake_GetVolumeByID k f) = f" "snd (fake_ListVolumes p f) = f"
  "snd (fake_ListSnapshots p f) = f" "snd (fake_GetInstanceMetadata f) = f"
  by (simp_all add: fake_GetVolumeByID_def fake_ListVolumes_def fake_ListSnapshots_def
      fake_GetInstanceMetadata_def Let_def split: option.splits)

section \<open>The provider is a volume store\<close>

lemma fake_cloud_simps [simp]:
  "cloud_CreateVolume (fake_cloud now) = fake_CreateVolume"
  "cloud_GetVolumeByID (fake_cloud now) = fake_GetVolumeByID"
  "cloud_ListVolumes (fake_cloud now) = fake_ListVolumes"
  "cloud_DeleteVolume (fake_cloud now) = fake_DeleteVolume"
  "cloud_ResizeVolume (fake_cloud now) = fake_ResizeVolume"
  "cloud_AttachVolume (fake_cloud now) = fake_AttachVolume"
  "cloud_DetachVolume (fake_cloud now) = fake_DetachVolume"
  "cloud_CreateSnapshot (fake_cloud now) = fake_CreateSnapshot now"
  "cloud_DeleteSnapshot (fake_cloud now) = fake_DeleteSnapshot"
  "cloud_ListSnapshots (fake_cloud now) = fake_ListSnapshots"
  "cloud_GetInstanceMetadata (fake_cloud now) = fake_GetInstanceMetadata"
  by (simp_all add: fake_cloud_def)

lemma fake_ListVolumes_world: "fake_ListVolumes p f = (r, f') \<Longrightarrow> f' = f"
  by (metis fake_read_only(2) snd_conv)

lemma fake_GetVolumeByID_world: "fake_GetVolumeByID k f = (r, f') \<Longrightarrow> f' = f"
  by (metis fake_read_only(1) snd_conv)

lemma fake_GetVolumeByID_Inr: "fake_GetVolumeByID k f = (Inr v, f') \<Longrightarrow> map_of (fk_volumes f) k = Some v"
  by (simp add: fake_GetVolumeByID_def split: option.splits)

text \<open>
  A weaker invariant suffices here: unique identifiers, but volumes may share a name, as in a
  provider that lists a creation late and is asked twice.
\<close>

definition fake_keys_ok :: "Fake \<Rightarrow> bool" where
  "fake_keys_ok f \<longleftrightarrow> distinct (map fst (fk_volumes f)) \<and>
     (\<forall>(k, v) \<in> set (fk_volumes f). vol_ID v = k \<and> (\<exists>n < fk_nextVolume f. k = volume_key n))"

lemma fake_keys_okD:
  assumes "fake_keys_ok f"
  shows "distinct (map fst (fk_volumes f))"
    and "map_of (fk_volumes f) k = Some v \<Longrightarrow> vol_ID v = k \<and> (\<exists>n < fk_nextVolume f. k = volume_key n)"
  using assms by (auto simp: fake_keys_ok_def dest!: map_of_SomeD)

lemma fake_keys_okI:
  "distinct (map fst (fk_volumes f)) \<Longrightarrow>
     (\<And>k v. map_of (fk_volumes f) k = Some v \<Longrightarrow> vol_ID v = k \<and> (\<exists>n < fk_nextVolume f. k = volume_key n)) \<Longrightarrow>
     fake_keys_ok f"
  unfolding fake_keys_ok_def by (auto dest!: map_of_is_SomeI)

lemma fake_inv_keys_ok: "fake_inv f \<Longrightarrow> fake_keys_ok f"
proof (rule fake_keys_okI)
  show "vol_ID v = k \<and> (\<exists>n < fk_nextVolume f. k = volume_key n)"
    if "fake_inv f" "map_of (fk_volumes f) k = Some v" for k v
    using fake_invD(2) [OF that] unfolding fake_volume_ok_def by blast
qed (rule fake_invD(1))

lemma fake_ListVolumes_sound:
  assumes "fake_keys_ok f" and "fake_ListVolumes p f = (Inr (vs, t), f')" and "v \<in> set vs"
  shows "map_of (fk_volumes f) (vol_ID v) = Some v"
proof -
  have "v \<in> snd ` set (fk_volumes f)"
    using assms(2,3) by (auto simp: fake_ListVolumes_def Let_def dest!: paginate_set)
  then obtain k where "map_of (fk_volumes f) k = Some v"
    using distinct_map_of_iff [OF fake_keys_okD(1) [OF assms(1)]] by force
  then show ?thesis using fake_keys_okD(2) [OF assms(1)] by simp
qed

lemma fake_ListVolumes_complete:
  assumes "page_Token p = ''''" and "page_Size p \<le> 0"
    and "fake_ListVolumes p f = (Inr (vs, t), f')" and "map_of (fk_volumes f) i = Some v"
    and "page_Name p \<in> {'''', vol_Name v}" and "page_AvailabilityZone p \<in> {'''', vol_AvailabilityZone v}"
  shows "v \<in> set vs"
proof -
  define stored where "stored = map snd (fk_volumes f)"
  have "v \<in> set stored" using assms(4) unfolding stored_def by (force dest: map_of_SomeD)
  then show ?thesis using assms(1,2,3,5,6) unfolding fake_ListVolumes_def stored_def [symmetric]
    by (auto simp: Let_def paginate_unpaged)
qed

lemma fake_CreateVolume_frame:
  assumes "fake_keys_ok f" and "fake_CreateVolume spec f = (r, f')"
  shows "fake_keys_ok f'" and "map_of (fk_volumes f) i = Some v \<Longrightarrow> map_of (fk_volumes f') i = Some v"
proof -
  let ?k = "volume_key (fk_nextVolume f)"
  have fresh: "map_of (fk_volumes f) ?k = None"
    using fake_keys_okD(2) [OF assms(1), of ?k] by (cases "map_of (fk_volumes f) ?k") auto
  show "map_of (fk_volumes f') i = Some v" if "map_of (fk_volumes f) i = Some v"
    using that assms(2) fresh by (auto simp: fake_CreateVolume_def Let_def split: option.splits)
  show "fake_keys_ok f'"
  proof (cases "fake_existing spec (fk_volumes f)")
    case None
    have "(\<exists>n < Suc (fk_nextVolume f). k = volume_key n) \<and> vol_ID w = k"
      if "map_of (fk_volumes f) k = Some w" for k w
      using fake_keys_okD(2) [OF assms(1) that] less_SucI by blast
    with None assms(2) fake_keys_okD(1) [OF assms(1)] show ?thesis
      by (auto simp: fake_CreateVolume_def Let_def intro!: fake_keys_okI split: if_splits)
  qed (use assms in \<open>simp add: fake_CreateVolume_def\<close>)
qed

lemma fake_DeleteVolume_frame: "fake_keys_ok f \<Longrightarrow> fake_keys_ok (snd (fake_DeleteVolume k f))"
  using fake_keys_okD(1) [of f] fake_keys_okD(2) [of f]
  by (auto simp: fake_DeleteVolume_def intro!: fake_keys_okI split: if_splits)

lemma fake_ListVolumes_distinct:
  assumes "fake_keys_ok f" and "fake_ListVolumes p f = (Inr (vs, t), f')"
  shows "distinct (map vol_ID vs)"
proof -
  define Q where "Q = (\<lambda>volume :: Volume.
            \<not> (page_AvailabilityZone p \<noteq> '''' \<and> vol_AvailabilityZone volume \<noteq> page_AvailabilityZone p) \<and>
            \<not> (page_Name p \<noteq> '''' \<and> vol_Name volume \<noteq> page_Name p))"
  let ?L = "sort_by_ID vol_ID (filter Q (map snd (fk_volumes f)))"
  have "map vol_ID (map snd (fk_volumes f)) = map fst (fk_volumes f)"
    using assms(1) by (auto simp: fake_keys_ok_def)
  then have "distinct (map vol_ID (map snd (fk_volumes f)))"
    using fake_keys_okD(1) [OF assms(1)] by (simp only:)
  then have "distinct (map vol_ID (filter Q (map snd (fk_volumes f))))" by (rule distinct_map_filter)
  then have d: "distinct (map vol_ID ?L)" by (simp add: sort_by_ID_def distinct_map)
  have "paginate ?L p = Inr (vs, t)" using assms(2) by (auto simp: fake_ListVolumes_def Let_def Q_def)
  then obtain a b where "vs = take a (drop b ?L)" using paginate_slice by blast
  then show ?thesis using d by (simp only: take_map [symmetric] drop_map [symmetric] distinct_take distinct_drop)
qed

interpretation fake: volume_store "fake_cloud now" "\<lambda>f. map_of (fk_volumes f)" fake_keys_ok
  for now :: gotime
proof
  fix i j and v :: Volume and p and rl :: "goerr + Volume list \<times> string" and rg :: "goerr + Volume"
    and rd :: "goerr + unit" and rc :: "goerr + Volume" and vs t spec and s s' :: Fake
  assume ok: "fake_keys_ok s"
  show "map_of (fk_volumes s) i = Some v \<Longrightarrow> vol_ID v = i" using fake_keys_okD(2) [OF ok] by simp
  show "cloud_ListVolumes (fake_cloud now) p s = (rl, s') \<Longrightarrow> fake_keys_ok s' \<and> map_of (fk_volumes s') = map_of (fk_volumes s)"
    using ok by (auto dest: fake_ListVolumes_world)
  show "cloud_ListVolumes (fake_cloud now) p s = (Inr (vs, t), s') \<Longrightarrow> v \<in> set vs \<Longrightarrow>
      map_of (fk_volumes s) (vol_ID v) = Some v"
    using fake_ListVolumes_sound [OF ok] by simp
  show "page_Token p = '''' \<Longrightarrow> page_Size p \<le> 0 \<Longrightarrow>
      cloud_ListVolumes (fake_cloud now) p s = (Inr (vs, t), s') \<Longrightarrow> map_of (fk_volumes s) i = Some v \<Longrightarrow>
      page_Name p \<in> {'''', vol_Name v} \<Longrightarrow> page_AvailabilityZone p \<in> {'''', vol_AvailabilityZone v} \<Longrightarrow>
      v \<in> set vs"
    using fake_ListVolumes_complete by simp
  show "cloud_GetVolumeByID (fake_cloud now) i s = (rg, s') \<Longrightarrow> fake_keys_ok s' \<and> map_of (fk_volumes s') = map_of (fk_volumes s)"
    using ok by (auto dest: fake_GetVolumeByID_world)
  show "cloud_GetVolumeByID (fake_cloud now) i s = (Inr v, s') \<Longrightarrow> map_of (fk_volumes s) i = Some v"
    by (simp add: fake_GetVolumeByID_Inr)
  show "cloud_DeleteVolume (fake_cloud now) i s = (rd, s') \<Longrightarrow> fake_keys_ok s' \<and>
      (\<forall>j. j \<noteq> i \<longrightarrow> map_of (fk_volumes s') j = map_of (fk_volumes s) j)"
    using fake_DeleteVolume_frame [OF ok, of i] by (auto simp: fake_DeleteVolume_def)
  show "cloud_DeleteVolume (fake_cloud now) i s = (Inr (), s') \<Longrightarrow> map_of (fk_volumes s') i = None"
    by (auto simp: fake_DeleteVolume_def)
  show "cloud_CreateVolume (fake_cloud now) spec s = (rc, s') \<Longrightarrow> fake_keys_ok s' \<and>
      (\<forall>i v. map_of (fk_volumes s) i = Some v \<longrightarrow> map_of (fk_volumes s') i = Some v)"
    using fake_CreateVolume_frame [OF ok, of spec rc s'] by auto
qed

interpretation fake_strict: strict_store "fake_cloud now" "\<lambda>f. map_of (fk_volumes f)" fake_keys_ok
  for now :: gotime
proof
  fix i p vs t and s s' :: Fake
  show "fst (cloud_DeleteVolume (fake_cloud now) i s) = Inr ()" by (simp add: fake_DeleteVolume_def)
  assume "fake_keys_ok s"
  then show "cloud_ListVolumes (fake_cloud now) p s = (Inr (vs, t), s') \<Longrightarrow> distinct (map vol_ID vs)"
    using fake_ListVolumes_distinct by simp
qed

end
