(* ===== verification/FakeService.thy ===== *)
theory FakeService
  imports Handlers FakeStore
begin

text \<open>
  The controller service over the in-memory provider, whose answers are known: what each handler
  returns and leaves behind is stated as a specification over the provider's volumes, and the
  handlers refine it.  The context is one whose timers leave the provider alone; where a handler
  waits, its timers fire.
\<close>

definition timers_fire :: "'s Context \<Rightarrow> bool" where
  "timers_fire ctx \<longleftrightarrow> (\<forall>n s. ctx_timer ctx n s = (True, s))"

lemma timers_fire_Background [simp]: "timers_fire context_Background"
  by (simp add: timers_fire_def context_Background_def)

lemma timers_fireD: "timers_fire ctx \<Longrightarrow> wait ctx n s = (Inr (), s)"
  by (simp add: timers_fire_def wait_def)

definition fake_driver :: "Config \<Rightarrow> gotime \<Rightarrow> Fake Mounter \<Rightarrow> Fake Driver" where
  "fake_driver cfg now mnt = \<lparr>drv_config = cfg, drv_cloud = fake_cloud now, drv_mount = mnt\<rparr>"

lemma fake_driver_simps [simp]:
  "drv_config (fake_driver cfg now mnt) = cfg" "drv_cloud (fake_driver cfg now mnt) = fake_cloud now"
  "drv_mount (fake_driver cfg now mnt) = mnt"
  by (simp_all add: fake_driver_def)

section \<open>Looking a volume or a snapshot up by name\<close>

fun by_name :: "('a \<Rightarrow> string) \<Rightarrow> string \<Rightarrow> (string \<times> 'a) list \<Rightarrow> 'a option" where
  "by_name nm name [] = None"
| "by_name nm name ((k, v) # rest) = (if nm v = name then Some v else by_name nm name rest)"

abbreviation volume_by_name :: "string \<Rightarrow> (string \<times> Volume) list \<Rightarrow> Volume option" where
  "volume_by_name \<equiv> by_name vol_Name"

abbreviation snapshot_by_name :: "string \<Rightarrow> (string \<times> Snapshot) list \<Rightarrow> Snapshot option" where
  "snapshot_by_name \<equiv> by_name snap_Name"

lemma by_name_None: "by_name nm name vs = None \<longleftrightarrow> (\<forall>(k, v) \<in> set vs. nm v \<noteq> name)"
  by (induction nm name vs rule: by_name.induct) auto

lemma by_name_Some: "by_name nm name vs = Some v \<Longrightarrow> v \<in> snd ` set vs \<and> nm v = name"
  by (induction nm name vs rule: by_name.induct) (auto split: if_splits)

lemma by_name_update_fresh:
  "by_name nm name vs = None \<Longrightarrow> k \<notin> fst ` set vs \<Longrightarrow> nm v = name \<Longrightarrow>
     by_name nm name (AList.update k v vs) = Some v"
  by (induction vs) (auto split: if_splits)

lemma fake_existing_by_name:
  "fake_existing spec vs = map_option (\<lambda>v. if compatibleVolume v spec then Inr v
     else Inl (Sentinel ErrAlreadyExists)) (volume_by_name (spec_Name spec) vs)"
  by (induction spec vs rule: fake_existing.induct) (auto simp: compatibleVolume_def)

lemma fake_existing_snapshot_by_name:
  "fake_existing_snapshot spec sns = map_option (\<lambda>sn. if snap_VolumeID sn = snapspec_VolumeID spec then Inr sn
     else Inl (Sentinel ErrAlreadyExists)) (snapshot_by_name (snapspec_Name spec) sns)"
  by (induction spec sns rule: fake_existing_snapshot.induct) auto

lemma volume_by_name_stored:
  assumes "fake_inv f" and "volume_by_name name (fk_volumes f) = Some v"
  shows "map_of (fk_volumes f) (vol_ID v) = Some v"
proof -
  from by_name_Some [OF assms(2)] obtain k where "(k, v) \<in> set (fk_volumes f)" by auto
  then have "map_of (fk_volumes f) k = Some v" using distinct_map_of_iff [OF fake_invD(1) [OF assms(1)]] by simp
  then show ?thesis using fake_inv_vol_ID [OF assms(1)] by simp
qed

text \<open>Where names are unique, a filter on the name keeps the one entry or none.\<close>

lemma filter_by_name:
  assumes "distinct (map fst vs)" and "unique_by nm (map_of vs)"
  shows "filter (\<lambda>v. nm v = name) (map snd vs) = (case by_name nm name vs of None \<Rightarrow> [] | Some v \<Rightarrow> [v])"
proof -
  have "\<forall>k v k' v'. (k, v) \<in> set vs \<longrightarrow> (k', v') \<in> set vs \<longrightarrow> nm v = nm v' \<longrightarrow> k = k'"
    using assms unfolding unique_by_def by (metis map_of_is_SomeI)
  with assms(1) show ?thesis
  proof (induction vs)
    case (Cons p vs)
    obtain k v where p: "p = (k, v)" by fastforce
    have IH: "filter (\<lambda>v. nm v = name) (map snd vs) = (case by_name nm name vs of None \<Rightarrow> [] | Some v \<Rightarrow> [v])"
      using Cons by (intro Cons.IH) auto
    have "nm w \<noteq> nm v" if "(k', w) \<in> set vs" for k' w
      using Cons.prems that p by (metis distinct.simps(2) fst_conv image_eqI list.map(2) list.set_intros(1) list.set_intros(2) set_map)
    then have "nm v = name \<Longrightarrow> by_name nm name vs = None" by (auto simp: by_name_None)
    with IH p show ?case by auto
  qed simp
qed

section \<open>Reconciliation\<close>

lemma collect_compatible_unique:
  "filter (\<lambda>v. vol_Name v = spec_Name spec) vs = [] \<Longrightarrow> collect_compatible spec vs = Inr []"
  "filter (\<lambda>v. vol_Name v = spec_Name spec) vs = [v] \<Longrightarrow>
     collect_compatible spec vs = (if compatibleVolume v spec then Inr [v] else Inl different_parameters)"
proof -
  show none: "filter (\<lambda>v. vol_Name v = spec_Name spec) vs = [] \<Longrightarrow> collect_compatible spec vs = Inr []"
    for vs by (induction vs) (auto split: if_splits)
  show "filter (\<lambda>v. vol_Name v = spec_Name spec) vs = [v] \<Longrightarrow>
     collect_compatible spec vs = (if compatibleVolume v spec then Inr [v] else Inl different_parameters)"
    by (induction vs) (auto split: if_splits simp: none)
qed

lemma filter_sort_by_ID: "filter P (sort_by_ID f xs) = sort_by_ID f (filter P xs)"
  by (simp add: sort_by_ID_def filter_sort)

lemma sort_by_ID_small [simp]: "sort_by_ID f [] = []" "sort_by_ID f [x] = [x]"
  by (simp_all add: sort_by_ID_def)

text \<open>The volume that a search for a specification's name and zone finds.\<close>

definition visible :: "VolumeSpec \<Rightarrow> Volume \<Rightarrow> bool" where
  "visible spec v \<longleftrightarrow> spec_AvailabilityZone spec = '''' \<or> vol_AvailabilityZone v = spec_AvailabilityZone spec"

lemma reconcile_fake:
  assumes inv: "fake_inv f"
  shows "reconcileVolumeByName (fake_driver cfg now mnt) spec f =
    (case volume_by_name (spec_Name spec) (fk_volumes f) of
       None \<Rightarrow> (Inl (Sentinel ErrNotFound), f)
     | Some v \<Rightarrow>
         if \<not> visible spec v then (Inl (Sentinel ErrNotFound), f)
         else if compatibleVolume v spec then (Inr v, f)
         else (Inl different_parameters, f))"
proof -
  let ?p = "\<lparr>page_Token = '''', page_Size = 0, page_Name = spec_Name spec,
              page_AvailabilityZone = spec_AvailabilityZone spec\<rparr>"
  let ?n = "\<lambda>v :: Volume. vol_Name v = spec_Name spec"
  define xs where "xs = map snd (fk_volumes f)"
  define Q where "Q = (\<lambda>v :: Volume. \<not> (page_AvailabilityZone ?p \<noteq> '''' \<and> vol_AvailabilityZone v \<noteq> page_AvailabilityZone ?p) \<and>
            \<not> (page_Name ?p \<noteq> '''' \<and> vol_Name v \<noteq> page_Name ?p))"
  define L where "L = sort_by_ID vol_ID (filter Q xs)"
  have list: "fake_ListVolumes ?p f = (Inr (L, ''''), f)"
    by (simp add: fake_ListVolumes_def Let_def paginate_unpaged L_def Q_def xs_def)
  have names: "filter ?n xs = (case volume_by_name (spec_Name spec) (fk_volumes f) of None \<Rightarrow> [] | Some v \<Rightarrow> [v])"
    unfolding xs_def by (rule filter_by_name [OF fake_invD(1) [OF inv] fake_invD(3) [OF inv]])
  have "filter ?n (filter Q xs) = filter (visible spec) (filter ?n xs)"
    by (auto simp: Q_def visible_def intro!: filter_cong)
  then have L: "filter ?n L = sort_by_ID vol_ID (filter (visible spec) (filter ?n xs))"
    by (simp only: L_def filter_sort_by_ID)
  show ?thesis
  proof (cases "volume_by_name (spec_Name spec) (fk_volumes f)")
    case None
    then have "collect_compatible spec L = Inr []"
      using L names by (intro collect_compatible_unique) simp
    with None list show ?thesis by (simp add: reconcileVolumeByName_def)
  next
    case (Some v)
    show ?thesis
    proof (cases "visible spec v")
      case False
      then have "collect_compatible spec L = Inr []"
        using L names Some by (intro collect_compatible_unique) simp
      with Some False list show ?thesis by (simp add: reconcileVolumeByName_def)
    next
      case True
      then have "collect_compatible spec L = (if compatibleVolume v spec then Inr [v] else Inl different_parameters)"
        using L names Some by (intro collect_compatible_unique) simp
      with Some True list show ?thesis by (simp add: reconcileVolumeByName_def)
    qed
  qed
qed

text \<open>A fetch that answers the same volume each time is settled after three of them.\<close>

lemma reconcile_created_settles:
  assumes "timers_fire ctx" and "fetch s = (Inr v, s)" and "ident v \<noteq> ''''"
  shows "reconcile_created ctx fetch ident createReconcileAttempts '''' 0 delay s = (Inr v, s)"
  using assms by (simp add: createReconcileAttempts_Suc createReconcileStableSamples_def timers_fireD Let_def)

section \<open>CreateVolume\<close>

definition fake_new_volume :: "VolumeSpec \<Rightarrow> Fake \<Rightarrow> Volume" where
  "fake_new_volume spec f =
     \<lparr>vol_ID = volume_key (fk_nextVolume f), vol_Name = spec_Name spec, vol_SizeBytes = spec_SizeBytes spec,
      vol_Status = VolumeStatusAvailable, vol_AvailabilityZone = spec_AvailabilityZone spec,
      vol_Type = providerVolumeType spec, vol_Encrypted = spec_Encrypted spec, vol_Multiattach = False,
      vol_Metadata = spec_Metadata spec, vol_Attachments = []\<rparr>"

definition fake_added :: "VolumeSpec \<Rightarrow> Fake \<Rightarrow> Fake" where
  "fake_added spec f = f\<lparr>fk_nextVolume := fk_nextVolume f + 1,
     fk_volumes := AList.update (volume_key (fk_nextVolume f)) (fake_new_volume spec f) (fk_volumes f)\<rparr>"

text \<open>What a client sees of a result: the gRPC code of an error, and the state.\<close>

definition outcome :: "('a, 's) result \<Rightarrow> (grpc_code option + 'a) \<times> 's" where
  "outcome q = (map_sum code_of (\<lambda>x. x) (fst q), snd q)"

lemma outcome_simps [simp]: "outcome (Inr x, s) = (Inr x, s)" "outcome (Inl e, s) = (Inl (code_of e), s)"
  by (simp_all add: outcome_def)

text \<open>
  The contract of \<open>CreateVolume\<close>: a volume of the name is returned if it agrees with the request,
  is an error if it does not, and is made if there is none.
\<close>

definition create_volume_spec :: "VolumeSpec \<Rightarrow> Fake \<Rightarrow> (grpc_code option + csi_Volume) \<times> Fake" where
  "create_volume_spec spec f = (case volume_by_name (spec_Name spec) (fk_volumes f) of
     None \<Rightarrow> (Inr (csiVolume (fake_new_volume spec f)), fake_added spec f)
   | Some v \<Rightarrow> if compatibleVolume v spec then (Inr (csiVolume v), f) else (Inl (Some codes_AlreadyExists), f))"

lemma fake_new_volume_simps [simp]:
  "vol_ID (fake_new_volume spec f) = volume_key (fk_nextVolume f)"
  "vol_Name (fake_new_volume spec f) = spec_Name spec"
  "compatibleVolume (fake_new_volume spec f) spec"
  by (simp_all add: fake_new_volume_def compatibleVolume_def providerVolumeType_def)

lemma fake_CreateVolume_new:
  "volume_by_name (spec_Name spec) (fk_volumes f) = None \<Longrightarrow>
     fake_CreateVolume spec f = (Inr (fake_new_volume spec f), fake_added spec f)"
  by (simp add: fake_CreateVolume_def fake_existing_by_name fake_new_volume_def fake_added_def Let_def)

lemma volume_by_name_added:
  assumes "fake_inv f" and "volume_by_name (spec_Name spec) (fk_volumes f) = None"
  shows "volume_by_name (spec_Name spec) (fk_volumes (fake_added spec f)) = Some (fake_new_volume spec f)"
  using fresh_volume_key [OF assms(1)] assms(2)
  by (auto simp: fake_added_def map_of_eq_None_iff intro: by_name_update_fresh)

lemma fake_inv_added:
  assumes "fake_inv f" and "volume_by_name (spec_Name spec) (fk_volumes f) = None"
  shows "fake_inv (fake_added spec f)"
  using fake_CreateVolume_inv [OF assms(1), of spec] by (simp add: fake_CreateVolume_new [OF assms(2)])

lemma verifiedResponse_stored:
  assumes "map_of (fk_volumes f) (vol_ID v) = Some v" and "compatibleVolume v spec"
  shows "verifiedResponse (fake_driver cfg now mnt) v spec f = (Inr (csiVolume v), f)"
proof -
  have "(if vol_AvailabilityZone v = '''' then v\<lparr>vol_AvailabilityZone := spec_AvailabilityZone spec\<rparr> else v) = v"
    using assms(2) by (simp add: compatibleVolume_def)
  then show ?thesis using assms
    by (simp add: verifiedResponse_def verifyVolume_def fake_GetVolumeByID_def Let_def)
qed

lemma reconcileCreatedVolume_fake:
  assumes "fake_inv f" and "timers_fire ctx" and "volume_by_name (spec_Name spec) (fk_volumes f) = Some v"
    and "compatibleVolume v spec" and "vol_ID v \<noteq> ''''"
  shows "reconcileCreatedVolume ctx (fake_driver cfg now mnt) spec f = (Inr v, f)"
proof -
  have "visible spec v" using assms(4) by (simp add: visible_def compatibleVolume_def)
  then show ?thesis using reconcile_fake [OF assms(1), of cfg now mnt spec] assms(2-)
    unfolding reconcileCreatedVolume_def by (intro reconcile_created_settles) simp_all
qed

lemma CreateVolume_locked_fake:
  assumes inv: "fake_inv f" and ctx: "timers_fire ctx"
  shows "outcome (CreateVolume_locked ctx (fake_driver cfg now mnt) spec f) = create_volume_spec spec f"
proof (cases "volume_by_name (spec_Name spec) (fk_volumes f)")
  case None
  have stored: "map_of (fk_volumes (fake_added spec f)) (volume_key (fk_nextVolume f)) = Some (fake_new_volume spec f)"
    by (simp add: fake_added_def)
  have "reconcileCreatedVolume ctx (fake_driver cfg now mnt) spec (fake_added spec f) =
      (Inr (fake_new_volume spec f), fake_added spec f)"
    using reconcileCreatedVolume_fake [OF fake_inv_added [OF inv None] ctx volume_by_name_added [OF inv None]] by simp
  then show ?thesis
    using None verifiedResponse_stored [of "fake_added spec f" "fake_new_volume spec f" spec cfg now mnt] stored
    by (simp add: CreateVolume_locked_def reconcile_fake [OF inv] fake_CreateVolume_new create_volume_spec_def)
next
  case (Some v)
  note stored = volume_by_name_stored [OF inv Some]
  have "compatibleVolume v spec \<Longrightarrow> visible spec v" by (simp add: visible_def compatibleVolume_def)
  with Some verifiedResponse_stored [OF stored, of spec cfg now mnt] show ?thesis
    by (auto simp: CreateVolume_locked_def reconcile_fake [OF inv] create_volume_spec_def
        fake_CreateVolume_def fake_existing_by_name different_parameters_def)
qed

text \<open>A request, and the specification \<open>volumeSpec\<close> makes of it, for the witnesses.\<close>

definition sample_request :: CreateVolumeRequest where
  "sample_request = \<lparr>cvr_name = ''pvc-1'',
     cvr_capacity_range = Some \<lparr>required_bytes = 1073741824, limit_bytes = 0\<rparr>,
     cvr_volume_capabilities = [Some \<lparr>vc_access_mode = Some SINGLE_NODE_WRITER,
        vc_access_type = Some (AccessMount \<lparr>mv_fs_type = '''', mv_mount_flags = []\<rparr>)\<rparr>],
     cvr_parameters = [], cvr_volume_content_source = None, cvr_accessibility_requirements = None\<rparr>"

definition sample_metadata :: InstanceMetadata where
  "sample_metadata = \<lparr>im_InstanceID = ''i-1'', im_AvailabilityZone = ''nova'', im_Region = '''', im_MaxVolumesPerNode = 0\<rparr>"

definition sample_driver :: "Fake Driver" where
  "sample_driver = fake_driver sample_config None idle_mounter"

definition sample_state :: "Fake DState" where
  "sample_state = \<lparr>locks = {}, names = {}, world = NewFake sample_metadata\<rparr>"

definition sample_request_spec :: VolumeSpec where
  "sample_request_spec = sample_spec\<lparr>spec_Metadata := [(''csi.driver'', ''csi.nobus.io'')]\<rparr>"

lemma sample_request_valid:
  "validateCapabilities (cvr_volume_capabilities sample_request) = None"
  "volumeSpec sample_request sample_config = Inr sample_request_spec"
  by code_simp+

lemma CreateVolume_admitted:
  assumes "validateCapabilities (cvr_volume_capabilities req) = None"
    and "volumeSpec req (drv_config d) = Inr spec" and "cvr_name req \<notin> names st"
  shows "CreateVolume ctx d req st = (fst (CreateVolume_locked ctx d spec (world st)),
    st\<lparr>world := snd (CreateVolume_locked ctx d spec (world st))\<rparr>)"
  using assms by (simp add: CreateVolume_def with_name_lock_free)

text \<open>
  C1. \<open>CreateVolume\<close> refines its contract.  Over the in-memory provider a well-formed request
  returns the volume of its name when that volume agrees with it, fails with AlreadyExists when
  it does not, and otherwise returns a new volume built from the request; nothing else changes.
\<close>

theorem CreateVolume_refines_contract:
  assumes "fake_inv (world st)" and "timers_fire ctx"
    and "validateCapabilities (cvr_volume_capabilities req) = None"
    and "volumeSpec req cfg = Inr spec" and "cvr_name req \<notin> names st"
  shows "outcome (CreateVolume ctx (fake_driver cfg now mnt) req st) =
    (fst (create_volume_spec spec (world st)), st\<lparr>world := snd (create_volume_spec spec (world st))\<rparr>)"
  using CreateVolume_admitted [of req "fake_driver cfg now mnt" spec st ctx] assms(3-5)
    CreateVolume_locked_fake [OF assms(1,2), of cfg now mnt spec]
  by (auto simp: outcome_def prod_eq_iff)

lemma CreateVolume_refines_contract_witness:
  "outcome (CreateVolume context_Background (fake_driver sample_config None idle_mounter) sample_request sample_state) =
     (Inr (csiVolume (fake_new_volume sample_request_spec (NewFake sample_metadata))),
      sample_state\<lparr>world := fake_added sample_request_spec (NewFake sample_metadata)\<rparr>)"
  using CreateVolume_refines_contract [of sample_state context_Background sample_request sample_config
      sample_request_spec None idle_mounter]
  by (simp add: sample_request_valid sample_state_def fake_inv_NewFake create_volume_spec_def)

text \<open>
  C2. \<open>CreateVolume\<close> is idempotent.  When it succeeds, the same request made again returns the same
  volume and changes nothing.
\<close>

theorem CreateVolume_idempotent:
  assumes inv: "fake_inv (world st)" and ctx: "timers_fire ctx"
    and first: "CreateVolume ctx (fake_driver cfg now mnt) req st = (Inr cv, st')"
  shows "CreateVolume ctx (fake_driver cfg now mnt) req st' = (Inr cv, st')"
proof -
  let ?d = "fake_driver cfg now mnt"
  have caps: "validateCapabilities (cvr_volume_capabilities req) = None"
    using first by (auto simp: CreateVolume_def split: option.splits)
  obtain spec where spec: "volumeSpec req (drv_config ?d) = Inr spec"
    using first by (auto simp: CreateVolume_def split: option.splits sum.splits)
  have free: "cvr_name req \<notin> names st"
    using first caps spec by (auto simp: CreateVolume_def with_name_lock_taken)
  note run = CreateVolume_admitted [OF caps spec, of _ ctx]
  let ?f = "world st" and ?f' = "world st'"
  have st': "st' = st\<lparr>world := ?f'\<rparr>" and r: "fst (CreateVolume_locked ctx ?d spec ?f) = Inr cv"
    and f': "snd (CreateVolume_locked ctx ?d spec ?f) = ?f'"
    using run [OF free] first by auto
  then have "create_volume_spec spec ?f = (Inr cv, ?f')"
    using CreateVolume_locked_fake [OF inv ctx, of cfg now mnt spec] by (simp add: outcome_def)
  then have again: "fake_inv ?f' \<and> create_volume_spec spec ?f' = (Inr cv, ?f')"
    using inv fake_inv_added [OF inv, of spec] volume_by_name_added [OF inv, of spec]
    by (auto simp: create_volume_spec_def split: option.splits if_splits)
  then have "outcome (CreateVolume_locked ctx ?d spec ?f') = (Inr cv, ?f')"
    using CreateVolume_locked_fake [OF _ ctx] by simp
  then have "CreateVolume_locked ctx ?d spec ?f' = (Inr cv, ?f')"
    by (auto simp: outcome_def map_sum_def prod_eq_iff split: sum.splits)
  moreover have "cvr_name req \<notin> names st'" using st' free by (metis DState.select_convs(2) DState.surjective DState.update_convs(3))
  ultimately show ?thesis using run [of st'] by simp
qed

lemma CreateVolume_idempotent_witness:
  "\<exists>cv st'. CreateVolume context_Background (fake_driver sample_config None idle_mounter) sample_request sample_state = (Inr cv, st') \<and>
     CreateVolume context_Background (fake_driver sample_config None idle_mounter) sample_request st' = (Inr cv, st')"
proof -
  have inv: "fake_inv (world sample_state)" by (simp add: sample_state_def fake_inv_NewFake)
  have "\<exists>cv st'. CreateVolume context_Background (fake_driver sample_config None idle_mounter) sample_request sample_state = (Inr cv, st')"
    using CreateVolume_locked_fake [OF inv, of context_Background sample_config None idle_mounter sample_request_spec]
      CreateVolume_admitted [of sample_request "fake_driver sample_config None idle_mounter" sample_request_spec sample_state context_Background]
    by (auto simp: sample_request_valid sample_state_def create_volume_spec_def outcome_def
        map_sum_def prod_eq_iff split: sum.splits)
  then show ?thesis using CreateVolume_idempotent [OF inv] by (meson timers_fire_Background)
qed

section \<open>What CreateVolume removes\<close>

text \<open>A context that may be cancelled at any time, but whose timers do not touch the provider.\<close>

definition timers_idle :: "'s Context \<Rightarrow> bool" where
  "timers_idle ctx \<longleftrightarrow> (\<forall>n s. snd (ctx_timer ctx n s) = s)"

lemma CreateVolume_frame_fake:
  assumes ok: "fake_keys_ok (world st)" and ctx: "timers_idle ctx"
    and spec: "volumeSpec req cfg = Inr spec"
  shows "fake.keeps spec (world st) (world (snd (CreateVolume ctx (fake_driver cfg now mnt) req st)))"
proof (cases "validateCapabilities (cvr_volume_capabilities req) = None \<and> cvr_name req \<notin> names st")
  case True
  obtain r f' where run: "CreateVolume_locked ctx (fake_driver cfg now mnt) spec (world st) = (r, f')" by fastforce
  have "fake.keeps spec (world st) f'"
    using fake.CreateVolume_locked_frame [of ctx "world st" "fake_driver cfg now mnt" now spec r f'] ok ctx run
    by (metis fake_driver_simps(2) snd_conv timers_idle_def)
  then show ?thesis
    using CreateVolume_admitted [of req "fake_driver cfg now mnt" spec st ctx] True spec run by simp
next
  case False
  then have "world (snd (CreateVolume ctx (fake_driver cfg now mnt) req st)) = world st"
    using spec by (auto simp: CreateVolume_def with_name_lock_taken split: option.splits)
  with ok show ?thesis by (simp add: fake.keeps_def)
qed

text \<open>
  C4. \<open>CreateVolume\<close> removes duplicates only.  Even where volumes share a name, and whenever the
  request's context ends, a volume survives \<open>CreateVolume\<close> unchanged if its name is another one,
  if it does not agree with the request, or if it is attached or in use.
\<close>

theorem CreateVolume_spares_protected:
  assumes "fake_keys_ok (world st)" and "timers_idle ctx" and "volumeSpec req cfg = Inr spec"
    and "map_of (fk_volumes (world st)) i = Some v"
    and "vol_Name v \<noteq> cvr_name req \<or> \<not> compatibleVolume v spec \<or>
         vol_Attachments v \<noteq> [] \<or> vol_Status v = VolumeStatusInUse"
  shows "map_of (fk_volumes (world (snd (CreateVolume ctx (fake_driver cfg now mnt) req st)))) i = Some v"
proof -
  have "spec_Name spec = cvr_name req"
    using assms(3) by (auto simp: volumeSpec_def Let_def split: if_splits option.splits sum.splits)
  then have "protected spec v" using assms(5) by (auto simp: protected_def deletableDuplicateVolume_def)
  with CreateVolume_frame_fake [OF assms(1-3), of now mnt] assms(4) show ?thesis by (simp add: fake.keeps_def)
qed

text \<open>Two creations of one name that both went through, and the second volume attached.\<close>

definition twin_state :: "Fake DState" where
  "twin_state = sample_state\<lparr>world := (NewFake sample_metadata)
     \<lparr>fk_nextVolume := 3,
      fk_volumes := [(volume_key 1, (fake_new_volume sample_request_spec (NewFake sample_metadata))),
        (volume_key 2, (fake_new_volume sample_request_spec (NewFake sample_metadata))
          \<lparr>vol_ID := volume_key 2, vol_Status := VolumeStatusInUse\<rparr>)]\<rparr>\<rparr>"

lemma twin_keys_ok: "fake_keys_ok (world twin_state)"
  by (auto simp: fake_keys_ok_def twin_state_def fake_new_volume_def NewFake_def)

lemma CreateVolume_spares_protected_witness:
  "map_of (fk_volumes (world (snd (CreateVolume context_Background (fake_driver sample_config None idle_mounter)
      sample_request twin_state)))) (volume_key 2) =
   Some ((fake_new_volume sample_request_spec (NewFake sample_metadata))
     \<lparr>vol_ID := volume_key 2, vol_Status := VolumeStatusInUse\<rparr>)"
  by (rule CreateVolume_spares_protected [OF twin_keys_ok _ sample_request_valid(2)])
     (simp_all add: timers_idle_def context_Background_def twin_state_def)

text \<open>
  C5. Reconciliation converges.  When \<open>reconcileVolumeByName\<close> succeeds it returns the volume with
  the least identifier among those of the name and zone, keeps it, and leaves no other volume of
  that name and zone unless it is attached or in use.
\<close>

theorem reconcile_keeps_one:
  assumes "fake_keys_ok f" and "reconcileVolumeByName (fake_driver cfg now mnt) spec f = (Inr v, f')"
  shows "map_of (fk_volumes f') (vol_ID v) = Some v \<and> vol_Name v = spec_Name spec \<and> compatibleVolume v spec \<and>
    (\<forall>i w. map_of (fk_volumes f) i = Some w \<and> vol_Name w = spec_Name spec \<and>
       vol_AvailabilityZone w = spec_AvailabilityZone spec \<longrightarrow> vol_ID v \<le> i) \<and>
    (\<forall>i w. map_of (fk_volumes f') i = Some w \<and> vol_Name w = spec_Name spec \<and>
       vol_AvailabilityZone w = spec_AvailabilityZone spec \<longrightarrow>
       i = vol_ID v \<or> vol_Attachments w \<noteq> [] \<or> vol_Status w = VolumeStatusInUse)"
  using fake.reconcile_result [OF assms(1) _ assms(2)] fake_strict.reconcile_leaves_one [OF assms(1) _ assms(2)]
  by (auto simp: deletableDuplicateVolume_def)

text \<open>Here the second twin is idle, so that it goes.\<close>

definition idle_twins :: Fake where
  "idle_twins = (NewFake sample_metadata)
     \<lparr>fk_nextVolume := 3,
      fk_volumes := [(volume_key 2, (fake_new_volume sample_request_spec (NewFake sample_metadata))\<lparr>vol_ID := volume_key 2\<rparr>),
        (volume_key 1, fake_new_volume sample_request_spec (NewFake sample_metadata))]\<rparr>"

lemma idle_twins_reconciled:
  "reconcileVolumeByName (fake_driver sample_config None idle_mounter) sample_request_spec idle_twins =
     (Inr (fake_new_volume sample_request_spec (NewFake sample_metadata)),
      idle_twins\<lparr>fk_volumes := [(volume_key 1, fake_new_volume sample_request_spec (NewFake sample_metadata))]\<rparr>)"
  by code_simp

lemma idle_twins_keys_ok: "fake_keys_ok idle_twins"
  by (auto simp: fake_keys_ok_def idle_twins_def fake_new_volume_def NewFake_def)

lemma sample_request_spec_simps:
  "spec_Name sample_request_spec = ''pvc-1''" "spec_AvailabilityZone sample_request_spec = ''nova''"
  "map_of (fk_volumes idle_twins) (volume_key 2) \<noteq> None"
  by (simp_all add: sample_request_spec_def sample_spec_def idle_twins_def)

lemma reconcile_keeps_one_witness:
  "map_of (fk_volumes idle_twins) (volume_key 2) \<noteq> None \<and>
   (\<nexists>i w. map_of (fk_volumes (snd (reconcileVolumeByName (fake_driver sample_config None idle_mounter)
        sample_request_spec idle_twins))) i = Some w \<and> vol_Name w = ''pvc-1'' \<and> vol_AvailabilityZone w = ''nova'' \<and>
      i \<noteq> volume_key 1 \<and> vol_Attachments w = [] \<and> vol_Status w \<noteq> VolumeStatusInUse)"
proof -
  note eq = idle_twins_reconciled
  have "vol_ID (fake_new_volume sample_request_spec (NewFake sample_metadata)) = volume_key 1"
    by (simp add: NewFake_def)
  then show ?thesis
    using reconcile_keeps_one [OF idle_twins_keys_ok eq] sample_request_spec_simps
    unfolding eq snd_conv by metis
qed

section \<open>The invariant along every history of calls\<close>

text \<open>A mounter that acts on something else than the provider.\<close>

definition mounter_idle :: "'s Mounter \<Rightarrow> bool" where
  "mounter_idle m \<longleftrightarrow>
     (\<forall>p s. snd (mnt_IsMounted m p s) = s) \<and> (\<forall>a p f o' s. snd (mnt_Stage m a p f o' s) = s) \<and>
     (\<forall>a p r b fl s. snd (mnt_Publish m a p r b fl s) = s) \<and> (\<forall>p s. snd (mnt_Unmount m p s) = s) \<and>
     (\<forall>p b s. snd (mnt_Stats m p b s) = s) \<and> (\<forall>p s. snd (mnt_IsBlock m p s) = s) \<and>
     (\<forall>p f s. snd (mnt_Expand m p f s) = s) \<and> (\<forall>v p s. snd (mnt_FindDevice m v p s) = s)"

lemma mounter_idle_idle [simp]: "mounter_idle idle_mounter"
  by (simp add: mounter_idle_def idle_mounter_def)

lemma timers_idle_Background [simp]: "timers_idle context_Background"
  by (simp add: timers_idle_def context_Background_def)

lemma snd_eqD: "f = (r, s') \<Longrightarrow> P (snd f) \<Longrightarrow> P s'"
  by simp

text \<open>An identifier that was handed out and is gone stays gone.\<close>

definition no_return :: "Fake \<Rightarrow> Fake \<Rightarrow> bool" where
  "no_return s s' \<longleftrightarrow> fk_nextVolume s \<le> fk_nextVolume s' \<and>
     (\<forall>n < fk_nextVolume s. map_of (fk_volumes s) (volume_key n) = None \<longrightarrow>
        map_of (fk_volumes s') (volume_key n) = None)"

lemma no_return_refl [simp]: "no_return s s"
  by (simp add: no_return_def)

lemma no_return_trans: "no_return s t \<Longrightarrow> no_return t u \<Longrightarrow> no_return s u"
  by (auto simp: no_return_def)

lemma driver_step_fake:
  assumes "timers_idle ctx" and "mounter_idle mnt" and inv: "fake_inv s"
    and "driver_step ctx (fake_driver cfg now mnt) s s'"
  shows "fake_inv s' \<and> no_return s s'"
  using assms(4)
proof cases
  case (1 n b)
  then show ?thesis using assms(1) inv by (metis no_return_refl snd_conv timers_idle_def)
next
  case (2 spec rv)
  then show ?thesis using fake_CreateVolume_inv [OF inv, of spec]
    by (auto simp: no_return_def fake_CreateVolume_def Let_def split: option.splits)
next
  case (5 vid ru)
  then show ?thesis using fake_DeleteVolume_inv [OF inv, of vid] by (auto simp: no_return_def fake_DeleteVolume_def)
next
  case (6 vid bytes zone rb)
  then show ?thesis using fake_ResizeVolume_inv [OF inv, of vid bytes zone]
    by (auto simp: no_return_def fake_ResizeVolume_def split: option.splits if_splits)
next
  case (7 vid iid zone rp)
  then show ?thesis using fake_AttachVolume_inv [OF inv, of vid iid zone]
    by (auto simp: no_return_def fake_AttachVolume_def Let_def split: option.splits if_splits list.splits)
next
  case (8 vid iid zone ru)
  then show ?thesis using fake_DetachVolume_inv [OF inv, of vid iid zone]
    by (auto simp: no_return_def fake_DetachVolume_def Let_def split: option.splits if_splits)
next
  case (9 sspec rs)
  then show ?thesis using fake_CreateSnapshot_inv [OF inv, of now sspec]
    by (auto simp: no_return_def fake_CreateSnapshot_def Let_def split: option.splits)
next
  case (10 sid zone ru)
  then show ?thesis using fake_DeleteSnapshot_inv [OF inv, of sid zone]
    by (auto simp: no_return_def fake_DeleteSnapshot_def split: option.splits if_splits)
qed (use assms(2) inv in \<open>auto simp: mounter_idle_def no_return_refl dest!: snd_eqD [where P = "\<lambda>t. t = s"]
        elim!: snd_eqD [where P = "\<lambda>t. fake_inv t \<and> no_return s t"]\<close>)

lemma driver_run_fake:
  assumes "timers_idle ctx" and "mounter_idle mnt" and "driver_run ctx (fake_driver cfg now mnt) s s'"
  shows "fake_inv s \<Longrightarrow> fake_inv s' \<and> no_return s s'"
  using assms(3)
proof (induction rule: rtranclp_induct)
  case (step t u)
  then show ?case using driver_step_fake [OF assms(1,2), of t cfg now u] no_return_trans by blast
qed simp

text \<open>
  C11. The provider's invariant.  Whatever calls the controller serves, in whatever order, from the
  empty provider: volume names are unique, every volume is filed under its own identifier, is
  attached to at most one instance, and is in use exactly when it is attached; and an identifier
  that was handed out and deleted is never handed out again.
\<close>

theorem served_calls_keep_invariant:
  assumes "timers_idle ctx" and "mounter_idle mnt" and "fake_inv (world st)"
  shows "fake_inv (world (serve_all ctx (fake_driver cfg now mnt) calls st)) \<and>
    (\<forall>n < fk_nextVolume (world st). map_of (fk_volumes (world st)) (volume_key n) = None \<longrightarrow>
       map_of (fk_volumes (world (serve_all ctx (fake_driver cfg now mnt) calls st))) (volume_key n) = None)"
  using driver_run_fake [OF assms(1,2) serve_all_run assms(3)] by (simp add: no_return_def)

lemma served_calls_keep_invariant_witness:
  "fake_inv (world (serve_all context_Background (fake_driver sample_config None idle_mounter)
     [CallCreateVolume sample_request, CallDeleteVolume (volume_key 1), CallCreateVolume sample_request] sample_state))"
  using served_calls_keep_invariant [of context_Background idle_mounter sample_state sample_config None
      "[CallCreateVolume sample_request, CallDeleteVolume (volume_key 1), CallCreateVolume sample_request]"]
  by (simp add: sample_state_def fake_inv_NewFake del: serve_all.simps)

section \<open>Attaching and detaching\<close>

text \<open>
  The contract of \<open>ControllerPublishVolume\<close> for a volume with a zone of its own: a volume attached
  to the node is published where it is, one attached elsewhere is not touched, and a free one
  is attached.
\<close>

definition fake_attached :: "string \<Rightarrow> Volume \<Rightarrow> Volume" where
  "fake_attached node v = v\<lparr>vol_Attachments := [\<lparr>att_InstanceID = node, att_DevicePath = fake_device (vol_ID v)\<rparr>],
     vol_Status := VolumeStatusInUse\<rparr>"

definition publish_spec :: "string \<Rightarrow> string \<Rightarrow> Fake \<Rightarrow> (grpc_code option + gomap) \<times> Fake" where
  "publish_spec vid node f = (case map_of (fk_volumes f) vid of
     None \<Rightarrow> (Inl (Some codes_NotFound), f)
   | Some v \<Rightarrow> (case vol_Attachments v of
       [] \<Rightarrow> (Inr (publish_context (fake_device vid)),
              f\<lparr>fk_volumes := AList.update vid (fake_attached node v) (fk_volumes f)\<rparr>)
     | at # _ \<Rightarrow> if att_InstanceID at = node then (Inr (publish_context (fake_device vid)), f)
                else (Inl (Some codes_FailedPrecondition), f)))"

definition zoned :: "Fake \<Rightarrow> bool" where
  "zoned f \<longleftrightarrow> (\<forall>(k, v) \<in> set (fk_volumes f). vol_AvailabilityZone v \<noteq> '''')"

lemma ControllerPublishVolume_locked_fake:
  assumes inv: "fake_inv f" and "zoned f"
  shows "outcome (ControllerPublishVolume_locked (fake_driver cfg now mnt) req f) =
    publish_spec (cpr_volume_id req) (cpr_node_id req) f"
proof (cases "map_of (fk_volumes f) (cpr_volume_id req)")
  case None
  then show ?thesis by (simp add: ControllerPublishVolume_locked_def fake_GetVolumeByID_def publish_spec_def)
next
  case (Some v)
  have ok: "fake_volume_ok (fk_nextVolume f) (cpr_volume_id req) v" using fake_invD(2) [OF inv Some] .
  have zone: "vol_AvailabilityZone v \<noteq> ''''" using assms(2) map_of_SomeD [OF Some] by (auto simp: zoned_def)
  have z: "cmp_Or [vol_AvailabilityZone v, a, b] = vol_AvailabilityZone v" for a b
    using zone by simp
  show ?thesis
  proof (cases "vol_Attachments v")
    case Nil
    then have "attachedDevice v (cpr_node_id req) = ('''', False)" by (simp add: attachedDevice_def)
    with Some ok Nil z zone show ?thesis
      by (simp add: ControllerPublishVolume_locked_def fake_GetVolumeByID_def publish_spec_def Let_def
          fake_AttachVolume_def fake_volume_ok_def fake_device_def fake_attached_def del: cmp_Or.simps)
  next
    case (Cons at rest)
    then have at: "rest = []" "att_DevicePath at = fake_device (cpr_volume_id req)" "\<not> vol_Multiattach v"
      using ok by (auto simp: fake_volume_ok_def)
    then have "attachedDevice v (cpr_node_id req) = (if att_InstanceID at = cpr_node_id req
        then (fake_device (cpr_volume_id req), False) else ('''', True))"
      using Cons by (simp add: attachedDevice_def)
    with Some Cons at show ?thesis
      by (simp add: ControllerPublishVolume_locked_def fake_GetVolumeByID_def publish_spec_def Let_def)
  qed
qed

lemma ControllerPublishVolume_admitted:
  assumes "cpr_volume_id req \<noteq> ''''" and "cpr_node_id req \<noteq> ''''" and "cpr_volume_id req \<notin> locks st"
  shows "ControllerPublishVolume d req st = (fst (ControllerPublishVolume_locked d req (world st)),
    st\<lparr>world := snd (ControllerPublishVolume_locked d req (world st))\<rparr>)"
  using assms by (simp add: ControllerPublishVolume_def with_volume_lock_free)

lemma ControllerPublishVolume_outcome:
  assumes "fake_inv (world st)" and "zoned (world st)"
    and "cpr_volume_id req \<noteq> ''''" and "cpr_node_id req \<noteq> ''''" and "cpr_volume_id req \<notin> locks st"
  shows "outcome (ControllerPublishVolume (fake_driver cfg now mnt) req st) =
    (fst (publish_spec (cpr_volume_id req) (cpr_node_id req) (world st)),
     st\<lparr>world := snd (publish_spec (cpr_volume_id req) (cpr_node_id req) (world st))\<rparr>)"
  using ControllerPublishVolume_admitted [OF assms(3-5), of "fake_driver cfg now mnt"]
    ControllerPublishVolume_locked_fake [OF assms(1,2), of cfg now mnt req]
  by (auto simp: outcome_def prod_eq_iff)

lemma publish_spec_Inr:
  assumes "fake_inv f" and "publish_spec vid n f = (Inr pc, f')"
  shows "\<exists>v. map_of (fk_volumes f') vid = Some v \<and> pc = publish_context (fake_device vid) \<and>
    \<not> vol_Multiattach v \<and> vol_Attachments v = [\<lparr>att_InstanceID = n, att_DevicePath = fake_device vid\<rparr>] \<and>
    (\<forall>w. w \<noteq> vid \<longrightarrow> map_of (fk_volumes f') w = map_of (fk_volumes f) w)"
proof (cases "map_of (fk_volumes f) vid")
  case None
  with assms(2) show ?thesis by (simp add: publish_spec_def)
next
  case (Some v)
  have "fake_volume_ok (fk_nextVolume f) vid v" using fake_invD(2) [OF assms(1) Some] .
  with assms(2) Some show ?thesis
    by (auto simp: publish_spec_def fake_attached_def fake_volume_ok_def split: list.splits if_splits)
qed

text \<open>
  C6. \<open>ControllerPublishVolume\<close> attaches exclusively.  When publishing a volume on a node succeeds,
  the volume is attached to that node and to no other, with the device path the response names, and
  no other volume is touched; publishing it there again gives the same answer and changes nothing,
  and publishing it on any other node fails with FailedPrecondition and changes nothing.
\<close>

theorem published_volume_is_exclusive:
  assumes inv: "fake_inv (world st)" and "zoned (world st)"
    and ids: "cpr_volume_id req \<noteq> ''''" "cpr_node_id req \<noteq> ''''"
    and pub: "ControllerPublishVolume (fake_driver cfg now mnt) req st = (Inr pc, st')"
  shows "(\<exists>v. map_of (fk_volumes (world st')) (cpr_volume_id req) = Some v \<and>
      vol_Attachments v = [\<lparr>att_InstanceID = cpr_node_id req, att_DevicePath = map_index pc ''device_path''\<rparr>]) \<and>
    (\<forall>w. w \<noteq> cpr_volume_id req \<longrightarrow> map_of (fk_volumes (world st')) w = map_of (fk_volumes (world st)) w) \<and>
    ControllerPublishVolume (fake_driver cfg now mnt) req st' = (Inr pc, st') \<and>
    (\<forall>req'. cpr_volume_id req' = cpr_volume_id req \<and> cpr_node_id req' \<notin> {'''', cpr_node_id req} \<longrightarrow>
       outcome (ControllerPublishVolume (fake_driver cfg now mnt) req' st') = (Inl (Some codes_FailedPrecondition), st'))"
proof -
  let ?d = "fake_driver cfg now mnt" and ?vid = "cpr_volume_id req" and ?n = "cpr_node_id req"
  have free: "?vid \<notin> locks st"
    using pub ids by (auto simp: ControllerPublishVolume_def with_volume_lock_taken)
  have "outcome (ControllerPublishVolume ?d req st) = (Inr pc, st')" using pub by simp
  then have s: "publish_spec ?vid ?n (world st) = (Inr pc, world st')" and st': "st' = st\<lparr>world := world st'\<rparr>"
    using ControllerPublishVolume_outcome [OF inv assms(2) ids free, of cfg now mnt] by (auto simp: prod_eq_iff)
  obtain v where v: "map_of (fk_volumes (world st')) ?vid = Some v" and pc: "pc = publish_context (fake_device ?vid)"
    and multi: "\<not> vol_Multiattach v"
    and att: "vol_Attachments v = [\<lparr>att_InstanceID = ?n, att_DevicePath = fake_device ?vid\<rparr>]"
    and frame: "\<And>w. w \<noteq> ?vid \<Longrightarrow> map_of (fk_volumes (world st')) w = map_of (fk_volumes (world st)) w"
    using publish_spec_Inr [OF inv s] by blast
  have again: "fst (ControllerPublishVolume_locked ?d r (world st')) =
      (if cpr_node_id r = ?n then Inr pc else Inl (statusError (Sentinel ErrConflict)))
      \<and> snd (ControllerPublishVolume_locked ?d r (world st')) = world st'"
    if "cpr_volume_id r = ?vid" "\<not> vol_Multiattach v" for r
    using that v att pc
    by (simp add: ControllerPublishVolume_locked_def fake_GetVolumeByID_def attachedDevice_def Let_def)
  have free': "?vid \<notin> locks st'" using st' free by (metis DState.select_convs(1) DState.surjective DState.update_convs(3))
  have "ControllerPublishVolume ?d r st' = (if cpr_node_id r = ?n then Inr pc else Inl (statusError (Sentinel ErrConflict)), st')"
    if "cpr_volume_id r = ?vid" "cpr_node_id r \<noteq> ''''" for r
    using ControllerPublishVolume_admitted [of r st' ?d] again [OF that(1) multi] that ids free' by simp
  then show ?thesis using v att pc frame ids by (auto simp: publish_context_def map_index_def)
qed

definition made_state :: "Fake DState" where
  "made_state = sample_state\<lparr>world := fake_added sample_request_spec (NewFake sample_metadata)\<rparr>"

lemma made_state_ok: "fake_inv (world made_state)" "zoned (world made_state)" "locks made_state = {}"
  "map_of (fk_volumes (world made_state)) (volume_key 1) =
     Some (fake_new_volume sample_request_spec (NewFake sample_metadata))"
  using fake_inv_added [OF fake_inv_NewFake [of sample_metadata], of sample_request_spec]
  by (simp_all add: made_state_def zoned_def fake_added_def sample_state_def fake_new_volume_def
      sample_request_spec_simps NewFake_def)

definition sample_publish :: "string \<Rightarrow> ControllerPublishVolumeRequest" where
  "sample_publish node = \<lparr>cpr_volume_id = volume_key 1, cpr_node_id = node, cpr_volume_context = []\<rparr>"

lemma sample_publish_simps [simp]:
  "cpr_volume_id (sample_publish n) = volume_key 1" "cpr_node_id (sample_publish n) = n"
  by (simp_all add: sample_publish_def)

lemma sample_published:
  "\<exists>pc st'. ControllerPublishVolume (fake_driver sample_config None idle_mounter) (sample_publish ''i-1'') made_state = (Inr pc, st')"
proof -
  have "fst (outcome (ControllerPublishVolume (fake_driver sample_config None idle_mounter) (sample_publish ''i-1'') made_state)) =
      Inr (publish_context (fake_device (volume_key 1)))"
    using ControllerPublishVolume_outcome [OF made_state_ok(1,2), of "sample_publish ''i-1''" sample_config None idle_mounter]
      made_state_ok(3,4)
    by (simp add: publish_spec_def fake_new_volume_def)
  then show ?thesis by (auto simp: outcome_def map_sum_def split: sum.splits) (metis prod.collapse)
qed

lemma published_volume_is_exclusive_witness:
  "\<exists>pc st'. ControllerPublishVolume (fake_driver sample_config None idle_mounter) (sample_publish ''i-1'') made_state = (Inr pc, st') \<and>
     outcome (ControllerPublishVolume (fake_driver sample_config None idle_mounter) (sample_publish ''i-2'') st') =
       (Inl (Some codes_FailedPrecondition), st')"
proof -
  obtain pc st' where pub: "ControllerPublishVolume (fake_driver sample_config None idle_mounter)
      (sample_publish ''i-1'') made_state = (Inr pc, st')" using sample_published by blast
  from published_volume_is_exclusive [OF made_state_ok(1,2) _ _ pub] have
    "outcome (ControllerPublishVolume (fake_driver sample_config None idle_mounter) (sample_publish ''i-2'') st') =
       (Inl (Some codes_FailedPrecondition), st')" by simp
  with pub show ?thesis by blast
qed

end
