(* ===== verification/FakeLifecycle.thy ===== *)
theory FakeLifecycle
  imports FakeService
begin

text \<open>
  The rest of a volume's and a snapshot's life over the in-memory provider: detaching, expansion,
  deletion, and the snapshot calls.
\<close>

section \<open>ControllerUnpublishVolume\<close>

text \<open>The contract: the node's attachment goes, everything else stays, and there is no error.\<close>

definition unpublished :: "string \<Rightarrow> string \<Rightarrow> Fake \<Rightarrow> Fake" where
  "unpublished vid node f = (case map_of (fk_volumes f) vid of
     None \<Rightarrow> f
   | Some v \<Rightarrow> if attachedToNode v node
               then f\<lparr>fk_volumes := AList.update vid (without_attachment node v) (fk_volumes f)\<rparr> else f)"

lemma attachedToNode_iff: "attachedToNode v node \<longleftrightarrow> (\<exists>a \<in> set (vol_Attachments v). att_InstanceID a = node)"
proof -
  have "attachedToNode_loop as node \<longleftrightarrow> (\<exists>a \<in> set as. att_InstanceID a = node)" for as
    by (induction as) auto
  then show ?thesis by (simp add: attachedToNode_def)
qed

lemma ControllerUnpublishVolume_locked_fake:
  assumes inv: "fake_inv f" and zoned: "zoned f"
  shows "ControllerUnpublishVolume_locked (fake_driver cfg now mnt) req f =
    (Inr (), unpublished (cur_volume_id req) (cur_node_id req) f)"
proof (cases "map_of (fk_volumes f) (cur_volume_id req)")
  case None
  then show ?thesis
    by (simp add: ControllerUnpublishVolume_locked_def fake_GetVolumeByID_def unpublished_def Let_def)
next
  case (Some v)
  have "vol_AvailabilityZone v \<noteq> ''''" using zoned map_of_SomeD [OF Some] by (auto simp: zoned_def)
  then show ?thesis
    using Some fake_DetachVolume_eq [OF inv Some, of "vol_AvailabilityZone v" "cur_node_id req"]
    by (simp add: ControllerUnpublishVolume_locked_def fake_GetVolumeByID_def unpublished_def Let_def)
qed

text \<open>
  What unpublishing leaves of a volume: the attachments to the node are gone and, when there was
  one, the volume is available again; no other field differs.
\<close>

definition detached_from :: "string \<Rightarrow> Volume \<Rightarrow> Volume" where
  "detached_from node v =
     (if \<exists>a \<in> set (vol_Attachments v). att_InstanceID a = node
      then v\<lparr>vol_Attachments := filter (\<lambda>a. att_InstanceID a \<noteq> node) (vol_Attachments v), vol_Status := VolumeStatusAvailable\<rparr>
      else v)"

lemma without_attachment_filter:
  "fake_volume_ok n k v \<Longrightarrow> without_attachment node v = detached_from node v"
  by (auto simp: fake_volume_ok_def without_attachment_def detached_from_def)

lemma in_update: "p \<in> set (AList.update k v m) \<Longrightarrow> p = (k, v) \<or> p \<in> set m"
  by (induction m) (auto split: if_splits)

lemma unpublished_inv:
  assumes "fake_inv f" and "zoned f"
  shows "fake_inv (unpublished k node f)" and "zoned (unpublished k node f)"
    and "unpublished k node (unpublished k node f) = unpublished k node f"
proof -
  show "fake_inv (unpublished k node f)"
    using assms(1) fake_invD(2) [OF assms(1)]
    by (auto simp: unpublished_def without_attachment_ok intro!: fake_inv_put_volume split: option.splits)
  have "vol_AvailabilityZone (without_attachment node v) = vol_AvailabilityZone v" for v
    by (simp add: without_attachment_def)
  then show "zoned (unpublished k node f)"
    using assms(2) by (auto simp: zoned_def unpublished_def dest!: in_update map_of_SomeD split: option.splits if_splits)
  show "unpublished k node (unpublished k node f) = unpublished k node f"
    by (auto simp: unpublished_def attachedToNode_iff without_attachment_def split: option.splits)
qed

text \<open>
  C8. \<open>ControllerUnpublishVolume\<close> detaches.  It succeeds whether or not the volume exists or is
  attached.  Afterwards the volume is the one before with the node's attachments removed (and marked
  available if there was one) and every other field as it was; a volume that did not exist still does
  not; all other volumes, the snapshots and the counters are untouched; and serving the same call
  again succeeds and changes nothing.
\<close>

theorem ControllerUnpublishVolume_detaches:
  assumes inv: "fake_inv (world st)" and "zoned (world st)"
    and "cur_volume_id req \<noteq> ''''" and "cur_node_id req \<noteq> ''''" and "cur_volume_id req \<notin> locks st"
  shows "\<exists>f'. ControllerUnpublishVolume (fake_driver cfg now mnt) req st = (Inr (), st\<lparr>world := f'\<rparr>) \<and>
    f' = (world st)\<lparr>fk_volumes := fk_volumes f'\<rparr> \<and>
    map_of (fk_volumes f') (cur_volume_id req) =
      map_option (detached_from (cur_node_id req)) (map_of (fk_volumes (world st)) (cur_volume_id req)) \<and>
    (\<forall>w. w \<noteq> cur_volume_id req \<longrightarrow> map_of (fk_volumes f') w = map_of (fk_volumes (world st)) w) \<and>
    ControllerUnpublishVolume (fake_driver cfg now mnt) req (st\<lparr>world := f'\<rparr>) = (Inr (), st\<lparr>world := f'\<rparr>)"
proof -
  let ?k = "cur_volume_id req" and ?n = "cur_node_id req" and ?f = "world st"
  let ?g = "unpublished ?k ?n ?f"
  note ok = unpublished_inv [OF assms(1,2), of ?k ?n]
  have run: "ControllerUnpublishVolume (fake_driver cfg now mnt) req (st\<lparr>world := f\<rparr>) = (Inr (), st\<lparr>world := unpublished ?k ?n f\<rparr>)"
    if "fake_inv f" "zoned f" for f
    using assms(3-5) ControllerUnpublishVolume_locked_fake [OF that, of cfg now mnt req]
    by (simp add: ControllerUnpublishVolume_def with_volume_lock_free)
  have volume: "map_of (fk_volumes ?g) ?k = map_option (detached_from ?n) (map_of (fk_volumes ?f) ?k)"
  proof (cases "map_of (fk_volumes ?f) ?k")
    case (Some v)
    then show ?thesis using without_attachment_filter [OF fake_invD(2) [OF inv Some], of ?n]
      by (auto simp: unpublished_def attachedToNode_iff detached_from_def)
  qed (simp add: unpublished_def)
  have rest: "?g = ?f\<lparr>fk_volumes := fk_volumes ?g\<rparr>" "w \<noteq> ?k \<Longrightarrow> map_of (fk_volumes ?g) w = map_of (fk_volumes ?f) w" for w
    by (simp_all add: unpublished_def split: option.splits)
  show ?thesis
    using run [OF assms(1,2)] run [OF ok(1,2)] ok(3) volume rest by (intro exI [of _ ?g]) simp
qed

definition sample_unpublish :: ControllerUnpublishVolumeRequest where
  "sample_unpublish = \<lparr>cur_volume_id = volume_key 1, cur_node_id = ''i-1''\<rparr>"

definition attached_state :: "Fake DState" where
  "attached_state = made_state\<lparr>world := (world made_state)
     \<lparr>fk_volumes := AList.update (volume_key 1)
        (fake_attached ''i-1'' (fake_new_volume sample_request_spec (NewFake sample_metadata)))
        (fk_volumes (world made_state))\<rparr>\<rparr>"

lemma attached_state_ok: "fake_inv (world attached_state)" "zoned (world attached_state)" "locks attached_state = {}"
  "map_of (fk_volumes (world attached_state)) (volume_key 1) =
     Some (fake_attached ''i-1'' (fake_new_volume sample_request_spec (NewFake sample_metadata)))"
proof -
  show "fake_inv (world attached_state)"
    using fake_inv_put_volume [OF made_state_ok(1,4), of "fake_attached ''i-1'' (fake_new_volume sample_request_spec (NewFake sample_metadata))"]
      fake_invD(2) [OF made_state_ok(1,4)]
    by (simp add: attached_state_def fake_attached_def fake_volume_ok_def NewFake_def)
qed (simp_all add: attached_state_def made_state_def zoned_def fake_added_def sample_state_def
    fake_new_volume_def fake_attached_def sample_request_spec_simps NewFake_def)

lemma ControllerUnpublishVolume_detaches_witness:
  "\<exists>f' v. ControllerUnpublishVolume (fake_driver sample_config None idle_mounter) sample_unpublish attached_state =
      (Inr (), attached_state\<lparr>world := f'\<rparr>) \<and>
    map_of (fk_volumes f') (volume_key 1) = Some v \<and> vol_Attachments v = [] \<and> vol_Status v = VolumeStatusAvailable \<and>
    vol_SizeBytes v = vol_SizeBytes (fake_new_volume sample_request_spec (NewFake sample_metadata))"
proof -
  let ?v = "fake_new_volume sample_request_spec (NewFake sample_metadata)"
  have "cur_volume_id sample_unpublish = volume_key 1" "cur_node_id sample_unpublish = ''i-1''"
    by (simp_all add: sample_unpublish_def)
  with ControllerUnpublishVolume_detaches [OF attached_state_ok(1,2), of sample_unpublish sample_config None idle_mounter]
  obtain f' where "ControllerUnpublishVolume (fake_driver sample_config None idle_mounter) sample_unpublish attached_state =
      (Inr (), attached_state\<lparr>world := f'\<rparr>)"
    and "map_of (fk_volumes f') (volume_key 1) = Some (detached_from ''i-1'' (fake_attached ''i-1'' ?v))"
    by (auto simp: attached_state_ok simp del: One_nat_def)
  moreover have "vol_Attachments (detached_from ''i-1'' (fake_attached ''i-1'' ?v)) = []"
    "vol_Status (detached_from ''i-1'' (fake_attached ''i-1'' ?v)) = VolumeStatusAvailable"
    "vol_SizeBytes (detached_from ''i-1'' (fake_attached ''i-1'' ?v)) = vol_SizeBytes ?v"
    by (simp_all add: detached_from_def fake_attached_def)
  ultimately show ?thesis by blast
qed

section \<open>ControllerExpandVolume\<close>

lemma ControllerExpandVolume_locked_fake:
  assumes "requestedBytes (cer_capacity_range req) (cfg_MinimumVolumeBytes cfg) (cfg_VolumeGranularityBytes cfg) = Inr n"
  shows "ControllerExpandVolume_locked (fake_driver cfg now mnt) req f =
    (case map_of (fk_volumes f) (cer_volume_id req) of
       None \<Rightarrow> (Inl (statusError (Sentinel ErrNotFound)), f)
     | Some v \<Rightarrow>
         if n \<le>s vol_SizeBytes v
         then (Inr \<lparr>ce_capacity_bytes = vol_SizeBytes v, ce_node_expansion_required = True\<rparr>, f)
         else (Inr \<lparr>ce_capacity_bytes = n, ce_node_expansion_required = True\<rparr>,
               f\<lparr>fk_volumes := AList.update (cer_volume_id req) (v\<lparr>vol_SizeBytes := n\<rparr>) (fk_volumes f)\<rparr>))"
  using assms
  by (auto simp: ControllerExpandVolume_locked_def fake_GetVolumeByID_def fake_ResizeVolume_def
      word_sle_eq word_sless_alt split: option.splits)

text \<open>
  C9. \<open>ControllerExpandVolume\<close> never shrinks.  When it succeeds, the volume has the capacity the
  response reports, which is at least the rounded request and at least the old capacity; nothing but
  the capacity of that volume changes, and the same request made again changes nothing.
\<close>

theorem ControllerExpandVolume_grows:
  assumes req: "requestedBytes (cer_capacity_range req) (cfg_MinimumVolumeBytes cfg) (cfg_VolumeGranularityBytes cfg) = Inr n"
    and ok: "ControllerExpandVolume (fake_driver cfg now mnt) req st = (Inr resp, st')"
  shows "\<exists>v. map_of (fk_volumes (world st)) (cer_volume_id req) = Some v \<and>
    map_of (fk_volumes (world st')) (cer_volume_id req) = Some (v\<lparr>vol_SizeBytes := ce_capacity_bytes resp\<rparr>) \<and>
    sint (ce_capacity_bytes resp) = max (sint n) (sint (vol_SizeBytes v)) \<and>
    (\<forall>w. w \<noteq> cer_volume_id req \<longrightarrow> map_of (fk_volumes (world st')) w = map_of (fk_volumes (world st)) w) \<and>
    ControllerExpandVolume (fake_driver cfg now mnt) req st' = (Inr resp, st')"
proof -
  let ?d = "fake_driver cfg now mnt" and ?k = "cer_volume_id req"
  note body = ControllerExpandVolume_locked_fake [OF req, of now mnt]
  have k: "?k \<noteq> ''''" and free: "?k \<notin> locks st"
    using ok by (auto simp: ControllerExpandVolume_def with_volume_lock_taken split: if_splits)
  have run: "ControllerExpandVolume ?d req s = (fst (ControllerExpandVolume_locked ?d req (world s)),
      s\<lparr>world := snd (ControllerExpandVolume_locked ?d req (world s))\<rparr>)" if "locks s = locks st" for s
    using k free that by (simp add: ControllerExpandVolume_def with_volume_lock_free)
  have r: "ControllerExpandVolume_locked ?d req (world st) = (Inr resp, world st')"
    and st': "st' = st\<lparr>world := world st'\<rparr>"
    using run [of st] ok by (auto simp: prod_eq_iff)
  then obtain v where v: "map_of (fk_volumes (world st)) ?k = Some v" using body by (auto split: option.splits)
  have res: "map_of (fk_volumes (world st')) ?k = Some (v\<lparr>vol_SizeBytes := ce_capacity_bytes resp\<rparr>) \<and>
      sint (ce_capacity_bytes resp) = max (sint n) (sint (vol_SizeBytes v)) \<and>
      (\<forall>w. w \<noteq> ?k \<longrightarrow> map_of (fk_volumes (world st')) w = map_of (fk_volumes (world st)) w) \<and>
      ce_node_expansion_required resp"
  proof -
    have "world st' = (if n \<le>s vol_SizeBytes v then world st
          else (world st)\<lparr>fk_volumes := AList.update ?k (v\<lparr>vol_SizeBytes := n\<rparr>) (fk_volumes (world st))\<rparr>)"
      and "resp = \<lparr>ce_capacity_bytes = (if n \<le>s vol_SizeBytes v then vol_SizeBytes v else n),
          ce_node_expansion_required = True\<rparr>"
      using r v body [of "world st"] by (simp_all split: if_splits)
    then show ?thesis using v by (simp add: word_sle_eq)
  qed
  have "ControllerExpandVolume_locked ?d req (world st') = (Inr resp, world st')"
    using res body [of "world st'"] by (auto simp: word_sle_eq)
  moreover have "locks st' = locks st"
    using st' by (metis DState.select_convs(1) DState.surjective DState.update_convs(3))
  ultimately have "ControllerExpandVolume ?d req st' = (Inr resp, st')" using run [of st'] by simp
  with v res show ?thesis by blast
qed

definition sample_expand :: ControllerExpandVolumeRequest where
  "sample_expand = \<lparr>cer_volume_id = volume_key 1, cer_capacity_range = Some \<lparr>required_bytes = 1073741825, limit_bytes = 0\<rparr>\<rparr>"

lemma sample_expand_bytes:
  "requestedBytes (cer_capacity_range sample_expand) (cfg_MinimumVolumeBytes sample_config)
     (cfg_VolumeGranularityBytes sample_config) = Inr 2147483648"
  by code_simp

lemma ControllerExpandVolume_grows_witness:
  "\<exists>resp st'. ControllerExpandVolume (fake_driver sample_config None idle_mounter) sample_expand made_state = (Inr resp, st') \<and>
     sint (ce_capacity_bytes resp) = 2147483648"
proof -
  let ?d = "fake_driver sample_config None idle_mounter"
  have "\<exists>resp. fst (ControllerExpandVolume_locked ?d sample_expand (world made_state)) = Inr resp"
    using ControllerExpandVolume_locked_fake [OF sample_expand_bytes, of None idle_mounter "world made_state"] made_state_ok(4)
    by (simp add: sample_expand_def split: if_splits)
  then obtain resp st' where ok: "ControllerExpandVolume ?d sample_expand made_state = (Inr resp, st')"
    using made_state_ok(3) by (auto simp: ControllerExpandVolume_def with_volume_lock_free sample_expand_def)
  from ControllerExpandVolume_grows [OF sample_expand_bytes ok] made_state_ok(4)
  have "sint (ce_capacity_bytes resp) =
      max (sint (2147483648 :: i64)) (sint (vol_SizeBytes (fake_new_volume sample_request_spec (NewFake sample_metadata))))"
    by (auto simp: sample_expand_def)
  also have "\<dots> = 2147483648" by (simp add: fake_new_volume_def sample_request_spec_def sample_spec_def)
  finally show ?thesis using ok by blast
qed

section \<open>DeleteVolume\<close>

text \<open>
  \<open>DeleteVolume\<close> removes exactly one volume and is idempotent: it succeeds, the volume is gone,
  every other one is as before, and deleting it again succeeds and changes nothing.
\<close>

theorem DeleteVolume_removes:
  assumes "v \<noteq> ''''" and "v \<notin> locks st"
  shows "\<exists>f'. DeleteVolume (fake_driver cfg now mnt) v st = (Inr (), st\<lparr>world := f'\<rparr>) \<and>
    map_of (fk_volumes f') v = None \<and>
    (\<forall>w. w \<noteq> v \<longrightarrow> map_of (fk_volumes f') w = map_of (fk_volumes (world st)) w) \<and>
    DeleteVolume (fake_driver cfg now mnt) v (st\<lparr>world := f'\<rparr>) = (Inr (), st\<lparr>world := f'\<rparr>)"
  using assms
  by (intro exI [of _ "world st\<lparr>fk_volumes := AList.delete v (fk_volumes (world st))\<rparr>"])
     (simp add: DeleteVolume_def DeleteVolume_locked_def fake_DeleteVolume_def with_volume_lock_free delete_idem)

lemma DeleteVolume_removes_witness:
  "\<exists>f'. DeleteVolume (fake_driver sample_config None idle_mounter) (volume_key 1) made_state = (Inr (), made_state\<lparr>world := f'\<rparr>) \<and>
     map_of (fk_volumes f') (volume_key 1) = None"
  using DeleteVolume_removes [of "volume_key 1" made_state sample_config None idle_mounter] made_state_ok(3) by auto

section \<open>Snapshots\<close>

definition fake_new_snapshot :: "gotime \<Rightarrow> SnapshotSpec \<Rightarrow> Volume \<Rightarrow> Fake \<Rightarrow> Snapshot" where
  "fake_new_snapshot now spec v f =
     \<lparr>snap_ID = snapshot_key (fk_nextSnapshot f), snap_Name = snapspec_Name spec,
      snap_VolumeID = snapspec_VolumeID spec, snap_SizeBytes = vol_SizeBytes v,
      snap_Status = SnapshotStatusAvailable, snap_CreatedAt = now,
      snap_AvailabilityZone = snapspec_AvailabilityZone spec, snap_Metadata = snapspec_Metadata spec\<rparr>"

definition fake_snapped :: "gotime \<Rightarrow> SnapshotSpec \<Rightarrow> Volume \<Rightarrow> Fake \<Rightarrow> Fake" where
  "fake_snapped now spec v f = f\<lparr>fk_nextSnapshot := fk_nextSnapshot f + 1,
     fk_snapshots := AList.update (snapshot_key (fk_nextSnapshot f)) (fake_new_snapshot now spec v f) (fk_snapshots f)\<rparr>"

lemma fake_new_snapshot_simps [simp]:
  "snap_ID (fake_new_snapshot now spec v f) = snapshot_key (fk_nextSnapshot f)"
  "snap_Name (fake_new_snapshot now spec v f) = snapspec_Name spec"
  "snap_VolumeID (fake_new_snapshot now spec v f) = snapspec_VolumeID spec"
  "snap_AvailabilityZone (fake_new_snapshot now spec v f) = snapspec_AvailabilityZone spec"
  by (simp_all add: fake_new_snapshot_def)

lemma fake_CreateSnapshot_new:
  "map_of (fk_volumes f) (snapspec_VolumeID spec) = Some v \<Longrightarrow>
     snapshot_by_name (snapspec_Name spec) (fk_snapshots f) = None \<Longrightarrow>
     fake_CreateSnapshot now spec f = (Inr (fake_new_snapshot now spec v f), fake_snapped now spec v f)"
  by (simp add: fake_CreateSnapshot_def fake_existing_snapshot_by_name fake_new_snapshot_def fake_snapped_def Let_def)

lemma fake_inv_snapped:
  assumes "fake_inv f" and "map_of (fk_volumes f) (snapspec_VolumeID spec) = Some v"
    and "snapshot_by_name (snapspec_Name spec) (fk_snapshots f) = None"
  shows "fake_inv (fake_snapped now spec v f)"
  using fake_CreateSnapshot_inv [OF assms(1), of now spec] by (simp add: fake_CreateSnapshot_new [OF assms(2,3)])

lemma snapshot_by_name_snapped:
  assumes "fake_inv f" and "snapshot_by_name (snapspec_Name spec) (fk_snapshots f) = None"
  shows "snapshot_by_name (snapspec_Name spec) (fk_snapshots (fake_snapped now spec v f)) =
    Some (fake_new_snapshot now spec v f)"
  using fresh_snapshot_key [OF assms(1)] assms(2)
  by (auto simp: fake_snapped_def map_of_eq_None_iff intro: by_name_update_fresh)

lemma collect_snapshots_unique:
  "filter (\<lambda>sn. snap_Name sn = name) sns = [] \<Longrightarrow> collect_snapshots name src zone sns = Inr []"
  "filter (\<lambda>sn. snap_Name sn = name) sns = [sn] \<Longrightarrow> collect_snapshots name src zone sns =
     (if snap_VolumeID sn = src
      then Inr [if snap_AvailabilityZone sn = '''' then sn\<lparr>snap_AvailabilityZone := zone\<rparr> else sn]
      else Inl different_source)"
proof -
  show none: "filter (\<lambda>sn. snap_Name sn = name) sns = [] \<Longrightarrow> collect_snapshots name src zone sns = Inr []"
    for sns by (induction sns) (auto split: if_splits)
  show "filter (\<lambda>sn. snap_Name sn = name) sns = [sn] \<Longrightarrow> collect_snapshots name src zone sns =
     (if snap_VolumeID sn = src
      then Inr [if snap_AvailabilityZone sn = '''' then sn\<lparr>snap_AvailabilityZone := zone\<rparr> else sn]
      else Inl different_source)"
    by (induction sns) (auto simp: none Let_def split: if_splits)
qed

lemma reconcile_snapshot_fake:
  assumes inv: "fake_inv f" and zone: "zone \<noteq> ''''"
  shows "reconcileSnapshotByName (fake_driver cfg now mnt) name src zone f =
    (case snapshot_by_name name (fk_snapshots f) of
       None \<Rightarrow> (Inl (Sentinel ErrNotFound), f)
     | Some sn \<Rightarrow>
         if snap_AvailabilityZone sn \<noteq> zone then (Inl (Sentinel ErrNotFound), f)
         else if snap_VolumeID sn = src then (Inr sn, f)
         else (Inl different_source, f))"
proof -
  let ?p = "\<lparr>page_Token = '''', page_Size = 0, page_Name = name, page_AvailabilityZone = zone\<rparr>"
  let ?n = "\<lambda>sn :: Snapshot. snap_Name sn = name"
  define xs where "xs = map snd (fk_snapshots f)"
  define Q where "Q = (\<lambda>sn :: Snapshot. \<not> (page_AvailabilityZone ?p \<noteq> '''' \<and> snap_AvailabilityZone sn \<noteq> page_AvailabilityZone ?p) \<and>
            \<not> (page_Name ?p \<noteq> '''' \<and> snap_Name sn \<noteq> page_Name ?p))"
  define L where "L = sort_by_ID snap_ID (filter Q xs)"
  have list: "fake_ListSnapshots ?p f = (Inr (L, ''''), f)"
    by (simp add: fake_ListSnapshots_def Let_def paginate_unpaged L_def Q_def xs_def)
  have names: "filter ?n xs = (case snapshot_by_name name (fk_snapshots f) of None \<Rightarrow> [] | Some sn \<Rightarrow> [sn])"
    unfolding xs_def by (rule filter_by_name [OF fake_invD(4) [OF inv] fake_invD(6) [OF inv]])
  have "filter ?n (filter Q xs) = filter (\<lambda>sn. snap_AvailabilityZone sn = zone) (filter ?n xs)"
    using zone by (auto simp: Q_def intro!: filter_cong)
  then have L: "filter ?n L = sort_by_ID snap_ID (filter (\<lambda>sn. snap_AvailabilityZone sn = zone) (filter ?n xs))"
    by (simp only: L_def filter_sort_by_ID)
  show ?thesis
  proof (cases "\<exists>sn. snapshot_by_name name (fk_snapshots f) = Some sn \<and> snap_AvailabilityZone sn = zone")
    case False
    then have "filter ?n L = []" using L names by (auto split: option.splits)
    with False list show ?thesis
      by (auto simp: reconcileSnapshotByName_def collect_snapshots_unique(1) split: option.splits)
  next
    case True
    then obtain sn where sn: "snapshot_by_name name (fk_snapshots f) = Some sn" "snap_AvailabilityZone sn = zone" by blast
    with L names have "filter ?n L = [sn]" by simp
    with sn zone list show ?thesis
      by (simp add: reconcileSnapshotByName_def collect_snapshots_unique(2))
  qed
qed

text \<open>The zone and the specification a request is made into.\<close>

definition snapshot_zone :: "Config \<Rightarrow> Volume \<Rightarrow> string" where
  "snapshot_zone cfg v = cmp_Or [vol_AvailabilityZone v, cfg_AvailabilityZone cfg]"

definition snapshot_spec :: "Config \<Rightarrow> CreateSnapshotRequest \<Rightarrow> Volume \<Rightarrow> SnapshotSpec" where
  "snapshot_spec cfg req v = \<lparr>snapspec_Name = csr_name req, snapspec_VolumeID = csr_source_volume_id req,
     snapspec_ProjectID = cfg_ProjectID cfg, snapspec_AvailabilityZone = snapshot_zone cfg v,
     snapspec_Force = True, snapspec_Metadata = [(''csi.driver'', cfg_DriverName cfg)]\<rparr>"

text \<open>
  The contract: the snapshot of the name if it is of the same volume, an error if it is of another,
  a new one if there is none.
\<close>

definition create_snapshot_spec ::
  "Config \<Rightarrow> gotime \<Rightarrow> CreateSnapshotRequest \<Rightarrow> Fake \<Rightarrow> (grpc_code option + csi_Snapshot) \<times> Fake" where
  "create_snapshot_spec cfg now req f = (case map_of (fk_volumes f) (csr_source_volume_id req) of
     None \<Rightarrow> (Inl (Some codes_NotFound), f)
   | Some v \<Rightarrow> (case snapshot_by_name (csr_name req) (fk_snapshots f) of
       None \<Rightarrow> (Inr (csiSnapshot (fake_new_snapshot now (snapshot_spec cfg req v) v f)),
                fake_snapped now (snapshot_spec cfg req v) v f)
     | Some sn \<Rightarrow> if snap_VolumeID sn = csr_source_volume_id req then (Inr (csiSnapshot sn), f)
                  else (Inl (Some codes_AlreadyExists), f)))"

text \<open>Snapshots lie in the zone of the volume they were made from.\<close>

definition snapshots_zoned :: "Config \<Rightarrow> Fake \<Rightarrow> bool" where
  "snapshots_zoned cfg f \<longleftrightarrow> (\<forall>k sn v. map_of (fk_snapshots f) k = Some sn \<longrightarrow>
     map_of (fk_volumes f) (snap_VolumeID sn) = Some v \<longrightarrow> snap_AvailabilityZone sn = snapshot_zone cfg v)"

lemma snapshot_by_name_stored:
  assumes "fake_inv f" and "snapshot_by_name name (fk_snapshots f) = Some sn"
  shows "map_of (fk_snapshots f) (snap_ID sn) = Some sn"
proof -
  from by_name_Some [OF assms(2)] obtain k where "(k, sn) \<in> set (fk_snapshots f)" by auto
  then have k: "map_of (fk_snapshots f) k = Some sn" using distinct_map_of_iff [OF fake_invD(4) [OF assms(1)]] by simp
  with fake_invD(5) [OF assms(1) k] show ?thesis by (simp add: fake_snapshot_ok_def)
qed

lemma CreateSnapshot_locked_fake:
  assumes inv: "fake_inv f" and zoned: "zoned f" and sz: "snapshots_zoned cfg f" and ctx: "timers_fire ctx"
  shows "outcome (CreateSnapshot_locked ctx (fake_driver cfg now mnt) req f) = create_snapshot_spec cfg now req f"
proof (cases "map_of (fk_volumes f) (csr_source_volume_id req)")
  case None
  then show ?thesis by (simp add: CreateSnapshot_locked_def fake_GetVolumeByID_def create_snapshot_spec_def)
next
  case (Some v)
  let ?d = "fake_driver cfg now mnt" and ?src = "csr_source_volume_id req" and ?name = "csr_name req"
  define zone where "zone = snapshot_zone cfg v"
  define spec where "spec = snapshot_spec cfg req v"
  have "vol_AvailabilityZone v \<noteq> ''''" using zoned map_of_SomeD [OF Some] by (auto simp: zoned_def)
  then have zone: "zone \<noteq> ''''" by (simp add: zone_def snapshot_zone_def)
  have spec: "snapspec_Name spec = ?name" "snapspec_VolumeID spec = ?src" "snapspec_AvailabilityZone spec = zone"
    by (simp_all add: spec_def snapshot_spec_def zone_def)
  have get: "fake_GetVolumeByID ?src f = (Inr v, f)" using Some by (simp add: fake_GetVolumeByID_def)
  have body: "CreateSnapshot_locked ctx ?d req f =
      (case reconcileSnapshotByName ?d ?name ?src zone f of
         (Inr existing, s2) \<Rightarrow> (Inr (csiSnapshot existing), s2)
       | (Inl err, s2) \<Rightarrow>
           if \<not> errors_is err ErrNotFound then (Inl (grpcError err), s2)
           else (case fake_CreateSnapshot now spec s2 of
               (Inl err, s3) \<Rightarrow> (Inl (statusError err), s3)
             | (Inr _, s3) \<Rightarrow>
                 (case reconcileCreatedSnapshot ctx ?d ?name ?src zone s3 of
                    (Inl err, s4) \<Rightarrow> (Inl err, s4)
                  | (Inr reconciled, s4) \<Rightarrow> (Inr (csiSnapshot reconciled), s4))))"
    by (simp only: CreateSnapshot_locked_def fake_driver_simps fake_cloud_simps get zone_def spec_def
        snapshot_spec_def snapshot_zone_def Let_def prod.case sum.case)
  note rec = reconcile_snapshot_fake [OF _ zone, of _ cfg now mnt ?name ?src]
  show ?thesis
  proof (cases "snapshot_by_name ?name (fk_snapshots f)")
    case new: None
    let ?sn = "fake_new_snapshot now spec v f" and ?f' = "fake_snapped now spec v f"
    have "fake_CreateSnapshot now spec f = (Inr ?sn, ?f')"
      using Some new spec by (intro fake_CreateSnapshot_new) simp_all
    moreover have inv': "fake_inv ?f'" using Some new spec inv by (intro fake_inv_snapped) simp_all
    moreover have "snapshot_by_name ?name (fk_snapshots ?f') = Some ?sn"
      using snapshot_by_name_snapped [OF inv, of spec now v] new spec by simp
    then have "reconcileSnapshotByName ?d ?name ?src zone ?f' = (Inr ?sn, ?f')"
      using rec [OF inv'] spec by simp
    then have "reconcileCreatedSnapshot ctx ?d ?name ?src zone ?f' = (Inr ?sn, ?f')"
      unfolding reconcileCreatedSnapshot_def using ctx by (intro reconcile_created_settles) simp_all
    ultimately show ?thesis using Some new rec [OF inv]
      by (simp add: body create_snapshot_spec_def spec_def)
  next
    case old: (Some sn)
    have "snap_AvailabilityZone sn = zone" if "snap_VolumeID sn = ?src"
      using sz snapshot_by_name_stored [OF inv old] Some that unfolding snapshots_zoned_def zone_def by metis
    then show ?thesis using Some old rec [OF inv] spec
      by (auto simp: body create_snapshot_spec_def different_source_def fake_CreateSnapshot_def
          fake_existing_snapshot_by_name)
  qed
qed

text \<open>
  C10. \<open>CreateSnapshot\<close> refines its contract.  Over the in-memory provider a request is NotFound when
  its source volume does not exist, returns the snapshot of its name when that is a snapshot of the
  same volume, fails with AlreadyExists when it is one of another volume, and otherwise makes and
  returns a new snapshot.
\<close>

theorem CreateSnapshot_refines_contract:
  assumes "fake_inv (world st)" and "zoned (world st)" and "snapshots_zoned cfg (world st)" and "timers_fire ctx"
    and "csr_name req \<noteq> ''''" and "csr_source_volume_id req \<noteq> ''''" and "''snapshot:'' @ csr_name req \<notin> names st"
  shows "outcome (CreateSnapshot ctx (fake_driver cfg now mnt) req st) =
    (fst (create_snapshot_spec cfg now req (world st)), st\<lparr>world := snd (create_snapshot_spec cfg now req (world st))\<rparr>)"
proof -
  have "CreateSnapshot ctx (fake_driver cfg now mnt) req st =
      (fst (CreateSnapshot_locked ctx (fake_driver cfg now mnt) req (world st)),
       st\<lparr>world := snd (CreateSnapshot_locked ctx (fake_driver cfg now mnt) req (world st))\<rparr>)"
    using with_name_lock_free [OF assms(7)] assms(5,6) by (simp add: CreateSnapshot_def)
  then show ?thesis using CreateSnapshot_locked_fake [OF assms(1-4), of now mnt req]
    by (auto simp: outcome_def prod_eq_iff)
qed

definition sample_snapshot :: CreateSnapshotRequest where
  "sample_snapshot = \<lparr>csr_name = ''snap'', csr_source_volume_id = volume_key 1\<rparr>"

lemma made_state_snapshots: "fk_snapshots (world made_state) = []" "names made_state = {}"
  by (simp_all add: made_state_def sample_state_def fake_added_def NewFake_def)

lemma CreateSnapshot_refines_contract_witness:
  "fst (outcome (CreateSnapshot context_Background (fake_driver sample_config None idle_mounter) sample_snapshot made_state)) =
     Inr (csiSnapshot (fake_new_snapshot None
       (snapshot_spec sample_config sample_snapshot (fake_new_volume sample_request_spec (NewFake sample_metadata)))
       (fake_new_volume sample_request_spec (NewFake sample_metadata)) (world made_state)))"
proof -
  have sz: "snapshots_zoned sample_config (world made_state)" by (simp add: snapshots_zoned_def made_state_snapshots)
  have "outcome (CreateSnapshot context_Background (fake_driver sample_config None idle_mounter) sample_snapshot made_state) =
    (fst (create_snapshot_spec sample_config None sample_snapshot (world made_state)),
     made_state\<lparr>world := snd (create_snapshot_spec sample_config None sample_snapshot (world made_state))\<rparr>)"
    by (rule CreateSnapshot_refines_contract [OF made_state_ok(1,2) sz])
       (simp_all add: sample_snapshot_def made_state_snapshots)
  then show ?thesis
    using made_state_ok(4) by (simp add: create_snapshot_spec_def made_state_snapshots sample_snapshot_def)
qed

text \<open>
  C20. Snapshot identifiers carry their zone.  A snapshot the driver reported is deleted by the
  identifier it reported, in the zone it lies in, whatever zone the driver is configured for.
\<close>

theorem DeleteSnapshot_of_reported:
  assumes "fake_inv (world st)" and "map_of (fk_snapshots (world st)) k = Some sn"
    and "snap_AvailabilityZone sn \<noteq> ''''" and "CHR ''/'' \<notin> set (snap_AvailabilityZone sn)"
  shows "DeleteSnapshot (fake_driver cfg now mnt) (cs_snapshot_id (csiSnapshot sn)) st =
    (Inr (), st\<lparr>world := (world st)\<lparr>fk_snapshots := AList.delete k (fk_snapshots (world st))\<rparr>\<rparr>)"
proof -
  have k: "snap_ID sn = k" using fake_invD(5) [OF assms(1,2)] by (simp add: fake_snapshot_ok_def)
  have "decodeSnapshotID (cs_snapshot_id (csiSnapshot sn)) (cfg_AvailabilityZone cfg) = (k, snap_AvailabilityZone sn)"
    using assms(3,4) k by (simp add: csiSnapshot_def encodeSnapshotID_def decodeSnapshotID_def)
  then show ?thesis using assms(2,3) k
    by (auto simp: DeleteSnapshot_def on_world_def fake_DeleteSnapshot_def csiSnapshot_def encodeSnapshotID_def)
qed

definition snapped_state :: "Fake DState" where
  "snapped_state = made_state\<lparr>world := fake_snapped None
     (snapshot_spec sample_config sample_snapshot (fake_new_volume sample_request_spec (NewFake sample_metadata)))
     (fake_new_volume sample_request_spec (NewFake sample_metadata)) (world made_state)\<rparr>"

lemma snapped_state_ok: "fake_inv (world snapped_state)"
  "map_of (fk_snapshots (world snapped_state)) (snapshot_key 1) = Some (fake_new_snapshot None
     (snapshot_spec sample_config sample_snapshot (fake_new_volume sample_request_spec (NewFake sample_metadata)))
     (fake_new_volume sample_request_spec (NewFake sample_metadata)) (world made_state))"
proof -
  have n: "fk_nextSnapshot (world made_state) = 1"
    by (simp add: made_state_def sample_state_def fake_added_def NewFake_def)
  show "fake_inv (world snapped_state)"
    using made_state_ok(4) made_state_snapshots(1) fake_inv_snapped [OF made_state_ok(1)]
    by (simp add: snapped_state_def snapshot_spec_def sample_snapshot_def)
  show "map_of (fk_snapshots (world snapped_state)) (snapshot_key 1) = Some (fake_new_snapshot None
     (snapshot_spec sample_config sample_snapshot (fake_new_volume sample_request_spec (NewFake sample_metadata)))
     (fake_new_volume sample_request_spec (NewFake sample_metadata)) (world made_state))"
    by (simp add: snapped_state_def fake_snapped_def n)
qed

lemma DeleteSnapshot_of_reported_witness:
  "fst (DeleteSnapshot (fake_driver (sample_config\<lparr>cfg_AvailabilityZone := ''other''\<rparr>) None idle_mounter)
     ''nova/snap-1'' snapped_state) = Inr ()"
proof -
  have zone: "snapshot_zone sample_config (fake_new_volume sample_request_spec f) = ''nova''" for f
    by (simp add: snapshot_zone_def fake_new_volume_def sample_request_spec_simps)
  have sid: "cs_snapshot_id (csiSnapshot (fake_new_snapshot None
      (snapshot_spec sample_config sample_snapshot (fake_new_volume sample_request_spec (NewFake sample_metadata)))
      (fake_new_volume sample_request_spec (NewFake sample_metadata)) (world made_state))) = ''nova/snap-1''"
  proof -
    have "snapshot_key (fk_nextSnapshot (world made_state)) = ''snap-1''" by code_simp
    then show ?thesis by (simp add: csiSnapshot_def encodeSnapshotID_def snapshot_spec_def zone)
  qed
  show ?thesis
    using DeleteSnapshot_of_reported [OF snapped_state_ok, of "sample_config\<lparr>cfg_AvailabilityZone := ''other''\<rparr>" None idle_mounter]
    by (simp add: sid, simp add: snapshot_spec_def zone)
qed

end
