(* ===== verification/Concurrent.thy ===== *)
theory Concurrent
  imports FakeLifecycle
begin

text \<open>
  One call among others.  The in-memory provider serves one call at a time, under its mutex, and between
  two calls that a handler makes any number of other handlers may make theirs.  What others do between
  is any run of the driver's steps on the same provider; what the handler itself does is logged.
\<close>

section \<open>A provider that others use too\<close>

text \<open>
  The state of the provider, what the others do before each of the handler's own steps, and the states
  before and after each of the own steps so far.
\<close>

record 's shared =
  sh_world :: 's
  sh_others :: "('s \<Rightarrow> 's) list"
  sh_own :: "('s \<times> 's) list"

definition turn :: "'s shared \<Rightarrow> 's" where
  "turn w = (case sh_others w of [] \<Rightarrow> sh_world w | other # _ \<Rightarrow> other (sh_world w))"

definition own :: "('s \<Rightarrow> 'r \<times> 's) \<Rightarrow> 's shared \<Rightarrow> 'r \<times> 's shared" where
  "own call w = (case call (turn w) of
     (r, s) \<Rightarrow> (r, \<lparr>sh_world = s, sh_others = tl (sh_others w), sh_own = sh_own w @ [(turn w, s)]\<rparr>))"

definition shared_cloud :: "'s Cloud \<Rightarrow> 's shared Cloud" where
  "shared_cloud c =
     \<lparr>cloud_CreateVolume = (\<lambda>spec. own (cloud_CreateVolume c spec)),
      cloud_GetVolumeByID = (\<lambda>i. own (cloud_GetVolumeByID c i)),
      cloud_ListVolumes = (\<lambda>page. own (cloud_ListVolumes c page)),
      cloud_DeleteVolume = (\<lambda>i. own (cloud_DeleteVolume c i)),
      cloud_ResizeVolume = (\<lambda>i size zone. own (cloud_ResizeVolume c i size zone)),
      cloud_AttachVolume = (\<lambda>v i zone. own (cloud_AttachVolume c v i zone)),
      cloud_DetachVolume = (\<lambda>v i zone. own (cloud_DetachVolume c v i zone)),
      cloud_CreateSnapshot = (\<lambda>spec. own (cloud_CreateSnapshot c spec)),
      cloud_DeleteSnapshot = (\<lambda>i zone. own (cloud_DeleteSnapshot c i zone)),
      cloud_ListSnapshots = (\<lambda>page. own (cloud_ListSnapshots c page)),
      cloud_GetInstanceMetadata = own (cloud_GetInstanceMetadata c)\<rparr>"

definition shared_Context :: "'s Context \<Rightarrow> 's shared Context" where
  "shared_Context ctx = \<lparr>ctx_timer = (\<lambda>n. own (ctx_timer ctx n)), ctx_Err = (\<lambda>w. ctx_Err ctx (sh_world w))\<rparr>"

definition shared_driver :: "'s Driver \<Rightarrow> 's shared Mounter \<Rightarrow> 's shared Driver" where
  "shared_driver d mnt = \<lparr>drv_config = drv_config d, drv_cloud = shared_cloud (drv_cloud d), drv_mount = mnt\<rparr>"

lemma shared_simps [simp]:
  "drv_config (shared_driver d mnt) = drv_config d" "drv_cloud (shared_driver d mnt) = shared_cloud (drv_cloud d)"
  "cloud_CreateVolume (shared_cloud c) spec = own (cloud_CreateVolume c spec)"
  "cloud_GetVolumeByID (shared_cloud c) i = own (cloud_GetVolumeByID c i)"
  "cloud_ListVolumes (shared_cloud c) page = own (cloud_ListVolumes c page)"
  "cloud_AttachVolume (shared_cloud c) v i zone = own (cloud_AttachVolume c v i zone)"
  "ctx_timer (shared_Context ctx) n = own (ctx_timer ctx n)"
  by (simp_all add: shared_driver_def shared_cloud_def shared_Context_def)

section \<open>What the others keep\<close>

definition keeps_names :: "Fake \<Rightarrow> Fake \<Rightarrow> bool" where
  "keeps_names f g \<longleftrightarrow>
     (\<forall>k v v'. map_of (fk_volumes f) k = Some v \<longrightarrow> map_of (fk_volumes g) k = Some v' \<longrightarrow> vol_Name v' = vol_Name v)"

text \<open>A later state: the invariant holds, no identifier comes back, no volume has a new name.\<close>

definition later :: "Fake \<Rightarrow> Fake \<Rightarrow> bool" where
  "later f g \<longleftrightarrow> fake_inv g \<and> no_return f g \<and> keeps_names f g"

lemma keeps_names_refl [simp]: "keeps_names f f"
  by (simp add: keeps_names_def)

lemma later_refl: "fake_inv f \<Longrightarrow> later f f"
  by (simp add: later_def keeps_names_def)

lemma issued: "fake_inv f \<Longrightarrow> map_of (fk_volumes f) k = Some v \<Longrightarrow> \<exists>n < fk_nextVolume f. k = volume_key n"
  by (drule (1) fake_invD(2)) (simp add: fake_volume_ok_def)

lemma later_trans:
  assumes "fake_inv f" and "later f g" and "later g h"
  shows "later f h"
proof -
  have "keeps_names f h"
    unfolding keeps_names_def
  proof (intro allI impI)
    fix k v v' assume v: "map_of (fk_volumes f) k = Some v" and v': "map_of (fk_volumes h) k = Some v'"
    obtain n where n: "n < fk_nextVolume f" "k = volume_key n" using issued [OF assms(1) v] by blast
    moreover have "fk_nextVolume f \<le> fk_nextVolume g" using assms(2) by (simp add: later_def no_return_def)
    ultimately obtain u where "map_of (fk_volumes g) k = Some u"
      using assms(3) v' by (cases "map_of (fk_volumes g) k") (auto simp: later_def no_return_def)
    with v v' assms(2,3) show "vol_Name v' = vol_Name v" by (simp add: later_def keeps_names_def)
  qed
  with assms show ?thesis by (auto simp: later_def intro: no_return_trans)
qed

lemma later_step:
  assumes "timers_idle ctx" and "mounter_idle mnt" and inv: "fake_inv s"
    and step: "driver_step ctx (fake_driver cfg now mnt) s s'"
  shows "later s s'"
proof -
  have "keeps_names s s'"
    using step
  proof cases
    case (2 spec rv)
    then show ?thesis using fresh_volume_key [OF inv]
      by (auto simp: keeps_names_def fake_CreateVolume_def Let_def split: option.splits if_splits)
  qed (use assms(1,2) in \<open>auto simp: keeps_names_def mounter_idle_def timers_idle_def fake_read_only fake_DeleteVolume_def
      fake_ResizeVolume_def fake_AttachVolume_def fake_DetachVolume_def fake_CreateSnapshot_def fake_DeleteSnapshot_def Let_def
      split: option.splits if_splits list.splits dest!: snd_eqD [where P = "\<lambda>t. t = s"]\<close>)
  with driver_step_fake [OF assms] show ?thesis by (simp add: later_def)
qed

lemma later_run:
  assumes "timers_idle ctx" and "mounter_idle mnt" and "driver_run ctx (fake_driver cfg now mnt) s s'"
  shows "fake_inv s \<Longrightarrow> later s s'"
  using assms(3)
proof (induction rule: rtranclp_induct)
  case (step t u)
  then have "later t u" using later_step [OF assms(1,2), of t cfg now u] by (simp add: later_def)
  with step show ?case by (blast intro: later_trans)
qed (rule later_refl)

section \<open>The handler's own steps\<close>

text \<open>Between two states of the shared provider: what is kept of what the handler relies on.\<close>

definition tame :: "Fake shared \<Rightarrow> bool" where
  "tame w \<longleftrightarrow> fake_inv (sh_world w) \<and> (\<forall>other \<in> set (sh_others w). \<forall>f. fake_inv f \<longrightarrow> later f (other f))"

text \<open>Own steps that only read, and what the provider becomes meanwhile.\<close>

definition reads :: "Fake shared \<Rightarrow> Fake shared \<Rightarrow> bool" where
  "reads w w' \<longleftrightarrow> tame w' \<and> later (sh_world w) (sh_world w') \<and>
     (\<exists>steps. sh_own w' = sh_own w @ steps \<and> (\<forall>(f, g) \<in> set steps. g = f))"

lemma reads_refl: "tame w \<Longrightarrow> reads w w"
  by (simp add: reads_def tame_def later_refl)

lemma reads_tame: "reads w w' \<Longrightarrow> tame w'"
  by (simp add: reads_def)

lemma reads_trans:
  assumes "tame w" and "reads w w1" and "reads w1 w2"
  shows "reads w w2"
proof -
  have "later (sh_world w) (sh_world w2)"
    using assms by (auto simp: reads_def tame_def intro: later_trans)
  with assms(2,3) show ?thesis by (fastforce simp: reads_def)
qed

lemma turn_later: "tame w \<Longrightarrow> fake_inv (turn w) \<and> later (sh_world w) (turn w)"
  by (cases "sh_others w") (auto simp: tame_def turn_def later_refl later_def)

lemma tame_next: "tame w \<Longrightarrow> fake_inv s \<Longrightarrow> tame \<lparr>sh_world = s, sh_others = tl (sh_others w), sh_own = log\<rparr>"
  by (cases "sh_others w") (auto simp: tame_def)

lemma own_reads:
  assumes "tame w" and "own call w = (r, w')" and "snd (call (turn w)) = turn w"
  shows "reads w w' \<and> sh_world w' = turn w \<and> fst (call (turn w)) = r"
proof -
  obtain s where call: "call (turn w) = (r, s)" using assms(2) by (auto simp: own_def split: prod.splits)
  then have "w' = \<lparr>sh_world = turn w, sh_others = tl (sh_others w), sh_own = sh_own w @ [(turn w, turn w)]\<rparr>"
    using assms(2,3) by (simp add: own_def)
  with assms(1) turn_later [OF assms(1)] call show ?thesis by (simp add: reads_def tame_next)
qed

lemma wait_reads: "tame w \<Longrightarrow> timers_idle ctx \<Longrightarrow> wait (shared_Context ctx) n w = (r, w') \<Longrightarrow> reads w w'"
  by (auto simp: wait_def timers_idle_def split: prod.splits bool.splits dest!: own_reads)

text \<open>The volume of an identifier, if it is still there, has a name.\<close>

definition named :: "string \<Rightarrow> string \<Rightarrow> Fake \<Rightarrow> bool" where
  "named name k f \<longleftrightarrow> (\<exists>n < fk_nextVolume f. k = volume_key n) \<and> (\<forall>v. map_of (fk_volumes f) k = Some v \<longrightarrow> vol_Name v = name)"

lemma named_later:
  assumes "named name k f" and "later f g"
  shows "named name k g"
proof -
  obtain n where n: "n < fk_nextVolume f" "k = volume_key n" using assms(1) by (auto simp: named_def)
  have "vol_Name v = name" if "map_of (fk_volumes g) k = Some v" for v
    using assms n that by (cases "map_of (fk_volumes f) k") (auto simp: named_def later_def no_return_def keeps_names_def)
  moreover have "n < fk_nextVolume g" using n assms(2) by (simp add: later_def no_return_def)
  ultimately show ?thesis using n(2) by (auto simp: named_def)
qed

section \<open>CreateVolume among others\<close>

text \<open>While names are unique a search finds one volume at most, so there is no duplicate to delete.\<close>

lemma collected_small:
  assumes inv: "fake_inv f" and list: "fst (fake_ListVolumes page f) = Inr (vs, token)" and page: "page_Size page = 0" "page_Token page = ''''"
    and "collect_compatible spec vs = Inr xs"
  shows "length xs \<le> 1"
proof -
  obtain Q where vs: "vs = sort_by_ID vol_ID (filter Q (map snd (fk_volumes f)))"
  proof
    from list show "vs = sort_by_ID vol_ID (filter (\<lambda>volume.
            \<not> (page_AvailabilityZone page \<noteq> '''' \<and> vol_AvailabilityZone volume \<noteq> page_AvailabilityZone page) \<and>
            \<not> (page_Name page \<noteq> '''' \<and> vol_Name volume \<noteq> page_Name page)) (map snd (fk_volumes f)))"
      using page by (cases page) (simp add: fake_ListVolumes_def Let_def paginate_unpaged)
  qed
  let ?n = "\<lambda>v :: Volume. vol_Name v = spec_Name spec"
  have "xs = filter ?n vs" using collect_compatible_Inr [OF assms(5)] by simp
  then have "length xs = length (filter Q (filter ?n (map snd (fk_volumes f))))"
    by (simp add: vs filter_sort_by_ID conj_commute)
  also have "\<dots> \<le> length (filter ?n (map snd (fk_volumes f)))" by (rule length_filter_le)
  also have "\<dots> \<le> 1"
    unfolding filter_by_name [OF fake_invD(1) [OF inv] fake_invD(3) [OF inv]] by (simp split: option.split)
  finally show ?thesis .
qed

lemma reconcile_own:
  assumes "tame w"
  shows "reconcileVolumeByName (shared_driver (fake_driver cfg now mnt) smnt) spec w =
    own (reconcileVolumeByName (fake_driver cfg now mnt) spec) w"
proof -
  let ?p = "\<lparr>page_Token = '''', page_Size = 0, page_Name = spec_Name spec, page_AvailabilityZone = spec_AvailabilityZone spec\<rparr>"
  obtain r where list: "fake_ListVolumes ?p (turn w) = (r, turn w)" by (metis fake_read_only(2) prod.collapse)
  note inv = conjunct1 [OF turn_later [OF assms]]
  show ?thesis
  proof (cases r)
    case (Inl err)
    with list show ?thesis by (simp add: reconcileVolumeByName_def own_def)
  next
    case (Inr page)
    obtain vs token where page: "page = (vs, token)" by fastforce
    show ?thesis
    proof (cases "collect_compatible spec vs")
      case (Inl err)
      with list Inr page show ?thesis by (simp add: reconcileVolumeByName_def own_def)
    next
      case found: (Inr xs)
      have "length xs \<le> 1" using collected_small [OF inv _ _ _ found, of ?p token] list Inr page by simp
      then have "xs = [] \<or> (\<exists>v. xs = [v])" by (cases xs) auto
      with list Inr page found show ?thesis by (auto simp: reconcileVolumeByName_def own_def)
    qed
  qed
qed

lemma reconcile_reads:
  assumes "tame w" and "reconcileVolumeByName (shared_driver (fake_driver cfg now mnt) smnt) spec w = (r, w')"
  shows "reads w w' \<and> (\<forall>v. r = Inr v \<longrightarrow> named (spec_Name spec) (vol_ID v) (sh_world w'))"
proof -
  note inv = conjunct1 [OF turn_later [OF assms(1)]]
  note fake = reconcile_fake [OF inv, of cfg now mnt spec]
  have "snd (reconcileVolumeByName (fake_driver cfg now mnt) spec (turn w)) = turn w"
    unfolding fake by (simp split: option.split)
  from own_reads [OF assms(1) assms(2) [unfolded reconcile_own [OF assms(1)]] this]
  have rw: "reads w w'" "sh_world w' = turn w" "fst (reconcileVolumeByName (fake_driver cfg now mnt) spec (turn w)) = r" by auto
  have "named (spec_Name spec) (vol_ID v) (turn w)" if "r = Inr v" for v
  proof -
    from that rw(3) have v: "volume_by_name (spec_Name spec) (fk_volumes (turn w)) = Some v"
      unfolding fake by (auto split: option.splits if_splits)
    note stored = volume_by_name_stored [OF inv v]
    from by_name_Some [OF v] issued [OF inv stored] stored show ?thesis by (auto simp: named_def)
  qed
  with rw show ?thesis by simp
qed

lemma reconcile_created_reads:
  assumes "timers_idle ctx" and "tame w"
    and "reconcile_created (shared_Context ctx) (reconcileVolumeByName (shared_driver (fake_driver cfg now mnt) smnt) spec)
      vol_ID attempts previous count delay w = (r, w')"
  shows "reads w w' \<and> (\<forall>v. r = Inr v \<longrightarrow> named (spec_Name spec) (vol_ID v) (sh_world w'))"
  using assms(2,3)
proof (induction attempts arbitrary: previous count delay w)
  case 0
  obtain q w1 where q: "reconcileVolumeByName (shared_driver (fake_driver cfg now mnt) smnt) spec w = (q, w1)" by fastforce
  from reconcile_reads [OF 0(1) q] 0(2) q show ?case by (auto split: sum.splits if_splits)
next
  case (Suc attempts)
  obtain q w1 where q: "reconcileVolumeByName (shared_driver (fake_driver cfg now mnt) smnt) spec w = (q, w1)" by fastforce
  note first = reconcile_reads [OF Suc.prems(1) q]
  have tame1: "tame w1" using first by (auto intro: reads_tame)
  obtain u w2 where u: "wait (shared_Context ctx) delay w1 = (u, w2)" by fastforce
  have two: "reads w w2" by (rule reads_trans [OF Suc.prems(1) conjunct1 [OF first] wait_reads [OF tame1 assms(1) u]])
  have again: "reads w w' \<and> (\<forall>v. r = Inr v \<longrightarrow> named (spec_Name spec) (vol_ID v) (sh_world w'))"
    if "reconcile_created (shared_Context ctx) (reconcileVolumeByName (shared_driver (fake_driver cfg now mnt) smnt) spec)
      vol_ID attempts p st d w2 = (r, w')" for p st d
    using Suc.IH [OF reads_tame [OF two] that] reads_trans [OF Suc.prems(1) two] by blast
  have loop: "(r = Inr v \<and> named (spec_Name spec) (vol_ID v) (sh_world w') \<and> reads w w') \<or> (\<exists>e. r = Inl e \<and> reads w w') \<or>
      (\<exists>p st d. reconcile_created (shared_Context ctx) (reconcileVolumeByName (shared_driver (fake_driver cfg now mnt) smnt) spec)
        vol_ID attempts p st d w2 = (r, w'))" if "q = Inr v" for v
    using Suc.prems(2) q u that first two by (auto simp: Let_def split: sum.splits if_splits)
  show ?case
  proof (cases q)
    case (Inl e)
    then have "(\<exists>e. r = Inl e \<and> reads w w') \<or>
      (\<exists>p st d. reconcile_created (shared_Context ctx) (reconcileVolumeByName (shared_driver (fake_driver cfg now mnt) smnt) spec)
        vol_ID attempts p st d w2 = (r, w'))"
      using Suc.prems(2) q u first two by (auto split: sum.splits if_splits)
    with again show ?thesis by auto
  next
    case (Inr v)
    with loop again show ?thesis by auto
  qed
qed

text \<open>The volume as the response gives it, with the requested zone when the provider names none.\<close>

definition at_zone :: "VolumeSpec \<Rightarrow> Volume \<Rightarrow> Volume" where
  "at_zone spec v = (if vol_AvailabilityZone v = '''' then v\<lparr>vol_AvailabilityZone := spec_AvailabilityZone spec\<rparr> else v)"

definition confirmed :: "VolumeSpec \<Rightarrow> Fake \<Rightarrow> csi_Volume \<Rightarrow> bool" where
  "confirmed spec f response \<longleftrightarrow>
     (\<exists>k v. map_of (fk_volumes f) k = Some v \<and> vol_Name v = spec_Name spec \<and> compatibleVolume (at_zone spec v) spec \<and>
        response = csiVolume (at_zone spec v))"

lemma verified_reads:
  assumes "tame w" and "named (spec_Name spec) (vol_ID v) (sh_world w)"
    and "verifiedResponse (shared_driver (fake_driver cfg now mnt) smnt) v spec w = (r, w')"
  shows "reads w w' \<and> (\<forall>response. r = Inr response \<longrightarrow> confirmed spec (sh_world w') response)"
proof -
  obtain q w1 where q: "own (fake_GetVolumeByID (vol_ID v)) w = (q, w1)" by fastforce
  from own_reads [OF assms(1) q] have rw: "reads w w1" "sh_world w1 = turn w" "fst (fake_GetVolumeByID (vol_ID v) (turn w)) = q"
    by simp_all
  have w': "w' = w1"
    using assms(3) q by (auto simp: verifiedResponse_def verifyVolume_def Let_def split: sum.splits if_splits)
  have "confirmed spec (sh_world w') response" if answered: "r = Inr response" for response
  proof -
    obtain u where u: "q = Inr u" and c: "compatibleVolume (at_zone spec u) spec" "response = csiVolume (at_zone spec u)"
      using assms(3) q answered
      by (auto simp: verifiedResponse_def verifyVolume_def Let_def at_zone_def split: sum.splits if_splits)
    with rw(3) have "map_of (fk_volumes (turn w)) (vol_ID v) = Some u"
      by (simp add: fake_GetVolumeByID_def split: option.splits)
    moreover have "named (spec_Name spec) (vol_ID v) (turn w)" using named_later [OF assms(2)] turn_later [OF assms(1)] by blast
    ultimately show ?thesis using c rw(2) w' by (auto simp: confirmed_def named_def)
  qed
  with rw(1) w' show ?thesis by simp
qed

text \<open>Own steps that read, but for one at most.\<close>

definition once :: "(Fake \<times> Fake \<Rightarrow> bool) \<Rightarrow> Fake shared \<Rightarrow> Fake shared \<Rightarrow> bool" where
  "once P w w' \<longleftrightarrow> tame w' \<and>
     (\<exists>before step after. sh_own w' = sh_own w @ before @ step @ after \<and> (\<forall>(f, g) \<in> set (before @ after). g = f) \<and>
        length step \<le> 1 \<and> list_all P step)"

lemma onceI: "tame w' \<Longrightarrow> sh_own w' = sh_own w @ before @ step @ after \<Longrightarrow> \<forall>(f, g) \<in> set (before @ after). g = f \<Longrightarrow>
    length step \<le> 1 \<Longrightarrow> list_all P step \<Longrightarrow> once P w w'"
  unfolding once_def by blast

lemma once_tame: "once P w w' \<Longrightarrow> tame w'"
  by (simp add: once_def)

lemma reads_once:
  assumes "reads w w'"
  shows "once P w w'"
proof -
  obtain steps where "sh_own w' = sh_own w @ steps" "\<forall>(f, g) \<in> set steps. g = f" using assms by (auto simp: reads_def)
  then show ?thesis
    using reads_tame [OF assms] by (intro onceI [where before = steps and step = "[]" and after = "[]"]) simp_all
qed

lemma once_between:
  assumes "reads w w1" and "once P w1 w2" and "reads w2 w3"
  shows "once P w w3"
proof -
  obtain a where a: "sh_own w1 = sh_own w @ a" "\<forall>(f, g) \<in> set a. g = f" using assms(1) by (auto simp: reads_def)
  obtain b x c where b: "sh_own w2 = sh_own w1 @ b @ x @ c" "\<forall>(f, g) \<in> set (b @ c). g = f" "length x \<le> 1" "list_all P x"
    using assms(2) by (auto simp: once_def)
  obtain d where d: "sh_own w3 = sh_own w2 @ d" "\<forall>(f, g) \<in> set d. g = f" using assms(3) by (auto simp: reads_def)
  show ?thesis
    by (rule onceI [where before = "a @ b" and step = x and after = "c @ d"]) (use a b d reads_tame [OF assms(3)] in auto)
qed

lemma own_once:
  assumes "tame w" and "own call w = (r, w')"
    and "\<And>s. call (turn w) = (r, s) \<Longrightarrow> fake_inv (turn w) \<Longrightarrow> fake_inv s \<and> (s = turn w \<or> P (turn w, s))"
  shows "once P w w' \<and> call (turn w) = (r, sh_world w')"
proof -
  obtain s where call: "call (turn w) = (r, s)" and w': "w' = \<lparr>sh_world = s, sh_others = tl (sh_others w),
      sh_own = sh_own w @ [(turn w, s)]\<rparr>" using assms(2) by (auto simp: own_def split: prod.splits)
  from assms(3) [OF call conjunct1 [OF turn_later [OF assms(1)]]] have "fake_inv s" and s: "s = turn w \<or> P (turn w, s)" by auto
  with assms(1) w' have tame: "tame w'" by (simp add: tame_next)
  from s have "once P w w'"
  proof
    assume "s = turn w"
    with tame w' show ?thesis by (intro onceI [where before = "[(turn w, s)]" and step = "[]" and after = "[]"]) simp_all
  next
    assume "P (turn w, s)"
    with tame w' show ?thesis by (intro onceI [where before = "[]" and step = "[(turn w, s)]" and after = "[]"]) simp_all
  qed
  with call w' show ?thesis by simp
qed

text \<open>The one own step of \<open>CreateVolume\<close> that is not a read.\<close>

definition makes :: "VolumeSpec \<Rightarrow> Fake \<times> Fake \<Rightarrow> bool" where
  "makes spec \<equiv> \<lambda>(f, g). volume_by_name (spec_Name spec) (fk_volumes f) = None \<and> g = fake_added spec f"

lemma create_once:
  assumes "tame w" and "own (fake_CreateVolume spec) w = (r, w')"
  shows "once (makes spec) w w'"
proof -
  have "fake_inv s \<and> (s = f \<or> makes spec (f, s))" if "fake_CreateVolume spec f = (r, s)" "fake_inv f" for f s
  proof (cases "volume_by_name (spec_Name spec) (fk_volumes f)")
    case None
    with that fake_inv_added [OF that(2) None] show ?thesis by (auto simp: fake_CreateVolume_new makes_def)
  next
    case (Some v)
    with that show ?thesis by (auto simp: fake_CreateVolume_def fake_existing_by_name)
  qed
  from own_once [OF assms this] show ?thesis by blast
qed

lemma reads_then_verified:
  assumes "tame w" and "reads w w1" and "\<forall>v. q = Inr v \<longrightarrow> named (spec_Name spec) (vol_ID v) (sh_world w1)"
    and "q = Inr v" and "verifiedResponse (shared_driver (fake_driver cfg now mnt) smnt) v spec w1 = (r, w')"
  shows "reads w w' \<and> (\<forall>response. r = Inr response \<longrightarrow> confirmed spec (sh_world w') response)"
  using verified_reads [OF reads_tame [OF assms(2)] _ assms(5)] assms(3,4) reads_trans [OF assms(1,2)] by blast

text \<open>A search and what follows it: an error, or the verified answer.\<close>

lemma searched_reads:
  assumes "tame w" and "reads w w1" and "\<forall>v. q = Inr v \<longrightarrow> named (spec_Name spec) (vol_ID v) (sh_world w1)"
    and "(case q of Inl e \<Rightarrow> (Inl (h e), w1)
      | Inr v \<Rightarrow> verifiedResponse (shared_driver (fake_driver cfg now mnt) smnt) v spec w1) = (r, w')"
  shows "reads w w' \<and> (\<forall>response. r = Inr response \<longrightarrow> confirmed spec (sh_world w') response)"
proof (cases q)
  case (Inl e)
  with assms(2,4) show ?thesis by auto
next
  case (Inr v)
  with assms(4) have "verifiedResponse (shared_driver (fake_driver cfg now mnt) smnt) v spec w1 = (r, w')" by simp
  from reads_then_verified [OF assms(1-3) Inr this] show ?thesis .
qed

lemma CreateVolume_locked_among:
  assumes "timers_idle ctx" and "tame w"
    and "CreateVolume_locked (shared_Context ctx) (shared_driver (fake_driver cfg now mnt) smnt) spec w = (r, w')"
  shows "once (makes spec) w w' \<and> (\<forall>response. r = Inr response \<longrightarrow> confirmed spec (sh_world w') response)"
proof -
  let ?d = "shared_driver (fake_driver cfg now mnt) smnt"
  obtain q1 w1 where q1: "reconcileVolumeByName ?d spec w = (q1, w1)" by fastforce
  obtain q2 w2 where q2: "own (fake_CreateVolume spec) w1 = (q2, w2)" by fastforce
  obtain q3 w3 where q3: "reconcileVolumeByName ?d spec w2 = (q3, w3)" by fastforce
  obtain q4 w4 where q4: "reconcileCreatedVolume (shared_Context ctx) ?d spec w2 = (q4, w4)" by fastforce
  note first = reconcile_reads [OF assms(2) q1]
  have tame1: "tame w1" using first by (auto intro: reads_tame)
  note made = create_once [OF tame1 q2]
  have tame2: "tame w2" using made by (rule once_tame)
  note third = reconcile_reads [OF tame2 q3]
  note fourth = reconcile_created_reads [OF assms(1) tame2 q4 [unfolded reconcileCreatedVolume_def]]
  have between: "once (makes spec) w u" if "reads w2 u" for u
    using once_between [OF conjunct1 [OF first] made that] .
  consider (found) v where "q1 = Inr v" | (failed) e where "q1 = Inl e" "\<not> errors_is e ErrNotFound"
    | (refused) e e' where "q1 = Inl e" "errors_is e ErrNotFound" "q2 = Inl e'"
    | (made) e v where "q1 = Inl e" "errors_is e ErrNotFound" "q2 = Inr v"
    by (cases q1; cases q2) auto
  then show ?thesis
  proof cases
    case found
    with assms(3) q1 have "verifiedResponse ?d v spec w1 = (r, w')" by (simp add: CreateVolume_locked_def)
    from reads_then_verified [OF assms(2) _ _ found this] first show ?thesis by (blast intro: reads_once)
  next
    case failed
    with assms(3) q1 first show ?thesis by (auto simp: CreateVolume_locked_def intro: reads_once)
  next
    case refused
    show ?thesis
    proof (cases "errors_is e' ErrAlreadyExists")
      case True
      with refused assms(3) q1 q2 q3 have "(case q3 of Inl _ \<Rightarrow> (Inl (statusError e'), w3) | Inr v \<Rightarrow> verifiedResponse ?d v spec w3) = (r, w')"
        by (simp add: CreateVolume_locked_def)
      from searched_reads [OF tame2 _ _ this] third between show ?thesis by blast
    next
      case False
      with refused assms(3) q1 q2 have "r = Inl (statusError e')" "w' = w2" by (simp_all add: CreateVolume_locked_def)
      with between [OF reads_refl [OF tame2]] show ?thesis by simp
    qed
  next
    case made
    with assms(3) q1 q2 q4 have "(case q4 of Inl e \<Rightarrow> (Inl e, w4) | Inr v \<Rightarrow> verifiedResponse ?d v spec w4) = (r, w')"
      by (simp add: CreateVolume_locked_def)
    from searched_reads [where h = "\<lambda>e. e", OF tame2 _ _ this] fourth between show ?thesis by blast
  qed
qed

text \<open>What other calls of the driver may do to the provider, any number of steps at a time.\<close>

definition others_drive :: "Config \<Rightarrow> gotime \<Rightarrow> Fake shared \<Rightarrow> bool" where
  "others_drive cfg now w \<longleftrightarrow> (\<forall>other \<in> set (sh_others w). \<forall>f.
     driver_run context_Background (fake_driver cfg now idle_mounter) f (other f))"

lemma others_tame: "others_drive cfg now w \<Longrightarrow> fake_inv (sh_world w) \<Longrightarrow> tame w"
  unfolding others_drive_def tame_def by (blast intro: later_run [OF timers_idle_Background mounter_idle_idle])

text \<open>
  C3. \<open>CreateVolume\<close> among other calls.  While any other calls of the driver run on the in-memory provider
  between its own requests, \<open>CreateVolume\<close> removes and changes nothing: each of its requests leaves the
  provider as it was, but for one at most, which adds the requested volume at a moment when there is none
  of its name.  When it succeeds, the volume it reports is in the provider at that moment, has the
  requested name, and agrees with the request; the invariant of the provider holds.
\<close>

theorem CreateVolume_among_others:
  assumes "fake_inv (sh_world (world st))" and "others_drive cfg' now (world st)" and "timers_idle ctx"
    and "volumeSpec req cfg = Inr spec"
    and "CreateVolume (shared_Context ctx) (shared_driver (fake_driver cfg now mnt) smnt) req st = (r, st')"
  shows "fake_inv (sh_world (world st')) \<and>
    (\<exists>before step after. sh_own (world st') = sh_own (world st) @ before @ step @ after \<and>
       (\<forall>(f, g) \<in> set (before @ after). g = f) \<and> length step \<le> 1 \<and>
       (\<forall>(f, g) \<in> set step. volume_by_name (cvr_name req) (fk_volumes f) = None \<and> g = fake_added spec f)) \<and>
    (\<forall>response. r = Inr response \<longrightarrow> spec_Name spec = cvr_name req \<and> confirmed spec (sh_world (world st')) response)"
proof -
  note tame = others_tame [OF assms(2,1)]
  have name: "spec_Name spec = cvr_name req"
    using assms(4) by (auto simp: volumeSpec_def Let_def split: if_splits option.splits sum.splits)
  have "once (makes spec) (world st) (world st') \<and> (\<forall>response. r = Inr response \<longrightarrow> confirmed spec (sh_world (world st')) response)"
  proof (cases "validateCapabilities (cvr_volume_capabilities req) = None \<and> cvr_name req \<notin> names st")
    case True
    let ?d = "shared_driver (fake_driver cfg now mnt) smnt"
    have "volumeSpec req (drv_config ?d) = Inr spec" using assms(4) by simp
    from CreateVolume_admitted [OF conjunct1 [OF True] this conjunct2 [OF True]] assms(5)
    have "CreateVolume_locked (shared_Context ctx) ?d spec (world st) = (r, world st')" by (auto simp: prod_eq_iff)
    from CreateVolume_locked_among [OF assms(3) tame this] show ?thesis .
  next
    case False
    then have "world st' = world st" "\<exists>e. r = Inl e"
      using assms(4,5) by (auto simp: CreateVolume_def with_name_lock_taken split: option.splits)
    with reads_once [OF reads_refl [OF tame]] show ?thesis by auto
  qed
  then show ?thesis by (fastforce simp: once_def tame_def makes_def list_all_iff name)
qed

section \<open>ControllerPublishVolume among others\<close>

text \<open>The one own step that is not a read: a volume that is attached nowhere is attached to the node.\<close>

definition attaches :: "string \<Rightarrow> string \<Rightarrow> Fake \<times> Fake \<Rightarrow> bool" where
  "attaches vid node \<equiv> \<lambda>(f, g). \<exists>v. map_of (fk_volumes f) vid = Some v \<and> vol_Attachments v = [] \<and>
     g = f\<lparr>fk_volumes := AList.update vid (fake_attached node v) (fk_volumes f)\<rparr>"

definition attached_at :: "string \<Rightarrow> string \<Rightarrow> Fake \<Rightarrow> gomap \<Rightarrow> bool" where
  "attached_at vid node f response \<longleftrightarrow> (\<exists>v. map_of (fk_volumes f) vid = Some v \<and>
     vol_Attachments v = [\<lparr>att_InstanceID = node, att_DevicePath = fake_device vid\<rparr>] \<and>
     response = publish_context (fake_device vid))"

lemma attach_step:
  assumes "fake_AttachVolume vid node zone f = (r, s)" and "fake_inv f"
  shows "fake_inv s \<and> (s = f \<or> attaches vid node (f, s)) \<and>
    (\<forall>device. r = Inr device \<longrightarrow> attached_at vid node s (publish_context device))"
proof (cases "map_of (fk_volumes f) vid")
  case None
  with assms show ?thesis by (auto simp: fake_AttachVolume_def)
next
  case (Some v)
  have ok: "fake_volume_ok (fk_nextVolume f) vid v" using fake_invD(2) [OF assms(2) Some] .
  have "fake_inv s" using fake_AttachVolume_inv [OF assms(2), of vid node zone] assms(1) by simp
  moreover have "s = f \<or> attaches vid node (f, s)"
    using assms(1) Some ok
    by (auto simp: fake_AttachVolume_def attaches_def fake_attached_def fake_volume_ok_def fake_device_def Let_def
        split: if_splits list.splits)
  moreover have "attached_at vid node s (publish_context device)" if "r = Inr device" for device
    using assms(1) Some ok that
    by (auto simp: fake_AttachVolume_def attached_at_def fake_volume_ok_def fake_device_def Let_def
        split: if_splits list.splits)
  ultimately show ?thesis by blast
qed

lemma attached_device_at:
  assumes "fake_inv f" and "map_of (fk_volumes f) vid = Some v" and "attachedDevice v node = (device, elsewhere)" and "device \<noteq> ''''"
  shows "attached_at vid node f (publish_context device)"
  using fake_invD(2) [OF assms(1,2)] assms(2-4)
  by (auto simp: attached_at_def fake_volume_ok_def attachedDevice_def split: if_splits)

lemma get_reads:
  assumes "tame w" and "own (fake_GetVolumeByID vid) w = (q, w1)"
  shows "reads w w1 \<and> fake_inv (sh_world w1) \<and> (\<forall>v. q = Inr v \<longrightarrow> map_of (fk_volumes (sh_world w1)) vid = Some v)"
  using own_reads [OF assms] turn_later [OF assms(1)] by (auto simp: fake_GetVolumeByID_def split: option.splits)

lemma ControllerPublishVolume_locked_among:
  assumes "tame w"
    and "ControllerPublishVolume_locked (shared_driver (fake_driver cfg now mnt) smnt) req w = (r, w')"
  shows "once (attaches (cpr_volume_id req) (cpr_node_id req)) w w' \<and>
    (\<forall>response. r = Inr response \<longrightarrow> attached_at (cpr_volume_id req) (cpr_node_id req) (sh_world w') response)"
proof -
  let ?vid = "cpr_volume_id req" and ?node = "cpr_node_id req"
  obtain q w1 where q: "own (fake_GetVolumeByID ?vid) w = (q, w1)" by fastforce
  note got = get_reads [OF assms(1) q]
  show ?thesis
  proof (cases q)
    case (Inl e)
    with assms(2) q got show ?thesis by (auto simp: ControllerPublishVolume_locked_def intro: reads_once)
  next
    case (Inr v)
    let ?zone = "cmp_Or [vol_AvailabilityZone v, map_index (cpr_volume_context req) paramAvailabilityZone, cfg_AvailabilityZone cfg]"
    obtain device elsewhere where at: "attachedDevice v ?node = (device, elsewhere)" by fastforce
    obtain q2 w2 where q2: "own (fake_AttachVolume ?vid ?node ?zone) w1 = (q2, w2)" by fastforce
    have tame1: "tame w1" using got by (auto intro: reads_tame)
    have attach: "once (attaches ?vid ?node) w1 w2 \<and> fake_AttachVolume ?vid ?node ?zone (turn w1) = (q2, sh_world w2)"
      by (rule own_once [OF tame1 q2]) (use attach_step in blast)
    then have tame2: "tame w2" by (auto intro: once_tame)
    have between: "once (attaches ?vid ?node) w u" if "reads w2 u" for u
      using once_between [OF conjunct1 [OF got] conjunct1 [OF attach] that] .
    obtain q3 w3 where q3: "own (fake_GetVolumeByID ?vid) w2 = (q3, w3)" by fastforce
    note after = get_reads [OF tame2 q3]
    consider (multi) "vol_Multiattach v" | (there) "\<not> vol_Multiattach v" "device \<noteq> ''''"
      | (elsewhere) "\<not> vol_Multiattach v" "device = ''''" elsewhere
      | (attached) d where "\<not> vol_Multiattach v" "device = ''''" "\<not> elsewhere" "q2 = Inr d"
      | (failed) e where "\<not> vol_Multiattach v" "device = ''''" "\<not> elsewhere" "q2 = Inl e" by (cases q2) auto
    then show ?thesis
    proof cases
      case there
      with assms(2) q Inr at have "r = Inr (publish_context device)" "w' = w1"
        by (simp_all add: ControllerPublishVolume_locked_def Let_def)
      with got Inr attached_device_at [OF _ _ at there(2)] show ?thesis by (auto intro: reads_once)
    next
      case attached
      with assms(2) q Inr at q2 have "r = Inr (publish_context d)" "w' = w2"
        by (simp_all add: ControllerPublishVolume_locked_def Let_def fake_driver_def del: cmp_Or.simps)
      with between [OF reads_refl [OF tame2]] attach attach_step [of ?vid ?node ?zone "turn w1" q2] attached(4) turn_later [OF tame1]
      show ?thesis by auto
    next
      case failed
      obtain answer where a: "attachedDeviceAfterPublishError (shared_driver (fake_driver cfg now mnt) smnt) ?vid ?node w2 = (answer, w3)"
        and found: "snd answer \<Longrightarrow> attached_at ?vid ?node (sh_world w3) (publish_context (fst answer))"
        using q3 after attached_device_at
        by (cases q3) (fastforce simp: attachedDeviceAfterPublishError_def split: prod.splits if_splits)+
      with failed assms(2) q Inr at q2 have "(if snd answer then Inr (publish_context (fst answer)) else Inl (statusError e), w3) = (r, w')"
        by (simp add: ControllerPublishVolume_locked_def Let_def fake_driver_def split: prod.splits if_splits del: cmp_Or.simps)
      with found between after show ?thesis by (auto split: if_splits)
    qed (use assms(2) q Inr at got in \<open>auto simp: ControllerPublishVolume_locked_def Let_def intro: reads_once\<close>)
  qed
qed

text \<open>
  C7. \<open>ControllerPublishVolume\<close> among other calls.  While any other calls of the driver run on the in-memory
  provider between its own requests, publishing a volume changes nothing but, at most once, to attach it
  to the node at a moment when it is attached nowhere.  When it succeeds, the volume is attached to that
  node and to no other at that moment, with the device path of the response.
\<close>

theorem ControllerPublishVolume_among_others:
  assumes "fake_inv (sh_world (world st))" and "others_drive cfg' now (world st)"
    and "ControllerPublishVolume (shared_driver (fake_driver cfg now mnt) smnt) req st = (r, st')"
  shows "fake_inv (sh_world (world st')) \<and>
    (\<exists>before step after. sh_own (world st') = sh_own (world st) @ before @ step @ after \<and>
       (\<forall>(f, g) \<in> set (before @ after). g = f) \<and> length step \<le> 1 \<and>
       (\<forall>(f, g) \<in> set step. \<exists>v. map_of (fk_volumes f) (cpr_volume_id req) = Some v \<and> vol_Attachments v = [] \<and>
          g = f\<lparr>fk_volumes := AList.update (cpr_volume_id req) (fake_attached (cpr_node_id req) v) (fk_volumes f)\<rparr>)) \<and>
    (\<forall>response. r = Inr response \<longrightarrow> attached_at (cpr_volume_id req) (cpr_node_id req) (sh_world (world st')) response)"
proof -
  note tame = others_tame [OF assms(2,1)]
  have "once (attaches (cpr_volume_id req) (cpr_node_id req)) (world st) (world st') \<and>
    (\<forall>response. r = Inr response \<longrightarrow> attached_at (cpr_volume_id req) (cpr_node_id req) (sh_world (world st')) response)"
  proof (cases "cpr_volume_id req \<noteq> '''' \<and> cpr_node_id req \<noteq> '''' \<and> cpr_volume_id req \<notin> locks st")
    case True
    with ControllerPublishVolume_admitted [of req st "shared_driver (fake_driver cfg now mnt) smnt"] assms(3)
    have "ControllerPublishVolume_locked (shared_driver (fake_driver cfg now mnt) smnt) req (world st) = (r, world st')"
      by (auto simp: prod_eq_iff)
    from ControllerPublishVolume_locked_among [OF tame this] show ?thesis .
  next
    case False
    then have "world st' = world st" "\<exists>e. r = Inl e"
      using assms(3) by (auto simp: ControllerPublishVolume_def with_volume_lock_taken split: if_splits)
    with reads_once [OF reads_refl [OF tame]] show ?thesis by auto
  qed
  then show ?thesis by (fastforce simp: once_def tame_def attaches_def list_all_iff)
qed

section \<open>Others at work\<close>

text \<open>Before the first own request another volume is made, and before the second one is deleted.\<close>

definition other_work :: "(Fake \<Rightarrow> Fake) list" where
  "other_work = [\<lambda>f. snd (fake_CreateVolume (sample_request_spec\<lparr>spec_Name := ''pvc-2''\<rparr>) f),
     \<lambda>f. snd (fake_DeleteVolume (volume_key 7) f)]"

definition among :: "Fake DState \<Rightarrow> Fake shared DState" where
  "among st = \<lparr>locks = locks st, names = names st,
     world = \<lparr>sh_world = world st, sh_others = other_work, sh_own = []\<rparr>\<rparr>"

lemma among_simps [simp]: "sh_world (world (among st)) = world st" "sh_own (world (among st)) = []"
  by (simp_all add: among_def)

lemma among_drive: "others_drive cfg now (world (among st))"
proof -
  let ?d = "fake_driver cfg now idle_mounter"
  have "driver_step context_Background ?d f (snd (fake_CreateVolume spec f))"
    "driver_step context_Background ?d f (snd (fake_DeleteVolume i f))" for spec i f
    using driver_step.intros(2) [of ?d spec f _ _ context_Background] driver_step.intros(5) [of ?d i f _ _ context_Background]
    by (simp_all add: prod_eq_iff)
  then show ?thesis by (auto simp: others_drive_def among_def other_work_def)
qed

definition busy_create :: "(csi_Volume, Fake shared DState) result" where
  "busy_create = CreateVolume (shared_Context context_Background)
     (shared_driver (fake_driver sample_config None idle_mounter) idle_mounter) sample_request (among sample_state)"

definition busy_publish :: "(gomap, Fake shared DState) result" where
  "busy_publish = ControllerPublishVolume
     (shared_driver (fake_driver sample_config None idle_mounter) idle_mounter) (sample_publish ''i-1'') (among made_state)"

lemma busy_create_succeeds: "(case fst busy_create of Inr _ \<Rightarrow> True | Inl _ \<Rightarrow> False) = True"
  by code_simp

lemma busy_publish_succeeds: "fst busy_publish = Inr (publish_context (fake_device (volume_key 1)))"
  by code_simp

lemma CreateVolume_among_others_witness:
  "\<exists>response st'. busy_create = (Inr response, st') \<and> confirmed sample_request_spec (sh_world (world st')) response"
proof -
  obtain response where answer: "fst busy_create = Inr response"
    using busy_create_succeeds by (cases "fst busy_create") simp_all
  then have run: "busy_create = (Inr response, snd busy_create)" by (metis prod.collapse)
  have "fake_inv (sh_world (world (among sample_state)))" by (simp add: sample_state_def fake_inv_NewFake)
  from CreateVolume_among_others [OF this among_drive timers_idle_Background sample_request_valid(2) run [unfolded busy_create_def]]
  have "confirmed sample_request_spec (sh_world (world (snd busy_create))) response" unfolding busy_create_def by blast
  with run show ?thesis by blast
qed

lemma ControllerPublishVolume_among_others_witness:
  "\<exists>response st'. busy_publish = (Inr response, st') \<and> attached_at (volume_key 1) ''i-1'' (sh_world (world st')) response"
proof -
  have run: "busy_publish = (Inr (publish_context (fake_device (volume_key 1))), snd busy_publish)"
    using busy_publish_succeeds by (metis prod.collapse)
  have "fake_inv (sh_world (world (among made_state)))" by (simp add: made_state_ok)
  from ControllerPublishVolume_among_others [OF this among_drive run [unfolded busy_publish_def]]
  have "attached_at (volume_key 1) ''i-1'' (sh_world (world (snd busy_publish))) (publish_context (fake_device (volume_key 1)))"
    unfolding busy_publish_def sample_publish_simps by blast
  with run show ?thesis by blast
qed

end
