(* ===== verification/Json.thy ===== *)
theory Json
  imports CloudTypes
begin

text \<open>
  \<open>encoding/json\<close> as the code uses it: a document is a tree, a request body is the tree that
  \<open>json.Marshal\<close> writes for a struct (\<open>omitempty\<close> fields left out), and decoding into a struct
  visits the members of an object in order, matches a field by its name up to case, leaves it alone
  on \<open>null\<close>, and reports a value of another kind as an error.
\<close>

datatype json =
    JNull
  | JBool bool
  | JInt int
  | JReal string \<comment> \<open>a number that is not an integer literal\<close>
  | JString string
  | JArray "json list"
  | JObject "(string \<times> json) list"

section \<open>Encoding\<close>

text \<open>A struct field with \<open>omitempty\<close> is written unless it is the zero value of its type.\<close>

definition omit_string :: "string \<Rightarrow> string \<Rightarrow> (string \<times> json) list" where
  "omit_string key v = (if v = '''' then [] else [(key, JString v)])"

definition omit_bool :: "string \<Rightarrow> bool \<Rightarrow> (string \<times> json) list" where
  "omit_bool key v = (if v then [(key, JBool v)] else [])"

definition json_map :: "gomap \<Rightarrow> json" where
  "json_map m = JObject (map (\<lambda>(k, v). (k, JString v)) m)"

definition omit_map :: "string \<Rightarrow> gomap \<Rightarrow> (string \<times> json) list" where
  "omit_map key m = (if m = [] then [] else [(key, json_map m)])"

section \<open>Decoding\<close>

text \<open>
  A decoder takes the value that is there and returns the new one, with \<open>False\<close> for a value of the
  wrong kind.
\<close>

type_synonym 'a decoder = "json \<Rightarrow> 'a \<Rightarrow> 'a \<times> bool"

fun dec_string :: "string decoder" where
  "dec_string (JString s) old = (s, True)"
| "dec_string JNull old = (old, True)"
| "dec_string _ old = (old, False)"

fun dec_bool :: "bool decoder" where
  "dec_bool (JBool b) old = (b, True)"
| "dec_bool JNull old = (old, True)"
| "dec_bool _ old = (old, False)"

text \<open>A Go \<open>int\<close> has 64 bits; a literal outside its range is an error.\<close>

fun dec_int :: "int decoder" where
  "dec_int (JInt n) old = (if int64_ok n then (n, True) else (old, False))"
| "dec_int JNull old = (old, True)"
| "dec_int _ old = (old, False)"

fun dec_map :: "gomap decoder" where
  "dec_map (JObject ms) old =
     (fold (\<lambda>(k, v) m. AList.update k (fst (dec_string v '''')) m) ms old,
      list_all (\<lambda>(k, v). snd (dec_string v '''')) ms)"
| "dec_map JNull old = ([], True)"
| "dec_map _ old = (old, False)"

text \<open>A slice: an array replaces it, every element decoded into the zero value.\<close>

fun dec_list :: "'a decoder \<Rightarrow> 'a \<Rightarrow> 'a list decoder" where
  "dec_list d zero (JArray vs) old = (map (\<lambda>v. fst (d v zero)) vs, list_all (\<lambda>v. snd (d v zero)) vs)"
| "dec_list d zero JNull old = ([], True)"
| "dec_list d zero _ old = (old, False)"

text \<open>A struct is given by its fields: a name, and how a member of that name is decoded into it.\<close>

type_synonym 'a fields = "(string \<times> 'a decoder) list"

fun find_field :: "'a fields \<Rightarrow> string \<Rightarrow> 'a decoder option" where
  "find_field [] key = None"
| "find_field ((name, d) # rest) key =
     (if strings_ToLower name = strings_ToLower key then Some d else find_field rest key)"

text \<open>An exact match is preferred to one up to case.\<close>

definition match_field :: "'a fields \<Rightarrow> string \<Rightarrow> 'a decoder option" where
  "match_field fs key = (case map_of fs key of Some d \<Rightarrow> Some d | None \<Rightarrow> find_field fs key)"

fun dec_members :: "'a fields \<Rightarrow> (string \<times> json) list \<Rightarrow> 'a \<Rightarrow> 'a \<times> bool" where
  "dec_members fs [] old = (old, True)"
| "dec_members fs ((k, v) # rest) old =
     (case match_field fs k of
        None \<Rightarrow> dec_members fs rest old
      | Some d \<Rightarrow> (case d v old of (new, ok) \<Rightarrow>
          (case dec_members fs rest new of (final, ok') \<Rightarrow> (final, ok \<and> ok'))))"

fun dec_struct :: "'a fields \<Rightarrow> 'a decoder" where
  "dec_struct fs (JObject ms) old = dec_members fs ms old"
| "dec_struct fs JNull old = (old, True)"
| "dec_struct fs _ old = (old, False)"

text \<open>A field of a struct: read it, decode, write it back.\<close>

definition field :: "string \<Rightarrow> ('r \<Rightarrow> 'a) \<Rightarrow> (('a \<Rightarrow> 'a) \<Rightarrow> 'r \<Rightarrow> 'r) \<Rightarrow> 'a decoder \<Rightarrow> string \<times> 'r decoder" where
  "field name get put d = (name, (\<lambda>v r. case d v (get r) of (a, ok) \<Rightarrow> (put (\<lambda>_. a) r, ok)))"

text \<open>
  What a response body can be: a read can fail, the bytes may not be a document, or there is
  nothing at all.
\<close>

datatype body =
    BodyReadError goerr
  | BodyInvalid string
  | BodyEmpty
  | BodyJSON json

text \<open>
  \<open>json.NewDecoder(source).Decode(target)\<close> on a zero target; \<open>decodeJSON\<close> of the client wraps the
  error.
\<close>

definition decodeJSON :: "'a decoder \<Rightarrow> 'a \<Rightarrow> body \<Rightarrow> goerr + 'a" where
  "decodeJSON d zero b =
     (let failed = (\<lambda>err. Inl (Wrap ''decode Nobus response'' [Wrap '''' [Sentinel ErrInvalid, err]]))
      in case b of
           BodyReadError err \<Rightarrow> failed err
         | BodyInvalid text \<Rightarrow> failed (Foreign text)
         | BodyEmpty \<Rightarrow> failed (Foreign ''EOF'')
         | BodyJSON j \<Rightarrow> (case d j zero of
               (v, True) \<Rightarrow> Inr v
             | (v, False) \<Rightarrow> failed (Foreign ''json: cannot unmarshal'')))"

lemma decodeJSON_error: "decodeJSON d zero b = Inl e \<Longrightarrow> errors_is e ErrInvalid"
  by (auto simp: decodeJSON_def Let_def split: body.splits prod.splits bool.splits)

end
