(* ===== verification/CloudInit.thy ===== *)
theory CloudInit
  imports Json
begin

text \<open>
  \<open>internal/metadata/cloudinit.go\<close>: the instance's identity from the files cloud-init leaves.  The
  parameter \<open>open_file\<close> is \<open>os.Open\<close> with the reading of the file: an error, or a body.
\<close>

definition cloudInitPaths :: "string list" where
  "cloudInitPaths = [''/run/cloud-init/instance-data.json'', ''/var/lib/cloud/instance/instance-data.json'']"

record Instance =
  in_ID :: string
  in_AvailabilityZone :: string
  in_Region :: string

record cloudInitV1 =
  v1_InstanceID :: string
  v1_InstanceIDHyphen :: string
  v1_AvailabilityZone :: string
  v1_AvailabilityZoneHyphen :: string
  v1_Region :: string

record cloudInitMetaData =
  md_InstanceID :: string
  md_InstanceIDHyphen :: string
  md_AvailabilityZone :: string
  md_Region :: string

record cloudInitData =
  ci_V1 :: cloudInitV1
  ci_MetaData :: cloudInitMetaData \<comment> \<open>\<open>DS.MetaData\<close>\<close>

definition zero_cloudInitData :: cloudInitData where
  "zero_cloudInitData =
     \<lparr>ci_V1 = \<lparr>v1_InstanceID = '''', v1_InstanceIDHyphen = '''', v1_AvailabilityZone = '''',
               v1_AvailabilityZoneHyphen = '''', v1_Region = ''''\<rparr>,
      ci_MetaData = \<lparr>md_InstanceID = '''', md_InstanceIDHyphen = '''', md_AvailabilityZone = '''', md_Region = ''''\<rparr>\<rparr>"

definition dec_cloudInitV1 :: "cloudInitV1 decoder" where
  "dec_cloudInitV1 = dec_struct
     [field ''instance_id'' v1_InstanceID v1_InstanceID_update dec_string,
      field ''instance-id'' v1_InstanceIDHyphen v1_InstanceIDHyphen_update dec_string,
      field ''availability_zone'' v1_AvailabilityZone v1_AvailabilityZone_update dec_string,
      field ''availability-zone'' v1_AvailabilityZoneHyphen v1_AvailabilityZoneHyphen_update dec_string,
      field ''region'' v1_Region v1_Region_update dec_string]"

definition dec_cloudInitMetaData :: "cloudInitMetaData decoder" where
  "dec_cloudInitMetaData = dec_struct
     [field ''instance_id'' md_InstanceID md_InstanceID_update dec_string,
      field ''instance-id'' md_InstanceIDHyphen md_InstanceIDHyphen_update dec_string,
      field ''availability_zone'' md_AvailabilityZone md_AvailabilityZone_update dec_string,
      field ''region'' md_Region md_Region_update dec_string]"

definition dec_cloudInitData :: "cloudInitData decoder" where
  "dec_cloudInitData = dec_struct
     [field ''v1'' ci_V1 ci_V1_update dec_cloudInitV1,
      field ''ds'' ci_MetaData ci_MetaData_update
        (dec_struct [(''meta_data'', dec_cloudInitMetaData)])]"

definition readPath :: "(string \<Rightarrow> 's \<Rightarrow> (body, 's) result) \<Rightarrow> string \<Rightarrow> 's \<Rightarrow> (Instance, 's) result" where
  "readPath open_file path s =
     (case open_file path s of
        (Inl err, s1) \<Rightarrow> (Inl (Wrap (''open '' @ path) [err]), s1)
      | (Inr contents, s1) \<Rightarrow>
          (let decode_failed = (\<lambda>err. (Inl (Wrap (''decode '' @ path) [err]), s1));
               build = (\<lambda>data.
                 let v1 = ci_V1 data; meta = ci_MetaData data;
                     inst = \<lparr>in_ID = cmp_Or [v1_InstanceID v1, v1_InstanceIDHyphen v1, md_InstanceID meta, md_InstanceIDHyphen meta],
                       in_AvailabilityZone = cmp_Or [v1_AvailabilityZone v1, v1_AvailabilityZoneHyphen v1, md_AvailabilityZone meta],
                       in_Region = cmp_Or [v1_Region v1, md_Region meta]\<rparr>
                 in if in_ID inst = '''' then (Inl (Wrap ''cloud-init instance id missing'' [Sentinel os_ErrInvalid]), s1)
                    else (Inr inst, s1))
           in case contents of
                BodyReadError err \<Rightarrow> decode_failed err
              | BodyInvalid text \<Rightarrow> decode_failed (Foreign text)
              | BodyEmpty \<Rightarrow> decode_failed (Foreign ''EOF'')
              | BodyJSON j \<Rightarrow> (case dec_cloudInitData j zero_cloudInitData of
                    (data, True) \<Rightarrow> build data
                  | (data, False) \<Rightarrow> decode_failed (Foreign ''json: cannot unmarshal''))))"

fun ReadCloudInit_loop ::
  "(string \<Rightarrow> 's \<Rightarrow> (body, 's) result) \<Rightarrow> 's Context \<Rightarrow> string list \<Rightarrow> 's \<Rightarrow> (Instance, 's) result" where
  "ReadCloudInit_loop open_file ctx [] s = (Inl (Wrap ''cloud-init instance metadata'' [Sentinel os_ErrNotExist]), s)"
| "ReadCloudInit_loop open_file ctx (path # rest) s =
     (case ctx_Err ctx s of
        Some err \<Rightarrow> (Inl err, s)
      | None \<Rightarrow>
          (case readPath open_file path s of
             (Inr inst, s1) \<Rightarrow> (Inr inst, s1)
           | (Inl err, s1) \<Rightarrow>
               if \<not> os_IsNotExist err then (Inl err, s1)
               else ReadCloudInit_loop open_file ctx rest s1))"

definition ReadCloudInit :: "(string \<Rightarrow> 's \<Rightarrow> (body, 's) result) \<Rightarrow> 's Context \<Rightarrow> 's \<Rightarrow> (Instance, 's) result" where
  "ReadCloudInit open_file ctx = ReadCloudInit_loop open_file ctx cloudInitPaths"

text \<open>Every error of \<open>readPath\<close> is wrapped, and \<open>os.IsNotExist\<close> does not look below a wrapping.\<close>

lemma readPath_error_wrapped: "readPath open_file path s = (Inl e, s1) \<Longrightarrow> \<exists>m es. e = Wrap m es"
  by (auto simp: readPath_def Let_def split: prod.splits sum.splits body.splits bool.splits if_splits)

text \<open>
  C25. Only the first file counts.  Whatever the files hold, \<open>ReadCloudInit\<close> answers what
  \<open>readPath\<close> answers for \<open>/run/cloud-init/instance-data.json\<close>: when that file is missing the
  second one is not tried, because the error that says so is wrapped.
\<close>

theorem ReadCloudInit_reads_one_file:
  "ReadCloudInit open_file ctx s =
     (case ctx_Err ctx s of
        Some err \<Rightarrow> (Inl err, s)
      | None \<Rightarrow> readPath open_file ''/run/cloud-init/instance-data.json'' s)"
proof (cases "ctx_Err ctx s")
  case None
  obtain r s1 where r: "readPath open_file ''/run/cloud-init/instance-data.json'' s = (r, s1)" by fastforce
  have "\<not> os_IsNotExist e" if "r = Inl e" for e
    using readPath_error_wrapped [of open_file _ s e s1] r that os_IsNotExist_Wrap by metis
  with None r show ?thesis by (simp add: ReadCloudInit_def cloudInitPaths_def split: sum.splits)
qed (simp add: ReadCloudInit_def cloudInitPaths_def)

text \<open>
  The identity has an identifier.  A successful \<open>ReadCloudInit\<close> never yields an empty instance
  identifier, which would make the node register under an empty name.
\<close>

theorem ReadCloudInit_has_ID:
  assumes "ReadCloudInit open_file ctx s = (Inr inst, s')"
  shows "in_ID inst \<noteq> ''''"
proof -
  have "readPath open_file path s = (Inr inst, s') \<Longrightarrow> in_ID inst \<noteq> ''''" for path
    by (auto simp: readPath_def Let_def split: prod.splits sum.splits body.splits bool.splits if_splits)
  moreover have "\<exists>path. readPath open_file path s = (Inr inst, s')"
  proof -
    have "ReadCloudInit_loop open_file ctx paths t = (Inr inst, s') \<Longrightarrow> \<exists>p u. readPath open_file p u = (Inr inst, s')"
      for paths t
      by (induction paths arbitrary: t) (auto split: option.splits prod.splits sum.splits if_splits)
    then show ?thesis using assms
      by (auto simp: ReadCloudInit_def cloudInitPaths_def readPath_error_wrapped
          split: option.splits prod.splits sum.splits if_splits dest: readPath_error_wrapped)
  qed
  ultimately show ?thesis by blast
qed

definition sample_file :: "string \<Rightarrow> unit \<Rightarrow> (body, unit) result" where
  "sample_file path s = (Inr (BodyJSON (JObject
     [(''v1'', JObject [(''instance-id'', JString ''i-1''), (''region'', JString ''lagos'')]),
      (''ds'', JObject [(''meta_data'', JObject [(''availability_zone'', JString ''nova'')])])])), s)"

lemma ReadCloudInit_has_ID_witness:
  "fst (ReadCloudInit sample_file context_Background ()) =
     Inr \<lparr>in_ID = ''i-1'', in_AvailabilityZone = ''nova'', in_Region = ''lagos''\<rparr> \<and> ''i-1'' \<noteq> ''''"
proof -
  have eq: "ReadCloudInit sample_file context_Background () =
      (Inr \<lparr>in_ID = ''i-1'', in_AvailabilityZone = ''nova'', in_Region = ''lagos''\<rparr>, ())"
    by code_simp
  from ReadCloudInit_has_ID [OF eq] eq show ?thesis by simp
qed

end
