(* ===== verification/CloudClient.thy ===== *)
theory CloudClient
  imports Pagination CloudInit
begin

text \<open>
  \<open>internal/cloud/client.go\<close>: the client of the Nobus API.  What is not Go source of the repository is
  in \<open>Env\<close>: the transport that sends a request and reads the answer, \<open>url.Parse\<close>, contexts with a
  deadline, \<open>time.Parse\<close>, and the reading of files.  Everything else, from building
  a request to classifying an error and polling, is the code's.
\<close>

record URL =
  url_Scheme :: string
  url_Host :: string
  url_Path :: string

record http_request =
  rq_Method :: string
  rq_URL :: URL
  rq_Query :: "gomap option"
  rq_Body :: "json option"
  rq_Header :: gomap

record http_response =
  rs_StatusCode :: int
  rs_Body :: body

record 's Env =
  env_Do :: "'s Context \<Rightarrow> http_request \<Rightarrow> 's \<Rightarrow> (http_response, 's) result"
  env_url_Parse :: "string \<Rightarrow> goerr + URL"
  env_time_Parse :: "string \<Rightarrow> string \<Rightarrow> bool"
  env_WithTimeout :: "'s Context \<Rightarrow> nat \<Rightarrow> 's Context"
  env_Open :: "string \<Rightarrow> 's \<Rightarrow> (body, 's) result"

definition volumePath :: string where "volumePath = ''/api/v3/volume/''"
definition volumeListPath :: string where "volumeListPath = ''/api/v3/volume/list''"
definition volumeExtendPath :: string where "volumeExtendPath = ''/api/v3/volume/extend''"
definition snapshotPath :: string where "snapshotPath = ''/api/v3/volume/snapshot''"
definition snapshotListPath :: string where "snapshotListPath = ''/api/v3/volume/snapshot/list''"
definition volumeAttachPath :: string where "volumeAttachPath = ''/api/v3/volume/attach''"
definition volumeDetachPath :: string where "volumeDetachPath = ''/api/v3/volume/detach''"
definition bytesPerGiB :: i64 where "bytesPerGiB = 2 ^ 30"
definition attachWait :: nat where "attachWait = 180000"
definition attachPoll :: nat where "attachPoll = 2000"
definition deleteWait :: nat where "deleteWait = 120000"

record ClientConfig =
  cc_BaseURL :: string
  cc_APIKey :: string
  cc_ProjectID :: string
  cc_AvailabilityZone :: string

record Client =
  cl_base :: URL
  cl_config :: ClientConfig
  cl_poll :: nat

definition NewClient :: "'s Env \<Rightarrow> ClientConfig \<Rightarrow> goerr + Client" where
  "NewClient env config =
     (case env_url_Parse env (strings_TrimRight (cc_BaseURL config) (CHR ''/'')) of
        Inl err \<Rightarrow> Inl (Wrap ''parse Nobus API URL'' [err])
      | Inr base \<Rightarrow>
          if url_Scheme base = '''' \<or> url_Host base = ''''
          then Inl (Foreign ''nobus API URL must be absolute'')
          else if cc_APIKey config = '''' then Inl (Foreign ''nobus API key is required'')
          else Inr \<lparr>cl_base = base, cl_config = config, cl_poll = attachPoll\<rparr>)"

section \<open>Requests and errors\<close>

definition zoneQuery :: "Client \<Rightarrow> string \<Rightarrow> gomap" where
  "zoneQuery c availabilityZone =
     [(''project_id'', cc_ProjectID (cl_config c)),
      (''availability_zone'', cmp_Or [availabilityZone, cc_AvailabilityZone (cl_config c)])]"

text \<open>\<open>url.Values.Set\<close>.\<close>

definition query_Set :: "string \<Rightarrow> string \<Rightarrow> gomap \<Rightarrow> gomap" where
  "query_Set k v q = AList.update k v q"

definition bytesToGiB :: "i64 \<Rightarrow> i64" where
  "bytesToGiB sizeBytes = go_div (sizeBytes + bytesPerGiB - 1) bytesPerGiB"

definition classifyClientError :: "string \<Rightarrow> goerr" where
  "classifyClientError message =
     (let normalized = strings_ToLower message
      in if strings_Contains normalized ''not found'' \<or> strings_Contains normalized ''does not exist'' \<or>
            strings_Contains normalized ''not attached'' \<or> strings_Contains normalized ''already detached''
         then Wrap message [Sentinel ErrNotFound]
         else if strings_Contains normalized ''already exist'' \<or> strings_Contains normalized ''duplicate''
         then Wrap message [Sentinel ErrAlreadyExists]
         else if strings_Contains normalized ''quota'' then Wrap message [Sentinel ErrQuotaExceeded]
         else if strings_Contains normalized ''rate'' then Wrap message [Sentinel ErrRateLimited]
         else Wrap message [Sentinel ErrInvalid])"

text \<open>
  The \<open>message\<close> of an error response; an answer that is not such an object leaves it empty.  The
  argument \<open>status_text\<close> is \<open>http.StatusText\<close>.
\<close>

definition errorMessage :: "body \<Rightarrow> string" where
  "errorMessage b = (case b of
     BodyJSON j \<Rightarrow> fst (dec_struct [(''message'', dec_string)] j '''')
   | _ \<Rightarrow> '''')"

definition mapHTTPError :: "(int \<Rightarrow> string) \<Rightarrow> http_response \<Rightarrow> goerr" where
  "mapHTTPError StatusText resp =
     (case rs_Body resp of
        BodyReadError err \<Rightarrow>
          Wrap ''read Nobus error response'' [Wrap '''' [Sentinel ErrUnavailable, err]]
      | b \<Rightarrow>
          (let message = cmp_Or [errorMessage b, StatusText (rs_StatusCode resp)];
               code = rs_StatusCode resp
           in if code = 404 then Wrap message [Sentinel ErrNotFound]
              else if code = 409 then Wrap message [Sentinel ErrConflict]
              else if code = 429 then Wrap message [Sentinel ErrRateLimited]
              else if code = 401 \<or> code = 403 then Wrap message [Sentinel ErrUnauthorized]
              else if code = 413 then Wrap message [Sentinel ErrQuotaExceeded]
              else if code \<ge> 500 then Wrap message [Sentinel ErrUnavailable]
              else classifyClientError message))"

text \<open>
  The part of \<open>http.StatusText\<close> that matters: the text of the code, which is empty for a code that
  has none.
\<close>

definition http_StatusText :: "int \<Rightarrow> string" where
  "http_StatusText code =
     (case map_of [(400, ''Bad Request''), (401, ''Unauthorized''), (402, ''Payment Required''),
        (403, ''Forbidden''), (404, ''Not Found''), (405, ''Method Not Allowed''),
        (406, ''Not Acceptable''), (407, ''Proxy Authentication Required''), (408, ''Request Timeout''),
        (409, ''Conflict''), (410, ''Gone''), (411, ''Length Required''), (412, ''Precondition Failed''),
        (413, ''Request Entity Too Large''), (414, ''Request URI Too Long''), (415, ''Unsupported Media Type''),
        (416, ''Requested Range Not Satisfiable''), (417, ''Expectation Failed''), (418, ''I'' @ [CHR 0x27] @ ''m a teapot''),
        (421, ''Misdirected Request''), (422, ''Unprocessable Entity''), (423, ''Locked''),
        (424, ''Failed Dependency''), (425, ''Too Early''), (426, ''Upgrade Required''),
        (428, ''Precondition Required''), (429, ''Too Many Requests''),
        (431, ''Request Header Fields Too Large''), (451, ''Unavailable For Legal Reasons''),
        (500, ''Internal Server Error''), (501, ''Not Implemented''), (502, ''Bad Gateway''),
        (503, ''Service Unavailable''), (504, ''Gateway Timeout''), (505, ''HTTP Version Not Supported''),
        (506, ''Variant Also Negotiates''), (507, ''Insufficient Storage''), (508, ''Loop Detected''),
        (510, ''Not Extended''), (511, ''Network Authentication Required'')] code of
        Some t \<Rightarrow> t | None \<Rightarrow> '''')"

text \<open>
  \<open>do\<close>: the path replaces the path of the base URL, as \<open>ResolveReference\<close> does with an absolute path.
  With a decoder the answer is what it makes of the body; \<open>drain\<close> is the case of a nil decoder.
\<close>

definition do_request ::
  "'s Env \<Rightarrow> Client \<Rightarrow> 's Context \<Rightarrow> string \<Rightarrow> string \<Rightarrow> gomap option \<Rightarrow> json option \<Rightarrow>
     (body \<Rightarrow> goerr + 'a) \<Rightarrow> 's \<Rightarrow> ('a, 's) result" where
  "do_request env c ctx meth path query payload decode s =
     (let req = \<lparr>rq_Method = meth, rq_URL = (cl_base c)\<lparr>url_Path := path\<rparr>, rq_Query = query,
                 rq_Body = payload,
                 rq_Header = [(''Authorization'', ''Bearer '' @ cc_APIKey (cl_config c))] @
                   (if payload \<noteq> None then [(''Content-Type'', ''application/json'')] else [])\<rparr>
      in case env_Do env ctx req s of
           (Inl err, s1) \<Rightarrow> (Inl (Wrap ''call Nobus API'' [Wrap '''' [Sentinel ErrUnavailable, err]]), s1)
         | (Inr resp, s1) \<Rightarrow>
             if rs_StatusCode resp \<ge> 400 then (Inl (mapHTTPError http_StatusText resp), s1)
             else (decode (rs_Body resp), s1))"

definition drain :: "body \<Rightarrow> goerr + unit" where
  "drain b = (case b of
     BodyReadError err \<Rightarrow> Inl (Wrap ''drain Nobus response'' [err])
   | _ \<Rightarrow> Inr ())"

section \<open>The structs of the API\<close>

record apiAttachment =
  aa_ServerID :: string
  aa_Device :: string

record apiVolume =
  av_ID :: string
  av_Name :: string
  av_Size :: int
  av_Status :: string
  av_AvailabilityZone :: string
  av_VolumeType :: string
  av_Encrypted :: bool
  av_Multiattach :: bool
  av_Metadata :: gomap
  av_Attachments :: "apiAttachment list"

record apiSnapshot =
  as_ID :: string
  as_Name :: string
  as_VolumeID :: string
  as_Status :: string
  as_Size :: int
  as_CreatedAt :: string
  as_AvailabilityZone :: string
  as_Metadata :: gomap

definition zero_apiAttachment :: apiAttachment where
  "zero_apiAttachment = \<lparr>aa_ServerID = '''', aa_Device = ''''\<rparr>"

definition zero_apiVolume :: apiVolume where
  "zero_apiVolume = \<lparr>av_ID = '''', av_Name = '''', av_Size = 0, av_Status = '''', av_AvailabilityZone = '''',
     av_VolumeType = '''', av_Encrypted = False, av_Multiattach = False, av_Metadata = [], av_Attachments = []\<rparr>"

definition zero_apiSnapshot :: apiSnapshot where
  "zero_apiSnapshot = \<lparr>as_ID = '''', as_Name = '''', as_VolumeID = '''', as_Status = '''', as_Size = 0,
     as_CreatedAt = '''', as_AvailabilityZone = '''', as_Metadata = []\<rparr>"

definition dec_apiAttachment :: "apiAttachment decoder" where
  "dec_apiAttachment = dec_struct
     [field ''server_id'' aa_ServerID aa_ServerID_update dec_string,
      field ''device'' aa_Device aa_Device_update dec_string]"

definition dec_apiVolume :: "apiVolume decoder" where
  "dec_apiVolume = dec_struct
     [field ''id'' av_ID av_ID_update dec_string,
      field ''name'' av_Name av_Name_update dec_string,
      field ''size'' av_Size av_Size_update dec_int,
      field ''status'' av_Status av_Status_update dec_string,
      field ''availability_zone'' av_AvailabilityZone av_AvailabilityZone_update dec_string,
      field ''volume_type'' av_VolumeType av_VolumeType_update dec_string,
      field ''encrypted'' av_Encrypted av_Encrypted_update dec_bool,
      field ''multiattach'' av_Multiattach av_Multiattach_update dec_bool,
      field ''metadata'' av_Metadata av_Metadata_update dec_map,
      field ''attachments'' av_Attachments av_Attachments_update (dec_list dec_apiAttachment zero_apiAttachment)]"

definition dec_apiSnapshot :: "apiSnapshot decoder" where
  "dec_apiSnapshot = dec_struct
     [field ''id'' as_ID as_ID_update dec_string,
      field ''name'' as_Name as_Name_update dec_string,
      field ''volume_id'' as_VolumeID as_VolumeID_update dec_string,
      field ''status'' as_Status as_Status_update dec_string,
      field ''size'' as_Size as_Size_update dec_int,
      field ''created_at'' as_CreatedAt as_CreatedAt_update dec_string,
      field ''availability_zone'' as_AvailabilityZone as_AvailabilityZone_update dec_string,
      field ''metadata'' as_Metadata as_Metadata_update dec_map]"

text \<open>
  The response structs hold a status, which is decoded and never read, and the data: one object, or
  an object with a list of items.
\<close>

record 'a response =
  rp_Status :: bool
  rp_Data :: 'a

definition dec_response :: "'a decoder \<Rightarrow> 'a response decoder" where
  "dec_response d = dec_struct
     [field ''status'' rp_Status rp_Status_update dec_bool, field ''data'' rp_Data rp_Data_update d]"

definition volumeResponse :: "apiVolume response decoder" where
  "volumeResponse = dec_response dec_apiVolume"

definition volumeListResponse :: "apiVolume list response decoder" where
  "volumeListResponse = dec_response (dec_struct [(''items'', dec_list dec_apiVolume zero_apiVolume)])"

definition snapshotResponse :: "apiSnapshot response decoder" where
  "snapshotResponse = dec_response dec_apiSnapshot"

definition snapshotListResponse :: "apiSnapshot list response decoder" where
  "snapshotListResponse = dec_response (dec_struct [(''items'', dec_list dec_apiSnapshot zero_apiSnapshot)])"

definition volumeCreateRequest :: "VolumeSpec \<Rightarrow> json" where
  "volumeCreateRequest spec = JObject (
     [(''size'', JInt (sint (bytesToGiB (spec_SizeBytes spec))))] @
     omit_string ''name'' (spec_Name spec) @
     omit_string ''volume_type'' (spec_Type spec) @
     [(''availability_zone'', JString (spec_AvailabilityZone spec))] @
     omit_string ''snapshot_id'' (spec_SnapshotID spec) @
     omit_bool ''encrypted'' (spec_Encrypted spec) @
     omit_map ''metadata'' (spec_Metadata spec) @
     [(''project_id'', JString (spec_ProjectID spec))])"

definition attachVolumeRequest :: "string \<Rightarrow> string \<Rightarrow> string \<Rightarrow> string \<Rightarrow> json" where
  "attachVolumeRequest projectID availabilityZone serverID volumeID = JObject
     [(''project_id'', JString projectID), (''availability_zone'', JString availabilityZone),
      (''server_id'', JString serverID), (''volume_id'', JString volumeID)]"

definition extendVolumeRequest :: "string \<Rightarrow> string \<Rightarrow> string \<Rightarrow> i64 \<Rightarrow> json" where
  "extendVolumeRequest projectID availabilityZone volumeID newSize = JObject
     [(''project_id'', JString projectID), (''availability_zone'', JString availabilityZone),
      (''volume_id'', JString volumeID), (''new_size'', JInt (sint newSize))]"

definition snapshotRequest :: "SnapshotSpec \<Rightarrow> json" where
  "snapshotRequest spec = JObject (
     [(''volume_id'', JString (snapspec_VolumeID spec))] @
     omit_string ''name'' (snapspec_Name spec) @
     [(''force'', JBool (snapspec_Force spec)), (''project_id'', JString (snapspec_ProjectID spec)),
      (''availability_zone'', JString (snapspec_AvailabilityZone spec))] @
     omit_map ''metadata'' (snapspec_Metadata spec))"

definition volume_toDomain :: "apiVolume \<Rightarrow> Volume" where
  "volume_toDomain v =
     \<lparr>vol_ID = av_ID v,
      vol_Name = av_Name v,
      vol_SizeBytes = word_of_int (av_Size v) * bytesPerGiB,
      vol_Status = av_Status v,
      vol_AvailabilityZone = av_AvailabilityZone v,
      vol_Type = av_VolumeType v,
      vol_Encrypted = av_Encrypted v,
      vol_Multiattach = av_Multiattach v,
      vol_Metadata = av_Metadata v,
      vol_Attachments = map (\<lambda>a. \<lparr>att_InstanceID = aa_ServerID a, att_DevicePath = aa_Device a\<rparr>) (av_Attachments v)\<rparr>"

fun first_layout :: "'s Env \<Rightarrow> string \<Rightarrow> string list \<Rightarrow> bool" where
  "first_layout env value [] = False"
| "first_layout env value (layout # rest) =
     (if env_time_Parse env layout value then True else first_layout env value rest)"

definition RFC3339Nano :: string where "RFC3339Nano = ''2006-01-02T15:04:05.999999999Z07:00''"

definition parseNobusTime :: "'s Env \<Rightarrow> string \<Rightarrow> goerr + gotime" where
  "parseNobusTime env value =
     (if value = '''' then Inr None
      else if first_layout env value
        [RFC3339Nano, ''2006-01-02T15:04:05.999999'', ''2006-01-02T15:04:05.999'', ''2006-01-02T15:04:05'']
      then Inr (Some value)
      else Inl (Wrap (''parse Nobus timestamp '' @ fmt_q value) [Sentinel ErrInvalid]))"

definition snapshot_toDomain :: "'s Env \<Rightarrow> apiSnapshot \<Rightarrow> goerr + Snapshot" where
  "snapshot_toDomain env sn =
     (case parseNobusTime env (as_CreatedAt sn) of
        Inl err \<Rightarrow> Inl err
      | Inr createdAt \<Rightarrow> Inr
          \<lparr>snap_ID = as_ID sn,
           snap_Name = as_Name sn,
           snap_VolumeID = as_VolumeID sn,
           snap_SizeBytes = word_of_int (as_Size sn) * bytesPerGiB,
           snap_Status = as_Status sn,
           snap_CreatedAt = createdAt,
           snap_AvailabilityZone = as_AvailabilityZone sn,
           snap_Metadata = as_Metadata sn\<rparr>)"

section \<open>The volume calls\<close>

definition zero_response :: "'a \<Rightarrow> 'a response" where
  "zero_response z = \<lparr>rp_Status = False, rp_Data = z\<rparr>"

definition client_CreateVolume :: "'s Env \<Rightarrow> Client \<Rightarrow> 's Context \<Rightarrow> VolumeSpec \<Rightarrow> 's \<Rightarrow> (Volume, 's) result" where
  "client_CreateVolume env c ctx spec s =
     (case do_request env c ctx ''POST'' volumePath None (Some (volumeCreateRequest spec))
             (decodeJSON volumeResponse (zero_response zero_apiVolume)) s of
        (Inl err, s1) \<Rightarrow> (Inl err, s1)
      | (Inr response, s1) \<Rightarrow>
          (Inr ((volume_toDomain (rp_Data response))\<lparr>vol_AvailabilityZone := spec_AvailabilityZone spec\<rparr>), s1))"

definition client_ListVolumes ::
  "'s Env \<Rightarrow> Client \<Rightarrow> 's Context \<Rightarrow> Page \<Rightarrow> 's \<Rightarrow> (Volume list \<times> string, 's) result" where
  "client_ListVolumes env c ctx page s =
     (let query = zoneQuery c (page_AvailabilityZone page);
          query = (if page_Name page \<noteq> '''' then query_Set ''name'' (page_Name page) query else query)
      in case do_request env c ctx ''GET'' volumeListPath (Some query) None
                (decodeJSON volumeListResponse (zero_response [])) s of
           (Inl err, s1) \<Rightarrow> (Inl err, s1)
         | (Inr response, s1) \<Rightarrow>
             (let zone = map_index query ''availability_zone'';
                  volumes = map (\<lambda>volume. let domain = volume_toDomain volume
                      in if zone \<noteq> '''' then domain\<lparr>vol_AvailabilityZone := zone\<rparr> else domain) (rp_Data response)
              in (paginate (sort_by_ID vol_ID volumes) page, s1)))"

text \<open>The loop that selects the exact identifier.\<close>

definition getVolumeByIDInZone ::
  "'s Env \<Rightarrow> Client \<Rightarrow> 's Context \<Rightarrow> string \<Rightarrow> string \<Rightarrow> 's \<Rightarrow> (Volume, 's) result" where
  "getVolumeByIDInZone env c ctx vid availabilityZone s =
     (case client_ListVolumes env c ctx \<lparr>page_Token = '''', page_Size = 0, page_Name = '''',
             page_AvailabilityZone = cmp_Or [availabilityZone, cc_AvailabilityZone (cl_config c)]\<rparr> s of
        (Inl err, s1) \<Rightarrow> (Inl err, s1)
      | (Inr (volumes, _), s1) \<Rightarrow>
          (case find (\<lambda>volume. vol_ID volume = vid) volumes of
             Some volume \<Rightarrow> (Inr volume, s1)
           | None \<Rightarrow> (Inl (Sentinel ErrNotFound), s1)))"

definition client_GetVolumeByID :: "'s Env \<Rightarrow> Client \<Rightarrow> 's Context \<Rightarrow> string \<Rightarrow> 's \<Rightarrow> (Volume, 's) result" where
  "client_GetVolumeByID env c ctx vid = getVolumeByIDInZone env c ctx vid ''''"

text \<open>
  The polling loops.  A context with a deadline ends a \<open>select\<close> by its \<open>Done\<close> channel at the latest
  when the polls that fit into the deadline are used up, which \<open>polls\<close> counts down; that it may
  end earlier is an answer \<open>False\<close> of its timer.
\<close>

fun waitVolumeDeleted_loop ::
  "'s Env \<Rightarrow> Client \<Rightarrow> 's Context \<Rightarrow> string \<Rightarrow> nat \<Rightarrow> 's \<Rightarrow> (unit, 's) result" where
  "waitVolumeDeleted_loop env c ctx vid polls s =
     (case getVolumeByIDInZone env c ctx vid (cc_AvailabilityZone (cl_config c)) s of
        (Inl err, s1) \<Rightarrow>
          if errors_is err ErrNotFound then (Inr (), s1)
          else (Inl (Wrap (''wait for deleted volume '' @ vid) [err]), s1)
      | (Inr _, s1) \<Rightarrow>
          (let still = Inl (Wrap (''volume '' @ vid @ '' still exists after delete'') [Sentinel ErrUnavailable])
           in case polls of
                0 \<Rightarrow> (still, s1)
              | Suc polls' \<Rightarrow>
                  (case ctx_timer ctx (cl_poll c) s1 of
                     (False, s2) \<Rightarrow> (still, s2)
                   | (True, s2) \<Rightarrow> waitVolumeDeleted_loop env c ctx vid polls' s2)))"

definition waitVolumeDeleted :: "'s Env \<Rightarrow> Client \<Rightarrow> 's Context \<Rightarrow> string \<Rightarrow> 's \<Rightarrow> (unit, 's) result" where
  "waitVolumeDeleted env c ctx vid =
     waitVolumeDeleted_loop env c (env_WithTimeout env ctx deleteWait) vid (deleteWait div cl_poll c)"

definition client_DeleteVolume :: "'s Env \<Rightarrow> Client \<Rightarrow> 's Context \<Rightarrow> string \<Rightarrow> 's \<Rightarrow> (unit, 's) result" where
  "client_DeleteVolume env c ctx vid s =
     (let query = query_Set ''volume_id'' vid (zoneQuery c '''')
      in case do_request env c ctx ''DELETE'' volumePath (Some query) None drain s of
           (Inl err, s1) \<Rightarrow> (Inl err, s1)
         | (Inr _, s1) \<Rightarrow> waitVolumeDeleted env c ctx vid s1)"

definition client_ResizeVolume ::
  "'s Env \<Rightarrow> Client \<Rightarrow> 's Context \<Rightarrow> string \<Rightarrow> i64 \<Rightarrow> string \<Rightarrow> 's \<Rightarrow> (i64, 's) result" where
  "client_ResizeVolume env c ctx vid sizeBytes availabilityZone s =
     (let zone = cmp_Or [availabilityZone, cc_AvailabilityZone (cl_config c)];
          payload = extendVolumeRequest (cc_ProjectID (cl_config c)) zone vid (bytesToGiB sizeBytes)
      in case do_request env c ctx ''POST'' volumeExtendPath None (Some payload) drain s of
           (Inl err, s1) \<Rightarrow> (Inl err, s1)
         | (Inr _, s1) \<Rightarrow>
             (case getVolumeByIDInZone env c ctx vid zone s1 of
                (Inl err, s2) \<Rightarrow> (Inl err, s2)
              | (Inr volume, s2) \<Rightarrow> (Inr (vol_SizeBytes volume), s2)))"

fun device_of :: "Attachment list \<Rightarrow> string \<Rightarrow> string option" where
  "device_of [] instanceID = None"
| "device_of (attachment # rest) instanceID =
     (if att_InstanceID attachment = instanceID \<and> att_DevicePath attachment \<noteq> ''''
      then Some (att_DevicePath attachment) else device_of rest instanceID)"

fun waitAttachedDevice_loop ::
  "'s Env \<Rightarrow> Client \<Rightarrow> 's Context \<Rightarrow> string \<Rightarrow> string \<Rightarrow> string \<Rightarrow> nat \<Rightarrow> 's \<Rightarrow> (string, 's) result" where
  "waitAttachedDevice_loop env c ctx volumeID instanceID zone polls s =
     (case getVolumeByIDInZone env c ctx volumeID zone s of
        (Inl err, s1) \<Rightarrow> (Inl (Wrap (''wait for attached volume '' @ volumeID) [err]), s1)
      | (Inr volume, s1) \<Rightarrow>
          (case device_of (vol_Attachments volume) instanceID of
             Some device \<Rightarrow> (Inr device, s1)
           | None \<Rightarrow>
               (let none = Inl (Wrap (''attached volume '' @ volumeID @ '' has no device for instance '' @ instanceID)
                             [Sentinel ErrUnavailable])
                in case polls of
                     0 \<Rightarrow> (none, s1)
                   | Suc polls' \<Rightarrow>
                       (case ctx_timer ctx (cl_poll c) s1 of
                          (False, s2) \<Rightarrow> (none, s2)
                        | (True, s2) \<Rightarrow> waitAttachedDevice_loop env c ctx volumeID instanceID zone polls' s2))))"

definition waitAttachedDevice ::
  "'s Env \<Rightarrow> Client \<Rightarrow> 's Context \<Rightarrow> string \<Rightarrow> string \<Rightarrow> string \<Rightarrow> 's \<Rightarrow> (string, 's) result" where
  "waitAttachedDevice env c ctx volumeID instanceID zone =
     waitAttachedDevice_loop env c (env_WithTimeout env ctx attachWait) volumeID instanceID zone
       (attachWait div cl_poll c)"

definition client_AttachVolume ::
  "'s Env \<Rightarrow> Client \<Rightarrow> 's Context \<Rightarrow> string \<Rightarrow> string \<Rightarrow> string \<Rightarrow> 's \<Rightarrow> (string, 's) result" where
  "client_AttachVolume env c ctx volumeID instanceID availabilityZone s =
     (let zone = cmp_Or [availabilityZone, cc_AvailabilityZone (cl_config c)];
          payload = attachVolumeRequest (cc_ProjectID (cl_config c)) zone instanceID volumeID
      in case do_request env c ctx ''POST'' volumeAttachPath None (Some payload) drain s of
           (Inl err, s1) \<Rightarrow> (Inl err, s1)
         | (Inr _, s1) \<Rightarrow> waitAttachedDevice env c ctx volumeID instanceID zone s1)"

definition client_DetachVolume ::
  "'s Env \<Rightarrow> Client \<Rightarrow> 's Context \<Rightarrow> string \<Rightarrow> string \<Rightarrow> string \<Rightarrow> 's \<Rightarrow> (unit, 's) result" where
  "client_DetachVolume env c ctx volumeID instanceID availabilityZone =
     do_request env c ctx ''POST'' volumeDetachPath None
       (Some (attachVolumeRequest (cc_ProjectID (cl_config c))
          (cmp_Or [availabilityZone, cc_AvailabilityZone (cl_config c)]) instanceID volumeID)) drain"

section \<open>The snapshot calls and the instance metadata\<close>

definition client_CreateSnapshot :: "'s Env \<Rightarrow> Client \<Rightarrow> 's Context \<Rightarrow> SnapshotSpec \<Rightarrow> 's \<Rightarrow> (Snapshot, 's) result" where
  "client_CreateSnapshot env c ctx spec s =
     (case do_request env c ctx ''POST'' snapshotPath None (Some (snapshotRequest spec))
             (decodeJSON snapshotResponse (zero_response zero_apiSnapshot)) s of
        (Inl err, s1) \<Rightarrow> (Inl err, s1)
      | (Inr response, s1) \<Rightarrow> (snapshot_toDomain env (rp_Data response), s1))"

definition client_DeleteSnapshot :: "'s Env \<Rightarrow> Client \<Rightarrow> 's Context \<Rightarrow> string \<Rightarrow> string \<Rightarrow> 's \<Rightarrow> (unit, 's) result" where
  "client_DeleteSnapshot env c ctx sid availabilityZone =
     do_request env c ctx ''DELETE'' snapshotPath
       (Some (query_Set ''snapshot_id'' sid (zoneQuery c availabilityZone))) None drain"

text \<open>The loop that converts the snapshots, up to the first time stamp it cannot read.\<close>

fun snapshots_toDomain :: "'s Env \<Rightarrow> string \<Rightarrow> apiSnapshot list \<Rightarrow> goerr + Snapshot list" where
  "snapshots_toDomain env zone [] = Inr []"
| "snapshots_toDomain env zone (snapshot # rest) =
     (case snapshot_toDomain env snapshot of
        Inl err \<Rightarrow> Inl err
      | Inr domain \<Rightarrow>
          (let domain = (if snap_AvailabilityZone domain = '''' then domain\<lparr>snap_AvailabilityZone := zone\<rparr> else domain)
           in (case snapshots_toDomain env zone rest of
                 Inl err \<Rightarrow> Inl err
               | Inr domains \<Rightarrow> Inr (domain # domains))))"

definition client_ListSnapshots ::
  "'s Env \<Rightarrow> Client \<Rightarrow> 's Context \<Rightarrow> Page \<Rightarrow> 's \<Rightarrow> (Snapshot list \<times> string, 's) result" where
  "client_ListSnapshots env c ctx page s =
     (let query = zoneQuery c (page_AvailabilityZone page);
          query = (if page_Name page \<noteq> '''' then query_Set ''name'' (page_Name page) query else query)
      in case do_request env c ctx ''GET'' snapshotListPath (Some query) None
                (decodeJSON snapshotListResponse (zero_response [])) s of
           (Inl err, s1) \<Rightarrow> (Inl err, s1)
         | (Inr response, s1) \<Rightarrow>
             (case snapshots_toDomain env (map_index query ''availability_zone'') (rp_Data response) of
                Inl err \<Rightarrow> (Inl err, s1)
              | Inr snapshots \<Rightarrow> (paginate (sort_by_ID snap_ID snapshots) page, s1)))"

definition client_GetInstanceMetadata :: "'s Env \<Rightarrow> 's Context \<Rightarrow> 's \<Rightarrow> (InstanceMetadata, 's) result" where
  "client_GetInstanceMetadata env ctx s =
     (case ReadCloudInit (env_Open env) ctx s of
        (Inl err, s1) \<Rightarrow>
          if errors_is err context_Canceled \<or> errors_is err context_DeadlineExceeded then (Inl err, s1)
          else (Inl (Wrap ''read Nobus instance metadata'' [err, Sentinel ErrUnavailable]), s1)
      | (Inr inst, s1) \<Rightarrow>
          (Inr \<lparr>im_InstanceID = in_ID inst, im_AvailabilityZone = in_AvailabilityZone inst,
                im_Region = in_Region inst, im_MaxVolumesPerNode = 0\<rparr>, s1))"

text \<open>The client as a value of the interface type, for one request's context.\<close>

definition client_cloud :: "'s Env \<Rightarrow> Client \<Rightarrow> 's Context \<Rightarrow> 's Cloud" where
  "client_cloud env c ctx =
     \<lparr>cloud_CreateVolume = client_CreateVolume env c ctx,
      cloud_GetVolumeByID = client_GetVolumeByID env c ctx,
      cloud_ListVolumes = client_ListVolumes env c ctx,
      cloud_DeleteVolume = client_DeleteVolume env c ctx,
      cloud_ResizeVolume = client_ResizeVolume env c ctx,
      cloud_AttachVolume = client_AttachVolume env c ctx,
      cloud_DetachVolume = client_DetachVolume env c ctx,
      cloud_CreateSnapshot = client_CreateSnapshot env c ctx,
      cloud_DeleteSnapshot = client_DeleteSnapshot env c ctx,
      cloud_ListSnapshots = client_ListSnapshots env c ctx,
      cloud_GetInstanceMetadata = client_GetInstanceMetadata env ctx\<rparr>"

end
