(* ===== verification/ClientProps.thy ===== *)
theory ClientProps
  imports CloudClient Handlers
begin

text \<open>
  Properties of the API client: capacities in GiB, the classification of HTTP errors, which zone a
  request names, and the polling loops.
\<close>

section \<open>Capacities\<close>

lemma sint_bytesPerGiB [simp]: "sint bytesPerGiB = 2 ^ 30"
  by (simp add: bytesPerGiB_def)

lemma sint_bytesToGiB:
  assumes "0 \<le> sint b" and "sint b + 2 ^ 30 \<le> 2 ^ 63"
  shows "sint (bytesToGiB b) = (sint b + 2 ^ 30 - 1) div 2 ^ 30"
proof -
  have 2: "sint (b + (bytesPerGiB - 1)) = sint b + (2 ^ 30 - 1)"
  proof -
    have g: "sint (bytesPerGiB - 1) = 2 ^ 30 - 1" by (simp add: bytesPerGiB_def)
    show ?thesis using sint_add64 [of b "bytesPerGiB - 1"] assms g by (simp add: int64_ok_def)
  qed
  have eq: "b + bytesPerGiB - 1 = b + (bytesPerGiB - 1)" by simp
  have "sint (go_div (b + (bytesPerGiB - 1)) bytesPerGiB) = (sint b + (2 ^ 30 - 1)) div 2 ^ 30"
    using sint_go_div [of "b + (bytesPerGiB - 1)" bytesPerGiB] 2 assms by simp
  then show ?thesis unfolding bytesToGiB_def eq by (simp add: algebra_simps)
qed

text \<open>
  C24. Sizes survive the API.  A size in bytes is sent in GiB, rounded up; a volume the API reports
  with that many GiB has, back in bytes, the least multiple of a GiB that is at least the size asked
  for, so that a size \<open>requestedBytes\<close> rounded to the GiB comes back as it was.
\<close>

theorem size_roundtrip:
  assumes "0 \<le> sint b" and "sint b + 2 ^ 30 \<le> 2 ^ 63"
  shows "sint (vol_SizeBytes (volume_toDomain (v\<lparr>av_Size := sint (bytesToGiB b)\<rparr>))) = ceil_to (sint b) (2 ^ 30) \<and>
    (2 ^ 30 dvd sint b \<longrightarrow> vol_SizeBytes (volume_toDomain (v\<lparr>av_Size := sint (bytesToGiB b)\<rparr>)) = b)"
proof -
  note q = sint_bytesToGiB [OF assms]
  have lt: "ceil_to (sint b) (2 ^ 30) < sint b + 2 ^ 30" by (rule ceil_to_bounds(2)) simp
  moreover have "0 \<le> ceil_to (sint b) (2 ^ 30)"
    using order_trans [OF assms(1) ceil_to_bounds(1) [of "2 ^ 30" "sint b"]] by simp
  ultimately have "int64_ok (sint (bytesToGiB b) * sint bytesPerGiB)"
    using assms(2) unfolding int64_ok_def sint_bytesPerGiB q by (intro conjI) linarith+
  then have "sint (bytesToGiB b * bytesPerGiB) = ceil_to (sint b) (2 ^ 30)"
    using sint_mult64 [of "bytesToGiB b" bytesPerGiB] q by simp
  then have 1: "sint (vol_SizeBytes (volume_toDomain (v\<lparr>av_Size := sint (bytesToGiB b)\<rparr>))) = ceil_to (sint b) (2 ^ 30)"
    by (simp add: volume_toDomain_def i64_of_sint)
  moreover have "vol_SizeBytes (volume_toDomain (v\<lparr>av_Size := sint (bytesToGiB b)\<rparr>)) = b" if "2 ^ 30 dvd sint b"
  proof -
    have "ceil_to (sint b) (2 ^ 30) = sint b" using that by (intro ceil_to_mod_0) auto
    with 1 show ?thesis by (metis i64_of_sint)
  qed
  ultimately show ?thesis by blast
qed

lemma size_roundtrip_witness:
  "vol_SizeBytes (volume_toDomain (zero_apiVolume\<lparr>av_Size := sint (bytesToGiB 3221225472)\<rparr>)) = 3221225472"
  using size_roundtrip [of 3221225472 zero_apiVolume] by simp

section \<open>Errors\<close>

text \<open>The reference: a status code decides, and otherwise what the message says.\<close>

definition message_class :: "string \<Rightarrow> sentinel" where
  "message_class message =
     (case find (\<lambda>(phrase, _). strings_Contains (strings_ToLower message) phrase)
        [(''not found'', ErrNotFound), (''does not exist'', ErrNotFound), (''not attached'', ErrNotFound),
         (''already detached'', ErrNotFound), (''already exist'', ErrAlreadyExists),
         (''duplicate'', ErrAlreadyExists), (''quota'', ErrQuotaExceeded), (''rate'', ErrRateLimited)] of
        Some (_, c) \<Rightarrow> c
      | None \<Rightarrow> ErrInvalid)"

definition http_class :: "int \<Rightarrow> string \<Rightarrow> sentinel" where
  "http_class code message =
     (case map_of [(404, ErrNotFound), (409, ErrConflict), (429, ErrRateLimited), (401, ErrUnauthorized),
        (403, ErrUnauthorized), (413, ErrQuotaExceeded)] code of
        Some c \<Rightarrow> c
      | None \<Rightarrow> if code \<ge> 500 then ErrUnavailable else message_class message)"

lemma classifyClientError_eq: "classifyClientError m = Wrap m [Sentinel (message_class m)]"
  by (simp add: classifyClientError_def message_class_def Let_def)

text \<open>
  HTTP errors.  An error response whose body can be read becomes an error of exactly one
  sentinel, the one of the table for its status, and for other client errors the one its message
  names; a response below 400 is never turned into an HTTP error.
\<close>

theorem mapHTTPError_refines_table:
  assumes "\<And>e. rs_Body resp \<noteq> BodyReadError e"
  shows "errors_is (mapHTTPError StatusText resp) t \<longleftrightarrow>
    t = http_class (rs_StatusCode resp) (cmp_Or [errorMessage (rs_Body resp), StatusText (rs_StatusCode resp)])"
proof (cases "rs_Body resp")
  case (BodyReadError e)
  with assms show ?thesis by blast
qed (auto simp: mapHTTPError_def http_class_def classifyClientError_eq Let_def simp del: cmp_Or.simps)

lemma mapHTTPError_refines_table_witness:
  "errors_is (mapHTTPError http_StatusText \<lparr>rs_StatusCode = 400,
      rs_Body = BodyJSON (JObject [(''message'', JString ''Volume already detached'')])\<rparr>) ErrNotFound"
proof -
  let ?r = "\<lparr>rs_StatusCode = 400, rs_Body = BodyJSON (JObject [(''message'', JString ''Volume already detached'')])\<rparr>"
  have "http_class (rs_StatusCode ?r) (cmp_Or [errorMessage (rs_Body ?r), http_StatusText (rs_StatusCode ?r)]) = ErrNotFound"
    by code_simp
  with mapHTTPError_refines_table [of ?r http_StatusText ErrNotFound] show ?thesis by simp
qed

text \<open>
  The word rate.  A client error whose message contains the letters \<open>rate\<close> inside another word
  is reported as rate limiting, so that the request is retried as if the provider were unavailable.
\<close>

theorem generate_is_rate_limited:
  "errors_is (mapHTTPError http_StatusText \<lparr>rs_StatusCode = 400,
      rs_Body = BodyJSON (JObject [(''message'', JString ''cannot generate volume'')])\<rparr>) ErrRateLimited"
  by code_simp

section \<open>The zone of a request\<close>

definition list_request :: "Client \<Rightarrow> string \<Rightarrow> http_request" where
  "list_request c zone =
     \<lparr>rq_Method = ''GET'', rq_URL = (cl_base c)\<lparr>url_Path := volumeListPath\<rparr>,
      rq_Query = Some [(''project_id'', cc_ProjectID (cl_config c)), (''availability_zone'', zone)],
      rq_Body = None, rq_Header = [(''Authorization'', ''Bearer '' @ cc_APIKey (cl_config c))]\<rparr>"

text \<open>What a lookup makes of the answer, a function of the response alone.\<close>

definition zone_volumes :: "string \<Rightarrow> apiVolume list \<Rightarrow> Volume list" where
  "zone_volumes zone vs = sort_by_ID vol_ID (map (\<lambda>v. let domain = volume_toDomain v
     in if zone \<noteq> '''' then domain\<lparr>vol_AvailabilityZone := zone\<rparr> else domain) vs)"

definition lookup_answer :: "string \<Rightarrow> string \<Rightarrow> goerr + http_response \<Rightarrow> goerr + Volume" where
  "lookup_answer zone vid r = (case r of
     Inl err \<Rightarrow> Inl (Wrap ''call Nobus API'' [Wrap '''' [Sentinel ErrUnavailable, err]])
   | Inr resp \<Rightarrow>
       if rs_StatusCode resp \<ge> 400 then Inl (mapHTTPError http_StatusText resp)
       else (case decodeJSON volumeListResponse (zero_response []) (rs_Body resp) of
               Inl err \<Rightarrow> Inl err
             | Inr response \<Rightarrow>
                 (case find (\<lambda>v. vol_ID v = vid) (zone_volumes zone (rp_Data response)) of
                    Some v \<Rightarrow> Inr v | None \<Rightarrow> Inl (Sentinel ErrNotFound))))"

lemma cmp_Or_pair: "cmp_Or [a, b] = (if a \<noteq> '''' then a else b)"
  by simp

lemma getVolumeByIDInZone_eq:
  assumes "zone = cmp_Or [az, cc_AvailabilityZone (cl_config c)]"
  shows "getVolumeByIDInZone env c ctx vid az s =
    (lookup_answer zone vid (fst (env_Do env ctx (list_request c zone) s)),
     snd (env_Do env ctx (list_request c zone) s))"
proof -
  have zone: "zone = (if az \<noteq> '''' then az else cc_AvailabilityZone (cl_config c))"
    using assms by (simp add: cmp_Or_pair del: cmp_Or.simps)
  have q: "zoneQuery c (cmp_Or [az, cc_AvailabilityZone (cl_config c)]) =
      [(''project_id'', cc_ProjectID (cl_config c)), (''availability_zone'', zone)]"
    unfolding zoneQuery_def zone cmp_Or_pair by simp
  obtain r s1 where r: "env_Do env ctx (list_request c zone) s = (r, s1)" by fastforce
  have list: "client_ListVolumes env c ctx \<lparr>page_Token = '''', page_Size = 0, page_Name = '''',
        page_AvailabilityZone = cmp_Or [az, cc_AvailabilityZone (cl_config c)]\<rparr> s =
      (case r of
         Inl err \<Rightarrow> (Inl (Wrap ''call Nobus API'' [Wrap '''' [Sentinel ErrUnavailable, err]]), s1)
       | Inr resp \<Rightarrow>
           if rs_StatusCode resp \<ge> 400 then (Inl (mapHTTPError http_StatusText resp), s1)
           else (case decodeJSON volumeListResponse (zero_response []) (rs_Body resp) of
                   Inl err \<Rightarrow> (Inl err, s1)
                 | Inr response \<Rightarrow> (Inr (zone_volumes zone (rp_Data response), ''''), s1)))"
    using r
    by (simp add: client_ListVolumes_def do_request_def q list_request_def [symmetric] map_index_def
        paginate_unpaged zone_volumes_def list_request_def del: cmp_Or.simps split: sum.splits)
  show ?thesis unfolding getVolumeByIDInZone_def list r
    by (simp add: lookup_answer_def split: sum.splits option.splits)
qed

text \<open>
  \<open>GetVolumeByID\<close> asks one zone.  What it answers depends on nothing but the answer to one
  request, the listing of the zone the client is configured for: a volume in any other zone is never
  found, whatever zone it was created in.
\<close>

theorem GetVolumeByID_asks_configured_zone:
  assumes "env_Do env ctx (list_request c (cc_AvailabilityZone (cl_config c))) s =
    env_Do env' ctx (list_request c (cc_AvailabilityZone (cl_config c))) s"
  shows "client_GetVolumeByID env c ctx vid s = client_GetVolumeByID env' c ctx vid s"
proof -
  have zone: "cc_AvailabilityZone (cl_config c) = cmp_Or ['''', cc_AvailabilityZone (cl_config c)]" by simp
  show ?thesis unfolding client_GetVolumeByID_def getVolumeByIDInZone_eq [OF zone] assms ..
qed

text \<open>A provider that answers a listing by its zone; every other request succeeds.\<close>

definition json_volume :: "string \<Rightarrow> (string \<times> string) list \<Rightarrow> json" where
  "json_volume vid atts = JObject [(''id'', JString vid), (''name'', JString ''pvc-1''), (''size'', JInt 1),
     (''attachments'', JArray (map (\<lambda>(i, d). JObject [(''server_id'', JString i), (''device'', JString d)]) atts))]"

definition zone_env :: "(string \<Rightarrow> json list) \<Rightarrow> nat Env" where
  "zone_env answers =
     \<lparr>env_Do = (\<lambda>ctx req n. (Inr \<lparr>rs_StatusCode = 200, rs_Body =
        (case rq_Query req of
           Some q \<Rightarrow> BodyJSON (JObject [(''data'', JObject [(''items'', JArray (answers (map_index q ''availability_zone'')))])])
         | None \<Rightarrow> BodyEmpty)\<rparr>, n + 1)),
      env_url_Parse = (\<lambda>_. Inr \<lparr>url_Scheme = ''https'', url_Host = ''api'', url_Path = ''''\<rparr>),
      env_time_Parse = (\<lambda>_ _. True), env_WithTimeout = (\<lambda>ctx _. ctx),
      env_Open = (\<lambda>_ n. (Inr BodyEmpty, n))\<rparr>"

definition sample_client :: Client where
  "sample_client = \<lparr>cl_base = \<lparr>url_Scheme = ''https'', url_Host = ''api'', url_Path = ''''\<rparr>,
     cl_config = \<lparr>cc_BaseURL = ''https://api'', cc_APIKey = ''k'', cc_ProjectID = ''p'', cc_AvailabilityZone = ''nova''\<rparr>,
     cl_poll = attachPoll\<rparr>"

lemma GetVolumeByID_asks_configured_zone_witness:
  "client_GetVolumeByID (zone_env (\<lambda>z. if z = ''west'' then [json_volume ''vol-1'' []] else [])) sample_client
      context_Background ''vol-1'' 0 = (Inl (Sentinel ErrNotFound), 1)"
proof -
  have "client_GetVolumeByID (zone_env (\<lambda>z. if z = ''west'' then [json_volume ''vol-1'' []] else [])) sample_client
      context_Background ''vol-1'' 0 = client_GetVolumeByID (zone_env (\<lambda>z. [])) sample_client context_Background ''vol-1'' 0"
    by (rule GetVolumeByID_asks_configured_zone)
       (simp add: zone_env_def list_request_def sample_client_def map_index_def)
  also have "\<dots> = (Inl (Sentinel ErrNotFound), 1)" by code_simp
  finally show ?thesis .
qed

section \<open>Polling\<close>

lemma device_of_SomeD: "device_of as i = Some dev \<Longrightarrow> dev \<noteq> '''' \<and> \<lparr>att_InstanceID = i, att_DevicePath = dev\<rparr> \<in> set as"
  by (induction as) (auto split: if_splits)

lemma waitVolumeDeleted_loop_done:
  "waitVolumeDeleted_loop env c ctx vid polls s = (Inr (), s') \<Longrightarrow>
     \<exists>t e. getVolumeByIDInZone env c ctx vid (cc_AvailabilityZone (cl_config c)) t = (Inl e, s') \<and> errors_is e ErrNotFound"
proof (induction polls arbitrary: s)
  case 0
  then show ?case by (fastforce simp: Let_def split: prod.splits sum.splits if_splits)
next
  case (Suc polls)
  obtain r s1 where get: "getVolumeByIDInZone env c ctx vid (cc_AvailabilityZone (cl_config c)) s = (r, s1)" by fastforce
  obtain b s2 where t: "ctx_timer ctx (cl_poll c) s1 = (b, s2)" by fastforce
  show ?case
  proof (cases r)
    case (Inl e)
    with Suc.prems get show ?thesis by (auto split: if_splits)
  next
    case (Inr v)
    with Suc.prems get t have "waitVolumeDeleted_loop env c ctx vid polls s2 = (Inr (), s')"
      by (cases b) (simp_all add: Let_def)
    then show ?thesis by (rule Suc.IH)
  qed
qed

lemma waitAttachedDevice_loop_done:
  "waitAttachedDevice_loop env c ctx vid i zone polls s = (Inr dev, s') \<Longrightarrow>
     \<exists>t v. getVolumeByIDInZone env c ctx vid zone t = (Inr v, s') \<and> device_of (vol_Attachments v) i = Some dev"
proof (induction polls arbitrary: s)
  case 0
  then show ?case by (fastforce simp: Let_def split: prod.splits sum.splits option.splits)
next
  case (Suc polls)
  obtain r s1 where get: "getVolumeByIDInZone env c ctx vid zone s = (r, s1)" by fastforce
  obtain b s2 where t: "ctx_timer ctx (cl_poll c) s1 = (b, s2)" by fastforce
  show ?case
  proof (cases "\<exists>v. r = Inr v \<and> device_of (vol_Attachments v) i = None")
    case False
    with Suc.prems get show ?thesis by (auto simp: Let_def split: sum.splits option.splits)
  next
    case True
    with Suc.prems get t have "waitAttachedDevice_loop env c ctx vid i zone polls s2 = (Inr dev, s')"
      by (cases b) (auto simp: Let_def)
    then show ?thesis by (rule Suc.IH)
  qed
qed

text \<open>
  What is relied on of \<open>net/http\<close>: an error of the transport, or of reading a body, is none of the
  client's own sentinels.
\<close>

definition foreign_errors :: "'s Env \<Rightarrow> bool" where
  "foreign_errors env \<longleftrightarrow>
     (\<forall>ctx r t. case fst (env_Do env ctx r t) of
        Inl err \<Rightarrow> \<not> errors_is err ErrNotFound
      | Inr resp \<Rightarrow> \<forall>err. rs_Body resp = BodyReadError err \<longrightarrow> \<not> errors_is err ErrNotFound)"

definition delete_request :: "Client \<Rightarrow> string \<Rightarrow> http_request" where
  "delete_request c vid = (list_request c (cc_AvailabilityZone (cl_config c)))
     \<lparr>rq_Method := ''DELETE'', rq_URL := (cl_base c)\<lparr>url_Path := volumePath\<rparr>,
      rq_Query := Some [(''project_id'', cc_ProjectID (cl_config c)),
        (''availability_zone'', cc_AvailabilityZone (cl_config c)), (''volume_id'', vid)]\<rparr>"

text \<open>An answer to a listing that does not show the volume, and one that is itself refused as not found.\<close>

definition not_listed :: "string \<Rightarrow> http_response \<Rightarrow> bool" where
  "not_listed vid resp \<longleftrightarrow> rs_StatusCode resp < 400 \<and>
     (case decodeJSON volumeListResponse (zero_response []) (rs_Body resp) of
        Inl _ \<Rightarrow> False | Inr response \<Rightarrow> vid \<notin> av_ID ` set (rp_Data response))"

definition listing_not_found :: "http_response \<Rightarrow> bool" where
  "listing_not_found resp \<longleftrightarrow> rs_StatusCode resp \<ge> 400 \<and>
     http_class (rs_StatusCode resp)
       (cmp_Or [errorMessage (rs_Body resp), http_StatusText (rs_StatusCode resp)]) = ErrNotFound"

lemma lookup_not_found:
  assumes "lookup_answer zone vid r = Inl e" and "errors_is e ErrNotFound"
    and "case r of Inl err \<Rightarrow> \<not> errors_is err ErrNotFound
      | Inr resp \<Rightarrow> \<forall>err. rs_Body resp = BodyReadError err \<longrightarrow> \<not> errors_is err ErrNotFound"
  shows "\<exists>resp. r = Inr resp \<and> (not_listed vid resp \<or> listing_not_found resp)"
proof (cases r)
  case (Inl err)
  then have "e = Wrap ''call Nobus API'' [Wrap '''' [Sentinel ErrUnavailable, err]]"
    using assms(1) by (simp add: lookup_answer_def)
  with assms(2,3) Inl show ?thesis by simp
next
  case (Inr resp)
  have own: "\<not> errors_is err ErrNotFound" if "rs_Body resp = BodyReadError err" for err
    using assms(3) Inr that by simp
  show ?thesis
  proof (cases "rs_StatusCode resp \<ge> 400")
    case True
    then have e: "e = mapHTTPError http_StatusText resp" using assms(1) Inr by (simp add: lookup_answer_def)
    have "\<And>err. rs_Body resp \<noteq> BodyReadError err"
      using assms(2) own unfolding e by (auto simp: mapHTTPError_def)
    from mapHTTPError_refines_table [OF this] assms(2) e Inr True show ?thesis
      by (simp add: listing_not_found_def)
  next
    case False
    show ?thesis
    proof (cases "decodeJSON volumeListResponse (zero_response []) (rs_Body resp)")
      case (Inl err)
      then have "\<not> errors_is err ErrNotFound"
        using own by (auto simp: decodeJSON_def Let_def split: body.splits prod.splits bool.splits)
      moreover have "e = err" using assms(1) \<open>r = Inr resp\<close> False Inl by (simp add: lookup_answer_def)
      ultimately show ?thesis using assms(2) by simp
    next
      case (Inr response)
      then have "find (\<lambda>v. vol_ID v = vid) (zone_volumes zone (rp_Data response)) = None"
        using assms(1) \<open>r = Inr resp\<close> False by (simp add: lookup_answer_def split: option.splits)
      then have "vid \<notin> av_ID ` set (rp_Data response)"
        by (auto simp: find_None_iff zone_volumes_def volume_toDomain_def Let_def sort_by_ID_def split: if_splits)
      with \<open>r = Inr resp\<close> Inr False show ?thesis by (simp add: not_listed_def)
    qed
  qed
qed

lemma client_DeleteVolume_asks:
  assumes "client_DeleteVolume env c ctx vid s = (Inr (), s')"
  shows "\<exists>resp s1. env_Do env ctx (delete_request c vid) s = (Inr resp, s1) \<and> rs_StatusCode resp < 400 \<and>
    waitVolumeDeleted env c ctx vid s1 = (Inr (), s')"
proof -
  have q: "query_Set ''volume_id'' vid (zoneQuery c '''') = [(''project_id'', cc_ProjectID (cl_config c)),
      (''availability_zone'', cc_AvailabilityZone (cl_config c)), (''volume_id'', vid)]"
    by (simp add: query_Set_def zoneQuery_def)
  show ?thesis
    using assms by (auto simp: client_DeleteVolume_def do_request_def q delete_request_def list_request_def Let_def
        split: prod.splits sum.splits if_splits)
qed

text \<open>
  C22. \<open>DeleteVolume\<close> waits for the deletion.  When it returns without an error, the deletion was
  asked for with the project, zone and identifier of the volume and accepted, and the last request
  made listed the configured zone: either the listing was answered and does not show the volume, or
  the listing itself was refused with an error that the client classes as not found.  The errors of
  the transport are taken not to be the client's own.  The second case is in the code;
  \<open>lost_listing_confirms\<close> below shows what it leads to.
\<close>

theorem client_DeleteVolume_confirmed:
  assumes "client_DeleteVolume env c ctx vid s = (Inr (), s')" and "foreign_errors env"
  shows "\<exists>accepted s1 t answer.
    env_Do env ctx (delete_request c vid) s = (Inr accepted, s1) \<and> rs_StatusCode accepted < 400 \<and>
    env_Do env (env_WithTimeout env ctx deleteWait) (list_request c (cc_AvailabilityZone (cl_config c))) t =
      (Inr answer, s') \<and>
    (not_listed vid answer \<or> listing_not_found answer)"
proof -
  let ?cx = "env_WithTimeout env ctx deleteWait" and ?az = "cc_AvailabilityZone (cl_config c)"
  obtain accepted s1 where del: "env_Do env ctx (delete_request c vid) s = (Inr accepted, s1)" "rs_StatusCode accepted < 400"
    and wait: "waitVolumeDeleted env c ctx vid s1 = (Inr (), s')"
    using client_DeleteVolume_asks [OF assms(1)] by blast
  obtain t e where "getVolumeByIDInZone env c ?cx vid ?az t = (Inl e, s')" and e: "errors_is e ErrNotFound"
    using waitVolumeDeleted_loop_done [OF wait [unfolded waitVolumeDeleted_def]] by blast
  moreover have "?az = cmp_Or [?az, ?az]" by simp
  ultimately have answer: "lookup_answer ?az vid (fst (env_Do env ?cx (list_request c ?az) t)) = Inl e"
    "snd (env_Do env ?cx (list_request c ?az) t) = s'"
    using getVolumeByIDInZone_eq [of ?az ?az c env ?cx vid t] by simp_all
  have "case fst (env_Do env ?cx (list_request c ?az) t) of Inl err \<Rightarrow> \<not> errors_is err ErrNotFound
      | Inr resp \<Rightarrow> \<forall>err. rs_Body resp = BodyReadError err \<longrightarrow> \<not> errors_is err ErrNotFound"
    using assms(2) unfolding foreign_errors_def by blast
  from lookup_not_found [OF answer(1) e this] obtain resp where
    "env_Do env ?cx (list_request c ?az) t = (Inr resp, s')" "not_listed vid resp \<or> listing_not_found resp"
    using answer(2) by (metis prod.collapse)
  with del show ?thesis by blast
qed

lemma zone_env_foreign: "foreign_errors (zone_env answers)"
  by (simp add: foreign_errors_def zone_env_def split: option.splits)

lemma client_DeleteVolume_confirmed_witness:
  "client_DeleteVolume (zone_env (\<lambda>z. [])) sample_client context_Background ''vol-1'' 0 = (Inr (), 2) \<and>
   (\<exists>t answer. env_Do (zone_env (\<lambda>z. [])) context_Background (list_request sample_client ''nova'') t = (Inr answer, 2) \<and>
      not_listed ''vol-1'' answer)"
proof -
  let ?env = "zone_env (\<lambda>z. [])"
  have req: "do_request ?env sample_client context_Background ''DELETE'' volumePath
      (Some (query_Set ''volume_id'' ''vol-1'' (zoneQuery sample_client ''''))) None drain 0 = (Inr (), 1)" by code_simp
  have get: "getVolumeByIDInZone ?env sample_client context_Background ''vol-1''
      (cc_AvailabilityZone (cl_config sample_client)) 1 = (Inl (Sentinel ErrNotFound), 2)" by code_simp
  have cx: "env_WithTimeout ?env context_Background deleteWait = context_Background"
    "cc_AvailabilityZone (cl_config sample_client) = ''nova''"
    by (simp_all add: zone_env_def sample_client_def)
  have eq: "client_DeleteVolume ?env sample_client context_Background ''vol-1'' 0 = (Inr (), 2)"
    unfolding client_DeleteVolume_def Let_def req waitVolumeDeleted_def cx(1)
    by (simp only: prod.case sum.case) (subst waitVolumeDeleted_loop.simps, simp only: get, simp)
  from client_DeleteVolume_confirmed [OF eq zone_env_foreign] obtain t answer where
    run: "env_Do ?env context_Background (list_request sample_client ''nova'') t = (Inr answer, 2)"
    and "not_listed ''vol-1'' answer \<or> listing_not_found answer" unfolding cx by blast
  moreover have "\<not> listing_not_found answer"
    using run by (auto simp: zone_env_def listing_not_found_def)
  ultimately show ?thesis using eq by blast
qed

text \<open>
  The second case happens: a listing that answers 404, whatever the reason, confirms the deletion of a
  volume that the provider accepted to delete and still has.
\<close>

definition lost_listing :: "bool Env" where
  "lost_listing =
     \<lparr>env_Do = (\<lambda>ctx req stored. (Inr (if rq_Method req = ''DELETE'' then \<lparr>rs_StatusCode = 202, rs_Body = BodyEmpty\<rparr>
        else \<lparr>rs_StatusCode = 404, rs_Body = BodyJSON (JObject [(''message'', JString ''project not found'')])\<rparr>), stored)),
      env_url_Parse = (\<lambda>_. Inl (Foreign '''')), env_time_Parse = (\<lambda>_ _. True), env_WithTimeout = (\<lambda>ctx _. ctx),
      env_Open = (\<lambda>_ s. (Inr BodyEmpty, s))\<rparr>"

theorem lost_listing_confirms:
  "client_DeleteVolume lost_listing sample_client context_Background ''vol-1'' True = (Inr (), True)"
proof -
  have req: "do_request lost_listing sample_client context_Background ''DELETE'' volumePath
      (Some (query_Set ''volume_id'' ''vol-1'' (zoneQuery sample_client ''''))) None drain True = (Inr (), True)" by code_simp
  have get: "getVolumeByIDInZone lost_listing sample_client context_Background ''vol-1''
      (cc_AvailabilityZone (cl_config sample_client)) True =
      (Inl (Wrap ''project not found'' [Sentinel ErrNotFound]), True)" by code_simp
  have "env_WithTimeout lost_listing context_Background deleteWait = context_Background" by (simp add: lost_listing_def)
  then show ?thesis
    unfolding client_DeleteVolume_def Let_def req waitVolumeDeleted_def
    by (simp only: prod.case sum.case) (subst waitVolumeDeleted_loop.simps, simp only: get, simp)
qed

text \<open>
  C23. An attachment is confirmed.  When \<open>AttachVolume\<close> of the client succeeds, the device it returns
  is not empty, and the last lookup of the volume in the zone of the request showed an attachment to
  that instance with that device.
\<close>

theorem client_AttachVolume_confirmed:
  assumes "client_AttachVolume env c ctx vid i az s = (Inr dev, s')"
  shows "dev \<noteq> '''' \<and> (\<exists>t v. getVolumeByIDInZone env c (env_WithTimeout env ctx attachWait) vid
      (cmp_Or [az, cc_AvailabilityZone (cl_config c)]) t = (Inr v, s') \<and>
      \<lparr>att_InstanceID = i, att_DevicePath = dev\<rparr> \<in> set (vol_Attachments v))"
proof -
  obtain t v where "getVolumeByIDInZone env c (env_WithTimeout env ctx attachWait) vid
      (cmp_Or [az, cc_AvailabilityZone (cl_config c)]) t = (Inr v, s')" "device_of (vol_Attachments v) i = Some dev"
    using assms waitAttachedDevice_loop_done
    by (fastforce simp: client_AttachVolume_def waitAttachedDevice_def Let_def simp del: cmp_Or.simps
        split: prod.splits sum.splits)
  with device_of_SomeD show ?thesis by blast
qed

lemma client_AttachVolume_confirmed_witness:
  "client_AttachVolume (zone_env (\<lambda>z. [json_volume ''vol-1'' [(''i-1'', ''/dev/vdb'')]])) sample_client context_Background
     ''vol-1'' ''i-1'' '''' 0 = (Inr ''/dev/vdb'', 2) \<and> ''/dev/vdb'' \<noteq> ''''"
proof -
  let ?env = "zone_env (\<lambda>z. [json_volume ''vol-1'' [(''i-1'', ''/dev/vdb'')]])"
  let ?zone = "cmp_Or ['''', cc_AvailabilityZone (cl_config sample_client)]"
  have req: "do_request ?env sample_client context_Background ''POST'' volumeAttachPath None
      (Some (attachVolumeRequest (cc_ProjectID (cl_config sample_client)) ?zone ''i-1'' ''vol-1'')) drain 0 = (Inr (), 1)"
    by code_simp
  have get: "map_prod (map_sum (\<lambda>e. e) vol_Attachments) (\<lambda>s. s)
      (getVolumeByIDInZone ?env sample_client context_Background ''vol-1'' ?zone 1) =
      (Inr [\<lparr>att_InstanceID = ''i-1'', att_DevicePath = ''/dev/vdb''\<rparr>], 2)" by code_simp
  then obtain v where v: "getVolumeByIDInZone ?env sample_client context_Background ''vol-1'' ?zone 1 = (Inr v, 2)"
    "vol_Attachments v = [\<lparr>att_InstanceID = ''i-1'', att_DevicePath = ''/dev/vdb''\<rparr>]"
    by (cases "getVolumeByIDInZone ?env sample_client context_Background ''vol-1'' ?zone 1")
       (auto simp: map_sum_def simp del: cmp_Or.simps split: sum.splits)
  have "env_WithTimeout ?env context_Background attachWait = context_Background" by (simp add: zone_env_def)
  then have eq: "client_AttachVolume ?env sample_client context_Background ''vol-1'' ''i-1'' '''' 0 = (Inr ''/dev/vdb'', 2)"
    unfolding client_AttachVolume_def Let_def req waitAttachedDevice_def
    by (simp only: prod.case sum.case) (subst waitAttachedDevice_loop.simps, simp only: v(1), simp add: v(2))
  from client_AttachVolume_confirmed [OF eq] eq show ?thesis by simp
qed

text \<open>\<open>sent\<close> counts the requests sent.\<close>

lemma getVolumeByIDInZone_sent:
  fixes sent :: "'s \<Rightarrow> nat"
  assumes "\<And>ctx req s. sent (snd (env_Do env ctx req s)) = sent s + 1"
  shows "sent (snd (getVolumeByIDInZone env c ctx vid az s)) = sent s + 1"
  using getVolumeByIDInZone_eq [OF refl, of env c ctx vid az s] assms by simp

lemma waitVolumeDeleted_loop_sent:
  fixes sent :: "'s \<Rightarrow> nat"
  assumes "\<And>ctx req s. sent (snd (env_Do env ctx req s)) = sent s + 1"
    and "\<And>n s. sent (snd (ctx_timer ctx n s)) = sent s"
  shows "sent (snd (waitVolumeDeleted_loop env c ctx vid polls s)) \<le> sent s + Suc polls"
proof (induction polls arbitrary: s)
  case 0
  then show ?case
    using getVolumeByIDInZone_sent [of sent env c ctx vid "cc_AvailabilityZone (cl_config c)" s, OF assms(1)]
    by (auto simp: Let_def split: prod.splits sum.splits)
next
  case (Suc polls)
  obtain r s1 where get: "getVolumeByIDInZone env c ctx vid (cc_AvailabilityZone (cl_config c)) s = (r, s1)" by fastforce
  obtain b s2 where t: "ctx_timer ctx (cl_poll c) s1 = (b, s2)" by fastforce
  have 1: "sent s1 = sent s + 1"
    using getVolumeByIDInZone_sent [of sent env c ctx vid "cc_AvailabilityZone (cl_config c)" s, OF assms(1)] get by simp
  have 2: "sent s2 = sent s1" using assms(2) [of "cl_poll c" s1] t by simp
  show ?case using get t 1 2 Suc.IH [of s2] by (cases r; cases b) (auto simp: Let_def)
qed

lemma waitAttachedDevice_loop_sent:
  fixes sent :: "'s \<Rightarrow> nat"
  assumes "\<And>ctx req s. sent (snd (env_Do env ctx req s)) = sent s + 1"
    and "\<And>n s. sent (snd (ctx_timer ctx n s)) = sent s"
  shows "sent (snd (waitAttachedDevice_loop env c ctx vid i zone polls s)) \<le> sent s + Suc polls"
proof (induction polls arbitrary: s)
  case 0
  then show ?case
    using getVolumeByIDInZone_sent [of sent env c ctx vid zone s, OF assms(1)]
    by (auto simp: Let_def split: prod.splits sum.splits option.splits)
next
  case (Suc polls)
  obtain r s1 where get: "getVolumeByIDInZone env c ctx vid zone s = (r, s1)" by fastforce
  obtain b s2 where t: "ctx_timer ctx (cl_poll c) s1 = (b, s2)" by fastforce
  have 1: "sent s1 = sent s + 1"
    using getVolumeByIDInZone_sent [of sent env c ctx vid zone s, OF assms(1)] get by simp
  have 2: "sent s2 = sent s1" using assms(2) [of "cl_poll c" s1] t by simp
  show ?case using get t 1 2 Suc.IH [of s2] by (cases r; cases b) (auto simp: Let_def split: option.splits)
qed

lemma do_request_sent:
  fixes sent :: "'s \<Rightarrow> nat"
  assumes "\<And>ctx req s. sent (snd (env_Do env ctx req s)) = sent s + 1"
  shows "sent (snd (do_request env c ctx meth path q b dec s)) = sent s + 1"
proof -
  let ?req = "\<lparr>rq_Method = meth, rq_URL = (cl_base c)\<lparr>url_Path := path\<rparr>, rq_Query = q, rq_Body = b,
                 rq_Header = [(''Authorization'', ''Bearer '' @ cc_APIKey (cl_config c))] @
                   (if b \<noteq> None then [(''Content-Type'', ''application/json'')] else [])\<rparr>"
  show ?thesis using assms [of ctx ?req s]
    unfolding do_request_def Let_def by (cases "env_Do env ctx ?req s") (auto split: sum.splits)
qed

text \<open>
  Polling is bounded.  A client made by \<open>NewClient\<close> sends at most 62 requests for a deletion and
  at most 92 for an attachment, whatever the provider answers: one to start it, and one lookup per
  two seconds of the two or three minutes it waits.
\<close>

theorem client_polling_bounded:
  fixes sent :: "'s \<Rightarrow> nat"
  assumes "NewClient env config = Inr c"
    and "\<And>ctx req s. sent (snd (env_Do env ctx req s)) = sent s + 1"
    and "\<And>n k s. sent (snd (ctx_timer (env_WithTimeout env ctx k) n s)) = sent s"
  shows "sent (snd (client_DeleteVolume env c ctx vid s)) \<le> sent s + 62 \<and>
    sent (snd (client_AttachVolume env c ctx vid i az s)) \<le> sent s + 92"
proof -
  have poll: "cl_poll c = 2000"
    using assms(1) by (auto simp: NewClient_def attachPoll_def split: sum.splits if_splits)
  have del: "sent (snd (waitVolumeDeleted env c ctx vid t)) \<le> sent t + 61" for t
    using waitVolumeDeleted_loop_sent [of sent env "env_WithTimeout env ctx deleteWait" c vid 60 t, OF assms(2,3)]
    by (simp add: waitVolumeDeleted_def poll deleteWait_def del: waitVolumeDeleted_loop.simps)
  have att: "sent (snd (waitAttachedDevice env c ctx vid i z t)) \<le> sent t + 91" for z t
    using waitAttachedDevice_loop_sent [of sent env "env_WithTimeout env ctx attachWait" c vid i z 90 t, OF assms(2,3)]
    by (simp add: waitAttachedDevice_def poll attachWait_def del: waitAttachedDevice_loop.simps)
  note req = do_request_sent [of sent env c ctx, OF assms(2)]
  have "sent (snd (client_DeleteVolume env c ctx vid s)) \<le> sent s + 62"
  proof -
    obtain r s1 where d: "do_request env c ctx ''DELETE'' volumePath
        (Some (query_Set ''volume_id'' vid (zoneQuery c ''''))) None drain s = (r, s1)" by fastforce
    then have "sent s1 = sent s + 1" using req by (metis snd_conv)
    with d del [of s1] show ?thesis by (auto simp: client_DeleteVolume_def split: sum.splits)
  qed
  moreover have "sent (snd (client_AttachVolume env c ctx vid i az s)) \<le> sent s + 92"
  proof -
    let ?z = "cmp_Or [az, cc_AvailabilityZone (cl_config c)]"
    obtain r s1 where d: "do_request env c ctx ''POST'' volumeAttachPath None
        (Some (attachVolumeRequest (cc_ProjectID (cl_config c)) ?z i vid)) drain s = (r, s1)" by fastforce
    then have "sent s1 = sent s + 1" using req by (metis snd_conv)
    with d att [of ?z s1] show ?thesis by (auto simp: client_AttachVolume_def Let_def simp del: cmp_Or.simps split: sum.splits)
  qed
  ultimately show ?thesis by blast
qed

lemma client_polling_bounded_witness:
  "snd (client_DeleteVolume (zone_env (\<lambda>z. [json_volume ''vol-1'' []])) sample_client context_Background ''vol-1'' 0) \<le> 62"
proof -
  have new: "NewClient (zone_env (\<lambda>z. [json_volume ''vol-1'' []])) (cl_config sample_client) = Inr sample_client"
    by (simp add: NewClient_def zone_env_def sample_client_def)
  show ?thesis
    using client_polling_bounded [OF new, of "\<lambda>n. n" context_Background "''vol-1''" 0]
    by (simp add: zone_env_def context_Background_def)
qed

end
