(* ===== verification/MountTable.thy ===== *)
theory MountTable
  imports NodeService
begin

text \<open>
  What the node service relies on: the locale \<open>mount_table\<close> is the contract of a \<open>Mounter\<close>, read as
  a table from targets to what is mounted there.  The node's staging and publishing lemmas are
  proved under it, and it is interpreted on \<open>internal/mount/fake.go\<close>.  The device names of
  \<open>internal/mount/devices.go\<close> are here too.
\<close>

section \<open>The contract\<close>

locale mount_table =
  fixes m :: "'s Mounter" and mounted :: "'s \<Rightarrow> string \<Rightarrow> string option"
  assumes mounted_sound: "mnt_IsMounted m t s = (Inr b, s') \<Longrightarrow> b \<longleftrightarrow> mounted s t \<noteq> None"
    and mounted_frame: "mnt_IsMounted m t s = (rb, s') \<Longrightarrow> mounted s' = mounted s"
    and find_frame: "mnt_FindDevice m v h s = (rf, s') \<Longrightarrow> mounted s' = mounted s"
    and stage_done: "mnt_Stage m src t fs fl s = (Inr u, s') \<Longrightarrow> mounted s' = (mounted s)(t \<mapsto> src)"
    and stage_failed: "mnt_Stage m src t fs fl s = (Inl e, s') \<Longrightarrow> mounted s' = mounted s"
    and publish_done: "mnt_Publish m src t ro bl fl s = (Inr u, s') \<Longrightarrow> mounted s' = (mounted s)(t \<mapsto> src)"
    and publish_failed: "mnt_Publish m src t ro bl fl s = (Inl e, s') \<Longrightarrow> mounted s' = mounted s"
    and unmount_done: "mnt_Unmount m t s = (Inr u, s') \<Longrightarrow> mounted s' = (mounted s)(t := None)"
    and unmount_failed: "mnt_Unmount m t s = (Inl e, s') \<Longrightarrow> mounted s' = mounted s"
begin

lemmas table_laws = mounted_frame find_frame stage_done stage_failed publish_done publish_failed
  unmount_done unmount_failed

text \<open>Staging: after success something is mounted there; what was there already stays.\<close>

lemma NodeStageVolume_table:
  assumes d: "drv_mount d = m" and run: "NodeStageVolume d req st = (r, st')"
  shows "(\<forall>t. t \<noteq> nsr_staging_target_path req \<longrightarrow> mounted (world st') t = mounted (world st) t) \<and>
    (mounted (world st) (nsr_staging_target_path req) \<noteq> None \<longrightarrow> mounted (world st') = mounted (world st)) \<and>
    (r = Inr () \<longrightarrow> mounted (world st') (nsr_staging_target_path req) \<noteq> None) \<and>
    (r \<noteq> Inr () \<longrightarrow> mounted (world st') = mounted (world st))"
proof (cases "nsr_volume_id req = '''' \<or> nsr_staging_target_path req = '''' \<or> nsr_volume_capability req = None")
  case True
  with run show ?thesis by (auto simp: NodeStageVolume_def split: if_splits)
next
  case False
  then obtain cap where cap: "nsr_volume_capability req = Some cap" by blast
  let ?t = "nsr_staging_target_path req"
  obtain r1 s1 where f1: "mnt_IsMounted m ?t (world st) = (r1, s1)" by fastforce
  obtain r2 s2 where f2: "mnt_FindDevice m (nsr_volume_id req) (map_index (nsr_publish_context req) ''device_path'') s1 = (r2, s2)"
    by fastforce
  have t1: "mounted s1 = mounted (world st)" using mounted_frame [OF f1] .
  have t2: "mounted s2 = mounted (world st)" using find_frame [OF f2] t1 by simp
  show ?thesis
  proof (cases "r1 = Inr False \<and> (\<exists>dev. r2 = Inr dev)")
    case True
    then obtain dev where r2: "r2 = Inr dev" by blast
    obtain r3 s3 where f3: "mnt_Stage m dev ?t (fs_type_of cap) (mount_flags_of cap) s2 = (r3, s3)" by fastforce
    have "(r, st') = ((case r3 of Inl e \<Rightarrow> Inl (statusError e) | Inr _ \<Rightarrow> Inr ()), st\<lparr>world := s3\<rparr>)"
      using run False cap f1 f2 f3 True r2 d
      by (auto simp: NodeStageVolume_def on_world_def split: sum.splits)
    moreover have "mounted (world st) ?t = None" using mounted_sound f1 True by blast
    ultimately show ?thesis using stage_done stage_failed f3 t2 by (cases r3) auto
  next
    case nothing: False
    then consider e where "r1 = Inl e" | "r1 = Inr True" | e where "r1 = Inr False" "r2 = Inl e"
      by (metis (full_types) sum.exhaust)
    then have "st' = st\<lparr>world := s1\<rparr> \<and> (r = Inr () \<longrightarrow> r1 = Inr True) \<or> st' = st\<lparr>world := s2\<rparr> \<and> r \<noteq> Inr ()"
      by cases (use run False cap f1 f2 d in \<open>auto simp: NodeStageVolume_def on_world_def\<close>)
    then show ?thesis using t1 t2 mounted_sound [of ?t "world st" True s1] f1 by auto
  qed
qed

text \<open>Unpublishing and unstaging take away the one mount they name.\<close>

lemma NodeUnpublishVolume_table:
  assumes d: "drv_mount d = m" and run: "NodeUnpublishVolume d v t st = (Inr (), st')"
  shows "mounted (world st') = (mounted (world st))(t := None)"
  using run d unmount_done by (auto simp: NodeUnpublishVolume_def on_world_def split: if_splits prod.splits sum.splits)

lemma NodeUnstageVolume_table:
  assumes d: "drv_mount d = m" and run: "NodeUnstageVolume d v t st = (Inr (), st')"
  shows "mounted (world st') = (mounted (world st))(t := None)"
  using run d unmount_done by (auto simp: NodeUnstageVolume_def on_world_def split: if_splits prod.splits sum.splits)

end

section \<open>A mounter that does not fail\<close>

text \<open>
  With a mounter whose calls succeed, and whose \<open>FindDevice\<close> is a function of the volume and the
  hint, the outcome of each node call is determined.
\<close>

locale reliable_mounts = mount_table m mounted for m :: "'s Mounter" and mounted :: "'s \<Rightarrow> string \<Rightarrow> string option" +
  fixes device :: "string \<Rightarrow> string \<Rightarrow> string"
  assumes mounted_known: "mnt_IsMounted m t s = (Inr (mounted s t \<noteq> None), s)"
    and device_found: "mnt_FindDevice m v h s = (Inr (device v h), s)"
    and stage_ok: "\<exists>s'. mnt_Stage m src t fs fl s = (Inr (), s')"
    and publish_ok: "\<exists>s'. mnt_Publish m src t ro bl fl s = (Inr (), s')"
    and unmount_ok: "\<exists>s'. mnt_Unmount m t s = (Inr (), s')"
begin

lemma staged:
  assumes "drv_mount d = m" and "nsr_volume_id req \<noteq> ''''" and "nsr_staging_target_path req \<noteq> ''''"
    and "nsr_volume_capability req = Some cap" and "mounted (world st) (nsr_staging_target_path req) = None"
  shows "\<exists>st'. NodeStageVolume d req st = (Inr (), st') \<and>
    mounted (world st') = (mounted (world st))
      (nsr_staging_target_path req \<mapsto> device (nsr_volume_id req) (map_index (nsr_publish_context req) ''device_path''))"
proof -
  let ?dev = "device (nsr_volume_id req) (map_index (nsr_publish_context req) ''device_path'')"
  obtain s' where f: "mnt_Stage m ?dev (nsr_staging_target_path req) (fs_type_of cap) (mount_flags_of cap) (world st) = (Inr (), s')"
    using stage_ok by blast
  then have "NodeStageVolume d req st = (Inr (), st\<lparr>world := s'\<rparr>)"
    using assms by (simp add: NodeStageVolume_def on_world_def mounted_known device_found)
  with stage_done [OF f] show ?thesis by simp
qed

lemma staged_already:
  assumes "drv_mount d = m" and "nsr_volume_id req \<noteq> ''''" and "nsr_staging_target_path req \<noteq> ''''"
    and "nsr_volume_capability req = Some cap" and "mounted (world st) (nsr_staging_target_path req) \<noteq> None"
  shows "NodeStageVolume d req st = (Inr (), st)"
  using assms by (simp add: NodeStageVolume_def on_world_def mounted_known)

lemma published:
  assumes "drv_mount d = m" and "npr_volume_id req \<noteq> ''''" and "npr_target_path req \<noteq> ''''"
    and "npr_volume_capability req = Some cap" and "mounted (world st) (npr_target_path req) = None"
  shows "\<exists>st'. NodePublishVolume d req st = (Inr (), st') \<and>
    mounted (world st') = (mounted (world st))
      (npr_target_path req \<mapsto> (if GetBlock cap \<noteq> None
         then device (npr_volume_id req) (map_index (npr_publish_context req) ''device_path'')
         else npr_staging_target_path req))"
proof -
  let ?src = "if GetBlock cap \<noteq> None then device (npr_volume_id req) (map_index (npr_publish_context req) ''device_path'')
    else npr_staging_target_path req"
  obtain s' where f: "mnt_Publish m ?src (npr_target_path req) (npr_readonly req) (GetBlock cap \<noteq> None) (mount_flags_of cap)
      (world st) = (Inr (), s')"
    using publish_ok by blast
  then have "NodePublishVolume d req st = (Inr (), st\<lparr>world := s'\<rparr>)"
    using assms by (cases "GetBlock cap") (simp_all add: NodePublishVolume_def on_world_def mounted_known device_found Let_def)
  with publish_done [OF f] show ?thesis by simp
qed

lemma published_already:
  assumes "drv_mount d = m" and "npr_volume_id req \<noteq> ''''" and "npr_target_path req \<noteq> ''''"
    and "npr_volume_capability req = Some cap" and "mounted (world st) (npr_target_path req) \<noteq> None"
  shows "NodePublishVolume d req st = (Inr (), st)"
  using assms by (simp add: NodePublishVolume_def on_world_def mounted_known)

lemma unpublished_done:
  assumes "drv_mount d = m" and "v \<noteq> ''''" and "t \<noteq> ''''"
  shows "\<exists>st'. NodeUnpublishVolume d v t st = (Inr (), st') \<and> mounted (world st') = (mounted (world st))(t := None)"
proof -
  obtain s' where f: "mnt_Unmount m t (world st) = (Inr (), s')" using unmount_ok by blast
  then have "NodeUnpublishVolume d v t st = (Inr (), st\<lparr>world := s'\<rparr>)"
    using assms by (simp add: NodeUnpublishVolume_def on_world_def)
  with unmount_done [OF f] show ?thesis by simp
qed

lemma unstaged:
  assumes "drv_mount d = m" and "v \<noteq> ''''" and "t \<noteq> ''''"
  shows "\<exists>st'. NodeUnstageVolume d v t st = (Inr (), st') \<and> mounted (world st') = (mounted (world st))(t := None)"
proof -
  obtain s' where f: "mnt_Unmount m t (world st) = (Inr (), s')" using unmount_ok by blast
  then have "NodeUnstageVolume d v t st = (Inr (), st\<lparr>world := s'\<rparr>)"
    using assms by (simp add: NodeUnstageVolume_def on_world_def)
  with unmount_done [OF f] show ?thesis by simp
qed

end

section \<open>The in-memory mounter\<close>

text \<open>The map of a \<open>mount.Fake\<close>; the mutex makes each method one step.\<close>

record MountFake =
  mf_mounted :: gomap

definition mount_NewFake :: MountFake where
  "mount_NewFake = \<lparr>mf_mounted = []\<rparr>"

definition mfake_IsMounted :: "string \<Rightarrow> MountFake \<Rightarrow> (bool, MountFake) result" where
  "mfake_IsMounted target f = (Inr (map_of (mf_mounted f) target \<noteq> None), f)"

definition mfake_Stage :: "string \<Rightarrow> string \<Rightarrow> string \<Rightarrow> string list \<Rightarrow> MountFake \<Rightarrow> (unit, MountFake) result" where
  "mfake_Stage source target fsType flags f = (Inr (), f\<lparr>mf_mounted := AList.update target source (mf_mounted f)\<rparr>)"

definition mfake_Publish ::
  "string \<Rightarrow> string \<Rightarrow> bool \<Rightarrow> bool \<Rightarrow> string list \<Rightarrow> MountFake \<Rightarrow> (unit, MountFake) result" where
  "mfake_Publish source target readonly block flags f =
     (Inr (), f\<lparr>mf_mounted := AList.update target source (mf_mounted f)\<rparr>)"

definition mfake_Unmount :: "string \<Rightarrow> MountFake \<Rightarrow> (unit, MountFake) result" where
  "mfake_Unmount target f = (Inr (), f\<lparr>mf_mounted := AList.delete target (mf_mounted f)\<rparr>)"

definition mfake_Stats :: "string \<Rightarrow> bool \<Rightarrow> MountFake \<Rightarrow> (Stats, MountFake) result" where
  "mfake_Stats target block f =
     (Inr \<lparr>st_TotalBytes = 2 ^ 30, st_AvailableBytes = 2 ^ 29, st_UsedBytes = 2 ^ 29,
           st_TotalInodes = 0, st_FreeInodes = 0, st_UsedInodes = 0\<rparr>, f)"

definition mfake_IsBlock :: "string \<Rightarrow> MountFake \<Rightarrow> (bool, MountFake) result" where
  "mfake_IsBlock target f = (Inr False, f)"

definition mfake_Expand :: "string \<Rightarrow> string \<Rightarrow> MountFake \<Rightarrow> (unit, MountFake) result" where
  "mfake_Expand target fsType f = (Inr (), f)"

definition mfake_FindDevice :: "string \<Rightarrow> string \<Rightarrow> MountFake \<Rightarrow> (string, MountFake) result" where
  "mfake_FindDevice volumeID hintedPath f =
     (if hintedPath \<noteq> '''' then (Inr hintedPath, f) else (Inr (''/dev/disk/by-id/virtio-'' @ volumeID), f))"

definition fake_mounter :: "MountFake Mounter" where
  "fake_mounter =
     \<lparr>mnt_IsMounted = mfake_IsMounted, mnt_Stage = mfake_Stage, mnt_Publish = mfake_Publish,
      mnt_Unmount = mfake_Unmount, mnt_Stats = mfake_Stats, mnt_IsBlock = mfake_IsBlock,
      mnt_Expand = mfake_Expand, mnt_FindDevice = mfake_FindDevice\<rparr>"

lemma fake_mounter_simps [simp]:
  "mnt_IsMounted fake_mounter = mfake_IsMounted" "mnt_Stage fake_mounter = mfake_Stage"
  "mnt_Publish fake_mounter = mfake_Publish" "mnt_Unmount fake_mounter = mfake_Unmount"
  "mnt_Stats fake_mounter = mfake_Stats" "mnt_IsBlock fake_mounter = mfake_IsBlock"
  "mnt_Expand fake_mounter = mfake_Expand" "mnt_FindDevice fake_mounter = mfake_FindDevice"
  by (simp_all add: fake_mounter_def)

interpretation mfake: mount_table fake_mounter "\<lambda>f. map_of (mf_mounted f)"
  by unfold_locales
     (auto simp: mfake_IsMounted_def mfake_Stage_def mfake_Publish_def mfake_Unmount_def
       mfake_FindDevice_def update_conv' delete_conv' split: if_splits)

text \<open>The device of a volume: the one the controller named, or the one of its virtio identifier.\<close>

definition device_or_virtio :: "string \<Rightarrow> string \<Rightarrow> string" where
  "device_or_virtio v hint = (if hint \<noteq> '''' then hint else ''/dev/disk/by-id/virtio-'' @ v)"

interpretation mfake_ok: reliable_mounts fake_mounter "\<lambda>f. map_of (mf_mounted f)" device_or_virtio
  by unfold_locales (simp_all add: mfake_IsMounted_def mfake_FindDevice_def mfake_Stage_def mfake_Publish_def
      mfake_Unmount_def device_or_virtio_def)

section \<open>Device names\<close>

text \<open>\<open>filepath.Join\<close> of a directory without a trailing slash and a name without a slash.\<close>

definition filepath_Join :: "string \<Rightarrow> string \<Rightarrow> string" where
  "filepath_Join dir name = dir @ ''/'' @ name"

definition deviceCandidates :: "string \<Rightarrow> string \<Rightarrow> string list" where
  "deviceCandidates volumeID hintedPath =
     [hintedPath,
      filepath_Join ''/dev/disk/by-id'' (''virtio-'' @ volumeID),
      filepath_Join ''/dev/disk/by-id'' (''scsi-0QEMU_QEMU_HARDDISK_'' @ volumeID)]"

section \<open>Staging over the in-memory mounter\<close>

text \<open>
  Staging is idempotent and local.  \<open>NodeStageVolume\<close> mounts at most its staging path; when it
  succeeds something is mounted there, when it fails nothing changed, and a path that is already
  mounted is left as it is.
\<close>

theorem NodeStageVolume_effect:
  assumes "drv_mount d = fake_mounter" and "NodeStageVolume d req st = (r, st')"
  shows "(\<forall>t. t \<noteq> nsr_staging_target_path req \<longrightarrow>
      map_of (mf_mounted (world st')) t = map_of (mf_mounted (world st)) t) \<and>
    (map_of (mf_mounted (world st)) (nsr_staging_target_path req) \<noteq> None \<longrightarrow>
      map_of (mf_mounted (world st')) = map_of (mf_mounted (world st))) \<and>
    (r = Inr () \<longrightarrow> map_of (mf_mounted (world st')) (nsr_staging_target_path req) \<noteq> None) \<and>
    (r \<noteq> Inr () \<longrightarrow> map_of (mf_mounted (world st')) = map_of (mf_mounted (world st)))"
  using mfake.NodeStageVolume_table [OF assms] .

definition mount_driver :: "MountFake Driver" where
  "mount_driver = \<lparr>drv_config = ConfigFromEnv (\<lambda>_. ''''),
     drv_cloud = \<lparr>cloud_CreateVolume = (\<lambda>_ s. (Inl (Sentinel ErrUnavailable), s)),
      cloud_GetVolumeByID = (\<lambda>_ s. (Inl (Sentinel ErrNotFound), s)),
      cloud_ListVolumes = (\<lambda>_ s. (Inr ([], ''''), s)), cloud_DeleteVolume = (\<lambda>_ s. (Inr (), s)),
      cloud_ResizeVolume = (\<lambda>_ _ _ s. (Inl (Sentinel ErrNotFound), s)),
      cloud_AttachVolume = (\<lambda>_ _ _ s. (Inl (Sentinel ErrNotFound), s)),
      cloud_DetachVolume = (\<lambda>_ _ _ s. (Inr (), s)),
      cloud_CreateSnapshot = (\<lambda>_ s. (Inl (Sentinel ErrNotFound), s)),
      cloud_DeleteSnapshot = (\<lambda>_ _ s. (Inr (), s)), cloud_ListSnapshots = (\<lambda>_ s. (Inr ([], ''''), s)),
      cloud_GetInstanceMetadata = (\<lambda>s. (Inr \<lparr>im_InstanceID = ''i-1'', im_AvailabilityZone = ''nova'',
         im_Region = '''', im_MaxVolumesPerNode = 0\<rparr>, s))\<rparr>,
     drv_mount = fake_mounter\<rparr>"

definition mount_state :: "gomap \<Rightarrow> MountFake DState" where
  "mount_state ms = \<lparr>locks = {}, names = {}, world = \<lparr>mf_mounted = ms\<rparr>\<rparr>"

definition sample_stage :: NodeStageVolumeRequest where
  "sample_stage = \<lparr>nsr_volume_id = ''vol-1'', nsr_publish_context = [(''device_path'', ''/dev/vdb'')],
     nsr_staging_target_path = ''/staging'', nsr_volume_capability = Some \<lparr>vc_access_mode = Some SINGLE_NODE_WRITER,
        vc_access_type = Some (AccessMount \<lparr>mv_fs_type = '''', mv_mount_flags = []\<rparr>)\<rparr>\<rparr>"

lemma sample_staged: "NodeStageVolume mount_driver sample_stage (mount_state [(''/other'', ''x'')]) =
    (Inr (), mount_state [(''/other'', ''x''), (''/staging'', ''/dev/vdb'')])"
  by (simp add: NodeStageVolume_def sample_stage_def mount_driver_def mount_state_def on_world_def
      mfake_IsMounted_def mfake_FindDevice_def mfake_Stage_def map_index_def)

lemma mount_driver_mount: "drv_mount mount_driver = fake_mounter"
  by (simp add: mount_driver_def)

lemma NodeStageVolume_effect_witness:
  "map_of (mf_mounted (world (mount_state [(''/other'', ''x''), (''/staging'', ''/dev/vdb'')]))) ''/staging'' \<noteq> None"
  using NodeStageVolume_effect [OF mount_driver_mount sample_staged] by (simp add: sample_stage_def)

text \<open>
  C21. The life of a volume on a node, with the in-memory mounter, for a stage and a publish call of one
  volume with one capability and one publish context.  Staging on a free path succeeds
  and mounts there the device the publish context names, or the virtio device of the volume when it
  names none; publishing on another free path succeeds and mounts there that device for a block
  volume and the staging path for a mounted one; repeating either changes nothing; unpublishing takes
  away the published mount only, and unstaging restores the mount table of the beginning.
\<close>

theorem node_volume_lifecycle:
  assumes d: "drv_mount d = fake_mounter"
    and stage: "nsr_volume_id sr = v" "nsr_staging_target_path sr = staging" "nsr_volume_capability sr = Some cap"
    and pub: "npr_volume_id pr = v" "npr_staging_target_path pr = staging" "npr_target_path pr = target"
      "npr_volume_capability pr = Some cap" "npr_publish_context pr = nsr_publish_context sr"
    and ne: "v \<noteq> ''''" "staging \<noteq> ''''" "target \<noteq> ''''" "target \<noteq> staging"
    and free: "map_of (mf_mounted (world st)) staging = None" "map_of (mf_mounted (world st)) target = None"
    and dev: "dev = device_or_virtio v (map_index (nsr_publish_context sr) ''device_path'')"
  shows "\<exists>st1 st2 st3 st4.
    NodeStageVolume d sr st = (Inr (), st1) \<and>
    map_of (mf_mounted (world st1)) = (map_of (mf_mounted (world st)))(staging \<mapsto> dev) \<and>
    NodeStageVolume d sr st1 = (Inr (), st1) \<and>
    NodePublishVolume d pr st1 = (Inr (), st2) \<and>
    map_of (mf_mounted (world st2)) = (map_of (mf_mounted (world st1)))
      (target \<mapsto> (if GetBlock cap \<noteq> None then dev else staging)) \<and>
    NodePublishVolume d pr st2 = (Inr (), st2) \<and>
    NodeUnpublishVolume d v target st2 = (Inr (), st3) \<and>
    map_of (mf_mounted (world st3)) = map_of (mf_mounted (world st1)) \<and>
    NodeUnstageVolume d v staging st3 = (Inr (), st4) \<and>
    map_of (mf_mounted (world st4)) = map_of (mf_mounted (world st))"
proof -
  obtain st1 where 1: "NodeStageVolume d sr st = (Inr (), st1)"
    and m1: "map_of (mf_mounted (world st1)) = (map_of (mf_mounted (world st)))(staging \<mapsto> dev)"
    using mfake_ok.staged [OF d, of sr cap st] stage ne free dev by auto
  have again1: "NodeStageVolume d sr st1 = (Inr (), st1)"
    using mfake_ok.staged_already [OF d, of sr cap st1] stage ne m1 by simp
  obtain st2 where 2: "NodePublishVolume d pr st1 = (Inr (), st2)"
    and m2: "map_of (mf_mounted (world st2)) = (map_of (mf_mounted (world st1)))
      (target \<mapsto> (if GetBlock cap \<noteq> None then dev else staging))"
    using mfake_ok.published [OF d, of pr cap st1] pub ne free dev m1 by auto
  have again2: "NodePublishVolume d pr st2 = (Inr (), st2)"
    using mfake_ok.published_already [OF d, of pr cap st2] pub ne m2 by simp
  obtain st3 where 3: "NodeUnpublishVolume d v target st2 = (Inr (), st3)"
    and m3: "map_of (mf_mounted (world st3)) = (map_of (mf_mounted (world st2)))(target := None)"
    using mfake_ok.unpublished_done [OF d ne(1,3)] by blast
  obtain st4 where 4: "NodeUnstageVolume d v staging st3 = (Inr (), st4)"
    and m4: "map_of (mf_mounted (world st4)) = (map_of (mf_mounted (world st3)))(staging := None)"
    using mfake_ok.unstaged [OF d ne(1,2)] by blast
  have "map_of (mf_mounted (world st3)) = map_of (mf_mounted (world st1))"
    unfolding m3 m2 using m1 free(2) ne(4) by (auto simp: fun_eq_iff)
  moreover from this have "map_of (mf_mounted (world st4)) = map_of (mf_mounted (world st))"
    unfolding m4 using m1 free(1) by (auto simp: fun_eq_iff)
  ultimately show ?thesis using 1 m1 again1 2 m2 again2 3 4 by blast
qed

definition sample_publish :: NodePublishVolumeRequest where
  "sample_publish = \<lparr>npr_volume_id = ''vol-1'', npr_publish_context = [(''device_path'', ''/dev/vdb'')],
     npr_staging_target_path = ''/staging'', npr_target_path = ''/pods/a'',
     npr_volume_capability = nsr_volume_capability sample_stage, npr_readonly = False\<rparr>"

lemma node_volume_lifecycle_witness:
  "\<exists>st1 st2. NodeStageVolume mount_driver sample_stage (mount_state [(''/other'', ''x'')]) = (Inr (), st1) \<and>
     map_of (mf_mounted (world st1)) ''/staging'' = Some ''/dev/vdb'' \<and>
     NodePublishVolume mount_driver sample_publish st1 = (Inr (), st2) \<and>
     map_of (mf_mounted (world st2)) ''/pods/a'' = Some ''/staging''"
proof -
  let ?cap = "\<lparr>vc_access_mode = Some SINGLE_NODE_WRITER, vc_access_type = Some (AccessMount \<lparr>mv_fs_type = '''', mv_mount_flags = []\<rparr>)\<rparr>"
  have free: "map_of (mf_mounted (world (mount_state [(''/other'', ''x'')]))) ''/staging'' = None"
    "map_of (mf_mounted (world (mount_state [(''/other'', ''x'')]))) ''/pods/a'' = None"
    by (simp_all add: mount_state_def)
  have sr: "nsr_volume_id sample_stage = ''vol-1''" "nsr_staging_target_path sample_stage = ''/staging''"
    "nsr_volume_capability sample_stage = Some ?cap"
    by (simp_all add: sample_stage_def)
  have pr: "npr_volume_id sample_publish = ''vol-1''" "npr_staging_target_path sample_publish = ''/staging''"
    "npr_target_path sample_publish = ''/pods/a''" "npr_volume_capability sample_publish = Some ?cap"
    "npr_publish_context sample_publish = nsr_publish_context sample_stage"
    by (simp_all add: sample_publish_def sample_stage_def)
  have dev: "''/dev/vdb'' = device_or_virtio ''vol-1'' (map_index (nsr_publish_context sample_stage) ''device_path'')"
    by (simp add: device_or_virtio_def sample_stage_def map_index_def)
  have block: "GetBlock ?cap = None" by simp
  from node_volume_lifecycle [OF mount_driver_mount sr pr _ _ _ _ free dev] block show ?thesis by fastforce
qed

end
