(* ===== verification/MountLinux.thy ===== *)
theory MountLinux
  imports MountTable
begin

text \<open>
  \<open>internal/mount/linux.go\<close>: the mounter of a Linux node.  The operating system and
  \<open>k8s.io/mount-utils\<close> are the fields of \<open>OS\<close>; what the mounter does with them is the code's.
\<close>

record FileInfo =
  fi_Size :: i64
  fi_ModeDevice :: bool

record Statfs_t =
  sf_Blocks :: i64
  sf_Bsize :: i64
  sf_Bavail :: i64
  sf_Files :: i64
  sf_Ffree :: i64

record 's OS =
  os_MkdirAll :: "string \<Rightarrow> 's \<Rightarrow> (unit, 's) result"
  os_OpenCreate :: "string \<Rightarrow> 's \<Rightarrow> (unit, 's) result"
  os_Close :: "string \<Rightarrow> 's \<Rightarrow> (unit, 's) result"
  os_Stat :: "string \<Rightarrow> 's \<Rightarrow> (FileInfo, 's) result"
  os_Statfs :: "string \<Rightarrow> 's \<Rightarrow> (Statfs_t, 's) result"
  os_EvalSymlinks :: "string \<Rightarrow> 's \<Rightarrow> (string, 's) result"
  os_CombinedOutput :: "string \<Rightarrow> string list \<Rightarrow> 's \<Rightarrow> (string \<times> goerr option) \<times> 's"
  os_IsLikelyNotMountPoint :: "string \<Rightarrow> 's \<Rightarrow> (bool, 's) result"
  os_FormatAndMount :: "string \<Rightarrow> string \<Rightarrow> string \<Rightarrow> string list \<Rightarrow> 's \<Rightarrow> (unit, 's) result"
  os_MountSensitive :: "string \<Rightarrow> string \<Rightarrow> string \<Rightarrow> string list \<Rightarrow> 's \<Rightarrow> (unit, 's) result"
  os_Unmount :: "string \<Rightarrow> 's \<Rightarrow> (unit, 's) result"

definition deviceWaitInterval :: nat where "deviceWaitInterval = 500"
definition deviceWaitTimeout :: nat where "deviceWaitTimeout = 120000"

definition linux_IsMounted :: "'s OS \<Rightarrow> string \<Rightarrow> 's \<Rightarrow> (bool, 's) result" where
  "linux_IsMounted os target s =
     (case os_IsLikelyNotMountPoint os target s of
        (Inl err, s1) \<Rightarrow>
          if os_IsNotExist err then (Inr False, s1)
          else (Inl (Wrap (''inspect mount '' @ target) [err]), s1)
      | (Inr notMount, s1) \<Rightarrow> (Inr (\<not> notMount), s1))"

definition linux_Stage ::
  "'s OS \<Rightarrow> 's Context \<Rightarrow> string \<Rightarrow> string \<Rightarrow> string \<Rightarrow> string list \<Rightarrow> 's \<Rightarrow> (unit, 's) result" where
  "linux_Stage os ctx source target fsType flags s =
     (case os_MkdirAll os target s of
        (Inl err, s1) \<Rightarrow> (Inl (Wrap (''create staging path '' @ target) [err]), s1)
      | (Inr _, s1) \<Rightarrow>
     (case ctx_Err ctx s1 of
        Some err \<Rightarrow> (Inl err, s1)
      | None \<Rightarrow>
     (case os_FormatAndMount os source target fsType flags s1 of
        (Inl err, s2) \<Rightarrow> (Inl (Wrap (''stage device '' @ source @ '' at '' @ target) [err]), s2)
      | (Inr _, s2) \<Rightarrow> (Inr (), s2))))"

text \<open>\<open>filepath.Dir\<close> of an absolute path: what is before the last slash.  The paths
  the kubelet sends are clean, and on clean paths \<open>filepath.Clean\<close> changes nothing.\<close>

definition filepath_Dir :: "string \<Rightarrow> string" where
  "filepath_Dir path = (case rev (dropWhile (\<lambda>c. c \<noteq> CHR ''/'') (rev path)) of
     [] \<Rightarrow> ''.'' | dir \<Rightarrow> if length dir = 1 then dir else strings_TrimRight dir (CHR ''/''))"

text \<open>The first half of \<open>Publish\<close>: the target file of a block device, or the target directory.\<close>

definition prepare_target :: "'s OS \<Rightarrow> string \<Rightarrow> bool \<Rightarrow> 's \<Rightarrow> (unit, 's) result" where
  "prepare_target os target block s =
     (if block
      then (case os_MkdirAll os (filepath_Dir target) s of
          (Inl err, s1) \<Rightarrow> (Inl (Wrap (''create block target parent '' @ target) [err]), s1)
        | (Inr _, s1) \<Rightarrow>
       (case os_OpenCreate os target s1 of
          (Inl err, s2) \<Rightarrow> (Inl (Wrap (''create block target '' @ target) [err]), s2)
        | (Inr _, s2) \<Rightarrow>
       (case os_Close os target s2 of
          (Inl err, s3) \<Rightarrow> (Inl (Wrap (''close block target '' @ target) [err]), s3)
        | (Inr _, s3) \<Rightarrow> (Inr (), s3))))
      else (case os_MkdirAll os target s of
          (Inl err, s1) \<Rightarrow> (Inl (Wrap (''create publish path '' @ target) [err]), s1)
        | (Inr _, s1) \<Rightarrow> (Inr (), s1)))"

definition publish_options :: "bool \<Rightarrow> string list \<Rightarrow> string list" where
  "publish_options readonly flags =
     (let options = [''bind''] @ flags in if readonly then options @ [''ro''] else options)"

definition linux_Publish ::
  "'s OS \<Rightarrow> 's Context \<Rightarrow> string \<Rightarrow> string \<Rightarrow> bool \<Rightarrow> bool \<Rightarrow> string list \<Rightarrow> 's \<Rightarrow> (unit, 's) result" where
  "linux_Publish os ctx source target readonly block flags s =
     (case prepare_target os target block s of
        (Inl err, s1) \<Rightarrow> (Inl err, s1)
      | (Inr _, s1) \<Rightarrow>
     (case ctx_Err ctx s1 of
        Some err \<Rightarrow> (Inl err, s1)
      | None \<Rightarrow>
     (case os_MountSensitive os source target '''' (publish_options readonly flags) s1 of
        (Inl err, s2) \<Rightarrow> (Inl (Wrap (''publish '' @ source @ '' at '' @ target) [err]), s2)
      | (Inr _, s2) \<Rightarrow> (Inr (), s2))))"

definition linux_Unmount :: "'s OS \<Rightarrow> 's Context \<Rightarrow> string \<Rightarrow> 's \<Rightarrow> (unit, 's) result" where
  "linux_Unmount os ctx target s =
     (case linux_IsMounted os target s of
        (Inl err, s1) \<Rightarrow> (Inl err, s1)
      | (Inr mounted, s1) \<Rightarrow>
          if \<not> mounted then (Inr (), s1)
          else (case ctx_Err ctx s1 of
              Some err \<Rightarrow> (Inl err, s1)
            | None \<Rightarrow>
                (case os_Unmount os target s1 of
                   (Inl err, s2) \<Rightarrow> (Inl (Wrap (''unmount '' @ target) [err]), s2)
                 | (Inr _, s2) \<Rightarrow> (Inr (), s2))))"

definition stat_error :: "string \<Rightarrow> goerr \<Rightarrow> goerr" where
  "stat_error target err =
     (if os_IsNotExist err then Wrap (''volume path '' @ target) [Sentinel os_ErrNotExist]
      else Wrap (''stat volume path '' @ target) [err])"

definition linux_Stats :: "'s OS \<Rightarrow> string \<Rightarrow> bool \<Rightarrow> 's \<Rightarrow> (Stats, 's) result" where
  "linux_Stats os target block s =
     (case os_Stat os target s of
        (Inl err, s1) \<Rightarrow> (Inl (stat_error target err), s1)
      | (Inr info, s1) \<Rightarrow>
          if block
          then (Inr \<lparr>st_TotalBytes = fi_Size info, st_AvailableBytes = 0, st_UsedBytes = 0,
                     st_TotalInodes = 0, st_FreeInodes = 0, st_UsedInodes = 0\<rparr>, s1)
          else (case os_Statfs os target s1 of
              (Inl err, s2) \<Rightarrow> (Inl (Wrap (''statfs '' @ target) [err]), s2)
            | (Inr stat, s2) \<Rightarrow>
                (let total = sf_Blocks stat * sf_Bsize stat;
                     free = sf_Bavail stat * sf_Bsize stat;
                     files = sf_Files stat;
                     freeFiles = sf_Ffree stat
                 in (Inr \<lparr>st_TotalBytes = total, st_AvailableBytes = free, st_UsedBytes = total - free,
                          st_TotalInodes = files, st_FreeInodes = freeFiles, st_UsedInodes = files - freeFiles\<rparr>, s2))))"

definition linux_IsBlock :: "'s OS \<Rightarrow> string \<Rightarrow> 's \<Rightarrow> (bool, 's) result" where
  "linux_IsBlock os target s =
     (case os_Stat os target s of
        (Inl err, s1) \<Rightarrow> (Inl (stat_error target err), s1)
      | (Inr info, s1) \<Rightarrow> (Inr (fi_ModeDevice info), s1))"

definition filesystemType :: "'s OS \<Rightarrow> string \<Rightarrow> 's \<Rightarrow> (string, 's) result" where
  "filesystemType os target s =
     (case os_CombinedOutput os ''findmnt'' [''-n'', ''-o'', ''FSTYPE'', ''--target'', target] s of
        ((output, Some err), s1) \<Rightarrow> (Inl (Wrap (''detect filesystem for '' @ target) [err]), s1)
      | ((output, None), s1) \<Rightarrow> (Inr (strings_TrimSpace output), s1))"

definition linux_run :: "'s OS \<Rightarrow> string \<Rightarrow> string list \<Rightarrow> 's \<Rightarrow> (unit, 's) result" where
  "linux_run os command args s =
     (case os_CombinedOutput os command args s of
        ((output, Some err), s1) \<Rightarrow> (Inl (Wrap (''run '' @ command) [err]), s1)
      | ((output, None), s1) \<Rightarrow> (Inr (), s1))"

definition linux_Expand :: "'s OS \<Rightarrow> string \<Rightarrow> string \<Rightarrow> 's \<Rightarrow> (unit, 's) result" where
  "linux_Expand os target fsType s =
     (case filesystemType os target s of
        (Inl err, s1) \<Rightarrow> (Inl err, s1)
      | (Inr actual, s1) \<Rightarrow>
          (let selected = (if actual \<noteq> '''' then actual else fsType)
           in if selected = ''ext4'' \<or> selected = ''ext3'' \<or> selected = ''ext2''
              then linux_run os ''resize2fs'' [target] s1
              else if selected = ''xfs'' then linux_run os ''xfs_growfs'' [target] s1
              else (Inl (Foreign (''unsupported filesystem '' @ fmt_q selected)), s1)))"

text \<open>
  One pass over the candidates: an error ends the search, and so does a candidate that resolves; a
  candidate that does not exist is passed over.  \<open>None\<close> is the end of the pass.
\<close>

fun try_candidates :: "'s OS \<Rightarrow> string list \<Rightarrow> 's \<Rightarrow> (goerr + string) option \<times> 's" where
  "try_candidates os [] s = (None, s)"
| "try_candidates os (candidate # rest) s =
     (if candidate = '''' then try_candidates os rest s
      else (case os_EvalSymlinks os candidate s of
          (Inr resolved, s1) \<Rightarrow> (Some (Inr resolved), s1)
        | (Inl err, s1) \<Rightarrow>
            if \<not> os_IsNotExist err then (Some (Inl (Wrap (''resolve device '' @ candidate) [err])), s1)
            else try_candidates os rest s1))"

text \<open>
  The loop of \<open>FindDevice\<close>: \<open>ticks\<close> is how many ticks fit before the deadline; a context that ends
  earlier, or a deadline seen before a tick, is \<open>False\<close> of the timer.
\<close>

fun FindDevice_loop :: "'s OS \<Rightarrow> 's Context \<Rightarrow> string \<Rightarrow> string list \<Rightarrow> nat \<Rightarrow> 's \<Rightarrow> (string, 's) result" where
  "FindDevice_loop os ctx volumeID candidates ticks s =
     (case try_candidates os candidates s of
        (Some r, s1) \<Rightarrow> (r, s1)
      | (None, s1) \<Rightarrow>
          (let gone = Inl (Wrap (''wait for device '' @ volumeID) [Sentinel ErrUnavailable])
           in case ticks of
                0 \<Rightarrow> (gone, s1)
              | Suc ticks' \<Rightarrow>
                  (case ctx_timer ctx deviceWaitInterval s1 of
                     (False, s2) \<Rightarrow> (gone, s2)
                   | (True, s2) \<Rightarrow> FindDevice_loop os ctx volumeID candidates ticks' s2)))"

definition linux_FindDevice :: "'s OS \<Rightarrow> 's Context \<Rightarrow> string \<Rightarrow> string \<Rightarrow> 's \<Rightarrow> (string, 's) result" where
  "linux_FindDevice os ctx volumeID hintedPath =
     FindDevice_loop os ctx volumeID (deviceCandidates volumeID hintedPath)
       (deviceWaitTimeout div deviceWaitInterval)"

definition linux_mounter :: "'s OS \<Rightarrow> 's Context \<Rightarrow> 's Mounter" where
  "linux_mounter os ctx =
     \<lparr>mnt_IsMounted = linux_IsMounted os, mnt_Stage = linux_Stage os ctx,
      mnt_Publish = linux_Publish os ctx, mnt_Unmount = linux_Unmount os ctx,
      mnt_Stats = linux_Stats os, mnt_IsBlock = linux_IsBlock os,
      mnt_Expand = linux_Expand os, mnt_FindDevice = linux_FindDevice os ctx\<rparr>"

section \<open>Properties\<close>

lemma try_candidates_found:
  "try_candidates os cs s = (Some (Inr p), s') \<Longrightarrow>
     \<exists>c t. c \<in> set cs \<and> c \<noteq> '''' \<and> os_EvalSymlinks os c t = (Inr p, s')"
proof (induction cs arbitrary: s)
  case (Cons c cs)
  then show ?case by (fastforce split: if_splits prod.splits sum.splits)
qed simp

lemma FindDevice_loop_found:
  "FindDevice_loop os ctx v cs ticks s = (Inr p, s') \<Longrightarrow>
     \<exists>c t. c \<in> set cs \<and> c \<noteq> '''' \<and> os_EvalSymlinks os c t = (Inr p, s')"
proof (induction ticks arbitrary: s)
  case 0
  then show ?case using try_candidates_found [of os cs s p s']
    by (auto simp: Let_def split: prod.splits option.splits)
next
  case (Suc ticks)
  obtain o1 s1 where tried: "try_candidates os cs s = (o1, s1)" by fastforce
  obtain b s2 where t: "ctx_timer ctx deviceWaitInterval s1 = (b, s2)" by fastforce
  show ?case
  proof (cases o1)
    case None
    with Suc.prems tried t have "FindDevice_loop os ctx v cs ticks s2 = (Inr p, s')"
      by (cases b) (simp_all add: Let_def)
    then show ?thesis by (rule Suc.IH)
  next
    case (Some r)
    with Suc.prems tried have "try_candidates os cs s = (Some (Inr p), s')" by simp
    then show ?thesis by (rule try_candidates_found)
  qed
qed

text \<open>
  Only the volume's own device is found.  A path that \<open>FindDevice\<close> returns is what the hinted
  path, or one of the two by-id links made from the volume's identifier, resolved to.
\<close>

theorem FindDevice_resolves_candidate:
  assumes "linux_FindDevice os ctx v hint s = (Inr p, s')"
  shows "\<exists>c t. c \<in> {hint, ''/dev/disk/by-id/virtio-'' @ v, ''/dev/disk/by-id/scsi-0QEMU_QEMU_HARDDISK_'' @ v} \<and>
    c \<noteq> '''' \<and> os_EvalSymlinks os c t = (Inr p, s')"
  using FindDevice_loop_found [of os ctx v "deviceCandidates v hint"] assms
  by (fastforce simp: linux_FindDevice_def deviceCandidates_def filepath_Join_def)

text \<open>An operating system whose device appears with the third look, and which answers nothing else.\<close>

definition sample_OS :: "nat OS" where
  "sample_OS =
     \<lparr>os_MkdirAll = (\<lambda>_ n. (Inr (), n)), os_OpenCreate = (\<lambda>_ n. (Inr (), n)), os_Close = (\<lambda>_ n. (Inr (), n)),
      os_Stat = (\<lambda>p n. (Inl (PathError ''stat'' p ENOENT), n)),
      os_Statfs = (\<lambda>p n. (Inr \<lparr>sf_Blocks = 10, sf_Bsize = 4096, sf_Bavail = 4, sf_Files = 7, sf_Ffree = 2\<rparr>, n)),
      os_EvalSymlinks = (\<lambda>p n. if n = 2 \<and> p = ''/dev/vdb'' then (Inr ''/dev/vdb'', n) else (Inl (PathError ''lstat'' p ENOENT), n)),
      os_CombinedOutput = (\<lambda>c as n. ((if c = ''findmnt'' then ''xfs'' else '''', None), n)),
      os_IsLikelyNotMountPoint = (\<lambda>_ n. (Inr True, n)),
      os_FormatAndMount = (\<lambda>_ _ _ _ n. (Inr (), n)), os_MountSensitive = (\<lambda>_ _ _ _ n. (Inr (), n)),
      os_Unmount = (\<lambda>_ n. (Inr (), n))\<rparr>"

definition tick_context :: "nat Context" where
  "tick_context = \<lparr>ctx_timer = (\<lambda>_ n. (True, n + 1)), ctx_Err = (\<lambda>_. None)\<rparr>"

lemma sample_found: "FindDevice_loop sample_OS tick_context ''vol-1'' (deviceCandidates ''vol-1'' ''/dev/vdb'') (Suc (Suc k)) 0 =
    (Inr ''/dev/vdb'', 2)"
  by (simp add: sample_OS_def tick_context_def deviceCandidates_def filepath_Join_def Let_def)

lemma FindDevice_resolves_candidate_witness:
  "\<exists>c t. c \<in> {''/dev/vdb'', ''/dev/disk/by-id/virtio-vol-1'', ''/dev/disk/by-id/scsi-0QEMU_QEMU_HARDDISK_vol-1''} \<and>
    c \<noteq> '''' \<and> os_EvalSymlinks sample_OS c t = (Inr ''/dev/vdb'', 2)"
proof -
  have "deviceWaitTimeout div deviceWaitInterval = Suc (Suc 238)"
    by (simp add: deviceWaitTimeout_def deviceWaitInterval_def)
  then have "linux_FindDevice sample_OS tick_context ''vol-1'' ''/dev/vdb'' 0 = (Inr ''/dev/vdb'', 2)"
    by (simp only: linux_FindDevice_def sample_found)
  from FindDevice_resolves_candidate [OF this] show ?thesis by simp
qed

lemma try_candidates_clock:
  fixes clock :: "'s \<Rightarrow> nat"
  assumes "\<And>c s. clock (snd (os_EvalSymlinks os c s)) = clock s"
  shows "clock (snd (try_candidates os cs s)) = clock s"
proof (induction cs arbitrary: s)
  case (Cons c cs)
  obtain r s1 where e: "os_EvalSymlinks os c s = (r, s1)" by fastforce
  with assms [of c s] Cons.IH [of s] Cons.IH [of s1] show ?case by (auto split: sum.splits)
qed simp

lemma FindDevice_loop_clock:
  fixes clock :: "'s \<Rightarrow> nat"
  assumes "\<And>c s. clock (snd (os_EvalSymlinks os c s)) = clock s"
    and "\<And>n s. clock (snd (ctx_timer ctx n s)) \<le> clock s + n"
  shows "clock (snd (FindDevice_loop os ctx v cs ticks s)) \<le> clock s + ticks * deviceWaitInterval"
proof (induction ticks arbitrary: s)
  case 0
  then show ?case using try_candidates_clock [of clock os cs s, OF assms(1)]
    by (auto simp: Let_def split: prod.splits option.splits)
next
  case (Suc ticks)
  obtain o1 s1 where tried: "try_candidates os cs s = (o1, s1)" by fastforce
  obtain b s2 where t: "ctx_timer ctx deviceWaitInterval s1 = (b, s2)" by fastforce
  have "clock s1 = clock s" using try_candidates_clock [of clock os cs s, OF assms(1)] tried by simp
  moreover have "clock s2 \<le> clock s1 + deviceWaitInterval" using assms(2) [of deviceWaitInterval s1] t by simp
  ultimately show ?case using Suc.IH [of s2] tried t
    by (cases o1; cases b) (simp_all add: Let_def)
qed

text \<open>
  The wait for a device is bounded: \<open>FindDevice\<close> lets at most two minutes pass in its timer,
  whatever the operating system answers.
\<close>

theorem FindDevice_bounded:
  fixes clock :: "'s \<Rightarrow> nat"
  assumes "\<And>c s. clock (snd (os_EvalSymlinks os c s)) = clock s"
    and "\<And>n s. clock (snd (ctx_timer ctx n s)) \<le> clock s + n"
  shows "clock (snd (linux_FindDevice os ctx v hint s)) \<le> clock s + 120000"
  using FindDevice_loop_clock [of clock os ctx v "deviceCandidates v hint" 240 s, OF assms]
  by (simp add: linux_FindDevice_def deviceWaitTimeout_def deviceWaitInterval_def del: FindDevice_loop.simps)

lemma FindDevice_bounded_witness:
  "snd (linux_FindDevice (sample_OS\<lparr>os_EvalSymlinks := \<lambda>p n. (Inl (PathError ''lstat'' p ENOENT), n)\<rparr>)
     (tick_context\<lparr>ctx_timer := \<lambda>k n. (True, n + k)\<rparr>) ''vol-1'' '''' 0) \<le> 120000"
  using FindDevice_bounded [of "\<lambda>n. n" "sample_OS\<lparr>os_EvalSymlinks := \<lambda>p n. (Inl (PathError ''lstat'' p ENOENT), n)\<rparr>"
      "tick_context\<lparr>ctx_timer := \<lambda>k n. (True, n + k)\<rparr>" "''vol-1''" "''''" 0] by simp

text \<open>
  The right tool grows a file system.  \<open>Expand\<close> runs exactly one tool on the target, chosen by
  the file system that is really there and by the requested one only when none is detected; for
  any other file system it runs nothing and fails.
\<close>

theorem Expand_runs_detected_tool:
  assumes "filesystemType os target s = (Inr actual, s1)"
    and "fs = (if actual = '''' then requested else actual)"
  shows "linux_Expand os target requested s =
    (if fs \<in> {''ext2'', ''ext3'', ''ext4''} then linux_run os ''resize2fs'' [target] s1
     else if fs = ''xfs'' then linux_run os ''xfs_growfs'' [target] s1
     else (Inl (Foreign (''unsupported filesystem '' @ fmt_q fs)), s1))"
  using assms by (auto simp: linux_Expand_def Let_def)

lemma Expand_runs_detected_tool_witness:
  "linux_Expand sample_OS ''/staging'' ''ext4'' 0 = linux_run sample_OS ''xfs_growfs'' [''/staging''] 0"
proof -
  have "filesystemType sample_OS ''/staging'' 0 = (Inr ''xfs'', 0)" by code_simp
  from Expand_runs_detected_tool [OF this refl, of "''ext4''"] show ?thesis by simp
qed

text \<open>
  A missing volume path is reported as an internal error.  When \<open>os.Stat\<close> finds nothing at the
  path, \<open>NodeGetVolumeStats\<close> fails with code Internal: the error is marked with
  \<open>os.ErrNotExist\<close>, which the error table does not know.
\<close>

theorem missing_path_is_internal:
  assumes "drv_mount d = linux_mounter os ctx" and "path \<noteq> ''''"
    and "os_Stat os path (world st) = (Inl (PathError op p ENOENT), s1)"
  shows "NodeGetVolumeStats d path st = (Inl (Status codes_Internal ''internal driver error''), st\<lparr>world := s1\<rparr>)"
  using assms
  by (simp add: NodeGetVolumeStats_def on_world_def linux_mounter_def linux_IsBlock_def stat_error_def statusError_def)

lemma missing_path_is_internal_witness:
  "\<forall>cl :: nat Cloud. fst (NodeGetVolumeStats \<lparr>drv_config = ConfigFromEnv (\<lambda>_. ''''), drv_cloud = cl,
      drv_mount = linux_mounter sample_OS tick_context\<rparr> ''/gone'' \<lparr>locks = {}, names = {}, world = 0\<rparr>) =
   Inl (Status codes_Internal ''internal driver error'')"
proof
  fix cl :: "nat Cloud"
  let ?d = "\<lparr>drv_config = ConfigFromEnv (\<lambda>_. ''''), drv_cloud = cl,
      drv_mount = linux_mounter sample_OS tick_context\<rparr>"
  have "os_Stat sample_OS ''/gone'' (world \<lparr>locks = {}, names = {}, world = 0\<rparr>) =
      (Inl (PathError ''stat'' ''/gone'' ENOENT), 0)" by (simp add: sample_OS_def)
  from missing_path_is_internal [OF _ _ this, of ?d tick_context]
  show "fst (NodeGetVolumeStats ?d ''/gone'' \<lparr>locks = {}, names = {}, world = 0\<rparr>) =
    Inl (Status codes_Internal ''internal driver error'')" by simp
qed

end
