(* ===== verification/Server.thy ===== *)
theory Server
  imports MountLinux CloudClient FakeCloud Handlers
begin

text \<open>
  \<open>internal/driver/server.go\<close> and \<open>cmd/nobus-csi/main.go\<close>: from the environment and the flags to a
  gRPC server on a unix socket.  Logging is left out.  The file system, the socket and the loop of the
  gRPC server are the fields of \<open>ServerEnv\<close>.
\<close>

definition unixAddress :: "string \<Rightarrow> goerr + string" where
  "unixAddress endpoint =
     (if strings_HasPrefix endpoint ''tcp://'' then Inl (Foreign ''tcp endpoint is unsupported'')
      else if \<not> strings_HasPrefix endpoint ''unix://'' then Inl (Foreign ''endpoint must use unix://'')
      else (let address = strings_TrimPrefix endpoint ''unix://''
            in if address = '''' then Inl (Foreign ''unix socket path is required'') else Inr address))"

text \<open>What is registered on the gRPC server.\<close>

datatype service = IdentityServer | ControllerServer | NodeServer

record 's Server =
  srv_config :: Config
  srv_services :: "service list"
  srv_driver :: "'s Driver"

definition mode_services :: "Mode \<Rightarrow> service list" where
  "mode_services mode =
     (if mode = ModeController then [ControllerServer]
      else if mode = ModeNode then [NodeServer]
      else if mode = ModeAll then [ControllerServer, NodeServer]
      else [])"

definition NewServer :: "Config \<Rightarrow> 's Cloud \<Rightarrow> 's Mounter \<Rightarrow> 's \<Rightarrow> goerr + 's Server \<times> 's DState" where
  "NewServer config provider mounter w =
     (case Validate config of
        Some err \<Rightarrow> Inl err
      | None \<Rightarrow>
          (let (driver, st) = New config provider mounter w
           in Inr (\<lparr>srv_config = config,
                    srv_services = IdentityServer # mode_services (cfg_Mode config),
                    srv_driver = driver\<rparr>, st)))"

text \<open>
  The end of \<open>select\<close>: the context is done, and the server is stopped gracefully; or the loop of the
  gRPC server has returned.
\<close>

datatype serve_end = ContextDone | ServeReturned "goerr option"

record 's ServerEnv =
  se_RemoveAll :: "string \<Rightarrow> 's \<Rightarrow> goerr option \<times> 's"
  se_Listen :: "string \<Rightarrow> 's \<Rightarrow> goerr option \<times> 's"
  se_Serve :: "service list \<Rightarrow> string \<Rightarrow> 's \<Rightarrow> serve_end \<times> 's"

definition Serve :: "'s ServerEnv \<Rightarrow> 't Server \<Rightarrow> 's \<Rightarrow> goerr option \<times> 's" where
  "Serve env server s =
     (case unixAddress (cfg_Endpoint (srv_config server)) of
        Inl err \<Rightarrow> (Some err, s)
      | Inr address \<Rightarrow>
     (case se_RemoveAll env address s of
        (Some err, s1) \<Rightarrow> (Some (Wrap ''remove stale socket'' [err]), s1)
      | (None, s1) \<Rightarrow>
     (case se_Listen env address s1 of
        (Some err, s2) \<Rightarrow> (Some (Wrap ''listen unix socket'' [err]), s2)
      | (None, s2) \<Rightarrow>
     (case se_Serve env (srv_services server) address s2 of
        (ContextDone, s3) \<Rightarrow> (None, s3)
      | (ServeReturned r, s3) \<Rightarrow> (r, s3)))))"

section \<open>The command\<close>

definition requireLinuxNode :: "string \<Rightarrow> Config \<Rightarrow> goerr option" where
  "requireLinuxNode goos config =
     (if cfg_Mode config = ModeController then None
      else if goos = ''linux'' \<or> cfg_AllowFake config then None
      else Some (Foreign ''node plugin requires linux unless NOBUS_ALLOW_FAKE=true''))"

text \<open>A value of the interface \<open>cloud.Cloud\<close> is one of its two implementations.\<close>

datatype provider = FakeProvider Fake | ClientProvider Client

definition providerFromConfig :: "'s Env \<Rightarrow> Config \<Rightarrow> goerr + provider" where
  "providerFromConfig env config =
     (if cfg_AllowFake config
      then Inr (FakeProvider (NewFake
             \<lparr>im_InstanceID = ''nobus-test-instance'', im_AvailabilityZone = cfg_AvailabilityZone config,
              im_Region = ''unknown'', im_MaxVolumesPerNode = 32\<rparr>))
      else (case NewClient env \<lparr>cc_BaseURL = cfg_APIURL config, cc_APIKey = cfg_APIKey config,
                   cc_ProjectID = cfg_ProjectID config, cc_AvailabilityZone = cfg_AvailabilityZone config\<rparr> of
              Inl err \<Rightarrow> Inl err
            | Inr client \<Rightarrow> Inr (ClientProvider client)))"

text \<open>
  \<open>run\<close> up to the call of \<open>Serve\<close>.  The two implementations act on worlds of different types;
  \<open>as_Cloud\<close> is how a provider acts on the world of the driver.
\<close>

definition start_server ::
  "'s Env \<Rightarrow> string \<Rightarrow> (provider \<Rightarrow> 't Cloud) \<Rightarrow> 't Mounter \<Rightarrow> 't \<Rightarrow> Config \<Rightarrow> goerr + provider \<times> 't Server \<times> 't DState" where
  "start_server env goos as_Cloud mounter w config =
     (case Validate config of
        Some err \<Rightarrow> Inl err
      | None \<Rightarrow>
     (case requireLinuxNode goos config of
        Some err \<Rightarrow> Inl err
      | None \<Rightarrow>
     (case providerFromConfig env config of
        Inl err \<Rightarrow> Inl err
      | Inr provider \<Rightarrow>
     (case NewServer config (as_Cloud provider) mounter w of
        Inl err \<Rightarrow> Inl (Wrap ''create server'' [err])
      | Inr (server, st) \<Rightarrow> Inr (provider, server, st)))))"

definition run ::
  "'r ServerEnv \<Rightarrow> 's Env \<Rightarrow> string \<Rightarrow> (provider \<Rightarrow> 't Cloud) \<Rightarrow> 't Mounter \<Rightarrow> 't \<Rightarrow> Config \<Rightarrow>
     'r \<Rightarrow> goerr option \<times> 'r" where
  "run senv env goos as_Cloud mounter w config s =
     (case start_server env goos as_Cloud mounter w config of
        Inl err \<Rightarrow> (Some err, s)
      | Inr (provider, server, st) \<Rightarrow> Serve senv server s)"

text \<open>The configuration \<open>main\<close> runs with: the environment's, with the flags that are given.\<close>

definition main_config :: "(string \<Rightarrow> string) \<Rightarrow> string option \<Rightarrow> string option \<Rightarrow> Config" where
  "main_config getenv endpoint_flag mode_flag =
     (let config = ConfigFromEnv getenv;
          config = (case endpoint_flag of None \<Rightarrow> config | Some e \<Rightarrow> config\<lparr>cfg_Endpoint := e\<rparr>)
      in (case mode_flag of None \<Rightarrow> config | Some m \<Rightarrow> config\<lparr>cfg_Mode := m\<rparr>))"

definition main_exit :: "goerr option \<Rightarrow> int" where
  "main_exit r = (case r of Some err \<Rightarrow> 1 | None \<Rightarrow> 0)"

section \<open>Properties\<close>

text \<open>
  Only unix sockets are served.  \<open>unixAddress\<close> accepts exactly the endpoints \<open>unix://\<close>
  followed by a path that is not empty, and answers the path.
\<close>

theorem unixAddress_accepts_iff:
  "unixAddress endpoint = Inr address \<longleftrightarrow> endpoint = ''unix://'' @ address \<and> address \<noteq> ''''"
proof -
  have "\<not> prefix ''tcp://'' (''unix://'' @ address)" for address by simp
  moreover have "prefix ''unix://'' endpoint \<longleftrightarrow> (\<exists>a. endpoint = ''unix://'' @ a)" by (auto simp: prefix_def)
  ultimately show ?thesis
    by (auto simp: unixAddress_def string_defs Let_def split: if_splits)
qed

text \<open>
  Nothing is touched for an endpoint that is refused, and the socket is served only after the
  stale one is removed and the new one is listened on: \<open>Serve\<close> ends without an error only when the
  endpoint is a unix path, \<open>RemoveAll\<close> and \<open>Listen\<close> succeeded on that path in this order, and the
  loop served that path.
\<close>

theorem Serve_success:
  assumes "Serve env server s = (None, s')"
  shows "\<exists>address s1 s2. cfg_Endpoint (srv_config server) = ''unix://'' @ address \<and>
    se_RemoveAll env address s = (None, s1) \<and> se_Listen env address s1 = (None, s2) \<and>
    se_Serve env (srv_services server) address s2 \<in> {(ContextDone, s'), (ServeReturned None, s')}"
proof -
  have accepted: "e = ''unix://'' @ a" if "unixAddress e = Inr a" for e a
    using that by (auto simp: unixAddress_def string_defs Let_def prefix_def split: if_splits)
  from assms show ?thesis
    by (fastforce simp: Serve_def dest: accepted split: sum.splits prod.splits option.splits serve_end.splits)
qed

definition quiet_ServerEnv :: "string list ServerEnv" where
  "quiet_ServerEnv =
     \<lparr>se_RemoveAll = (\<lambda>p s. (None, s @ [p])), se_Listen = (\<lambda>p s. (None, s @ [p])),
      se_Serve = (\<lambda>_ p s. (ContextDone, s))\<rparr>"

definition sample_server :: "Fake Server" where
  "sample_server = \<lparr>srv_config = ConfigFromEnv (\<lambda>_. ''''), srv_services = [IdentityServer, ControllerServer, NodeServer],
     srv_driver = \<lparr>drv_config = ConfigFromEnv (\<lambda>_. ''''), drv_cloud = fake_cloud None, drv_mount = idle_mounter\<rparr>\<rparr>"

lemma Serve_success_witness:
  "\<exists>address s1 s2. cfg_Endpoint (srv_config sample_server) = ''unix://'' @ address \<and>
    se_RemoveAll quiet_ServerEnv address [] = (None, s1) \<and> se_Listen quiet_ServerEnv address s1 = (None, s2) \<and>
    se_Serve quiet_ServerEnv (srv_services sample_server) address s2 \<in>
      {(ContextDone, [''/csi/csi.sock'', ''/csi/csi.sock'']), (ServeReturned None, [''/csi/csi.sock'', ''/csi/csi.sock''])}"
proof -
  have "Serve quiet_ServerEnv sample_server [] = (None, [''/csi/csi.sock'', ''/csi/csi.sock''])"
    by (simp add: Serve_def sample_server_def quiet_ServerEnv_def ConfigFromEnv_def Let_def DefaultEndpoint_def
        unixAddress_def string_defs)
  then show ?thesis by (rule Serve_success)
qed

text \<open>
  C26. What a started server can be.  Its configuration is valid; it serves the controller exactly
  when the mode is not \<open>node\<close>, and the node service exactly when it is not \<open>controller\<close>; a node
  service runs on Linux or with the fake provider; and the provider is the fake one exactly when
  that is allowed, and otherwise a client with an absolute URL and an API key.
\<close>

theorem started_server_admissible:
  assumes "start_server env goos as_Cloud mounter w config = Inr (provider, server, st)"
  shows "Validate config = None \<and> IdentityServer \<in> set (srv_services server) \<and>
    (ControllerServer \<in> set (srv_services server) \<longleftrightarrow> cfg_Mode config \<noteq> ModeNode) \<and>
    (NodeServer \<in> set (srv_services server) \<longleftrightarrow> cfg_Mode config \<noteq> ModeController) \<and>
    (NodeServer \<in> set (srv_services server) \<longrightarrow> goos = ''linux'' \<or> cfg_AllowFake config) \<and>
    (case provider of
       FakeProvider f \<Rightarrow> cfg_AllowFake config
     | ClientProvider c \<Rightarrow> \<not> cfg_AllowFake config \<and> cfg_APIKey config \<noteq> '''' \<and>
         cc_APIKey (cl_config c) = cfg_APIKey config \<and> url_Scheme (cl_base c) \<noteq> '''' \<and> url_Host (cl_base c) \<noteq> '''')"
  using assms
  by (auto simp: start_server_def NewServer_def New_def requireLinuxNode_def providerFromConfig_def NewClient_def
      mode_services_def Validate_None_iff mode_defs split: option.splits sum.splits if_splits prod.splits)

definition parse_everything :: "string \<Rightarrow> goerr + URL" where
  "parse_everything s = Inr \<lparr>url_Scheme = ''https'', url_Host = s, url_Path = ''''\<rparr>"

definition sample_Env :: "unit Env" where
  "sample_Env =
     \<lparr>env_Do = (\<lambda>_ _ s. (Inl (Foreign ''offline''), s)), env_url_Parse = parse_everything,
      env_time_Parse = (\<lambda>_ _. True), env_WithTimeout = (\<lambda>c _. c), env_Open = (\<lambda>_ s. (Inr BodyEmpty, s))\<rparr>"

definition empty_world :: Fake where
  "empty_world = NewFake \<lparr>im_InstanceID = ''i-1'', im_AvailabilityZone = '''', im_Region = '''', im_MaxVolumesPerNode = 32\<rparr>"

definition node_config :: Config where
  "node_config = main_config (\<lambda>key. if key = ''NOBUS_ALLOW_FAKE'' then ''true'' else '''') None (Some ''node'')"

lemma started_server_admissible_witness:
  "\<exists>provider server st.
     start_server sample_Env ''darwin'' (\<lambda>_. fake_cloud None) idle_mounter empty_world node_config =
       Inr (provider, server, st) \<and> NodeServer \<in> set (srv_services server) \<and> ControllerServer \<notin> set (srv_services server) \<and>
     (\<exists>f. provider = FakeProvider f)"
proof -
  have nc: "cfg_Mode node_config = ModeNode" "cfg_AllowFake node_config" "Validate node_config = None" "ModeNode \<noteq> ModeController"
    by (simp_all add: node_config_def main_config_def ConfigFromEnv_def Let_def mode_defs Validate_def envString_def
        DefaultEndpoint_def DefaultDriverName_def DefaultVersion_def)
  obtain provider server st where
    r: "start_server sample_Env ''darwin'' (\<lambda>_. fake_cloud None) idle_mounter empty_world node_config =
       Inr (provider, server, st)"
    using nc by (auto simp: start_server_def NewServer_def New_def requireLinuxNode_def providerFromConfig_def)
  from started_server_admissible [OF r] nc show ?thesis
    using r by (cases provider) (auto simp: mode_defs)
qed

text \<open>
  A server that cannot start touches nothing: when the configuration is refused, or the platform,
  or the provider's settings, \<open>run\<close> fails with that error, the command exits with status 1, and
  no file is removed and no socket opened.
\<close>

theorem refused_run_touches_nothing:
  assumes "start_server env goos as_Cloud mounter w config = Inl err"
  shows "run senv env goos as_Cloud mounter w config s = (Some err, s) \<and>
    main_exit (fst (run senv env goos as_Cloud mounter w config s)) = 1"
  using assms by (simp add: run_def main_exit_def)

lemma refused_run_touches_nothing_witness:
  "run quiet_ServerEnv sample_Env ''darwin'' (\<lambda>_. fake_cloud None) idle_mounter empty_world
     (ConfigFromEnv (\<lambda>_. '''')) [] =
   (Some (Foreign ''node plugin requires linux unless NOBUS_ALLOW_FAKE=true''), [])"
proof -
  have "start_server sample_Env ''darwin'' (\<lambda>_. fake_cloud None) idle_mounter empty_world
     (ConfigFromEnv (\<lambda>_. '''')) = Inl (Foreign ''node plugin requires linux unless NOBUS_ALLOW_FAKE=true'')"
    by (simp add: start_server_def requireLinuxNode_def ConfigFromEnv_def Let_def mode_defs Validate_def envString_def
        DefaultEndpoint_def DefaultDriverName_def DefaultVersion_def)
  from refused_run_touches_nothing [OF this, of quiet_ServerEnv "[]"] show ?thesis by simp
qed

end
