(* ===== verification/NobusApi.thy ===== *)
theory NobusApi
  imports CloudClient
begin

text \<open>
  \<open>pulumi-nobus/provider/pkg/nobusapi/client.go\<close>: the transport of the Pulumi provider, with its retries,
  its reading of lists and errors, and its polling loop.  The environment is that of the CSI client
  (\<open>CloudClient\<close>), with the text of a response body.  The package has sentinels of its own, with the
  meaning of those of \<open>internal/cloud\<close>; the two packages are never in one process, so the same
  constructors stand for them.
\<close>

record 's NobusEnv = "'s Env" +
  ne_BodyText :: "body \<Rightarrow> string"

definition nobus_DefaultEndpoint :: string where "nobus_DefaultEndpoint = ''https://cloud-api.nobus.io''"
definition nobus_defaultPoll :: int where "nobus_defaultPoll = 2000"

record NobusClient =
  nc_base :: URL
  nc_apiKey :: string
  nc_poll :: nat

record NobusConfig =
  nf_Endpoint :: string
  nf_APIKey :: string
  nf_Poll :: int

definition nobus_NewClient :: "(string \<Rightarrow> goerr + URL) \<Rightarrow> NobusConfig \<Rightarrow> goerr + NobusClient" where
  "nobus_NewClient url_Parse cfg =
     (let endpoint = strings_TrimRight (nf_Endpoint cfg) (CHR ''/'');
          endpoint = (if endpoint = '''' then nobus_DefaultEndpoint else endpoint)
      in case url_Parse endpoint of
           Inl err \<Rightarrow> Inl (Wrap ''parse Nobus API URL'' [err])
         | Inr base \<Rightarrow>
             if url_Scheme base = '''' \<or> url_Host base = '''' then Inl (Foreign ''nobus API URL must be absolute'')
             else if nf_APIKey cfg = '''' then Inl (Foreign ''nobus API key is required'')
             else (let poll = nf_Poll cfg; poll = (if poll \<le> 0 then nobus_defaultPoll else poll)
                   in Inr \<lparr>nc_base = base, nc_apiKey = nf_APIKey cfg, nc_poll = nat poll\<rparr>))"

definition projectQuery :: "string \<Rightarrow> string \<Rightarrow> gomap" where
  "projectQuery projectID availabilityZone =
     (let q = [(''project_id'', projectID)]
      in if availabilityZone \<noteq> '''' then query_Set ''availability_zone'' availabilityZone q else q)"

section \<open>Errors\<close>

text \<open>
  The text of the error: the \<open>message\<close> of an object, or the whole body when it does not
  decode, or the text of the status when that leaves nothing.
\<close>

definition nobus_message :: "(body \<Rightarrow> string) \<Rightarrow> http_response \<Rightarrow> string" where
  "nobus_message text resp =
     (let message = (case rs_Body resp of
            BodyEmpty \<Rightarrow> ''''
          | BodyJSON j \<Rightarrow> (case dec_struct [(''message'', dec_string)] j '''' of
                (m, True) \<Rightarrow> m
              | (m, False) \<Rightarrow> strings_TrimSpace (text (BodyJSON j)))
          | b \<Rightarrow> strings_TrimSpace (text b))
      in if message = '''' then http_StatusText (rs_StatusCode resp) else message)"

definition nobus_mapHTTPError :: "(body \<Rightarrow> string) \<Rightarrow> http_response \<Rightarrow> goerr" where
  "nobus_mapHTTPError text resp =
     (case rs_Body resp of
        BodyReadError err \<Rightarrow> Wrap ''read Nobus error response'' [Wrap '''' [Sentinel ErrUnavailable, err]]
      | _ \<Rightarrow>
          (let message = nobus_message text resp; code = rs_StatusCode resp
           in if code = 404 then Wrap message [Sentinel ErrNotFound]
              else if code = 401 \<or> code = 403 then Wrap message [Sentinel ErrUnauthorized]
              else if code = 429 then Wrap message [Sentinel ErrUnavailable]
              else if code \<ge> 500 then Wrap message [Sentinel ErrUnavailable]
              else (let lower = strings_ToLower message
                    in if strings_Contains lower ''not found'' \<or> strings_Contains lower ''does not exist''
                       then Wrap message [Sentinel ErrNotFound]
                       else Wrap message [Sentinel ErrInvalid])))"

section \<open>Requests\<close>

definition nobus_doOnce ::
  "'s NobusEnv \<Rightarrow> NobusClient \<Rightarrow> 's Context \<Rightarrow> string \<Rightarrow> string \<Rightarrow> gomap option \<Rightarrow> json option \<Rightarrow>
     (body \<Rightarrow> goerr + 'a) \<Rightarrow> 's \<Rightarrow> ('a, 's) result" where
  "nobus_doOnce env c ctx meth path query payload decode s =
     (let req = \<lparr>rq_Method = meth, rq_URL = (nc_base c)\<lparr>url_Path := path\<rparr>, rq_Query = query,
                 rq_Body = payload,
                 rq_Header = [(''Authorization'', ''Bearer '' @ nc_apiKey c)] @
                   (if payload \<noteq> None then [(''Content-Type'', ''application/json'')] else [])\<rparr>
      in case env_Do env ctx req s of
           (Inl err, s1) \<Rightarrow> (Inl (Wrap ''call Nobus API'' [Wrap '''' [Sentinel ErrUnavailable, err]]), s1)
         | (Inr resp, s1) \<Rightarrow>
             if rs_StatusCode resp \<ge> 400 then (Inl (nobus_mapHTTPError (ne_BodyText env) resp), s1)
             else (decode (rs_Body resp), s1))"

definition maxAttempts :: nat where "maxAttempts = 4"

text \<open>\<open>ctx.Err()\<close> of a context that is done, which is never nil.\<close>

definition ctx_done_Err :: "'s Context \<Rightarrow> 's \<Rightarrow> goerr" where
  "ctx_done_Err ctx s = (case ctx_Err ctx s of Some err \<Rightarrow> err | None \<Rightarrow> Sentinel context_DeadlineExceeded)"

text \<open>The loop of \<open>do\<close>, from an attempt on with \<open>left\<close> attempts after it.\<close>

fun nobus_do_from ::
  "('s \<Rightarrow> ('a, 's) result) \<Rightarrow> 's Context \<Rightarrow> nat \<Rightarrow> nat \<Rightarrow> 's \<Rightarrow> ('a, 's) result" where
  "nobus_do_from once ctx attempt left s =
     (case once s of
        (Inr v, s1) \<Rightarrow> (Inr v, s1)
      | (Inl err, s1) \<Rightarrow>
          (case left of
             0 \<Rightarrow> (Inl err, s1)
           | Suc left' \<Rightarrow>
               if \<not> errors_is err ErrUnavailable \<or> ctx_Err ctx s1 \<noteq> None then (Inl err, s1)
               else (case ctx_timer ctx (attempt * attempt * 200) s1 of
                   (False, s2) \<Rightarrow> (Inl (Wrap ''call Nobus API'' [ctx_done_Err ctx s2]), s2)
                 | (True, s2) \<Rightarrow> nobus_do_from once ctx (attempt + 1) left' s2)))"

definition nobus_do ::
  "'s NobusEnv \<Rightarrow> NobusClient \<Rightarrow> 's Context \<Rightarrow> string \<Rightarrow> string \<Rightarrow> gomap option \<Rightarrow> json option \<Rightarrow>
     (body \<Rightarrow> goerr + 'a) \<Rightarrow> 's \<Rightarrow> ('a, 's) result" where
  "nobus_do env c ctx meth path query payload decode =
     nobus_do_from (nobus_doOnce env c ctx meth path query payload decode) ctx 1 (maxAttempts - 1)"

text \<open>With a nil target the body is thrown away, and an error of reading it too.\<close>

definition discard :: "body \<Rightarrow> goerr + unit" where
  "discard b = Inr ()"

section \<open>Lists\<close>

text \<open>\<open>json.RawMessage\<close>: the member as it is, \<open>None\<close> when it is not there.\<close>

definition dec_raw :: "json option decoder" where
  "dec_raw j old = (Some j, True)"

definition unmarshal_list :: "'a decoder \<Rightarrow> 'a \<Rightarrow> json \<Rightarrow> goerr + 'a list" where
  "unmarshal_list d zero j =
     (case dec_list d zero j [] of
        (items, True) \<Rightarrow> Inr items
      | (items, False) \<Rightarrow> Inl (Wrap ''decode list payload'' [Foreign ''json: cannot unmarshal'']))"

definition decodeList :: "'a decoder \<Rightarrow> 'a \<Rightarrow> json option \<Rightarrow> goerr + 'a list" where
  "decodeList d zero raw =
     (let invalid = Inl (Wrap ''decode list payload'' [Sentinel ErrInvalid])
      in case raw of
           None \<Rightarrow> Inr []
         | Some JNull \<Rightarrow> Inr []
         | Some (JArray vs) \<Rightarrow> unmarshal_list d zero (JArray vs)
         | Some (JObject ms) \<Rightarrow>
             (case fst (dec_struct [(''items'', dec_raw)] (JObject ms) None) of
                None \<Rightarrow> invalid
              | Some JNull \<Rightarrow> Inr []
              | Some j \<Rightarrow> unmarshal_list d zero j)
         | Some _ \<Rightarrow> invalid)"

text \<open>A call whose answer is \<open>{"data": ...}\<close> with a list in one of those shapes.\<close>

definition listResponse :: "json option decoder" where
  "listResponse = dec_struct [(''data'', dec_raw)]"

definition nobus_list ::
  "'s NobusEnv \<Rightarrow> NobusClient \<Rightarrow> 's Context \<Rightarrow> string \<Rightarrow> gomap option \<Rightarrow> 'a decoder \<Rightarrow> 'a \<Rightarrow> 's \<Rightarrow> ('a list, 's) result" where
  "nobus_list env c ctx path query d zero s =
     (case nobus_do env c ctx ''GET'' path query None (decodeJSON listResponse None) s of
        (Inl err, s1) \<Rightarrow> (Inl err, s1)
      | (Inr raw, s1) \<Rightarrow> (decodeList d zero raw, s1))"

section \<open>Polling\<close>

text \<open>
  \<open>waitUntil\<close>: \<open>fn\<close> is the closure, \<open>'c\<close> the variable it captures and assigns.  A context with a
  deadline is done at the latest after the polls that fit into the timeout.
\<close>

type_synonym ('c, 's) closure = "'s Context \<Rightarrow> 'c \<Rightarrow> 's \<Rightarrow> (goerr + bool) \<times> 'c \<times> 's"

fun waitUntil_loop ::
  "'s Context \<Rightarrow> nat \<Rightarrow> ('c, 's) closure \<Rightarrow> nat \<Rightarrow> 'c \<Rightarrow> 's \<Rightarrow> goerr option \<times> 'c \<times> 's" where
  "waitUntil_loop ctx poll fn polls captured s =
     (case fn ctx captured s of
        (Inl err, cap1, s1) \<Rightarrow> (Some err, cap1, s1)
      | (Inr True, cap1, s1) \<Rightarrow> (None, cap1, s1)
      | (Inr False, cap1, s1) \<Rightarrow>
          (case polls of
             0 \<Rightarrow> (Some (Wrap ''wait timed out'' [ctx_done_Err ctx s1]), cap1, s1)
           | Suc polls' \<Rightarrow>
               (case ctx_timer ctx poll s1 of
                  (False, s2) \<Rightarrow> (Some (Wrap ''wait timed out'' [ctx_done_Err ctx s2]), cap1, s2)
                | (True, s2) \<Rightarrow> waitUntil_loop ctx poll fn polls' cap1 s2)))"

definition waitUntil ::
  "'s NobusEnv \<Rightarrow> NobusClient \<Rightarrow> 's Context \<Rightarrow> nat \<Rightarrow> ('c, 's) closure \<Rightarrow> 'c \<Rightarrow> 's \<Rightarrow> goerr option \<times> 'c \<times> 's" where
  "waitUntil env c ctx timeout fn captured =
     waitUntil_loop (env_WithTimeout env ctx timeout) (nc_poll c) fn (timeout div nc_poll c) captured"

text \<open>
  The closure of the functions that wait for a status: fetch the object, keep it, compare its
  status up to case.
\<close>

definition status_closure ::
  "('s Context \<Rightarrow> 's \<Rightarrow> ('a, 's) result) \<Rightarrow> ('a \<Rightarrow> string) \<Rightarrow> string list \<Rightarrow> ('a option, 's) closure" where
  "status_closure get status want ctx current s =
     (case get ctx s of
        (Inl err, s1) \<Rightarrow> (Inl err, current, s1)
      | (Inr object, s1) \<Rightarrow>
          (Inr (strings_ToLower (status object) \<in> set (map strings_ToLower want)), Some object, s1))"

end
