(* ===== verification/NobusStorage.thy ===== *)
theory NobusStorage
  imports NobusApi
begin

text \<open>
  \<open>pulumi-nobus/provider/pkg/nobusapi\<close>: \<open>volume.go\<close>, \<open>snapshot.go\<close> and \<open>backup.go\<close>, the calls on block
  storage, and \<open>catalog.go\<close>, the catalogue of flavors, images, projects and zones.
\<close>

section \<open>Shared shapes\<close>

text \<open>A \<open>*bool\<close> with \<open>omitempty\<close> is left out only when it is nil.\<close>

definition omit_bool_ptr :: "string \<Rightarrow> bool option \<Rightarrow> (string \<times> json) list" where
  "omit_bool_ptr key v = (case v of None \<Rightarrow> [] | Some b \<Rightarrow> [(key, JBool b)])"

text \<open>
  A call that answers one object under \<open>data\<close>; \<open>dec_data\<close> is a response struct without the status.
\<close>

definition dec_data :: "'a decoder \<Rightarrow> 'a response decoder" where
  "dec_data d = dec_struct [field ''data'' rp_Data rp_Data_update d]"

definition nobus_object ::
  "'s NobusEnv \<Rightarrow> NobusClient \<Rightarrow> 's Context \<Rightarrow> string \<Rightarrow> string \<Rightarrow> gomap option \<Rightarrow> json option \<Rightarrow>
     'a response decoder \<Rightarrow> 'a \<Rightarrow> 's \<Rightarrow> ('a, 's) result" where
  "nobus_object env c ctx meth path query payload d zero s =
     (case nobus_do env c ctx meth path query payload (decodeJSON d (zero_response zero)) s of
        (Inl err, s1) \<Rightarrow> (Inl err, s1)
      | (Inr resp, s1) \<Rightarrow> (Inr (rp_Data resp), s1))"

definition waitStatus ::
  "'s NobusEnv \<Rightarrow> NobusClient \<Rightarrow> 's Context \<Rightarrow> nat \<Rightarrow> ('s Context \<Rightarrow> 's \<Rightarrow> ('a, 's) result) \<Rightarrow> ('a \<Rightarrow> string) \<Rightarrow>
     string list \<Rightarrow> 's \<Rightarrow> goerr option \<times> 'a option \<times> 's" where
  "waitStatus env c ctx timeout get status want =
     waitUntil env c ctx timeout (status_closure get status want) None"

section \<open>Volumes\<close>

record NVolumeAttachment =
  na_ServerID :: string
  na_Device :: string

record NVolume =
  nv_ID :: string
  nv_Name :: string
  nv_Description :: string
  nv_Size :: int
  nv_Status :: string
  nv_VolumeType :: string
  nv_AvailabilityZone :: string
  nv_Multiattach :: bool
  nv_Metadata :: gomap
  nv_Attachments :: "NVolumeAttachment list"

record CreateVolumeReq =
  cv_Size :: int
  cv_Name :: string
  cv_Description :: string
  cv_VolumeType :: string
  cv_AvailabilityZone :: string
  cv_SnapshotID :: string
  cv_SourceVolID :: string
  cv_ImageRef :: string
  cv_Metadata :: gomap
  cv_Multiattach :: "bool option"
  cv_ProjectID :: string

record UpdateVolumeReq =
  uv_Name :: string
  uv_Description :: string
  uv_Metadata :: gomap
  uv_ProjectID :: string
  uv_AvailabilityZone :: string

record AttachVolumeReq =
  at_ProjectID :: string
  at_AvailabilityZone :: string
  at_ServerID :: string
  at_VolumeID :: string

definition zero_NVolumeAttachment :: NVolumeAttachment where
  "zero_NVolumeAttachment = \<lparr>na_ServerID = '''', na_Device = ''''\<rparr>"

definition zero_NVolume :: NVolume where
  "zero_NVolume = \<lparr>nv_ID = '''', nv_Name = '''', nv_Description = '''', nv_Size = 0, nv_Status = '''',
     nv_VolumeType = '''', nv_AvailabilityZone = '''', nv_Multiattach = False, nv_Metadata = [], nv_Attachments = []\<rparr>"

definition dec_NVolumeAttachment :: "NVolumeAttachment decoder" where
  "dec_NVolumeAttachment = dec_struct
     [field ''server_id'' na_ServerID na_ServerID_update dec_string,
      field ''device'' na_Device na_Device_update dec_string]"

definition dec_NVolume :: "NVolume decoder" where
  "dec_NVolume = dec_struct
     [field ''id'' nv_ID nv_ID_update dec_string,
      field ''name'' nv_Name nv_Name_update dec_string,
      field ''description'' nv_Description nv_Description_update dec_string,
      field ''size'' nv_Size nv_Size_update dec_int,
      field ''status'' nv_Status nv_Status_update dec_string,
      field ''volume_type'' nv_VolumeType nv_VolumeType_update dec_string,
      field ''availability_zone'' nv_AvailabilityZone nv_AvailabilityZone_update dec_string,
      field ''multiattach'' nv_Multiattach nv_Multiattach_update dec_bool,
      field ''metadata'' nv_Metadata nv_Metadata_update dec_map,
      field ''attachments'' nv_Attachments nv_Attachments_update
        (dec_list dec_NVolumeAttachment zero_NVolumeAttachment)]"

definition json_CreateVolumeReq :: "CreateVolumeReq \<Rightarrow> json" where
  "json_CreateVolumeReq r = JObject (
     [(''size'', JInt (cv_Size r))] @
     omit_string ''name'' (cv_Name r) @
     omit_string ''description'' (cv_Description r) @
     omit_string ''volume_type'' (cv_VolumeType r) @
     [(''availability_zone'', JString (cv_AvailabilityZone r))] @
     omit_string ''snapshot_id'' (cv_SnapshotID r) @
     omit_string ''source_volid'' (cv_SourceVolID r) @
     omit_string ''image_ref'' (cv_ImageRef r) @
     omit_map ''metadata'' (cv_Metadata r) @
     omit_bool_ptr ''multiattach'' (cv_Multiattach r) @
     [(''project_id'', JString (cv_ProjectID r))])"

definition json_UpdateVolumeReq :: "UpdateVolumeReq \<Rightarrow> json" where
  "json_UpdateVolumeReq r = JObject (
     omit_string ''name'' (uv_Name r) @
     omit_string ''description'' (uv_Description r) @
     omit_map ''metadata'' (uv_Metadata r) @
     [(''project_id'', JString (uv_ProjectID r)), (''availability_zone'', JString (uv_AvailabilityZone r))])"

definition json_AttachVolumeReq :: "AttachVolumeReq \<Rightarrow> json" where
  "json_AttachVolumeReq r = JObject
     [(''project_id'', JString (at_ProjectID r)), (''availability_zone'', JString (at_AvailabilityZone r)),
      (''server_id'', JString (at_ServerID r)), (''volume_id'', JString (at_VolumeID r))]"

definition nobus_CreateVolume :: "'s NobusEnv \<Rightarrow> NobusClient \<Rightarrow> 's Context \<Rightarrow> CreateVolumeReq \<Rightarrow> 's \<Rightarrow> (NVolume, 's) result" where
  "nobus_CreateVolume env c ctx req s =
     (case nobus_object env c ctx ''POST'' ''/api/v3/volume/'' None (Some (json_CreateVolumeReq req))
             (dec_response dec_NVolume) zero_NVolume s of
        (Inl err, s1) \<Rightarrow> (Inl err, s1)
      | (Inr data, s1) \<Rightarrow>
          (Inr (if nv_AvailabilityZone data = '''' then data\<lparr>nv_AvailabilityZone := cv_AvailabilityZone req\<rparr> else data), s1))"

definition nobus_ListVolumes :: "'s NobusEnv \<Rightarrow> NobusClient \<Rightarrow> 's Context \<Rightarrow> string \<Rightarrow> string \<Rightarrow> 's \<Rightarrow> (NVolume list, 's) result" where
  "nobus_ListVolumes env c ctx projectID az =
     nobus_list env c ctx ''/api/v3/volume/list'' (Some (projectQuery projectID az)) dec_NVolume zero_NVolume"

definition nobus_GetVolume ::
  "'s NobusEnv \<Rightarrow> NobusClient \<Rightarrow> 's Context \<Rightarrow> string \<Rightarrow> string \<Rightarrow> string \<Rightarrow> 's \<Rightarrow> (NVolume, 's) result" where
  "nobus_GetVolume env c ctx projectID az volumeID s =
     (case nobus_ListVolumes env c ctx projectID az s of
        (Inl err, s1) \<Rightarrow> (Inl err, s1)
      | (Inr volumes, s1) \<Rightarrow>
          (case find (\<lambda>volume. nv_ID volume = volumeID) volumes of
             Some volume \<Rightarrow>
               (Inr (if nv_AvailabilityZone volume = '''' then volume\<lparr>nv_AvailabilityZone := az\<rparr> else volume), s1)
           | None \<Rightarrow> (Inl (Wrap (''volume '' @ volumeID) [Sentinel ErrNotFound]), s1)))"

definition nobus_UpdateVolume ::
  "'s NobusEnv \<Rightarrow> NobusClient \<Rightarrow> 's Context \<Rightarrow> string \<Rightarrow> UpdateVolumeReq \<Rightarrow> 's \<Rightarrow> (NVolume, 's) result" where
  "nobus_UpdateVolume env c ctx volumeID req =
     nobus_object env c ctx ''PUT'' ''/api/v3/volume/''
       (Some (query_Set ''volume_id'' volumeID (projectQuery (uv_ProjectID req) (uv_AvailabilityZone req))))
       (Some (json_UpdateVolumeReq req)) (dec_response dec_NVolume) zero_NVolume"

definition nobus_DeleteVolume ::
  "'s NobusEnv \<Rightarrow> NobusClient \<Rightarrow> 's Context \<Rightarrow> string \<Rightarrow> string \<Rightarrow> string \<Rightarrow> 's \<Rightarrow> (unit, 's) result" where
  "nobus_DeleteVolume env c ctx projectID az volumeID =
     nobus_do env c ctx ''DELETE'' ''/api/v3/volume/''
       (Some (query_Set ''volume_id'' volumeID (projectQuery projectID az))) None discard"

definition nobus_AttachVolume :: "'s NobusEnv \<Rightarrow> NobusClient \<Rightarrow> 's Context \<Rightarrow> AttachVolumeReq \<Rightarrow> 's \<Rightarrow> (unit, 's) result" where
  "nobus_AttachVolume env c ctx req =
     nobus_do env c ctx ''POST'' ''/api/v3/volume/attach'' None (Some (json_AttachVolumeReq req)) discard"

definition nobus_DetachVolume :: "'s NobusEnv \<Rightarrow> NobusClient \<Rightarrow> 's Context \<Rightarrow> AttachVolumeReq \<Rightarrow> 's \<Rightarrow> (unit, 's) result" where
  "nobus_DetachVolume env c ctx req =
     nobus_do env c ctx ''POST'' ''/api/v3/volume/detach'' None (Some (json_AttachVolumeReq req)) discard"

definition WaitVolumeStatus ::
  "'s NobusEnv \<Rightarrow> NobusClient \<Rightarrow> 's Context \<Rightarrow> string \<Rightarrow> string \<Rightarrow> string \<Rightarrow> string list \<Rightarrow> 's \<Rightarrow>
     goerr option \<times> NVolume option \<times> 's" where
  "WaitVolumeStatus env c ctx projectID az volumeID want =
     waitStatus env c ctx 300000 (\<lambda>ctx. nobus_GetVolume env c ctx projectID az volumeID) nv_Status want"

text \<open>The search for the device of a server, and the closure around it.\<close>

fun attached_device :: "NVolumeAttachment list \<Rightarrow> string \<Rightarrow> string option" where
  "attached_device [] serverID = None"
| "attached_device (attachment # rest) serverID =
     (if na_ServerID attachment = serverID \<and> na_Device attachment \<noteq> ''''
      then Some (na_Device attachment) else attached_device rest serverID)"

definition attached_closure ::
  "'s NobusEnv \<Rightarrow> NobusClient \<Rightarrow> string \<Rightarrow> string \<Rightarrow> string \<Rightarrow> string \<Rightarrow> (string, 's) closure" where
  "attached_closure env c projectID az volumeID serverID ctx device s =
     (case nobus_GetVolume env c ctx projectID az volumeID s of
        (Inl err, s1) \<Rightarrow> (Inl err, device, s1)
      | (Inr volume, s1) \<Rightarrow>
          (case attached_device (nv_Attachments volume) serverID of
             Some d \<Rightarrow> (Inr True, d, s1)
           | None \<Rightarrow> (Inr False, device, s1)))"

definition WaitVolumeAttached ::
  "'s NobusEnv \<Rightarrow> NobusClient \<Rightarrow> 's Context \<Rightarrow> string \<Rightarrow> string \<Rightarrow> string \<Rightarrow> string \<Rightarrow> 's \<Rightarrow>
     goerr option \<times> string \<times> 's" where
  "WaitVolumeAttached env c ctx projectID az volumeID serverID =
     waitUntil env c ctx 180000 (attached_closure env c projectID az volumeID serverID) ''''"

section \<open>Snapshots\<close>

record NSnapshot =
  ns_ID :: string
  ns_Name :: string
  ns_Description :: string
  ns_VolumeID :: string
  ns_Status :: string
  ns_Size :: int
  ns_CreatedAt :: string
  ns_Metadata :: gomap

record CreateSnapshotReq =
  cs_VolumeID :: string
  cs_Name :: string
  cs_Description :: string
  cs_Force :: bool
  cs_Metadata :: gomap
  cs_ProjectID :: string
  cs_AvailabilityZone :: string

definition zero_NSnapshot :: NSnapshot where
  "zero_NSnapshot = \<lparr>ns_ID = '''', ns_Name = '''', ns_Description = '''', ns_VolumeID = '''', ns_Status = '''',
     ns_Size = 0, ns_CreatedAt = '''', ns_Metadata = []\<rparr>"

definition dec_NSnapshot :: "NSnapshot decoder" where
  "dec_NSnapshot = dec_struct
     [field ''id'' ns_ID ns_ID_update dec_string,
      field ''name'' ns_Name ns_Name_update dec_string,
      field ''description'' ns_Description ns_Description_update dec_string,
      field ''volume_id'' ns_VolumeID ns_VolumeID_update dec_string,
      field ''status'' ns_Status ns_Status_update dec_string,
      field ''size'' ns_Size ns_Size_update dec_int,
      field ''created_at'' ns_CreatedAt ns_CreatedAt_update dec_string,
      field ''metadata'' ns_Metadata ns_Metadata_update dec_map]"

definition json_CreateSnapshotReq :: "CreateSnapshotReq \<Rightarrow> json" where
  "json_CreateSnapshotReq r = JObject (
     [(''volume_id'', JString (cs_VolumeID r))] @
     omit_string ''name'' (cs_Name r) @
     omit_string ''description'' (cs_Description r) @
     omit_bool ''force'' (cs_Force r) @
     omit_map ''metadata'' (cs_Metadata r) @
     [(''project_id'', JString (cs_ProjectID r)), (''availability_zone'', JString (cs_AvailabilityZone r))])"

definition nobus_CreateSnapshot ::
  "'s NobusEnv \<Rightarrow> NobusClient \<Rightarrow> 's Context \<Rightarrow> CreateSnapshotReq \<Rightarrow> 's \<Rightarrow> (NSnapshot, 's) result" where
  "nobus_CreateSnapshot env c ctx req =
     nobus_object env c ctx ''POST'' ''/api/v3/volume/snapshot'' None (Some (json_CreateSnapshotReq req))
       (dec_data dec_NSnapshot) zero_NSnapshot"

definition nobus_ListSnapshots ::
  "'s NobusEnv \<Rightarrow> NobusClient \<Rightarrow> 's Context \<Rightarrow> string \<Rightarrow> string \<Rightarrow> 's \<Rightarrow> (NSnapshot list, 's) result" where
  "nobus_ListSnapshots env c ctx projectID az =
     nobus_list env c ctx ''/api/v3/volume/snapshot/list'' (Some (projectQuery projectID az)) dec_NSnapshot zero_NSnapshot"

definition nobus_GetSnapshot ::
  "'s NobusEnv \<Rightarrow> NobusClient \<Rightarrow> 's Context \<Rightarrow> string \<Rightarrow> string \<Rightarrow> string \<Rightarrow> 's \<Rightarrow> (NSnapshot, 's) result" where
  "nobus_GetSnapshot env c ctx projectID az snapshotID s =
     (case nobus_object env c ctx ''GET'' ''/api/v3/volume/snapshot''
             (Some (query_Set ''snapshot_id'' snapshotID (projectQuery projectID az))) None (dec_data dec_NSnapshot) zero_NSnapshot s of
        (Inl err, s1) \<Rightarrow> (Inl err, s1)
      | (Inr data, s1) \<Rightarrow>
          if ns_ID data = '''' then (Inl (Wrap (''snapshot '' @ snapshotID) [Sentinel ErrNotFound]), s1)
          else (Inr data, s1))"

definition nobus_DeleteSnapshot ::
  "'s NobusEnv \<Rightarrow> NobusClient \<Rightarrow> 's Context \<Rightarrow> string \<Rightarrow> string \<Rightarrow> string \<Rightarrow> 's \<Rightarrow> (unit, 's) result" where
  "nobus_DeleteSnapshot env c ctx projectID az snapshotID =
     nobus_do env c ctx ''DELETE'' ''/api/v3/volume/snapshot''
       (Some (query_Set ''snapshot_id'' snapshotID (projectQuery projectID az))) None discard"

definition WaitSnapshotStatus ::
  "'s NobusEnv \<Rightarrow> NobusClient \<Rightarrow> 's Context \<Rightarrow> string \<Rightarrow> string \<Rightarrow> string \<Rightarrow> string list \<Rightarrow> 's \<Rightarrow>
     goerr option \<times> NSnapshot option \<times> 's" where
  "WaitSnapshotStatus env c ctx projectID az snapshotID want =
     waitStatus env c ctx 300000 (\<lambda>ctx. nobus_GetSnapshot env c ctx projectID az snapshotID) ns_Status want"

section \<open>Backups\<close>

record NBackup =
  nb_ID :: string
  nb_Name :: string
  nb_Description :: string
  nb_VolumeID :: string
  nb_Size :: int
  nb_Container :: string
  nb_Status :: string
  nb_CreatedAt :: string
  nb_AvailabilityZone :: string
  nb_Metadata :: gomap

record CreateBackupReq =
  cb_VolumeID :: string
  cb_Name :: string
  cb_Description :: string
  cb_Container :: string
  cb_Incremental :: bool
  cb_Force :: bool
  cb_SnapshotID :: string
  cb_Metadata :: gomap
  cb_ProjectID :: string
  cb_AvailabilityZone :: string

definition zero_NBackup :: NBackup where
  "zero_NBackup = \<lparr>nb_ID = '''', nb_Name = '''', nb_Description = '''', nb_VolumeID = '''', nb_Size = 0,
     nb_Container = '''', nb_Status = '''', nb_CreatedAt = '''', nb_AvailabilityZone = '''', nb_Metadata = []\<rparr>"

definition dec_NBackup :: "NBackup decoder" where
  "dec_NBackup = dec_struct
     [field ''id'' nb_ID nb_ID_update dec_string,
      field ''name'' nb_Name nb_Name_update dec_string,
      field ''description'' nb_Description nb_Description_update dec_string,
      field ''volume_id'' nb_VolumeID nb_VolumeID_update dec_string,
      field ''size'' nb_Size nb_Size_update dec_int,
      field ''container'' nb_Container nb_Container_update dec_string,
      field ''status'' nb_Status nb_Status_update dec_string,
      field ''created_at'' nb_CreatedAt nb_CreatedAt_update dec_string,
      field ''availability_zone'' nb_AvailabilityZone nb_AvailabilityZone_update dec_string,
      field ''metadata'' nb_Metadata nb_Metadata_update dec_map]"

definition json_CreateBackupReq :: "CreateBackupReq \<Rightarrow> json" where
  "json_CreateBackupReq r = JObject (
     [(''volume_id'', JString (cb_VolumeID r))] @
     omit_string ''name'' (cb_Name r) @
     omit_string ''description'' (cb_Description r) @
     omit_string ''container'' (cb_Container r) @
     omit_bool ''incremental'' (cb_Incremental r) @
     omit_bool ''force'' (cb_Force r) @
     omit_string ''snapshot_id'' (cb_SnapshotID r) @
     omit_map ''metadata'' (cb_Metadata r) @
     [(''project_id'', JString (cb_ProjectID r)), (''availability_zone'', JString (cb_AvailabilityZone r))])"

definition nobus_CreateBackup :: "'s NobusEnv \<Rightarrow> NobusClient \<Rightarrow> 's Context \<Rightarrow> CreateBackupReq \<Rightarrow> 's \<Rightarrow> (NBackup, 's) result" where
  "nobus_CreateBackup env c ctx req s =
     (case nobus_object env c ctx ''POST'' ''/api/v3/volume/backup'' None (Some (json_CreateBackupReq req))
             (dec_data dec_NBackup) zero_NBackup s of
        (Inl err, s1) \<Rightarrow> (Inl err, s1)
      | (Inr data, s1) \<Rightarrow>
          (Inr (if nb_AvailabilityZone data = '''' then data\<lparr>nb_AvailabilityZone := cb_AvailabilityZone req\<rparr> else data), s1))"

definition nobus_ListBackups :: "'s NobusEnv \<Rightarrow> NobusClient \<Rightarrow> 's Context \<Rightarrow> string \<Rightarrow> string \<Rightarrow> 's \<Rightarrow> (NBackup list, 's) result" where
  "nobus_ListBackups env c ctx projectID az =
     nobus_list env c ctx ''/api/v3/volume/backup/list'' (Some (projectQuery projectID az)) dec_NBackup zero_NBackup"

definition nobus_GetBackup ::
  "'s NobusEnv \<Rightarrow> NobusClient \<Rightarrow> 's Context \<Rightarrow> string \<Rightarrow> string \<Rightarrow> string \<Rightarrow> 's \<Rightarrow> (NBackup, 's) result" where
  "nobus_GetBackup env c ctx projectID az backupID s =
     (case nobus_object env c ctx ''GET'' ''/api/v3/volume/backup''
             (Some (query_Set ''backup_id'' backupID (projectQuery projectID az))) None (dec_data dec_NBackup) zero_NBackup s of
        (Inl err, s1) \<Rightarrow> (Inl err, s1)
      | (Inr data, s1) \<Rightarrow>
          if nb_ID data = '''' then (Inl (Wrap (''backup '' @ backupID) [Sentinel ErrNotFound]), s1)
          else (Inr data, s1))"

definition nobus_DeleteBackup ::
  "'s NobusEnv \<Rightarrow> NobusClient \<Rightarrow> 's Context \<Rightarrow> string \<Rightarrow> string \<Rightarrow> string \<Rightarrow> 's \<Rightarrow> (unit, 's) result" where
  "nobus_DeleteBackup env c ctx projectID az backupID =
     nobus_do env c ctx ''DELETE'' ''/api/v3/volume/backup''
       (Some (query_Set ''backup_id'' backupID (projectQuery projectID az))) None discard"

definition WaitBackupStatus ::
  "'s NobusEnv \<Rightarrow> NobusClient \<Rightarrow> 's Context \<Rightarrow> string \<Rightarrow> string \<Rightarrow> string \<Rightarrow> string list \<Rightarrow> 's \<Rightarrow>
     goerr option \<times> NBackup option \<times> 's" where
  "WaitBackupStatus env c ctx projectID az backupID want =
     waitStatus env c ctx 600000 (\<lambda>ctx. nobus_GetBackup env c ctx projectID az backupID) nb_Status want"

section \<open>The catalogue\<close>

record Flavor =
  fl_ID :: string
  fl_Name :: string
  fl_VCPUs :: int
  fl_RAM :: int
  fl_Disk :: int

record Image =
  img_ID :: string
  img_Name :: string

record Project =
  pj_ID :: string
  pj_Name :: string
  pj_AvailabilityZone :: string
  pj_IsDefault :: bool

record AvailabilityZone =
  az_Name :: string

definition dec_Flavor :: "Flavor decoder" where
  "dec_Flavor = dec_struct
     [field ''id'' fl_ID fl_ID_update dec_string, field ''name'' fl_Name fl_Name_update dec_string,
      field ''vcpus'' fl_VCPUs fl_VCPUs_update dec_int, field ''ram'' fl_RAM fl_RAM_update dec_int,
      field ''disk'' fl_Disk fl_Disk_update dec_int]"

definition dec_Image :: "Image decoder" where
  "dec_Image = dec_struct
     [field ''id'' img_ID img_ID_update dec_string, field ''name'' img_Name img_Name_update dec_string]"

definition dec_Project :: "Project decoder" where
  "dec_Project = dec_struct
     [field ''id'' pj_ID pj_ID_update dec_string, field ''name'' pj_Name pj_Name_update dec_string,
      field ''availability_zone'' pj_AvailabilityZone pj_AvailabilityZone_update dec_string,
      field ''is_default'' pj_IsDefault pj_IsDefault_update dec_bool]"

definition dec_AvailabilityZone :: "AvailabilityZone decoder" where
  "dec_AvailabilityZone = dec_struct [field ''name'' az_Name az_Name_update dec_string]"

definition ListFlavors :: "'s NobusEnv \<Rightarrow> NobusClient \<Rightarrow> 's Context \<Rightarrow> string \<Rightarrow> string \<Rightarrow> 's \<Rightarrow> (Flavor list, 's) result" where
  "ListFlavors env c ctx projectID az =
     nobus_list env c ctx ''/api/v3/flavor/'' (Some (projectQuery projectID az)) dec_Flavor
       \<lparr>fl_ID = '''', fl_Name = '''', fl_VCPUs = 0, fl_RAM = 0, fl_Disk = 0\<rparr>"

definition ListImages :: "'s NobusEnv \<Rightarrow> NobusClient \<Rightarrow> 's Context \<Rightarrow> string \<Rightarrow> string \<Rightarrow> 's \<Rightarrow> (Image list, 's) result" where
  "ListImages env c ctx projectID az =
     nobus_list env c ctx ''/api/v3/image/'' (Some (projectQuery projectID az)) dec_Image
       \<lparr>img_ID = '''', img_Name = ''''\<rparr>"

definition ListProjects :: "'s NobusEnv \<Rightarrow> NobusClient \<Rightarrow> 's Context \<Rightarrow> 's \<Rightarrow> (Project list, 's) result" where
  "ListProjects env c ctx =
     nobus_list env c ctx ''/api/v3/project/'' None dec_Project
       \<lparr>pj_ID = '''', pj_Name = '''', pj_AvailabilityZone = '''', pj_IsDefault = False\<rparr>"

definition ListAvailabilityZones ::
  "'s NobusEnv \<Rightarrow> NobusClient \<Rightarrow> 's Context \<Rightarrow> string \<Rightarrow> string \<Rightarrow> 's \<Rightarrow> (AvailabilityZone list, 's) result" where
  "ListAvailabilityZones env c ctx projectID az =
     nobus_list env c ctx ''/api/v3/volume/availability_zone/list'' (Some (projectQuery projectID az))
       dec_AvailabilityZone \<lparr>az_Name = ''''\<rparr>"

text \<open>The loop the three \<open>Find\<close> functions share.\<close>

definition find_named ::
  "('s \<Rightarrow> ('a list, 's) result) \<Rightarrow> ('a \<Rightarrow> string) \<Rightarrow> ('a \<Rightarrow> string) \<Rightarrow> string \<Rightarrow> string \<Rightarrow> 's \<Rightarrow> ('a, 's) result" where
  "find_named items the_id the_name kind nameOrID s =
     (case items s of
        (Inl err, s1) \<Rightarrow> (Inl err, s1)
      | (Inr xs, s1) \<Rightarrow>
          (case find (\<lambda>item. the_id item = nameOrID \<or> the_name item = nameOrID) xs of
             Some item \<Rightarrow> (Inr item, s1)
           | None \<Rightarrow> (Inl (Wrap (kind @ '' '' @ nameOrID) [Sentinel ErrNotFound]), s1)))"

definition FindFlavor ::
  "'s NobusEnv \<Rightarrow> NobusClient \<Rightarrow> 's Context \<Rightarrow> string \<Rightarrow> string \<Rightarrow> string \<Rightarrow> 's \<Rightarrow> (Flavor, 's) result" where
  "FindFlavor env c ctx projectID az = find_named (ListFlavors env c ctx projectID az) fl_ID fl_Name ''flavor''"

definition FindImage ::
  "'s NobusEnv \<Rightarrow> NobusClient \<Rightarrow> 's Context \<Rightarrow> string \<Rightarrow> string \<Rightarrow> string \<Rightarrow> 's \<Rightarrow> (Image, 's) result" where
  "FindImage env c ctx projectID az = find_named (ListImages env c ctx projectID az) img_ID img_Name ''image''"

definition FindProject :: "'s NobusEnv \<Rightarrow> NobusClient \<Rightarrow> 's Context \<Rightarrow> string \<Rightarrow> 's \<Rightarrow> (Project, 's) result" where
  "FindProject env c ctx = find_named (ListProjects env c ctx) pj_ID pj_Name ''project''"

end
