(* ===== verification/PulumiScope.thy ===== *)
theory PulumiScope
  imports NobusStorage Locks
begin

text \<open>
  \<open>pulumi-nobus/provider/pkg/provider\<close>: \<open>types.go\<close> (scoped identifiers and differences),
  \<open>check.go\<close> (checks of inputs and comparisons of lists), the configuration of \<open>provider.go\<close> and the
  lookups of \<open>functions.go\<close>.  The Pulumi SDK (schemas, \<open>infer.DefaultCheck\<close>) is library code.
\<close>

section \<open>Scoped identifiers\<close>

definition ScopedID :: "string \<Rightarrow> string \<Rightarrow> string \<Rightarrow> string" where
  "ScopedID availabilityZone projectID resourceID =
     availabilityZone @ ''/'' @ projectID @ ''/'' @ resourceID"

definition ParseScopedID :: "string \<Rightarrow> string \<times> string \<times> string" where
  "ParseScopedID rid =
     (case strings_Split rid (CHR ''/'') of
        [az, project, resource] \<Rightarrow> (az, project, resource)
      | [az, resource] \<Rightarrow> (az, '''', resource)
      | _ \<Rightarrow> ('''', '''', rid))"

definition BareResourceID :: "string \<Rightarrow> string" where
  "BareResourceID rid = snd (snd (ParseScopedID rid))"

definition bareIDs :: "string list \<Rightarrow> string list" where
  "bareIDs ids = map BareResourceID ids"

section \<open>Differences\<close>

datatype diff_kind = UpdateReplace | Update

type_synonym diff = "(string \<times> diff_kind) list"

definition replaceDiff :: "string \<Rightarrow> bool \<Rightarrow> diff \<Rightarrow> diff" where
  "replaceDiff fld changed out = (if changed then AList.update fld UpdateReplace out else out)"

definition updateDiff :: "string \<Rightarrow> bool \<Rightarrow> diff \<Rightarrow> diff" where
  "updateDiff fld changed out = (if changed then AList.update fld Update out else out)"

record DiffResponse =
  dr_DeleteBeforeReplace :: bool
  dr_HasChanges :: bool
  dr_DetailedDiff :: diff

definition diffResponse :: "diff \<Rightarrow> DiffResponse" where
  "diffResponse d = \<lparr>dr_DeleteBeforeReplace = True, dr_HasChanges = (length d > 0), dr_DetailedDiff = d\<rparr>"

definition requireAZ :: "string \<Rightarrow> goerr option" where
  "requireAZ az =
     (if strings_TrimSpace az = ''''
      then Some (Foreign ''availabilityZone is required on the resource (Nobus has multiple AZs; set it explicitly like DigitalOcean region)'')
      else None)"

section \<open>Comparing lists and pointers\<close>

text \<open>The loop over the two sorted copies.\<close>

fun bare_equal :: "string list \<Rightarrow> string list \<Rightarrow> bool" where
  "bare_equal (x # xs) (y # ys) = (if BareResourceID x \<noteq> BareResourceID y then False else bare_equal xs ys)"
| "bare_equal _ _ = True"

definition stringSlicesEqual :: "string list \<Rightarrow> string list \<Rightarrow> bool" where
  "stringSlicesEqual a b = (if length a \<noteq> length b then False else bare_equal (sort a) (sort b))"

definition intPtrEqual :: "int option \<Rightarrow> int option \<Rightarrow> bool" where
  "intPtrEqual a b =
     (if a = None \<and> b = None then True
      else if a = None \<or> b = None then False
      else the a = the b)"

text \<open>
  The sets are Go maps: each identifier once, in an order that the sorting removes.
\<close>

definition sliceDiff :: "string list \<Rightarrow> string list \<Rightarrow> string list \<times> string list" where
  "sliceDiff old news =
     (let oldSet = remdups (map BareResourceID old);
          newSet = remdups (map BareResourceID news)
      in (sort (filter (\<lambda>v. v \<notin> set oldSet) newSet), sort (filter (\<lambda>v. v \<notin> set newSet) oldSet)))"

section \<open>The configuration of the provider\<close>

record PSettings =
  pc_APIKey :: string
  pc_Endpoint :: string
  pc_ProjectID :: string
  pc_AvailabilityZone :: string

record PConfig = PSettings +
  pc_client :: NobusClient

definition Configure :: "(string \<Rightarrow> string) \<Rightarrow> (string \<Rightarrow> goerr + URL) \<Rightarrow> PSettings \<Rightarrow> goerr + PConfig" where
  "Configure getenv url_Parse c =
     (let c = (if pc_APIKey c = '''' then c\<lparr>pc_APIKey := getenv ''NOBUS_API_KEY''\<rparr> else c);
          c = (if pc_Endpoint c = '''' then c\<lparr>pc_Endpoint := getenv ''NOBUS_ENDPOINT''\<rparr> else c);
          c = (if pc_ProjectID c = '''' then c\<lparr>pc_ProjectID := getenv ''NOBUS_PROJECT_ID''\<rparr> else c);
          c = (if pc_AvailabilityZone c = '''' then c\<lparr>pc_AvailabilityZone := getenv ''NOBUS_AVAILABILITY_ZONE''\<rparr> else c)
      in case nobus_NewClient url_Parse \<lparr>nf_Endpoint = pc_Endpoint c, nf_APIKey = pc_APIKey c, nf_Poll = 0\<rparr> of
           Inl err \<Rightarrow> Inl err
         | Inr client \<Rightarrow> Inr (PSettings.extend c \<lparr>pc_client = client\<rparr>))"

definition ResolveProject :: "PConfig \<Rightarrow> string \<Rightarrow> goerr + string" where
  "ResolveProject c projectID =
     (let projectID = (if projectID = '''' then pc_ProjectID c else projectID)
      in if projectID = '''' then Inl (Foreign ''projectId is required (set on the resource or provider)'')
         else Inr projectID)"

definition ResolveScope :: "PConfig \<Rightarrow> string \<Rightarrow> string \<Rightarrow> goerr + string \<times> string" where
  "ResolveScope c projectID availabilityZone =
     (case ResolveProject c projectID of
        Inl err \<Rightarrow> Inl err
      | Inr projectID \<Rightarrow>
          (let az = (if availabilityZone = '''' then pc_AvailabilityZone c else availabilityZone)
           in case requireAZ az of Some err \<Rightarrow> Inl err | None \<Rightarrow> Inr (projectID, az)))"

definition ResolveImport :: "PConfig \<Rightarrow> string \<Rightarrow> string \<Rightarrow> string \<Rightarrow> goerr + string \<times> string \<times> string" where
  "ResolveImport c rid projectID availabilityZone =
     (case ParseScopedID rid of (parsedAZ, parsedProject, resourceID) \<Rightarrow>
        (let az = (if availabilityZone = '''' then parsedAZ else availabilityZone);
             project = (if projectID = '''' then parsedProject else projectID)
         in case ResolveScope c project az of
              Inl err \<Rightarrow> Inl err
            | Inr (project, az) \<Rightarrow> Inr (az, project, resourceID)))"

text \<open>The identifier that is resolved is the bare one.\<close>

lemma ResolveImport_id: "ResolveImport c rid p z = Inr (az, project, i) \<Longrightarrow> i = BareResourceID rid"
  by (auto simp: ResolveImport_def BareResourceID_def Let_def split: prod.splits sum.splits)

section \<open>Checking inputs\<close>

text \<open>
  A property map; of a value the code asks whether it is null, or a string and which.
\<close>

datatype propval = PNull | PString string | POther string

type_synonym PropertyMap = "(string \<times> propval) list"

record CheckFailure =
  cf_Property :: string
  cf_Reason :: string

definition blankInput :: "PropertyMap \<Rightarrow> string \<Rightarrow> bool" where
  "blankInput inputs key =
     (case map_of inputs key of
        None \<Rightarrow> True
      | Some PNull \<Rightarrow> True
      | Some (PString v) \<Rightarrow> strings_TrimSpace v = ''''
      | Some (POther _) \<Rightarrow> False)"

definition default_inputs :: "PConfig option \<Rightarrow> PropertyMap \<Rightarrow> PropertyMap" where
  "default_inputs cfg inputs =
     (case cfg of
        None \<Rightarrow> inputs
      | Some c \<Rightarrow>
          (let inputs = (if blankInput inputs ''availabilityZone'' \<and> pc_AvailabilityZone c \<noteq> ''''
                then AList.update ''availabilityZone'' (PString (pc_AvailabilityZone c)) inputs else inputs)
           in if blankInput inputs ''projectId'' \<and> pc_ProjectID c \<noteq> ''''
              then AList.update ''projectId'' (PString (pc_ProjectID c)) inputs else inputs))"

text \<open>\<open>DefaultCheck\<close> is \<open>infer.DefaultCheck\<close> of the Pulumi SDK at the type of the arguments.\<close>

definition checkResourceArgs ::
  "PConfig option \<Rightarrow> (PropertyMap \<Rightarrow> 'i \<times> CheckFailure list \<times> goerr option) \<Rightarrow> PropertyMap \<Rightarrow> ('i \<Rightarrow> string) \<Rightarrow>
     'i \<times> CheckFailure list \<times> goerr option" where
  "checkResourceArgs cfg DefaultCheck newInputs availabilityZone =
     (let inputs = default_inputs cfg newInputs
      in case DefaultCheck inputs of (args, failures, err) \<Rightarrow>
           if err \<noteq> None \<or> failures \<noteq> [] then (args, failures, err)
           else (args,
             (if strings_TrimSpace (availabilityZone args) = ''''
              then failures @ [\<lparr>cf_Property = ''availabilityZone'',
                cf_Reason = ''availabilityZone is required (set on the resource or via provider config / NOBUS_AVAILABILITY_ZONE)''\<rparr>]
              else failures), None))"

section \<open>Lookups\<close>

record GetFlavorResult =
  gf_FlavorID :: string
  gf_Name :: string
  gf_VCPUs :: int
  gf_RAM :: int
  gf_Disk :: int

text \<open>A lookup within a scope: resolve project and zone, then ask the client.\<close>

definition GetFlavor ::
  "'s NobusEnv \<Rightarrow> PConfig \<Rightarrow> 's Context \<Rightarrow> string \<Rightarrow> string \<Rightarrow> string \<Rightarrow> 's \<Rightarrow> (GetFlavorResult, 's) result" where
  "GetFlavor env cfg ctx nameOrID az projectID s =
     (case ResolveScope cfg projectID az of
        Inl err \<Rightarrow> (Inl err, s)
      | Inr (project, zone) \<Rightarrow>
          (case FindFlavor env (pc_client cfg) ctx project zone nameOrID s of
             (Inl err, s1) \<Rightarrow> (Inl err, s1)
           | (Inr flavor, s1) \<Rightarrow>
               (Inr \<lparr>gf_FlavorID = fl_ID flavor, gf_Name = fl_Name flavor, gf_VCPUs = fl_VCPUs flavor,
                     gf_RAM = fl_RAM flavor, gf_Disk = fl_Disk flavor\<rparr>, s1)))"

definition GetImage ::
  "'s NobusEnv \<Rightarrow> PConfig \<Rightarrow> 's Context \<Rightarrow> string \<Rightarrow> string \<Rightarrow> string \<Rightarrow> 's \<Rightarrow> (string \<times> string, 's) result" where
  "GetImage env cfg ctx nameOrID az projectID s =
     (case ResolveScope cfg projectID az of
        Inl err \<Rightarrow> (Inl err, s)
      | Inr (project, zone) \<Rightarrow>
          (case FindImage env (pc_client cfg) ctx project zone nameOrID s of
             (Inl err, s1) \<Rightarrow> (Inl err, s1)
           | (Inr img, s1) \<Rightarrow> (Inr (img_ID img, img_Name img), s1)))"

definition GetProject :: "'s NobusEnv \<Rightarrow> PConfig \<Rightarrow> 's Context \<Rightarrow> string \<Rightarrow> 's \<Rightarrow> (Project, 's) result" where
  "GetProject env cfg ctx nameOrID s =
     (if nameOrID \<noteq> '''' then FindProject env (pc_client cfg) ctx nameOrID s
      else if pc_ProjectID cfg \<noteq> '''' then FindProject env (pc_client cfg) ctx (pc_ProjectID cfg) s
      else (case ListProjects env (pc_client cfg) ctx s of
          (Inl err, s1) \<Rightarrow> (Inl err, s1)
        | (Inr projects, s1) \<Rightarrow>
            (case find pj_IsDefault projects of
               Some project \<Rightarrow> (Inr project, s1)
             | None \<Rightarrow> (case projects of
                   [] \<Rightarrow> (Inl (Wrap ''project'' [Sentinel ErrNotFound]), s1)
                 | project # _ \<Rightarrow> (Inr project, s1)))))"

definition GetAvailabilityZones ::
  "'s NobusEnv \<Rightarrow> PConfig \<Rightarrow> 's Context \<Rightarrow> string \<Rightarrow> string \<Rightarrow> 's \<Rightarrow> (string list, 's) result" where
  "GetAvailabilityZones env cfg ctx az projectID s =
     (case ResolveScope cfg projectID az of
        Inl err \<Rightarrow> (Inl err, s)
      | Inr (project, zone) \<Rightarrow>
          (case ListAvailabilityZones env (pc_client cfg) ctx project zone s of
             (Inl err, s1) \<Rightarrow> (Inl err, s1)
           | (Inr zones, s1) \<Rightarrow> (Inr (filter (\<lambda>n. n \<noteq> '''') (map az_Name zones)), s1)))"

section \<open>Identifiers and scopes\<close>

lemma ParseScopedID_ScopedID:
  "CHR ''/'' \<notin> set az \<Longrightarrow> CHR ''/'' \<notin> set project \<Longrightarrow> CHR ''/'' \<notin> set resource \<Longrightarrow>
     ParseScopedID (ScopedID az project resource) = (az, project, resource)"
  by (simp add: ParseScopedID_def ScopedID_def strings_Split_append strings_Split_none)

lemma BareResourceID_ScopedID:
  "CHR ''/'' \<notin> set az \<Longrightarrow> CHR ''/'' \<notin> set project \<Longrightarrow> CHR ''/'' \<notin> set resource \<Longrightarrow>
     BareResourceID (ScopedID az project resource) = resource"
  by (simp add: BareResourceID_def ParseScopedID_ScopedID)

lemma BareResourceID_bare: "CHR ''/'' \<notin> set rid \<Longrightarrow> BareResourceID rid = rid"
  by (simp add: BareResourceID_def ParseScopedID_def strings_Split_none)

end
