(* ===== verification/PulumiVolume.thy ===== *)
theory PulumiVolume
  imports PulumiScope
begin

text \<open>
  \<open>pulumi-nobus/provider/pkg/provider/volume.go\<close>: the resources \<open>Volume\<close> and \<open>VolumeAttachment\<close>.  Every
  operation returns what the Go method returns, an error beside the other results, since a resource
  that was created and did not become ready is reported with both.
\<close>

text \<open>\<open>maps.Equal\<close>.\<close>

definition maps_Equal :: "gomap \<Rightarrow> gomap \<Rightarrow> bool" where
  "maps_Equal m n = list_all (\<lambda>k. map_of m k = map_of n k) (map fst m @ map fst n)"

lemma maps_Equal_iff: "maps_Equal m n \<longleftrightarrow> map_of m = map_of n"
proof
  assume eq: "maps_Equal m n"
  show "map_of m = map_of n"
  proof
    fix k
    show "map_of m k = map_of n k"
    proof (cases "k \<in> fst ` set m \<union> fst ` set n")
      case True
      with eq show ?thesis by (auto simp: maps_Equal_def list_all_iff)
    next
      case False
      then have "map_of m k = None" "map_of n k = None" by (auto simp: map_of_eq_None_iff)
      then show ?thesis by simp
    qed
  qed
next
  assume "map_of m = map_of n"
  then show "maps_Equal m n" by (simp add: maps_Equal_def list_all_iff)
qed

text \<open>\<open>errors.Is(err, ErrNotFound)\<close> after a deletion: what is gone counts as deleted.\<close>

definition forgive_NotFound :: "(unit, 's) result \<Rightarrow> goerr option \<times> 's" where
  "forgive_NotFound r =
     (case r of
        (Inl err, s1) \<Rightarrow> (if errors_is err ErrNotFound then None else Some err, s1)
      | (Inr _, s1) \<Rightarrow> (None, s1))"

section \<open>Volume\<close>

record VolumeArgs =
  va_Size :: int
  va_AvailabilityZone :: string
  va_Name :: string
  va_Description :: string
  va_VolumeType :: string
  va_ProjectID :: string
  va_SnapshotID :: string
  va_SourceVolID :: string
  va_ImageRef :: string
  va_Metadata :: gomap
  va_Multiattach :: "bool option"

record VolumeState =
  vs_Args :: VolumeArgs
  vs_Status :: string
  vs_Multiattach :: bool
  vs_AttachedTo :: string
  vs_Device :: string

definition zero_VolumeArgs :: VolumeArgs where
  "zero_VolumeArgs = \<lparr>va_Size = 0, va_AvailabilityZone = '''', va_Name = '''', va_Description = '''',
     va_VolumeType = '''', va_ProjectID = '''', va_SnapshotID = '''', va_SourceVolID = '''', va_ImageRef = '''',
     va_Metadata = [], va_Multiattach = None\<rparr>"

definition VolumeState_of :: "VolumeArgs \<Rightarrow> VolumeState" where
  "VolumeState_of args = \<lparr>vs_Args = args, vs_Status = '''', vs_Multiattach = False, vs_AttachedTo = '''', vs_Device = ''''\<rparr>"

definition Volume_Check ::
  "PConfig option \<Rightarrow> (PropertyMap \<Rightarrow> VolumeArgs \<times> CheckFailure list \<times> goerr option) \<Rightarrow> PropertyMap \<Rightarrow>
     VolumeArgs \<times> CheckFailure list \<times> goerr option" where
  "Volume_Check cfg DefaultCheck newInputs =
     (case checkResourceArgs cfg DefaultCheck newInputs va_AvailabilityZone of (args, failures, err) \<Rightarrow>
        if err \<noteq> None \<or> failures \<noteq> [] then (args, failures, err)
        else (args,
          (if va_Size args \<le> 0
           then failures @ [\<lparr>cf_Property = ''size'', cf_Reason = ''size must be greater than 0''\<rparr>]
           else failures), None))"

definition stateFromVolume :: "VolumeArgs \<Rightarrow> NVolume \<Rightarrow> VolumeState" where
  "stateFromVolume input vol =
     (let args = input;
          args = (if va_Name args = '''' then args\<lparr>va_Name := nv_Name vol\<rparr> else args);
          args = (if va_Description args = '''' then args\<lparr>va_Description := nv_Description vol\<rparr> else args);
          args = (if va_VolumeType args = '''' then args\<lparr>va_VolumeType := nv_VolumeType vol\<rparr> else args);
          args = (if va_Size args = 0 then args\<lparr>va_Size := nv_Size vol\<rparr> else args);
          state = \<lparr>vs_Args = args, vs_Status = nv_Status vol, vs_Multiattach = nv_Multiattach vol,
                   vs_AttachedTo = '''', vs_Device = ''''\<rparr>
      in case nv_Attachments vol of
           [] \<Rightarrow> state
         | a # _ \<Rightarrow> state\<lparr>vs_AttachedTo := na_ServerID a, vs_Device := na_Device a\<rparr>)"

definition volume_create_request :: "VolumeArgs \<Rightarrow> string \<Rightarrow> string \<Rightarrow> CreateVolumeReq" where
  "volume_create_request input projectID az =
     \<lparr>cv_Size = va_Size input, cv_Name = va_Name input, cv_Description = va_Description input,
      cv_VolumeType = va_VolumeType input, cv_AvailabilityZone = az,
      cv_SnapshotID = BareResourceID (va_SnapshotID input),
      cv_SourceVolID = BareResourceID (va_SourceVolID input),
      cv_ImageRef = BareResourceID (va_ImageRef input),
      cv_Metadata = va_Metadata input, cv_Multiattach = va_Multiattach input, cv_ProjectID = projectID\<rparr>"

definition Volume_Create ::
  "'s NobusEnv \<Rightarrow> PConfig \<Rightarrow> 's Context \<Rightarrow> string \<Rightarrow> VolumeArgs \<Rightarrow> bool \<Rightarrow> 's \<Rightarrow>
     (string \<times> VolumeState \<times> goerr option) \<times> 's" where
  "Volume_Create env cfg ctx name input preview s =
     (case ResolveScope cfg (va_ProjectID input) (va_AvailabilityZone input) of
        Inl err \<Rightarrow> (('''', VolumeState_of zero_VolumeArgs, Some err), s)
      | Inr (projectID, az) \<Rightarrow>
          (let input = input\<lparr>va_ProjectID := projectID, va_AvailabilityZone := az\<rparr>
           in if preview then ((ScopedID az projectID name, VolumeState_of input, None), s)
              else (case nobus_CreateVolume env (pc_client cfg) ctx (volume_create_request input projectID az) s of
                  (Inl err, s1) \<Rightarrow> (('''', VolumeState_of zero_VolumeArgs, Some err), s1)
                | (Inr created, s1) \<Rightarrow>
                    (case WaitVolumeStatus env (pc_client cfg) ctx projectID az (nv_ID created) [''available''] s1 of
                       (None, Some ready, s2) \<Rightarrow>
                         ((ScopedID az projectID (nv_ID ready), stateFromVolume input ready, None), s2)
                     | (err, _, s2) \<Rightarrow>
                         ((ScopedID az projectID (nv_ID created), stateFromVolume input created, err), s2)))))"

definition Volume_Read ::
  "'s NobusEnv \<Rightarrow> PConfig \<Rightarrow> 's Context \<Rightarrow> string \<Rightarrow> VolumeArgs \<Rightarrow> VolumeState \<Rightarrow> 's \<Rightarrow>
     (string \<times> VolumeArgs \<times> VolumeState \<times> goerr option) \<times> 's" where
  "Volume_Read env cfg ctx rid inputs state s =
     (case ResolveImport cfg rid (cmp_Or [va_ProjectID (vs_Args state), va_ProjectID inputs])
             (cmp_Or [va_AvailabilityZone (vs_Args state), va_AvailabilityZone inputs]) of
        Inl err \<Rightarrow> ((rid, inputs, state, Some err), s)
      | Inr (az, projectID, resourceID) \<Rightarrow>
          (case nobus_GetVolume env (pc_client cfg) ctx projectID az resourceID s of
             (Inl err, s1) \<Rightarrow>
               if errors_is err ErrNotFound
               then (('''', zero_VolumeArgs, VolumeState_of zero_VolumeArgs, None), s1)
               else ((rid, inputs, state, Some err), s1)
           | (Inr got, s1) \<Rightarrow>
               (let args = vs_Args state;
                    args = (if va_Size args = 0 then inputs else args);
                    args = args\<lparr>va_ProjectID := projectID, va_AvailabilityZone := az\<rparr>;
                    state = stateFromVolume args got
                in ((ScopedID az projectID (nv_ID got), vs_Args state, state, None), s1))))"

definition Volume_Diff :: "VolumeState \<Rightarrow> VolumeArgs \<Rightarrow> DiffResponse" where
  "Volume_Diff olds news =
     (let old = vs_Args olds;
          diff = [];
          diff = replaceDiff ''availabilityZone''
            (va_AvailabilityZone news \<noteq> '''' \<and> va_AvailabilityZone old \<noteq> va_AvailabilityZone news) diff;
          diff = replaceDiff ''size'' (va_Size news \<noteq> 0 \<and> va_Size old \<noteq> va_Size news) diff;
          diff = replaceDiff ''volumeType'' (va_VolumeType news \<noteq> '''' \<and> va_VolumeType old \<noteq> va_VolumeType news) diff;
          diff = replaceDiff ''snapshotId'' (va_SnapshotID news \<noteq> '''' \<and> va_SnapshotID old \<noteq> va_SnapshotID news) diff;
          diff = replaceDiff ''sourceVolId'' (va_SourceVolID news \<noteq> '''' \<and> va_SourceVolID old \<noteq> va_SourceVolID news) diff;
          diff = replaceDiff ''imageRef'' (va_ImageRef news \<noteq> '''' \<and> va_ImageRef old \<noteq> va_ImageRef news) diff;
          diff = updateDiff ''name'' (va_Name news \<noteq> '''' \<and> va_Name old \<noteq> va_Name news) diff;
          diff = updateDiff ''description'' (va_Description old \<noteq> va_Description news) diff;
          diff = updateDiff ''metadata'' (\<not> maps_Equal (va_Metadata old) (va_Metadata news)) diff
      in diffResponse diff)"

definition Volume_Update ::
  "'s NobusEnv \<Rightarrow> PConfig \<Rightarrow> 's Context \<Rightarrow> string \<Rightarrow> VolumeState \<Rightarrow> VolumeArgs \<Rightarrow> bool \<Rightarrow> 's \<Rightarrow>
     (VolumeState \<times> goerr option) \<times> 's" where
  "Volume_Update env cfg ctx rid olds news preview s =
     (case ResolveImport cfg rid (cmp_Or [va_ProjectID news, va_ProjectID (vs_Args olds)])
             (cmp_Or [va_AvailabilityZone news, va_AvailabilityZone (vs_Args olds)]) of
        Inl err \<Rightarrow> ((olds, Some err), s)
      | Inr (az, projectID, resourceID) \<Rightarrow>
          (let news = news\<lparr>va_ProjectID := projectID, va_AvailabilityZone := az\<rparr>;
               state = olds\<lparr>vs_Args := news\<rparr>
           in if preview then ((state, None), s)
              else (case nobus_UpdateVolume env (pc_client cfg) ctx resourceID
                       \<lparr>uv_Name = va_Name news, uv_Description = va_Description news, uv_Metadata = va_Metadata news,
                        uv_ProjectID = projectID, uv_AvailabilityZone = az\<rparr> s of
                  (Inl err, s1) \<Rightarrow> ((state, Some err), s1)
                | (Inr updated, s1) \<Rightarrow> ((stateFromVolume news updated, None), s1))))"

definition Volume_Delete ::
  "'s NobusEnv \<Rightarrow> PConfig \<Rightarrow> 's Context \<Rightarrow> string \<Rightarrow> VolumeState \<Rightarrow> 's \<Rightarrow> goerr option \<times> 's" where
  "Volume_Delete env cfg ctx rid state s =
     (case ResolveImport cfg rid (va_ProjectID (vs_Args state)) (va_AvailabilityZone (vs_Args state)) of
        Inl err \<Rightarrow> (Some err, s)
      | Inr (az, projectID, resourceID) \<Rightarrow>
          forgive_NotFound (nobus_DeleteVolume env (pc_client cfg) ctx projectID az resourceID s))"

section \<open>VolumeAttachment\<close>

record VolumeAttachmentArgs =
  ta_VolumeID :: string
  ta_InstanceID :: string
  ta_AvailabilityZone :: string
  ta_ProjectID :: string

record VolumeAttachmentState =
  ts_Args :: VolumeAttachmentArgs
  ts_Device :: string

definition zero_VolumeAttachmentArgs :: VolumeAttachmentArgs where
  "zero_VolumeAttachmentArgs = \<lparr>ta_VolumeID = '''', ta_InstanceID = '''', ta_AvailabilityZone = '''', ta_ProjectID = ''''\<rparr>"

definition zero_VolumeAttachmentState :: VolumeAttachmentState where
  "zero_VolumeAttachmentState = \<lparr>ts_Args = zero_VolumeAttachmentArgs, ts_Device = ''''\<rparr>"

definition VolumeAttachment_Check ::
  "PConfig option \<Rightarrow> (PropertyMap \<Rightarrow> VolumeAttachmentArgs \<times> CheckFailure list \<times> goerr option) \<Rightarrow> PropertyMap \<Rightarrow>
     VolumeAttachmentArgs \<times> CheckFailure list \<times> goerr option" where
  "VolumeAttachment_Check cfg DefaultCheck newInputs =
     (case checkResourceArgs cfg DefaultCheck newInputs ta_AvailabilityZone of (args, failures, err) \<Rightarrow>
        if err \<noteq> None \<or> failures \<noteq> [] then (args, failures, err)
        else (args,
          failures @
          (if ta_VolumeID args = '''' then [\<lparr>cf_Property = ''volumeId'', cf_Reason = ''volumeId is required''\<rparr>] else []) @
          (if ta_InstanceID args = '''' then [\<lparr>cf_Property = ''instanceId'', cf_Reason = ''instanceId is required''\<rparr>] else []),
          None))"

definition VolumeAttachment_Create ::
  "'s NobusEnv \<Rightarrow> PConfig \<Rightarrow> 's Context \<Rightarrow> string \<Rightarrow> VolumeAttachmentArgs \<Rightarrow> bool \<Rightarrow> 's \<Rightarrow>
     (string \<times> VolumeAttachmentState \<times> goerr option) \<times> 's" where
  "VolumeAttachment_Create env cfg ctx name input preview s =
     (case ResolveScope cfg (ta_ProjectID input) (ta_AvailabilityZone input) of
        Inl err \<Rightarrow> (('''', zero_VolumeAttachmentState, Some err), s)
      | Inr (projectID, az) \<Rightarrow>
          (let volumeID = BareResourceID (ta_VolumeID input);
               instanceID = BareResourceID (ta_InstanceID input);
               input = \<lparr>ta_VolumeID = volumeID, ta_InstanceID = instanceID, ta_AvailabilityZone = az, ta_ProjectID = projectID\<rparr>;
               state = \<lparr>ts_Args = input, ts_Device = ''''\<rparr>;
               rid = ScopedID az projectID (volumeID @ '':'' @ instanceID)
           in if preview then ((rid, state, None), s)
              else (case nobus_AttachVolume env (pc_client cfg) ctx
                       \<lparr>at_ProjectID = projectID, at_AvailabilityZone = az, at_ServerID = instanceID, at_VolumeID = volumeID\<rparr> s of
                  (Inl err, s1) \<Rightarrow> (('''', zero_VolumeAttachmentState, Some err), s1)
                | (Inr _, s1) \<Rightarrow>
                    (case WaitVolumeAttached env (pc_client cfg) ctx projectID az volumeID instanceID s1 of
                       (Some err, _, s2) \<Rightarrow> ((rid, state, Some err), s2)
                     | (None, device, s2) \<Rightarrow> ((rid, state\<lparr>ts_Device := device\<rparr>, None), s2)))))"

text \<open>The two identifiers of an attachment that is read: those of the state, or of its scoped identifier.\<close>

definition attachment_ids :: "VolumeAttachmentArgs \<Rightarrow> VolumeAttachmentArgs \<Rightarrow> string \<Rightarrow> string \<times> string" where
  "attachment_ids old inputs resourceID =
     (let volumeID = BareResourceID (cmp_Or [ta_VolumeID old, ta_VolumeID inputs]);
          instanceID = BareResourceID (cmp_Or [ta_InstanceID old, ta_InstanceID inputs])
      in if volumeID = '''' \<or> instanceID = ''''
         then (case strings_Cut resourceID (CHR '':'') of (volPart, instPart, found) \<Rightarrow>
             (if volumeID = '''' then volPart else volumeID,
              if instanceID = '''' \<and> found then instPart else instanceID))
         else (volumeID, instanceID))"

definition VolumeAttachment_Read ::
  "'s NobusEnv \<Rightarrow> PConfig \<Rightarrow> 's Context \<Rightarrow> string \<Rightarrow> VolumeAttachmentArgs \<Rightarrow> VolumeAttachmentState \<Rightarrow> 's \<Rightarrow>
     (string \<times> VolumeAttachmentArgs \<times> VolumeAttachmentState \<times> goerr option) \<times> 's" where
  "VolumeAttachment_Read env cfg ctx rid inputs state s =
     (case ResolveImport cfg rid (cmp_Or [ta_ProjectID (ts_Args state), ta_ProjectID inputs])
             (cmp_Or [ta_AvailabilityZone (ts_Args state), ta_AvailabilityZone inputs]) of
        Inl err \<Rightarrow> ((rid, inputs, state, Some err), s)
      | Inr (az, projectID, resourceID) \<Rightarrow>
          (case attachment_ids (ts_Args state) inputs resourceID of (volumeID, instanceID) \<Rightarrow>
             (case nobus_GetVolume env (pc_client cfg) ctx projectID az volumeID s of
                (Inl err, s1) \<Rightarrow>
                  if errors_is err ErrNotFound
                  then (('''', zero_VolumeAttachmentArgs, zero_VolumeAttachmentState, None), s1)
                  else ((rid, inputs, state, Some err), s1)
              | (Inr volume, s1) \<Rightarrow>
                  (case find (\<lambda>a. na_ServerID a = instanceID) (nv_Attachments volume) of
                     None \<Rightarrow> (('''', zero_VolumeAttachmentArgs, zero_VolumeAttachmentState, None), s1)
                   | Some a \<Rightarrow>
                       (let args = \<lparr>ta_VolumeID = volumeID, ta_InstanceID = instanceID,
                                    ta_AvailabilityZone = az, ta_ProjectID = projectID\<rparr>
                        in ((ScopedID az projectID (volumeID @ '':'' @ instanceID), args,
                             \<lparr>ts_Args = args, ts_Device = na_Device a\<rparr>, None), s1))))))"

definition VolumeAttachment_Diff :: "VolumeAttachmentState \<Rightarrow> VolumeAttachmentArgs \<Rightarrow> DiffResponse" where
  "VolumeAttachment_Diff olds news =
     (let old = ts_Args olds;
          diff = [];
          diff = replaceDiff ''availabilityZone''
            (ta_AvailabilityZone news \<noteq> '''' \<and> ta_AvailabilityZone old \<noteq> ta_AvailabilityZone news) diff;
          diff = replaceDiff ''volumeId''
            (ta_VolumeID news \<noteq> '''' \<and> BareResourceID (ta_VolumeID old) \<noteq> BareResourceID (ta_VolumeID news)) diff;
          diff = replaceDiff ''instanceId''
            (ta_InstanceID news \<noteq> '''' \<and> BareResourceID (ta_InstanceID old) \<noteq> BareResourceID (ta_InstanceID news)) diff
      in diffResponse diff)"

definition VolumeAttachment_Delete ::
  "'s NobusEnv \<Rightarrow> PConfig \<Rightarrow> 's Context \<Rightarrow> string \<Rightarrow> VolumeAttachmentState \<Rightarrow> 's \<Rightarrow> goerr option \<times> 's" where
  "VolumeAttachment_Delete env cfg ctx rid state s =
     (case ResolveImport cfg rid (ta_ProjectID (ts_Args state)) (ta_AvailabilityZone (ts_Args state)) of
        Inl err \<Rightarrow> (Some err, s)
      | Inr (az, projectID, _) \<Rightarrow>
          forgive_NotFound (nobus_DetachVolume env (pc_client cfg) ctx
            \<lparr>at_ProjectID = projectID, at_AvailabilityZone = az,
             at_ServerID = BareResourceID (ta_InstanceID (ts_Args state)),
             at_VolumeID = BareResourceID (ta_VolumeID (ts_Args state))\<rparr> s))"

end
