(* ===== verification/Addresses.thy ===== *)
theory Addresses
  imports NobusApi "HOL-Library.Multiset"
begin

text \<open>
  \<open>pulumi-nobus/provider/pkg/nobusapi/addresses.go\<close>: the address map of an instance, its two JSON
  shapes, and what the provider reads from it.  A Go map is an association list with distinct keys,
  in some order.
\<close>

record AddressEntry =
  ae_Addr :: string
  ae_Version :: int
  ae_Type :: string

type_synonym Addresses = "(string \<times> AddressEntry list) list"

definition zero_AddressEntry :: AddressEntry where
  "zero_AddressEntry = \<lparr>ae_Addr = '''', ae_Version = 0, ae_Type = ''''\<rparr>"

definition dec_AddressEntry :: "AddressEntry decoder" where
  "dec_AddressEntry = dec_struct
     [field ''addr'' ae_Addr ae_Addr_update dec_string,
      field ''version'' ae_Version ae_Version_update dec_int,
      field ''OS-EXT-IPS:type'' ae_Type ae_Type_update dec_string]"

definition decodeAddressEntries :: "json \<Rightarrow> goerr + AddressEntry list" where
  "decodeAddressEntries payload =
     (case payload of
        JNull \<Rightarrow> Inr []
      | JArray vs \<Rightarrow>
          (case dec_list dec_AddressEntry zero_AddressEntry (JArray vs) [] of
             (entries, True) \<Rightarrow> Inr entries
           | (entries, False) \<Rightarrow> Inl (Foreign ''json: cannot unmarshal''))
      | j \<Rightarrow>
          (case dec_AddressEntry j zero_AddressEntry of
             (one, True) \<Rightarrow>
               if ae_Addr one = '''' then Inl (Wrap ''address entry missing addr'' [Sentinel ErrInvalid]) else Inr [one]
           | (one, False) \<Rightarrow> Inl (Foreign ''json: cannot unmarshal'')))"

text \<open>The loop over the raw map, in some order of its members; the first error ends it.\<close>

fun decode_networks :: "(string \<times> json) list \<Rightarrow> Addresses \<Rightarrow> goerr + Addresses" where
  "decode_networks [] out = Inr out"
| "decode_networks ((name, payload) # rest) out =
     (case decodeAddressEntries payload of
        Inl err \<Rightarrow> Inl (Wrap (''decode addresses on '' @ name) [err])
      | Inr entries \<Rightarrow> decode_networks rest (AList.update name entries out))"

text \<open>
  \<open>UnmarshalJSON\<close>.  The raw map keeps the last of several members of one name.
\<close>

definition UnmarshalAddresses :: "json \<Rightarrow> goerr + Addresses" where
  "UnmarshalAddresses data =
     (case data of
        JNull \<Rightarrow> Inr []
      | JObject ms \<Rightarrow> decode_networks (fold (\<lambda>(k, v) m. AList.update k v m) ms []) []
      | _ \<Rightarrow> Inl (Wrap ''decode instance addresses'' [Foreign ''json: cannot unmarshal'']))"

record ParsedAddresses =
  pa_Networks :: "string list"
  pa_IPv4 :: "string list"
  pa_IPv6 :: "string list"
  pa_PrivateIPv4 :: string
  pa_PublicIPv4 :: string

definition empty_ParsedAddresses :: ParsedAddresses where
  "empty_ParsedAddresses = \<lparr>pa_Networks = [], pa_IPv4 = [], pa_IPv6 = [], pa_PrivateIPv4 = '''', pa_PublicIPv4 = ''''\<rparr>"

definition add_entry :: "AddressEntry \<Rightarrow> ParsedAddresses \<Rightarrow> ParsedAddresses" where
  "add_entry entry out =
     (if ae_Version entry = 6 then out\<lparr>pa_IPv6 := pa_IPv6 out @ [ae_Addr entry]\<rparr>
      else (let out = out\<lparr>pa_IPv4 := pa_IPv4 out @ [ae_Addr entry]\<rparr>
            in if ae_Type entry = ''floating'' \<or> ae_Type entry = ''public''
               then (if pa_PublicIPv4 out = '''' then out\<lparr>pa_PublicIPv4 := ae_Addr entry\<rparr> else out)
               else if pa_PrivateIPv4 out = '''' then out\<lparr>pa_PrivateIPv4 := ae_Addr entry\<rparr> else out))"

definition add_network :: "Addresses \<Rightarrow> string \<Rightarrow> ParsedAddresses \<Rightarrow> ParsedAddresses" where
  "add_network raw name out =
     fold add_entry (case map_of raw name of Some entries \<Rightarrow> entries | None \<Rightarrow> []) out"

text \<open>The two fallbacks at the end.\<close>

definition fallback_addresses :: "ParsedAddresses \<Rightarrow> ParsedAddresses" where
  "fallback_addresses out =
     (let out = (if pa_PrivateIPv4 out = '''' \<and> pa_IPv4 out \<noteq> [] then out\<lparr>pa_PrivateIPv4 := hd (pa_IPv4 out)\<rparr> else out)
      in if pa_PublicIPv4 out = '''' \<and> length (pa_IPv4 out) > 1 then out\<lparr>pa_PublicIPv4 := last (pa_IPv4 out)\<rparr> else out)"

definition ParseAddresses :: "Addresses \<Rightarrow> ParsedAddresses" where
  "ParseAddresses raw =
     (if raw = [] then empty_ParsedAddresses
      else (let networks = sort (map fst raw)
            in fallback_addresses (fold (add_network raw) networks (empty_ParsedAddresses\<lparr>pa_Networks := networks\<rparr>))))"

section \<open>Properties\<close>

abbreviation is_v4 :: "AddressEntry \<Rightarrow> bool" where
  "is_v4 e \<equiv> ae_Version e \<noteq> 6"

lemma add_entry_lists [simp]:
  "pa_IPv4 (add_entry e out) = pa_IPv4 out @ (if is_v4 e then [ae_Addr e] else [])"
  "pa_IPv6 (add_entry e out) = pa_IPv6 out @ (if is_v4 e then [] else [ae_Addr e])"
  "pa_Networks (add_entry e out) = pa_Networks out"
  by (simp_all add: add_entry_def Let_def)

lemma fold_add_entry_lists [simp]:
  "pa_IPv4 (fold add_entry es out) = pa_IPv4 out @ map ae_Addr (filter is_v4 es)"
  "pa_IPv6 (fold add_entry es out) = pa_IPv6 out @ map ae_Addr (filter (\<lambda>e. \<not> is_v4 e) es)"
  "pa_Networks (fold add_entry es out) = pa_Networks out"
  by (induction es arbitrary: out) auto

definition entries_of :: "Addresses \<Rightarrow> string list \<Rightarrow> AddressEntry list" where
  "entries_of raw names = concat (map (\<lambda>n. case map_of raw n of Some es \<Rightarrow> es | None \<Rightarrow> []) names)"

lemma fold_add_network: "fold (add_network raw) names out = fold add_entry (entries_of raw names) out"
  by (induction names arbitrary: out) (simp_all add: entries_of_def add_network_def)

lemma fallback_lists [simp]:
  "pa_IPv4 (fallback_addresses out) = pa_IPv4 out"
  "pa_IPv6 (fallback_addresses out) = pa_IPv6 out"
  "pa_Networks (fallback_addresses out) = pa_Networks out"
  by (simp_all add: fallback_addresses_def Let_def)

lemma ParseAddresses_lists:
  "pa_Networks (ParseAddresses raw) = sort (map fst raw)"
  "pa_IPv4 (ParseAddresses raw) = map ae_Addr (filter is_v4 (entries_of raw (sort (map fst raw))))"
  "pa_IPv6 (ParseAddresses raw) = map ae_Addr (filter (\<lambda>e. \<not> is_v4 e) (entries_of raw (sort (map fst raw))))"
  by (simp_all add: ParseAddresses_def Let_def fold_add_network empty_ParsedAddresses_def entries_of_def)

lemma mset_concat_map: "mset (concat (map f xs)) = (\<Sum>x\<in>#mset xs. mset (f x))"
  by (induction xs) auto

lemma mset_entries_of:
  assumes "distinct (map fst raw)"
  shows "mset (entries_of raw (sort (map fst raw))) = mset (concat (map snd raw))"
proof -
  let ?f = "\<lambda>n. case map_of raw n of Some es \<Rightarrow> es | None \<Rightarrow> []"
  have "mset (entries_of raw (sort (map fst raw))) = mset (concat (map ?f (map fst raw)))"
    by (simp only: entries_of_def mset_concat_map mset_sort)
  also have "map ?f (map fst raw) = map snd raw"
    using assms by (auto simp: comp_def)
  finally show ?thesis .
qed

lemma mset_filter_split: "mset (map f (filter P xs)) + mset (map f (filter (\<lambda>x. \<not> P x) xs)) = mset (map f xs)"
  by (induction xs) auto

text \<open>
  No address is lost.  For a map with distinct network names, the IPv4 and the IPv6 addresses that
  \<open>ParseAddresses\<close> reports are together exactly the addresses of all entries, each as often as it
  occurs, and the networks are the names of the map in ascending order.
\<close>

theorem ParseAddresses_complete:
  assumes "distinct (map fst raw)"
  shows "mset (pa_IPv4 (ParseAddresses raw)) + mset (pa_IPv6 (ParseAddresses raw)) =
      mset (map ae_Addr (concat (map snd raw))) \<and>
    sorted (pa_Networks (ParseAddresses raw)) \<and> set (pa_Networks (ParseAddresses raw)) = set (map fst raw)"
proof -
  have "mset (map ae_Addr (entries_of raw (sort (map fst raw)))) = mset (map ae_Addr (concat (map snd raw)))"
    using mset_entries_of [OF assms] by (metis mset_map)
  then show ?thesis
    unfolding ParseAddresses_lists mset_filter_split by simp
qed

definition sample_addresses :: Addresses where
  "sample_addresses =
     [(''public'', [\<lparr>ae_Addr = ''41.0.0.1'', ae_Version = 4, ae_Type = ''floating''\<rparr>,
                  \<lparr>ae_Addr = ''fe80::1'', ae_Version = 6, ae_Type = ''fixed''\<rparr>]),
      (''lan'', [\<lparr>ae_Addr = ''10.0.0.5'', ae_Version = 4, ae_Type = ''fixed''\<rparr>])]"

lemma ParseAddresses_complete_witness:
  "mset (pa_IPv4 (ParseAddresses sample_addresses)) + mset (pa_IPv6 (ParseAddresses sample_addresses)) =
     {#''41.0.0.1'', ''fe80::1'', ''10.0.0.5''#}"
proof -
  have "distinct (map fst sample_addresses)" by (simp add: sample_addresses_def)
  from ParseAddresses_complete [OF this] show ?thesis by (simp add: sample_addresses_def)
qed

text \<open>
  The private and the public address of a state in which both are empty or reported IPv4 addresses
  stay so.
\<close>

definition picked_from_IPv4 :: "ParsedAddresses \<Rightarrow> bool" where
  "picked_from_IPv4 out \<longleftrightarrow> pa_PrivateIPv4 out \<in> insert '''' (set (pa_IPv4 out)) \<and>
     pa_PublicIPv4 out \<in> insert '''' (set (pa_IPv4 out))"

lemma picked_add_entry: "picked_from_IPv4 out \<Longrightarrow> picked_from_IPv4 (add_entry e out)"
  by (auto simp: picked_from_IPv4_def add_entry_def Let_def)

lemma picked_fold: "picked_from_IPv4 out \<Longrightarrow> picked_from_IPv4 (fold add_entry es out)"
  by (induction es arbitrary: out) (simp_all add: picked_add_entry)

lemma picked_fallback: "picked_from_IPv4 out \<Longrightarrow> picked_from_IPv4 (fallback_addresses out)"
  by (cases "pa_IPv4 out") (auto simp: picked_from_IPv4_def fallback_addresses_def Let_def)

lemma private_fallback: "pa_IPv4 out \<noteq> [] \<Longrightarrow> '''' \<notin> set (pa_IPv4 out) \<Longrightarrow> pa_PrivateIPv4 (fallback_addresses out) \<noteq> ''''"
  by (cases "pa_IPv4 out") (auto simp: fallback_addresses_def Let_def)

lemma picked_ParseAddresses: "picked_from_IPv4 (ParseAddresses raw)"
proof (cases "raw = []")
  case True
  then show ?thesis by (simp add: ParseAddresses_def picked_from_IPv4_def empty_ParsedAddresses_def)
next
  case False
  have "picked_from_IPv4 (empty_ParsedAddresses\<lparr>pa_Networks := ns\<rparr>)" for ns
    by (simp add: picked_from_IPv4_def empty_ParsedAddresses_def)
  from picked_fallback [OF picked_fold [OF this]] False show ?thesis
    by (simp add: ParseAddresses_def Let_def fold_add_network)
qed

lemma private_ParseAddresses:
  "pa_IPv4 (ParseAddresses raw) \<noteq> [] \<Longrightarrow> '''' \<notin> set (pa_IPv4 (ParseAddresses raw)) \<Longrightarrow>
     pa_PrivateIPv4 (ParseAddresses raw) \<noteq> ''''"
  by (cases "raw = []") (simp_all add: ParseAddresses_def Let_def private_fallback empty_ParsedAddresses_def)

text \<open>
  C40. The addresses a program connects to are real ones and do not depend on Go's map order.  The
  private and the public address are reported IPv4 addresses or empty; an instance with an IPv4
  address always has a private one; and two maps with the same members in another order give the
  same answer.
\<close>

theorem ParseAddresses_deterministic:
  assumes "distinct (map fst raw)" and "mset raw = mset raw'" and "'''' \<notin> set (pa_IPv4 (ParseAddresses raw))"
  shows "ParseAddresses raw' = ParseAddresses raw \<and>
    {pa_PrivateIPv4 (ParseAddresses raw), pa_PublicIPv4 (ParseAddresses raw)} \<subseteq>
      insert '''' (set (pa_IPv4 (ParseAddresses raw))) \<and>
    (pa_PrivateIPv4 (ParseAddresses raw) = '''' \<longleftrightarrow> pa_IPv4 (ParseAddresses raw) = [])"
proof -
  have s: "set raw = set raw'" using assms(2) by (metis set_mset_mset)
  have m: "mset (map fst raw) = mset (map fst raw')" using arg_cong [OF assms(2), of "image_mset fst"] by simp
  have d: "distinct (map fst raw')" using assms(1) mset_eq_imp_distinct_iff [OF m] by simp
  have names: "sort (map fst raw') = sort (map fst raw)" by (rule properties_for_sort) (simp_all only: m mset_sort sorted_sort)
  have maps: "map_of raw' = map_of raw" using map_of_inject_set [OF assms(1) d] s by simp
  have "ParseAddresses raw' = ParseAddresses raw"
    using s by (auto simp: ParseAddresses_def Let_def names maps fold_add_network entries_of_def)
  moreover have "pa_PrivateIPv4 (ParseAddresses raw) = '''' \<longleftrightarrow> pa_IPv4 (ParseAddresses raw) = []"
    using picked_ParseAddresses [of raw] assms(3) private_ParseAddresses [of raw]
    by (auto simp: picked_from_IPv4_def)
  ultimately show ?thesis
    using picked_ParseAddresses [of raw] by (auto simp: picked_from_IPv4_def)
qed

lemma ParseAddresses_deterministic_witness:
  "ParseAddresses (rev sample_addresses) = ParseAddresses sample_addresses \<and>
   pa_PrivateIPv4 (ParseAddresses sample_addresses) \<noteq> ''''"
proof -
  have "distinct (map fst sample_addresses)" "mset sample_addresses = mset (rev sample_addresses)"
    by (simp_all add: sample_addresses_def)
  moreover have v4: "pa_IPv4 (ParseAddresses sample_addresses) = [''10.0.0.5'', ''41.0.0.1'']"
    by code_simp
  ultimately show ?thesis
    using ParseAddresses_deterministic [of sample_addresses "rev sample_addresses"] by simp
qed

end
