(* ===== verification/NobusCompute.thy ===== *)
theory NobusCompute
  imports NobusStorage Addresses
begin

text \<open>
  \<open>pulumi-nobus/provider/pkg/nobusapi/compute.go\<close>: the calls on key pairs and instances.
\<close>

section \<open>Key pairs\<close>

record NKeyPair =
  kp_ID :: string
  kp_Name :: string
  kp_PublicKey :: string
  kp_PrivateKey :: string
  kp_Fingerprint :: string
  kp_Type :: string
  kp_UserID :: string

definition zero_NKeyPair :: NKeyPair where
  "zero_NKeyPair = \<lparr>kp_ID = '''', kp_Name = '''', kp_PublicKey = '''', kp_PrivateKey = '''', kp_Fingerprint = '''',
     kp_Type = '''', kp_UserID = ''''\<rparr>"

definition dec_NKeyPair :: "NKeyPair decoder" where
  "dec_NKeyPair = dec_struct
     [field ''id'' kp_ID kp_ID_update dec_string,
      field ''name'' kp_Name kp_Name_update dec_string,
      field ''public_key'' kp_PublicKey kp_PublicKey_update dec_string,
      field ''private_key'' kp_PrivateKey kp_PrivateKey_update dec_string,
      field ''fingerprint'' kp_Fingerprint kp_Fingerprint_update dec_string,
      field ''type'' kp_Type kp_Type_update dec_string,
      field ''user_id'' kp_UserID kp_UserID_update dec_string]"

definition json_CreateKeyPairReq :: "string \<Rightarrow> string \<Rightarrow> string \<Rightarrow> json" where
  "json_CreateKeyPairReq name projectID az = JObject
     [(''name'', JString name), (''project_id'', JString projectID), (''availability_zone'', JString az)]"

definition nobus_CreateKeyPair ::
  "'s NobusEnv \<Rightarrow> NobusClient \<Rightarrow> 's Context \<Rightarrow> string \<Rightarrow> string \<Rightarrow> string \<Rightarrow> 's \<Rightarrow> (NKeyPair, 's) result" where
  "nobus_CreateKeyPair env c ctx name projectID az =
     nobus_object env c ctx ''POST'' ''/api/v3/keypair/'' None (Some (json_CreateKeyPairReq name projectID az))
       (dec_response dec_NKeyPair) zero_NKeyPair"

definition nobus_ListKeyPairs ::
  "'s NobusEnv \<Rightarrow> NobusClient \<Rightarrow> 's Context \<Rightarrow> string \<Rightarrow> string \<Rightarrow> 's \<Rightarrow> (NKeyPair list, 's) result" where
  "nobus_ListKeyPairs env c ctx projectID az =
     nobus_list env c ctx ''/api/v3/keypair/'' (Some (projectQuery projectID az)) dec_NKeyPair zero_NKeyPair"

definition nobus_GetKeyPair ::
  "'s NobusEnv \<Rightarrow> NobusClient \<Rightarrow> 's Context \<Rightarrow> string \<Rightarrow> string \<Rightarrow> string \<Rightarrow> 's \<Rightarrow> (NKeyPair, 's) result" where
  "nobus_GetKeyPair env c ctx projectID az =
     find_named (nobus_ListKeyPairs env c ctx projectID az) kp_ID kp_Name ''keypair''"

definition nobus_DeleteKeyPair ::
  "'s NobusEnv \<Rightarrow> NobusClient \<Rightarrow> 's Context \<Rightarrow> string \<Rightarrow> string \<Rightarrow> string \<Rightarrow> 's \<Rightarrow> (unit, 's) result" where
  "nobus_DeleteKeyPair env c ctx projectID az keypairID =
     nobus_do env c ctx ''DELETE'' ''/api/v3/keypair/''
       (Some (query_Set ''keypair_id'' keypairID (projectQuery projectID az))) None discard"

section \<open>Instances\<close>

record NInstance =
  ni_ID :: string
  ni_Name :: string
  ni_Status :: string
  ni_Description :: string
  ni_KeyName :: string
  ni_Created :: string
  ni_Updated :: string
  ni_Addresses :: Addresses

definition zero_NInstance :: NInstance where
  "zero_NInstance = \<lparr>ni_ID = '''', ni_Name = '''', ni_Status = '''', ni_Description = '''', ni_KeyName = '''',
     ni_Created = '''', ni_Updated = '''', ni_Addresses = []\<rparr>"

text \<open>The field whose type has an \<open>UnmarshalJSON\<close> of its own.\<close>

definition dec_Addresses :: "Addresses decoder" where
  "dec_Addresses j old = (case UnmarshalAddresses j of Inl _ \<Rightarrow> (old, False) | Inr a \<Rightarrow> (a, True))"

definition dec_NInstance :: "NInstance decoder" where
  "dec_NInstance = dec_struct
     [field ''id'' ni_ID ni_ID_update dec_string,
      field ''name'' ni_Name ni_Name_update dec_string,
      field ''status'' ni_Status ni_Status_update dec_string,
      field ''description'' ni_Description ni_Description_update dec_string,
      field ''key_name'' ni_KeyName ni_KeyName_update dec_string,
      field ''created'' ni_Created ni_Created_update dec_string,
      field ''updated'' ni_Updated ni_Updated_update dec_string,
      field ''addresses'' ni_Addresses ni_Addresses_update dec_Addresses]"

record CreateInstanceReq =
  ci_ProjectID :: string
  ci_AvailabilityZone :: string
  ci_Name :: string
  ci_Image :: string
  ci_Flavor :: string
  ci_KeyName :: string
  ci_VolumeSize :: "int option"
  ci_NetworkID :: string
  ci_SecurityGroups :: "string list"
  ci_AdminPass :: string
  ci_UserData :: string

definition omit_int_ptr :: "string \<Rightarrow> int option \<Rightarrow> (string \<times> json) list" where
  "omit_int_ptr key v = (case v of None \<Rightarrow> [] | Some n \<Rightarrow> [(key, JInt n)])"

definition omit_strings :: "string \<Rightarrow> string list \<Rightarrow> (string \<times> json) list" where
  "omit_strings key v = (if v = [] then [] else [(key, JArray (map JString v))])"

definition json_CreateInstanceReq :: "CreateInstanceReq \<Rightarrow> json" where
  "json_CreateInstanceReq r = JObject (
     [(''project_id'', JString (ci_ProjectID r)), (''availability_zone'', JString (ci_AvailabilityZone r)),
      (''name'', JString (ci_Name r)), (''image'', JString (ci_Image r)), (''flavor'', JString (ci_Flavor r)),
      (''key_name'', JString (ci_KeyName r))] @
     omit_int_ptr ''volume_size'' (ci_VolumeSize r) @
     omit_string ''network_id'' (ci_NetworkID r) @
     omit_strings ''security_groups'' (ci_SecurityGroups r) @
     omit_string ''admin_pass'' (ci_AdminPass r) @
     omit_string ''userdata'' (ci_UserData r))"

definition nobus_CreateInstance ::
  "'s NobusEnv \<Rightarrow> NobusClient \<Rightarrow> 's Context \<Rightarrow> CreateInstanceReq \<Rightarrow> 's \<Rightarrow> (NInstance, 's) result" where
  "nobus_CreateInstance env c ctx req =
     nobus_object env c ctx ''POST'' ''/api/v3/instance'' None (Some (json_CreateInstanceReq req))
       (dec_response dec_NInstance) zero_NInstance"

definition getInstanceFromList ::
  "'s NobusEnv \<Rightarrow> NobusClient \<Rightarrow> 's Context \<Rightarrow> string \<Rightarrow> string \<Rightarrow> string \<Rightarrow> 's \<Rightarrow> (NInstance, 's) result" where
  "getInstanceFromList env c ctx projectID az serverID s =
     (case nobus_list env c ctx ''/api/v3/instance/list''
             (Some (query_Set ''id'' serverID (projectQuery projectID az))) dec_NInstance zero_NInstance s of
        (Inl err, s1) \<Rightarrow> (Inl err, s1)
      | (Inr items, s1) \<Rightarrow>
          (case find (\<lambda>item. ni_ID item = serverID) items of
             Some item \<Rightarrow> (Inr item, s1)
           | None \<Rightarrow> (Inl (Wrap (''instance '' @ serverID) [Sentinel ErrNotFound]), s1)))"

definition nobus_GetInstance ::
  "'s NobusEnv \<Rightarrow> NobusClient \<Rightarrow> 's Context \<Rightarrow> string \<Rightarrow> string \<Rightarrow> string \<Rightarrow> 's \<Rightarrow> (NInstance, 's) result" where
  "nobus_GetInstance env c ctx projectID az serverID s =
     (case nobus_object env c ctx ''GET'' ''/api/v3/instance''
             (Some (query_Set ''server_id'' serverID (projectQuery projectID az))) None
             (dec_response dec_NInstance) zero_NInstance s of
        (Inl err, s1) \<Rightarrow> (Inl err, s1)
      | (Inr data, s1) \<Rightarrow>
          if ni_ID data = '''' then getInstanceFromList env c ctx projectID az serverID s1 else (Inr data, s1))"

definition nobus_DeleteInstance ::
  "'s NobusEnv \<Rightarrow> NobusClient \<Rightarrow> 's Context \<Rightarrow> string \<Rightarrow> string \<Rightarrow> string \<Rightarrow> bool \<Rightarrow> 's \<Rightarrow> (unit, 's) result" where
  "nobus_DeleteInstance env c ctx projectID az serverID deleteVolume =
     (let q = query_Set ''server_id'' serverID (projectQuery projectID az);
          q = (if deleteVolume then query_Set ''delete_volume'' ''true'' q else q)
      in nobus_do env c ctx ''DELETE'' ''/api/v3/instance'' (Some q) None discard)"

text \<open>
  The actions on a server: every request begins with the project, the zone and the server.
\<close>

definition server_request :: "string \<Rightarrow> string \<Rightarrow> string \<Rightarrow> (string \<times> json) list \<Rightarrow> json" where
  "server_request projectID az serverID members = JObject (
     [(''project_id'', JString projectID), (''availability_zone'', JString az), (''server_id'', JString serverID)] @ members)"

definition instance_action ::
  "'s NobusEnv \<Rightarrow> NobusClient \<Rightarrow> 's Context \<Rightarrow> string \<Rightarrow> json \<Rightarrow> 's \<Rightarrow> (unit, 's) result" where
  "instance_action env c ctx action req =
     nobus_do env c ctx ''POST'' (''/api/v3/instance/'' @ action) None (Some req) discard"

definition nobus_UpdateInstance ::
  "'s NobusEnv \<Rightarrow> NobusClient \<Rightarrow> 's Context \<Rightarrow> string \<Rightarrow> string \<Rightarrow> string \<Rightarrow> string \<Rightarrow> string \<Rightarrow> string \<Rightarrow> 's \<Rightarrow> (unit, 's) result" where
  "nobus_UpdateInstance env c ctx projectID az serverID name description hostname =
     instance_action env c ctx ''update-server'' (server_request projectID az serverID
       (omit_string ''name'' name @ omit_string ''description'' description @ omit_string ''hostname'' hostname))"

definition nobus_ResizeInstance ::
  "'s NobusEnv \<Rightarrow> NobusClient \<Rightarrow> 's Context \<Rightarrow> string \<Rightarrow> string \<Rightarrow> string \<Rightarrow> string \<Rightarrow> 's \<Rightarrow> (unit, 's) result" where
  "nobus_ResizeInstance env c ctx projectID az serverID flavorID =
     instance_action env c ctx ''resize'' (server_request projectID az serverID [(''flavor_id'', JString flavorID)])"

definition nobus_ConfirmResize ::
  "'s NobusEnv \<Rightarrow> NobusClient \<Rightarrow> 's Context \<Rightarrow> string \<Rightarrow> string \<Rightarrow> string \<Rightarrow> 's \<Rightarrow> (unit, 's) result" where
  "nobus_ConfirmResize env c ctx projectID az serverID =
     instance_action env c ctx ''confirm-resize'' (server_request projectID az serverID [])"

definition nobus_AttachSecurityGroup ::
  "'s NobusEnv \<Rightarrow> NobusClient \<Rightarrow> 's Context \<Rightarrow> string \<Rightarrow> string \<Rightarrow> string \<Rightarrow> string \<Rightarrow> 's \<Rightarrow> (unit, 's) result" where
  "nobus_AttachSecurityGroup env c ctx projectID az serverID sg =
     instance_action env c ctx ''attach-security-group''
       (server_request projectID az serverID [(''security_group_name'', JString sg)])"

definition nobus_RemoveSecurityGroup ::
  "'s NobusEnv \<Rightarrow> NobusClient \<Rightarrow> 's Context \<Rightarrow> string \<Rightarrow> string \<Rightarrow> string \<Rightarrow> string \<Rightarrow> 's \<Rightarrow> (unit, 's) result" where
  "nobus_RemoveSecurityGroup env c ctx projectID az serverID sg =
     instance_action env c ctx ''remove-security-group''
       (server_request projectID az serverID [(''security_group_name'', JString sg)])"

text \<open>A nil slice is written as \<open>null\<close>; an empty one that is not nil, which would be \<open>[]\<close>, is not told apart.\<close>

definition nobus_SetTags ::
  "'s NobusEnv \<Rightarrow> NobusClient \<Rightarrow> 's Context \<Rightarrow> string \<Rightarrow> string \<Rightarrow> string \<Rightarrow> string list \<Rightarrow> 's \<Rightarrow> (unit, 's) result" where
  "nobus_SetTags env c ctx projectID az serverID tags =
     instance_action env c ctx ''set-tags''
       (server_request projectID az serverID [(''tags'', if tags = [] then JNull else JArray (map JString tags))])"

definition WaitInstanceStatus ::
  "'s NobusEnv \<Rightarrow> NobusClient \<Rightarrow> 's Context \<Rightarrow> string \<Rightarrow> string \<Rightarrow> string \<Rightarrow> string list \<Rightarrow> 's \<Rightarrow>
     goerr option \<times> NInstance option \<times> 's" where
  "WaitInstanceStatus env c ctx projectID az serverID want =
     waitStatus env c ctx 900000 (\<lambda>ctx. nobus_GetInstance env c ctx projectID az serverID) ni_Status want"

end
