(* ===== verification/PulumiCompute.thy ===== *)
theory PulumiCompute
  imports PulumiVolume NobusCompute
begin

text \<open>
  \<open>pulumi-nobus/provider/pkg/provider/compute.go\<close>: the resources \<open>KeyPair\<close> and \<open>Instance\<close>.  The update of
  an instance is a sequence of steps, each of which may end it: name, flavor, security groups, tags.
\<close>

section \<open>KeyPair\<close>

record KeyPairArgs =
  ka_Name :: string
  ka_AvailabilityZone :: string
  ka_ProjectID :: string

record KeyPairState =
  ks_Args :: KeyPairArgs
  ks_KeyPairID :: string
  ks_PublicKey :: string
  ks_PrivateKey :: string
  ks_Fingerprint :: string
  ks_Type :: string

definition zero_KeyPairArgs :: KeyPairArgs where
  "zero_KeyPairArgs = \<lparr>ka_Name = '''', ka_AvailabilityZone = '''', ka_ProjectID = ''''\<rparr>"

definition KeyPairState_of :: "KeyPairArgs \<Rightarrow> KeyPairState" where
  "KeyPairState_of args = \<lparr>ks_Args = args, ks_KeyPairID = '''', ks_PublicKey = '''', ks_PrivateKey = '''',
     ks_Fingerprint = '''', ks_Type = ''''\<rparr>"

definition KeyPair_Check ::
  "PConfig option \<Rightarrow> (PropertyMap \<Rightarrow> KeyPairArgs \<times> CheckFailure list \<times> goerr option) \<Rightarrow> PropertyMap \<Rightarrow>
     KeyPairArgs \<times> CheckFailure list \<times> goerr option" where
  "KeyPair_Check cfg DefaultCheck newInputs = checkResourceArgs cfg DefaultCheck newInputs ka_AvailabilityZone"

definition KeyPair_Create ::
  "'s NobusEnv \<Rightarrow> PConfig \<Rightarrow> 's Context \<Rightarrow> string \<Rightarrow> KeyPairArgs \<Rightarrow> bool \<Rightarrow> 's \<Rightarrow>
     (string \<times> KeyPairState \<times> goerr option) \<times> 's" where
  "KeyPair_Create env cfg ctx name input preview s =
     (case ResolveScope cfg (ka_ProjectID input) (ka_AvailabilityZone input) of
        Inl err \<Rightarrow> (('''', KeyPairState_of zero_KeyPairArgs, Some err), s)
      | Inr (projectID, az) \<Rightarrow>
          (let input = input\<lparr>ka_ProjectID := projectID, ka_AvailabilityZone := az\<rparr>
           in if preview then ((ScopedID az projectID name, KeyPairState_of input, None), s)
              else (case nobus_CreateKeyPair env (pc_client cfg) ctx (ka_Name input) projectID az s of
                  (Inl err, s1) \<Rightarrow> (('''', KeyPairState_of zero_KeyPairArgs, Some err), s1)
                | (Inr created, s1) \<Rightarrow>
                    (let rid = (if kp_ID created = '''' then kp_Name created else kp_ID created);
                         args = (if ka_Name input = '''' then input\<lparr>ka_Name := kp_Name created\<rparr> else input)
                     in ((ScopedID az projectID rid,
                          \<lparr>ks_Args = args, ks_KeyPairID = rid, ks_PublicKey = kp_PublicKey created,
                           ks_PrivateKey = kp_PrivateKey created, ks_Fingerprint = kp_Fingerprint created,
                           ks_Type = kp_Type created\<rparr>, None), s1)))))"

definition KeyPair_Read ::
  "'s NobusEnv \<Rightarrow> PConfig \<Rightarrow> 's Context \<Rightarrow> string \<Rightarrow> KeyPairArgs \<Rightarrow> KeyPairState \<Rightarrow> 's \<Rightarrow>
     (string \<times> KeyPairArgs \<times> KeyPairState \<times> goerr option) \<times> 's" where
  "KeyPair_Read env cfg ctx rid inputs state s =
     (case ResolveImport cfg rid (cmp_Or [ka_ProjectID (ks_Args state), ka_ProjectID inputs])
             (cmp_Or [ka_AvailabilityZone (ks_Args state), ka_AvailabilityZone inputs]) of
        Inl err \<Rightarrow> ((rid, inputs, state, Some err), s)
      | Inr (az, projectID, resourceID) \<Rightarrow>
          (case nobus_GetKeyPair env (pc_client cfg) ctx projectID az resourceID s of
             (Inl err, s1) \<Rightarrow>
               if errors_is err ErrNotFound
               then (('''', zero_KeyPairArgs, KeyPairState_of zero_KeyPairArgs, None), s1)
               else ((rid, inputs, state, Some err), s1)
           | (Inr got, s1) \<Rightarrow>
               (let kid = (if kp_ID got = '''' then kp_Name got else kp_ID got);
                    args = \<lparr>ka_Name = kp_Name got, ka_AvailabilityZone = az, ka_ProjectID = projectID\<rparr>
                in ((ScopedID az projectID kid, args,
                     \<lparr>ks_Args = args, ks_KeyPairID = kid, ks_PublicKey = kp_PublicKey got,
                      ks_PrivateKey = (if kp_PrivateKey got \<noteq> '''' then kp_PrivateKey got else ks_PrivateKey state),
                      ks_Fingerprint = kp_Fingerprint got, ks_Type = kp_Type got\<rparr>, None), s1))))"

definition KeyPair_Diff :: "KeyPairState \<Rightarrow> KeyPairArgs \<Rightarrow> DiffResponse" where
  "KeyPair_Diff olds news =
     (let old = ks_Args olds;
          diff = [];
          diff = replaceDiff ''availabilityZone''
            (ka_AvailabilityZone old \<noteq> ka_AvailabilityZone news \<and> ka_AvailabilityZone news \<noteq> '''') diff;
          diff = replaceDiff ''name'' (ka_Name old \<noteq> ka_Name news \<and> ka_Name news \<noteq> '''') diff;
          diff = replaceDiff ''projectId'' (ka_ProjectID old \<noteq> ka_ProjectID news \<and> ka_ProjectID news \<noteq> '''') diff
      in diffResponse diff)"

definition KeyPair_Delete ::
  "'s NobusEnv \<Rightarrow> PConfig \<Rightarrow> 's Context \<Rightarrow> string \<Rightarrow> KeyPairState \<Rightarrow> 's \<Rightarrow> goerr option \<times> 's" where
  "KeyPair_Delete env cfg ctx rid state s =
     (case ResolveImport cfg rid (ka_ProjectID (ks_Args state)) (ka_AvailabilityZone (ks_Args state)) of
        Inl err \<Rightarrow> (Some err, s)
      | Inr (az, projectID, resourceID) \<Rightarrow>
          forgive_NotFound (nobus_DeleteKeyPair env (pc_client cfg) ctx projectID az resourceID s))"

section \<open>Instance\<close>

record InstanceArgs =
  ia_Name :: string
  ia_Image :: string
  ia_Flavor :: string
  ia_KeyName :: string
  ia_AvailabilityZone :: string
  ia_ProjectID :: string
  ia_NetworkID :: string
  ia_VolumeSize :: "int option"
  ia_SecurityGroups :: "string list"
  ia_Tags :: "string list"
  ia_UserData :: string
  ia_AdminPass :: string
  ia_DeleteVolume :: "bool option"

record InstanceState =
  is_Args :: InstanceArgs
  is_Status :: string
  is_Created :: string
  is_Updated :: string
  is_PrivateIPv4 :: string
  is_PublicIPv4 :: string
  is_IPv4Addresses :: "string list"
  is_IPv6Addresses :: "string list"
  is_Networks :: "string list"

definition zero_InstanceArgs :: InstanceArgs where
  "zero_InstanceArgs = \<lparr>ia_Name = '''', ia_Image = '''', ia_Flavor = '''', ia_KeyName = '''', ia_AvailabilityZone = '''',
     ia_ProjectID = '''', ia_NetworkID = '''', ia_VolumeSize = None, ia_SecurityGroups = [], ia_Tags = [],
     ia_UserData = '''', ia_AdminPass = '''', ia_DeleteVolume = None\<rparr>"

definition InstanceState_of :: "InstanceArgs \<Rightarrow> InstanceState" where
  "InstanceState_of args = \<lparr>is_Args = args, is_Status = '''', is_Created = '''', is_Updated = '''', is_PrivateIPv4 = '''',
     is_PublicIPv4 = '''', is_IPv4Addresses = [], is_IPv6Addresses = [], is_Networks = []\<rparr>"

definition required :: "string \<Rightarrow> string \<Rightarrow> CheckFailure list" where
  "required key v = (if strings_TrimSpace v = '''' then [\<lparr>cf_Property = key, cf_Reason = key @ '' is required''\<rparr>] else [])"

definition Instance_Check ::
  "PConfig option \<Rightarrow> (PropertyMap \<Rightarrow> InstanceArgs \<times> CheckFailure list \<times> goerr option) \<Rightarrow> PropertyMap \<Rightarrow>
     InstanceArgs \<times> CheckFailure list \<times> goerr option" where
  "Instance_Check cfg DefaultCheck newInputs =
     (case checkResourceArgs cfg DefaultCheck newInputs ia_AvailabilityZone of (args, failures, err) \<Rightarrow>
        if err \<noteq> None \<or> failures \<noteq> [] then (args, failures, err)
        else (args, failures @ required ''name'' (ia_Name args) @ required ''image'' (ia_Image args) @
          required ''flavor'' (ia_Flavor args) @ required ''keyName'' (ia_KeyName args), None))"

definition stateFromInstance :: "InstanceArgs \<Rightarrow> NInstance \<Rightarrow> InstanceState" where
  "stateFromInstance input inst =
     (let parsed = ParseAddresses (ni_Addresses inst)
      in \<lparr>is_Args = input, is_Status = ni_Status inst, is_Created = ni_Created inst, is_Updated = ni_Updated inst,
          is_PrivateIPv4 = pa_PrivateIPv4 parsed, is_PublicIPv4 = pa_PublicIPv4 parsed,
          is_IPv4Addresses = pa_IPv4 parsed, is_IPv6Addresses = pa_IPv6 parsed, is_Networks = pa_Networks parsed\<rparr>)"

definition Instance_Create ::
  "'s NobusEnv \<Rightarrow> PConfig \<Rightarrow> 's Context \<Rightarrow> string \<Rightarrow> InstanceArgs \<Rightarrow> bool \<Rightarrow> 's \<Rightarrow>
     (string \<times> InstanceState \<times> goerr option) \<times> 's" where
  "Instance_Create env cfg ctx name input preview s =
     (case ResolveScope cfg (ia_ProjectID input) (ia_AvailabilityZone input) of
        Inl err \<Rightarrow> (('''', InstanceState_of zero_InstanceArgs, Some err), s)
      | Inr (projectID, az) \<Rightarrow>
          (let input = input\<lparr>ia_ProjectID := projectID, ia_AvailabilityZone := az\<rparr>
           in if preview then ((ScopedID az projectID name, InstanceState_of input, None), s)
              else (case nobus_CreateInstance env (pc_client cfg) ctx
                       \<lparr>ci_ProjectID = projectID, ci_AvailabilityZone = az, ci_Name = ia_Name input,
                        ci_Image = BareResourceID (ia_Image input), ci_Flavor = BareResourceID (ia_Flavor input),
                        ci_KeyName = ia_KeyName input, ci_VolumeSize = ia_VolumeSize input,
                        ci_NetworkID = BareResourceID (ia_NetworkID input),
                        ci_SecurityGroups = bareIDs (ia_SecurityGroups input),
                        ci_AdminPass = ia_AdminPass input, ci_UserData = ia_UserData input\<rparr> s of
                  (Inl err, s1) \<Rightarrow> (('''', InstanceState_of zero_InstanceArgs, Some err), s1)
                | (Inr created, s1) \<Rightarrow>
                    (case WaitInstanceStatus env (pc_client cfg) ctx projectID az (ni_ID created) [''ACTIVE''] s1 of
                       (None, Some active, s2) \<Rightarrow>
                         (let done_ok = ((ScopedID az projectID (ni_ID active), stateFromInstance input active, None :: goerr option))
                          in if ia_Tags input = [] then (done_ok, s2)
                             else (case nobus_SetTags env (pc_client cfg) ctx projectID az (ni_ID active) (ia_Tags input) s2 of
                                 (Inl err, s3) \<Rightarrow>
                                   ((ScopedID az projectID (ni_ID active), stateFromInstance input active,
                                     Some (Wrap ''set tags'' [err])), s3)
                               | (Inr _, s3) \<Rightarrow> (done_ok, s3)))
                     | (err, _, s2) \<Rightarrow>
                         ((ScopedID az projectID (ni_ID created), stateFromInstance input created,
                           map_option (\<lambda>e. Wrap ''wait for instance ACTIVE'' [e]) err), s2)))))"

definition Instance_Read ::
  "'s NobusEnv \<Rightarrow> PConfig \<Rightarrow> 's Context \<Rightarrow> string \<Rightarrow> InstanceArgs \<Rightarrow> InstanceState \<Rightarrow> 's \<Rightarrow>
     (string \<times> InstanceArgs \<times> InstanceState \<times> goerr option) \<times> 's" where
  "Instance_Read env cfg ctx rid inputs state s =
     (case ResolveImport cfg rid (cmp_Or [ia_ProjectID (is_Args state), ia_ProjectID inputs])
             (cmp_Or [ia_AvailabilityZone (is_Args state), ia_AvailabilityZone inputs]) of
        Inl err \<Rightarrow> ((rid, inputs, state, Some err), s)
      | Inr (az, projectID, resourceID) \<Rightarrow>
          (case nobus_GetInstance env (pc_client cfg) ctx projectID az resourceID s of
             (Inl err, s1) \<Rightarrow>
               if errors_is err ErrNotFound
               then (('''', zero_InstanceArgs, InstanceState_of zero_InstanceArgs, None), s1)
               else ((rid, inputs, state, Some err), s1)
           | (Inr got, s1) \<Rightarrow>
               (let args = is_Args state;
                    args = (if ia_Name args = '''' then inputs else args);
                    args = (if ia_Name args = '''' then args\<lparr>ia_Name := ni_Name got\<rparr> else args);
                    args = (if ia_KeyName args = '''' then args\<lparr>ia_KeyName := ni_KeyName got\<rparr> else args);
                    args = args\<lparr>ia_ProjectID := projectID, ia_AvailabilityZone := az\<rparr>;
                    state = stateFromInstance args got
                in ((ScopedID az projectID (ni_ID got), is_Args state, state, None), s1))))"

definition boolPtrEqual :: "bool option \<Rightarrow> bool option \<Rightarrow> bool" where
  "boolPtrEqual a b =
     (if a = None \<and> b = None then True
      else if a = None \<or> b = None then False
      else the a = the b)"

definition Instance_Diff :: "InstanceState \<Rightarrow> InstanceArgs \<Rightarrow> DiffResponse" where
  "Instance_Diff olds news =
     (let old = is_Args olds;
          diff = [];
          diff = replaceDiff ''availabilityZone''
            (ia_AvailabilityZone news \<noteq> '''' \<and> ia_AvailabilityZone old \<noteq> ia_AvailabilityZone news) diff;
          diff = replaceDiff ''image''
            (ia_Image news \<noteq> '''' \<and> BareResourceID (ia_Image old) \<noteq> BareResourceID (ia_Image news)) diff;
          diff = replaceDiff ''keyName'' (ia_KeyName news \<noteq> '''' \<and> ia_KeyName old \<noteq> ia_KeyName news) diff;
          diff = replaceDiff ''networkId''
            (ia_NetworkID news \<noteq> '''' \<and> BareResourceID (ia_NetworkID old) \<noteq> BareResourceID (ia_NetworkID news)) diff;
          diff = replaceDiff ''volumeSize''
            (ia_VolumeSize news \<noteq> None \<and> \<not> intPtrEqual (ia_VolumeSize old) (ia_VolumeSize news)) diff;
          diff = replaceDiff ''userData'' (ia_UserData old \<noteq> ia_UserData news) diff;
          diff = replaceDiff ''adminPass'' (ia_AdminPass news \<noteq> '''' \<and> ia_AdminPass old \<noteq> ia_AdminPass news) diff;
          diff = updateDiff ''name'' (ia_Name news \<noteq> '''' \<and> ia_Name old \<noteq> ia_Name news) diff;
          diff = updateDiff ''flavor''
            (ia_Flavor news \<noteq> '''' \<and> BareResourceID (ia_Flavor old) \<noteq> BareResourceID (ia_Flavor news)) diff;
          diff = updateDiff ''securityGroups'' (\<not> stringSlicesEqual (ia_SecurityGroups old) (ia_SecurityGroups news)) diff;
          diff = updateDiff ''tags'' (\<not> stringSlicesEqual (ia_Tags old) (ia_Tags news)) diff;
          diff = updateDiff ''deleteVolume'' (\<not> boolPtrEqual (ia_DeleteVolume old) (ia_DeleteVolume news)) diff
      in diffResponse diff)"

section \<open>The update of an instance\<close>

text \<open>A server's place in the API, and the steps of an update, each with the error that ends it.\<close>

record server_ref =
  sv_Project :: string
  sv_Zone :: string
  sv_ID :: string

type_synonym 's step = "'s \<Rightarrow> goerr option \<times> 's"

definition done_or :: "string \<Rightarrow> (unit, 's) result \<Rightarrow> goerr option \<times> 's" where
  "done_or message r =
     (case r of (Inl err, s1) \<Rightarrow> (Some (Wrap message [err]), s1) | (Inr _, s1) \<Rightarrow> (None, s1))"

definition then_step :: "'s step \<Rightarrow> 's step \<Rightarrow> 's step" where
  "then_step p q s = (case p s of (Some err, s1) \<Rightarrow> (Some err, s1) | (None, s1) \<Rightarrow> q s1)"

definition update_name :: "'s NobusEnv \<Rightarrow> NobusClient \<Rightarrow> 's Context \<Rightarrow> server_ref \<Rightarrow> InstanceArgs \<Rightarrow> InstanceArgs \<Rightarrow> 's step" where
  "update_name env c ctx sv old news s =
     (if ia_Name news \<noteq> '''' \<and> ia_Name news \<noteq> ia_Name old
      then done_or ''update instance name''
        (nobus_UpdateInstance env c ctx (sv_Project sv) (sv_Zone sv) (sv_ID sv) (ia_Name news) '''' '''' s)
      else (None, s))"

definition confirm_resize :: "'s NobusEnv \<Rightarrow> NobusClient \<Rightarrow> 's Context \<Rightarrow> server_ref \<Rightarrow> 's step" where
  "confirm_resize env c ctx sv s =
     (case done_or ''confirm resize'' (nobus_ConfirmResize env c ctx (sv_Project sv) (sv_Zone sv) (sv_ID sv) s) of
        (Some err, s1) \<Rightarrow> (Some err, s1)
      | (None, s1) \<Rightarrow>
          (case WaitInstanceStatus env c ctx (sv_Project sv) (sv_Zone sv) (sv_ID sv) [''ACTIVE''] s1 of
             (Some err, _, s2) \<Rightarrow> (Some (Wrap ''wait after confirm resize'' [err]), s2)
           | (None, _, s2) \<Rightarrow> (None, s2)))"

definition update_flavor :: "'s NobusEnv \<Rightarrow> NobusClient \<Rightarrow> 's Context \<Rightarrow> server_ref \<Rightarrow> InstanceArgs \<Rightarrow> InstanceArgs \<Rightarrow> 's step" where
  "update_flavor env c ctx sv old news s =
     (if ia_Flavor news \<noteq> '''' \<and> BareResourceID (ia_Flavor old) \<noteq> BareResourceID (ia_Flavor news)
      then (case done_or ''resize instance'' (nobus_ResizeInstance env c ctx (sv_Project sv) (sv_Zone sv) (sv_ID sv)
                   (BareResourceID (ia_Flavor news)) s) of
          (Some err, s1) \<Rightarrow> (Some err, s1)
        | (None, s1) \<Rightarrow>
       (case WaitInstanceStatus env c ctx (sv_Project sv) (sv_Zone sv) (sv_ID sv) [''VERIFY_RESIZE'', ''ACTIVE''] s1 of
          (Some err, _, s2) \<Rightarrow> (Some (Wrap ''wait for resize'' [err]), s2)
        | (None, _, s2) \<Rightarrow>
       (case nobus_GetInstance env c ctx (sv_Project sv) (sv_Zone sv) (sv_ID sv) s2 of
          (Inl err, s3) \<Rightarrow> (Some err, s3)
        | (Inr got, s3) \<Rightarrow>
            if strings_ToLower (ni_Status got) = strings_ToLower ''VERIFY_RESIZE'' then confirm_resize env c ctx sv s3
            else (None, s3))))
      else (None, s))"

text \<open>A loop over identifiers that the first error ends.\<close>

fun each_step :: "(string \<Rightarrow> 's step) \<Rightarrow> string list \<Rightarrow> 's step" where
  "each_step f [] s = (None, s)"
| "each_step f (x # xs) s = (case f x s of (Some err, s1) \<Rightarrow> (Some err, s1) | (None, s1) \<Rightarrow> each_step f xs s1)"

definition remove_group :: "'s NobusEnv \<Rightarrow> NobusClient \<Rightarrow> 's Context \<Rightarrow> server_ref \<Rightarrow> string \<Rightarrow> 's step" where
  "remove_group env c ctx sv sg s =
     done_or (''remove security group '' @ sg)
       (nobus_RemoveSecurityGroup env c ctx (sv_Project sv) (sv_Zone sv) (sv_ID sv) sg s)"

definition attach_group :: "'s NobusEnv \<Rightarrow> NobusClient \<Rightarrow> 's Context \<Rightarrow> server_ref \<Rightarrow> string \<Rightarrow> 's step" where
  "attach_group env c ctx sv sg s =
     done_or (''attach security group '' @ sg)
       (nobus_AttachSecurityGroup env c ctx (sv_Project sv) (sv_Zone sv) (sv_ID sv) sg s)"

definition update_groups :: "'s NobusEnv \<Rightarrow> NobusClient \<Rightarrow> 's Context \<Rightarrow> server_ref \<Rightarrow> InstanceArgs \<Rightarrow> InstanceArgs \<Rightarrow> 's step" where
  "update_groups env c ctx sv old news =
     (if \<not> stringSlicesEqual (ia_SecurityGroups old) (ia_SecurityGroups news)
      then (case sliceDiff (ia_SecurityGroups old) (ia_SecurityGroups news) of (add, remove) \<Rightarrow>
        then_step (each_step (remove_group env c ctx sv) remove) (each_step (attach_group env c ctx sv) add))
      else (\<lambda>s. (None, s)))"

definition update_tags :: "'s NobusEnv \<Rightarrow> NobusClient \<Rightarrow> 's Context \<Rightarrow> server_ref \<Rightarrow> InstanceArgs \<Rightarrow> InstanceArgs \<Rightarrow> 's step" where
  "update_tags env c ctx sv old news s =
     (if \<not> stringSlicesEqual (ia_Tags old) (ia_Tags news)
      then done_or ''set tags'' (nobus_SetTags env c ctx (sv_Project sv) (sv_Zone sv) (sv_ID sv) (ia_Tags news) s)
      else (None, s))"

definition Instance_Update ::
  "'s NobusEnv \<Rightarrow> PConfig \<Rightarrow> 's Context \<Rightarrow> string \<Rightarrow> InstanceState \<Rightarrow> InstanceArgs \<Rightarrow> bool \<Rightarrow> 's \<Rightarrow>
     (InstanceState \<times> goerr option) \<times> 's" where
  "Instance_Update env cfg ctx rid olds news preview s =
     (case ResolveImport cfg rid (cmp_Or [ia_ProjectID news, ia_ProjectID (is_Args olds)])
             (cmp_Or [ia_AvailabilityZone news, ia_AvailabilityZone (is_Args olds)]) of
        Inl err \<Rightarrow> ((olds, Some err), s)
      | Inr (az, projectID, resourceID) \<Rightarrow>
          (let news = news\<lparr>ia_ProjectID := projectID, ia_AvailabilityZone := az\<rparr>;
               state = olds\<lparr>is_Args := news\<rparr>;
               c = pc_client cfg;
               old = is_Args olds;
               sv = \<lparr>sv_Project = projectID, sv_Zone = az, sv_ID = resourceID\<rparr>
           in if preview then ((state, None), s)
              else (case then_step (update_name env c ctx sv old news)
                          (then_step (update_flavor env c ctx sv old news)
                            (then_step (update_groups env c ctx sv old news) (update_tags env c ctx sv old news))) s of
                  (Some err, s1) \<Rightarrow> ((state, Some err), s1)
                | (None, s1) \<Rightarrow>
                    (case nobus_GetInstance env c ctx projectID az resourceID s1 of
                       (Inl err, s2) \<Rightarrow> ((state, Some err), s2)
                     | (Inr got, s2) \<Rightarrow> ((stateFromInstance news got, None), s2)))))"

definition Instance_Delete ::
  "'s NobusEnv \<Rightarrow> PConfig \<Rightarrow> 's Context \<Rightarrow> string \<Rightarrow> InstanceState \<Rightarrow> 's \<Rightarrow> goerr option \<times> 's" where
  "Instance_Delete env cfg ctx rid state s =
     (case ResolveImport cfg rid (ia_ProjectID (is_Args state)) (ia_AvailabilityZone (is_Args state)) of
        Inl err \<Rightarrow> (Some err, s)
      | Inr (az, projectID, resourceID) \<Rightarrow>
          forgive_NotFound (nobus_DeleteInstance env (pc_client cfg) ctx projectID az resourceID
            (ia_DeleteVolume (is_Args state) = Some True) s))"

end
