(* ===== verification/PulumiBackup.thy ===== *)
theory PulumiBackup
  imports PulumiVolume
begin

text \<open>
  \<open>pulumi-nobus/provider/pkg/provider/snapshot.go\<close> and \<open>backup.go\<close>: the resources \<open>VolumeSnapshot\<close> and
  \<open>VolumeBackup\<close>, which are never updated in place.
\<close>

section \<open>VolumeSnapshot\<close>

record VolumeSnapshotArgs =
  sa_VolumeID :: string
  sa_AvailabilityZone :: string
  sa_Name :: string
  sa_Description :: string
  sa_Force :: bool
  sa_Metadata :: gomap
  sa_ProjectID :: string

record VolumeSnapshotState =
  ss_Args :: VolumeSnapshotArgs
  ss_Status :: string
  ss_Size :: int
  ss_CreatedAt :: string

definition zero_VolumeSnapshotArgs :: VolumeSnapshotArgs where
  "zero_VolumeSnapshotArgs = \<lparr>sa_VolumeID = '''', sa_AvailabilityZone = '''', sa_Name = '''', sa_Description = '''',
     sa_Force = False, sa_Metadata = [], sa_ProjectID = ''''\<rparr>"

definition VolumeSnapshotState_of :: "VolumeSnapshotArgs \<Rightarrow> VolumeSnapshotState" where
  "VolumeSnapshotState_of args = \<lparr>ss_Args = args, ss_Status = '''', ss_Size = 0, ss_CreatedAt = ''''\<rparr>"

definition VolumeSnapshot_Check ::
  "PConfig option \<Rightarrow> (PropertyMap \<Rightarrow> VolumeSnapshotArgs \<times> CheckFailure list \<times> goerr option) \<Rightarrow> PropertyMap \<Rightarrow>
     VolumeSnapshotArgs \<times> CheckFailure list \<times> goerr option" where
  "VolumeSnapshot_Check cfg DefaultCheck newInputs =
     (case checkResourceArgs cfg DefaultCheck newInputs sa_AvailabilityZone of (args, failures, err) \<Rightarrow>
        if err \<noteq> None \<or> failures \<noteq> [] then (args, failures, err)
        else (args,
          (if sa_VolumeID args = ''''
           then failures @ [\<lparr>cf_Property = ''volumeId'', cf_Reason = ''volumeId is required''\<rparr>]
           else failures), None))"

definition stateFromSnapshot :: "VolumeSnapshotArgs \<Rightarrow> NSnapshot \<Rightarrow> VolumeSnapshotState" where
  "stateFromSnapshot input snap =
     (let args = input;
          args = (if sa_Name args = '''' then args\<lparr>sa_Name := ns_Name snap\<rparr> else args);
          args = (if sa_Description args = '''' then args\<lparr>sa_Description := ns_Description snap\<rparr> else args);
          args = (if sa_VolumeID args = '''' then args\<lparr>sa_VolumeID := ns_VolumeID snap\<rparr> else args)
      in \<lparr>ss_Args = args, ss_Status = ns_Status snap, ss_Size = ns_Size snap, ss_CreatedAt = ns_CreatedAt snap\<rparr>)"

definition VolumeSnapshot_Create ::
  "'s NobusEnv \<Rightarrow> PConfig \<Rightarrow> 's Context \<Rightarrow> string \<Rightarrow> VolumeSnapshotArgs \<Rightarrow> bool \<Rightarrow> 's \<Rightarrow>
     (string \<times> VolumeSnapshotState \<times> goerr option) \<times> 's" where
  "VolumeSnapshot_Create env cfg ctx name input preview s =
     (case ResolveScope cfg (sa_ProjectID input) (sa_AvailabilityZone input) of
        Inl err \<Rightarrow> (('''', VolumeSnapshotState_of zero_VolumeSnapshotArgs, Some err), s)
      | Inr (projectID, az) \<Rightarrow>
          (let input = input\<lparr>sa_ProjectID := projectID, sa_AvailabilityZone := az,
                 sa_VolumeID := BareResourceID (sa_VolumeID input)\<rparr>
           in if preview then ((ScopedID az projectID name, VolumeSnapshotState_of input, None), s)
              else (case nobus_CreateSnapshot env (pc_client cfg) ctx
                       \<lparr>cs_VolumeID = sa_VolumeID input, cs_Name = sa_Name input, cs_Description = sa_Description input,
                        cs_Force = sa_Force input, cs_Metadata = sa_Metadata input, cs_ProjectID = projectID,
                        cs_AvailabilityZone = az\<rparr> s of
                  (Inl err, s1) \<Rightarrow> (('''', VolumeSnapshotState_of zero_VolumeSnapshotArgs, Some err), s1)
                | (Inr created, s1) \<Rightarrow>
                    (case WaitSnapshotStatus env (pc_client cfg) ctx projectID az (ns_ID created) [''available''] s1 of
                       (None, Some ready, s2) \<Rightarrow>
                         ((ScopedID az projectID (ns_ID ready), stateFromSnapshot input ready, None), s2)
                     | (err, _, s2) \<Rightarrow>
                         ((ScopedID az projectID (ns_ID created), stateFromSnapshot input created, err), s2)))))"

definition VolumeSnapshot_Read ::
  "'s NobusEnv \<Rightarrow> PConfig \<Rightarrow> 's Context \<Rightarrow> string \<Rightarrow> VolumeSnapshotArgs \<Rightarrow> VolumeSnapshotState \<Rightarrow> 's \<Rightarrow>
     (string \<times> VolumeSnapshotArgs \<times> VolumeSnapshotState \<times> goerr option) \<times> 's" where
  "VolumeSnapshot_Read env cfg ctx rid inputs state s =
     (case ResolveImport cfg rid (cmp_Or [sa_ProjectID (ss_Args state), sa_ProjectID inputs])
             (cmp_Or [sa_AvailabilityZone (ss_Args state), sa_AvailabilityZone inputs]) of
        Inl err \<Rightarrow> ((rid, inputs, state, Some err), s)
      | Inr (az, projectID, resourceID) \<Rightarrow>
          (case nobus_GetSnapshot env (pc_client cfg) ctx projectID az resourceID s of
             (Inl err, s1) \<Rightarrow>
               if errors_is err ErrNotFound
               then (('''', zero_VolumeSnapshotArgs, VolumeSnapshotState_of zero_VolumeSnapshotArgs, None), s1)
               else ((rid, inputs, state, Some err), s1)
           | (Inr got, s1) \<Rightarrow>
               (let args = ss_Args state;
                    args = (if sa_VolumeID args = '''' then inputs else args);
                    args = args\<lparr>sa_ProjectID := projectID, sa_AvailabilityZone := az\<rparr>;
                    state = stateFromSnapshot args got
                in ((ScopedID az projectID (ns_ID got), ss_Args state, state, None), s1))))"

definition VolumeSnapshot_Diff :: "VolumeSnapshotState \<Rightarrow> VolumeSnapshotArgs \<Rightarrow> DiffResponse" where
  "VolumeSnapshot_Diff olds news =
     (let old = ss_Args olds;
          diff = [];
          diff = replaceDiff ''availabilityZone''
            (sa_AvailabilityZone news \<noteq> '''' \<and> sa_AvailabilityZone old \<noteq> sa_AvailabilityZone news) diff;
          diff = replaceDiff ''volumeId''
            (sa_VolumeID news \<noteq> '''' \<and> BareResourceID (sa_VolumeID old) \<noteq> BareResourceID (sa_VolumeID news)) diff;
          diff = replaceDiff ''name'' (sa_Name news \<noteq> '''' \<and> sa_Name old \<noteq> sa_Name news) diff;
          diff = replaceDiff ''description'' (sa_Description old \<noteq> sa_Description news) diff;
          diff = replaceDiff ''force'' (sa_Force old \<noteq> sa_Force news) diff;
          diff = replaceDiff ''metadata'' (\<not> maps_Equal (sa_Metadata old) (sa_Metadata news)) diff
      in diffResponse diff)"

definition VolumeSnapshot_Delete ::
  "'s NobusEnv \<Rightarrow> PConfig \<Rightarrow> 's Context \<Rightarrow> string \<Rightarrow> VolumeSnapshotState \<Rightarrow> 's \<Rightarrow> goerr option \<times> 's" where
  "VolumeSnapshot_Delete env cfg ctx rid state s =
     (case ResolveImport cfg rid (sa_ProjectID (ss_Args state)) (sa_AvailabilityZone (ss_Args state)) of
        Inl err \<Rightarrow> (Some err, s)
      | Inr (az, projectID, resourceID) \<Rightarrow>
          forgive_NotFound (nobus_DeleteSnapshot env (pc_client cfg) ctx projectID az resourceID s))"

section \<open>VolumeBackup\<close>

record VolumeBackupArgs =
  ba_VolumeID :: string
  ba_AvailabilityZone :: string
  ba_Name :: string
  ba_Description :: string
  ba_Container :: string
  ba_Incremental :: bool
  ba_Force :: bool
  ba_SnapshotID :: string
  ba_Metadata :: gomap
  ba_ProjectID :: string

record VolumeBackupState =
  bs_Args :: VolumeBackupArgs
  bs_Status :: string
  bs_Size :: int
  bs_CreatedAt :: string

definition zero_VolumeBackupArgs :: VolumeBackupArgs where
  "zero_VolumeBackupArgs = \<lparr>ba_VolumeID = '''', ba_AvailabilityZone = '''', ba_Name = '''', ba_Description = '''',
     ba_Container = '''', ba_Incremental = False, ba_Force = False, ba_SnapshotID = '''', ba_Metadata = [], ba_ProjectID = ''''\<rparr>"

definition VolumeBackupState_of :: "VolumeBackupArgs \<Rightarrow> VolumeBackupState" where
  "VolumeBackupState_of args = \<lparr>bs_Args = args, bs_Status = '''', bs_Size = 0, bs_CreatedAt = ''''\<rparr>"

definition VolumeBackup_Check ::
  "PConfig option \<Rightarrow> (PropertyMap \<Rightarrow> VolumeBackupArgs \<times> CheckFailure list \<times> goerr option) \<Rightarrow> PropertyMap \<Rightarrow>
     VolumeBackupArgs \<times> CheckFailure list \<times> goerr option" where
  "VolumeBackup_Check cfg DefaultCheck newInputs =
     (case checkResourceArgs cfg DefaultCheck newInputs ba_AvailabilityZone of (args, failures, err) \<Rightarrow>
        if err \<noteq> None \<or> failures \<noteq> [] then (args, failures, err)
        else (args,
          (if ba_VolumeID args = ''''
           then failures @ [\<lparr>cf_Property = ''volumeId'', cf_Reason = ''volumeId is required''\<rparr>]
           else failures), None))"

definition stateFromBackup :: "VolumeBackupArgs \<Rightarrow> NBackup \<Rightarrow> VolumeBackupState" where
  "stateFromBackup input backup =
     (let args = input;
          args = (if ba_Name args = '''' then args\<lparr>ba_Name := nb_Name backup\<rparr> else args);
          args = (if ba_Description args = '''' then args\<lparr>ba_Description := nb_Description backup\<rparr> else args);
          args = (if ba_VolumeID args = '''' then args\<lparr>ba_VolumeID := nb_VolumeID backup\<rparr> else args);
          args = (if ba_Container args = '''' then args\<lparr>ba_Container := nb_Container backup\<rparr> else args)
      in \<lparr>bs_Args = args, bs_Status = nb_Status backup, bs_Size = nb_Size backup, bs_CreatedAt = nb_CreatedAt backup\<rparr>)"

definition VolumeBackup_Create ::
  "'s NobusEnv \<Rightarrow> PConfig \<Rightarrow> 's Context \<Rightarrow> string \<Rightarrow> VolumeBackupArgs \<Rightarrow> bool \<Rightarrow> 's \<Rightarrow>
     (string \<times> VolumeBackupState \<times> goerr option) \<times> 's" where
  "VolumeBackup_Create env cfg ctx name input preview s =
     (case ResolveScope cfg (ba_ProjectID input) (ba_AvailabilityZone input) of
        Inl err \<Rightarrow> (('''', VolumeBackupState_of zero_VolumeBackupArgs, Some err), s)
      | Inr (projectID, az) \<Rightarrow>
          (let input = input\<lparr>ba_ProjectID := projectID, ba_AvailabilityZone := az,
                 ba_VolumeID := BareResourceID (ba_VolumeID input),
                 ba_SnapshotID := BareResourceID (ba_SnapshotID input)\<rparr>
           in if preview then ((ScopedID az projectID name, VolumeBackupState_of input, None), s)
              else (case nobus_CreateBackup env (pc_client cfg) ctx
                       \<lparr>cb_VolumeID = ba_VolumeID input, cb_Name = ba_Name input, cb_Description = ba_Description input,
                        cb_Container = ba_Container input, cb_Incremental = ba_Incremental input, cb_Force = ba_Force input,
                        cb_SnapshotID = ba_SnapshotID input, cb_Metadata = ba_Metadata input,
                        cb_ProjectID = projectID, cb_AvailabilityZone = az\<rparr> s of
                  (Inl err, s1) \<Rightarrow> (('''', VolumeBackupState_of zero_VolumeBackupArgs, Some err), s1)
                | (Inr created, s1) \<Rightarrow>
                    (case WaitBackupStatus env (pc_client cfg) ctx projectID az (nb_ID created) [''available''] s1 of
                       (None, Some ready, s2) \<Rightarrow>
                         ((ScopedID az projectID (nb_ID ready), stateFromBackup input ready, None), s2)
                     | (err, _, s2) \<Rightarrow>
                         ((ScopedID az projectID (nb_ID created), stateFromBackup input created, err), s2)))))"

definition VolumeBackup_Read ::
  "'s NobusEnv \<Rightarrow> PConfig \<Rightarrow> 's Context \<Rightarrow> string \<Rightarrow> VolumeBackupArgs \<Rightarrow> VolumeBackupState \<Rightarrow> 's \<Rightarrow>
     (string \<times> VolumeBackupArgs \<times> VolumeBackupState \<times> goerr option) \<times> 's" where
  "VolumeBackup_Read env cfg ctx rid inputs state s =
     (case ResolveImport cfg rid (cmp_Or [ba_ProjectID (bs_Args state), ba_ProjectID inputs])
             (cmp_Or [ba_AvailabilityZone (bs_Args state), ba_AvailabilityZone inputs]) of
        Inl err \<Rightarrow> ((rid, inputs, state, Some err), s)
      | Inr (az, projectID, resourceID) \<Rightarrow>
          (case nobus_GetBackup env (pc_client cfg) ctx projectID az resourceID s of
             (Inl err, s1) \<Rightarrow>
               if errors_is err ErrNotFound
               then (('''', zero_VolumeBackupArgs, VolumeBackupState_of zero_VolumeBackupArgs, None), s1)
               else ((rid, inputs, state, Some err), s1)
           | (Inr got, s1) \<Rightarrow>
               (let args = bs_Args state;
                    args = (if ba_VolumeID args = '''' then inputs else args);
                    args = args\<lparr>ba_ProjectID := projectID, ba_AvailabilityZone := az\<rparr>;
                    state = stateFromBackup args got
                in ((ScopedID az projectID (nb_ID got), bs_Args state, state, None), s1))))"

definition VolumeBackup_Diff :: "VolumeBackupState \<Rightarrow> VolumeBackupArgs \<Rightarrow> DiffResponse" where
  "VolumeBackup_Diff olds news =
     (let old = bs_Args olds;
          diff = [];
          diff = replaceDiff ''availabilityZone''
            (ba_AvailabilityZone news \<noteq> '''' \<and> ba_AvailabilityZone old \<noteq> ba_AvailabilityZone news) diff;
          diff = replaceDiff ''volumeId''
            (ba_VolumeID news \<noteq> '''' \<and> BareResourceID (ba_VolumeID old) \<noteq> BareResourceID (ba_VolumeID news)) diff;
          diff = replaceDiff ''name'' (ba_Name news \<noteq> '''' \<and> ba_Name old \<noteq> ba_Name news) diff;
          diff = replaceDiff ''description'' (ba_Description old \<noteq> ba_Description news) diff;
          diff = replaceDiff ''container'' (ba_Container old \<noteq> ba_Container news) diff;
          diff = replaceDiff ''incremental'' (ba_Incremental old \<noteq> ba_Incremental news) diff;
          diff = replaceDiff ''force'' (ba_Force old \<noteq> ba_Force news) diff;
          diff = replaceDiff ''snapshotId''
            (BareResourceID (ba_SnapshotID old) \<noteq> BareResourceID (ba_SnapshotID news)) diff;
          diff = replaceDiff ''metadata'' (\<not> maps_Equal (ba_Metadata old) (ba_Metadata news)) diff
      in diffResponse diff)"

definition VolumeBackup_Delete ::
  "'s NobusEnv \<Rightarrow> PConfig \<Rightarrow> 's Context \<Rightarrow> string \<Rightarrow> VolumeBackupState \<Rightarrow> 's \<Rightarrow> goerr option \<times> 's" where
  "VolumeBackup_Delete env cfg ctx rid state s =
     (case ResolveImport cfg rid (ba_ProjectID (bs_Args state)) (ba_AvailabilityZone (bs_Args state)) of
        Inl err \<Rightarrow> (Some err, s)
      | Inr (az, projectID, resourceID) \<Rightarrow>
          forgive_NotFound (nobus_DeleteBackup env (pc_client cfg) ctx projectID az resourceID s))"

end
