(* ===== verification/PulumiProps.thy ===== *)
theory PulumiProps
  imports PulumiBackup "HOL-Library.Multiset"
begin

text \<open>
  Properties of the Pulumi provider: identifiers and comparisons, the client's retries and waits, and
  the resources on top of them.
\<close>

section \<open>Identifiers\<close>

lemma strings_Split_parts: "p \<in> set (strings_Split s c) \<Longrightarrow> c \<notin> set p"
proof (induction s arbitrary: p)
  case (Cons x xs)
  then show ?case by (cases "strings_Split xs c") (auto split: if_splits)
qed simp

lemma BareResourceID_cases:
  "BareResourceID rid = rid \<or> CHR ''/'' \<notin> set (BareResourceID rid)"
  using strings_Split_parts [of _ rid "CHR ''/''"]
  by (auto simp: BareResourceID_def ParseScopedID_def split: list.splits)

lemma BareResourceID_idem [simp]: "BareResourceID (BareResourceID rid) = BareResourceID rid"
  using BareResourceID_cases [of rid] BareResourceID_bare by metis

lemma ResolveScope_Inr:
  "ResolveScope cfg project az = Inr (p, z) \<longleftrightarrow>
     p = (if project = '''' then pc_ProjectID cfg else project) \<and>
     z = (if az = '''' then pc_AvailabilityZone cfg else az) \<and> p \<noteq> '''' \<and> strings_TrimSpace z \<noteq> ''''"
  by (auto simp: ResolveScope_def ResolveProject_def requireAZ_def Let_def)

lemma TrimSpace_empty [simp]: "strings_TrimSpace '''' = ''''"
  by (simp add: strings_TrimSpace_def)

text \<open>
  Scoped identifiers round trip through an import.  The identifier a resource gets from its
  resolved zone and project, imported with no other input, resolves to the same zone and project and
  to the bare identifier, whatever the provider's defaults are.
\<close>

theorem ScopedID_import_roundtrip:
  assumes "ResolveScope cfg project az = Inr (p, z)"
    and "CHR ''/'' \<notin> set p" and "CHR ''/'' \<notin> set z" and "CHR ''/'' \<notin> set rid"
  shows "ResolveImport cfg' (ScopedID z p rid) '''' '''' = Inr (z, p, rid) \<and> BareResourceID (ScopedID z p rid) = rid"
proof -
  have "ResolveScope cfg' p z = Inr (p, z)"
    using assms(1) by (auto simp: ResolveScope_Inr)
  then show ?thesis
    using assms by (simp add: ResolveImport_def ParseScopedID_ScopedID BareResourceID_ScopedID)
qed

definition pulumi_client :: NobusClient where
  "pulumi_client = \<lparr>nc_base = \<lparr>url_Scheme = ''https'', url_Host = ''h'', url_Path = ''''\<rparr>, nc_apiKey = ''k'', nc_poll = 100000\<rparr>"

definition sample_PConfig :: PConfig where
  "sample_PConfig = \<lparr>pc_APIKey = ''k'', pc_Endpoint = '''', pc_ProjectID = ''p1'', pc_AvailabilityZone = ''ng1'', pc_client = pulumi_client\<rparr>"

lemma sample_scope: "ResolveScope sample_PConfig '''' '''' = Inr (''p1'', ''ng1'')"
  by (simp add: ResolveScope_Inr sample_PConfig_def strings_TrimSpace_def ascii_space_def)

lemma ScopedID_import_roundtrip_witness:
  "ResolveImport sample_PConfig ''ng1/p1/vol-1'' '''' '''' = Inr (''ng1'', ''p1'', ''vol-1'')"
proof -
  have "ResolveImport sample_PConfig (ScopedID ''ng1'' ''p1'' ''vol-1'') '''' '''' = Inr (''ng1'', ''p1'', ''vol-1'')"
    by (rule conjunct1 [OF ScopedID_import_roundtrip [OF sample_scope]]) simp_all
  then show ?thesis by (simp only: ScopedID_def append.simps)
qed

section \<open>Comparing lists\<close>

text \<open>
  The difference of two lists of identifiers is exact.  Adding the first list to the old
  identifiers and removing the second gives the new ones, up to scopes; nothing is both added and
  removed, and both lists are ascending and without repetition.
\<close>

theorem sliceDiff_exact:
  "set (fst (sliceDiff old news)) = set (bareIDs news) - set (bareIDs old) \<and>
   set (snd (sliceDiff old news)) = set (bareIDs old) - set (bareIDs news) \<and>
   (set (bareIDs old) \<union> set (fst (sliceDiff old news))) - set (snd (sliceDiff old news)) = set (bareIDs news) \<and>
   sorted (fst (sliceDiff old news)) \<and> distinct (fst (sliceDiff old news)) \<and>
   sorted (snd (sliceDiff old news)) \<and> distinct (snd (sliceDiff old news))"
  by (auto simp: sliceDiff_def Let_def bareIDs_def)

lemma bare_equal_bare:
  "length xs = length ys \<Longrightarrow> \<forall>x \<in> set (xs @ ys). CHR ''/'' \<notin> set x \<Longrightarrow> bare_equal xs ys \<longleftrightarrow> xs = ys"
  by (induction xs ys rule: list_induct2) (auto simp: BareResourceID_bare)

lemma sort_eq_iff_mset: "sort xs = sort ys \<longleftrightarrow> mset xs = mset (ys :: string list)"
  by (metis mset_sort properties_for_sort sorted_sort)

text \<open>
  Lists of bare identifiers are compared as multisets: \<open>stringSlicesEqual\<close> ignores their order
  and nothing else.
\<close>

theorem stringSlicesEqual_iff_mset:
  assumes "\<forall>x \<in> set (a @ b). CHR ''/'' \<notin> set x"
  shows "stringSlicesEqual a b \<longleftrightarrow> mset a = mset b"
proof (cases "length a = length b")
  case True
  with assms bare_equal_bare [of "sort a" "sort b"] show ?thesis
    by (simp add: stringSlicesEqual_def sort_eq_iff_mset)
next
  case False
  then show ?thesis by (auto simp: stringSlicesEqual_def dest: mset_eq_length)
qed

lemma stringSlicesEqual_iff_mset_witness:
  "stringSlicesEqual [''sg-2'', ''sg-1''] [''sg-1'', ''sg-2'']"
  using stringSlicesEqual_iff_mset [of "[''sg-2'', ''sg-1'']" "[''sg-1'', ''sg-2'']"] by simp

text \<open>
  With scoped identifiers the order of the sorted lists is that of the scoped text, so equal lists can
  compare as different.
\<close>

lemma stringSlicesEqual_scoped_differs:
  "mset (bareIDs [''z/p/1'', ''2'']) = mset (bareIDs [''1'', ''2'']) \<and>
   \<not> stringSlicesEqual [''z/p/1'', ''2''] [''1'', ''2'']"
  by code_simp

section \<open>Retries\<close>

lemma nobus_do_from_bounded:
  fixes sent clock :: "'s \<Rightarrow> nat"
  assumes once: "\<And>s. sent (snd (once s)) \<le> sent s + 1 \<and> clock (snd (once s)) = clock s"
    and timer: "\<And>n s. sent (snd (ctx_timer ctx n s)) = sent s \<and> clock (snd (ctx_timer ctx n s)) \<le> clock s + n"
  shows "sent (snd (nobus_do_from once ctx k left s)) \<le> sent s + left + 1 \<and>
    clock (snd (nobus_do_from once ctx k left s)) \<le> clock s + (\<Sum>i = k..<k + left. i * i * 200)"
proof (induction left arbitrary: k s)
  case 0
  with once [of s] show ?case by (auto split: prod.splits sum.splits)
next
  case (Suc left)
  obtain r s1 where o1: "once s = (r, s1)" by fastforce
  obtain b s2 where t: "ctx_timer ctx (k * k * 200) s1 = (b, s2)" by fastforce
  have sum: "(\<Sum>i = k..<k + Suc left. i * i * 200) = k * k * 200 + (\<Sum>i = Suc k..<Suc k + left. i * i * 200)"
    by (simp add: sum.atLeast_Suc_lessThan)
  have "sent s1 \<le> sent s + 1" "clock s1 = clock s" using once [of s] o1 by auto
  moreover have "sent s2 = sent s1" "clock s2 \<le> clock s1 + k * k * 200" using timer [of "k * k * 200" s1] t by auto
  ultimately show ?case
    using Suc.IH [of "Suc k" s2] o1 t unfolding sum by (cases r; cases b) auto
qed

lemma nobus_doOnce_frame:
  assumes "\<And>req s. P s (snd (env_Do env ctx req s))"
  shows "P s (snd (nobus_doOnce env c ctx meth path query payload decode s))"
proof -
  let ?req = "\<lparr>rq_Method = meth, rq_URL = (nc_base c)\<lparr>url_Path := path\<rparr>, rq_Query = query, rq_Body = payload,
      rq_Header = [(''Authorization'', ''Bearer '' @ nc_apiKey c)] @
        (if payload \<noteq> None then [(''Content-Type'', ''application/json'')] else [])\<rparr>"
  obtain r s1 where e: "env_Do env ctx ?req s = (r, s1)" by fastforce
  have "snd (nobus_doOnce env c ctx meth path query payload decode s) = s1"
    unfolding nobus_doOnce_def Let_def e by (cases r) auto
  with assms [of s ?req] show ?thesis unfolding e by simp
qed

text \<open>
  C38. Retries are bounded.  One call of the client sends at most four requests and lets at most
  2.8 seconds of backoff pass, whatever the server answers.
\<close>

theorem nobus_do_bounded:
  fixes sent clock :: "'s \<Rightarrow> nat"
  assumes "\<And>req s. sent (snd (env_Do env ctx req s)) \<le> sent s + 1 \<and> clock (snd (env_Do env ctx req s)) = clock s"
    and "\<And>n s. sent (snd (ctx_timer ctx n s)) = sent s \<and> clock (snd (ctx_timer ctx n s)) \<le> clock s + n"
  shows "sent (snd (nobus_do env c ctx meth path query payload decode s)) \<le> sent s + 4 \<and>
    clock (snd (nobus_do env c ctx meth path query payload decode s)) \<le> clock s + 2800"
proof -
  have "sent (snd (nobus_doOnce env c ctx meth path query payload decode s)) \<le> sent s + 1 \<and>
      clock (snd (nobus_doOnce env c ctx meth path query payload decode s)) = clock s" for s
    using nobus_doOnce_frame [of "\<lambda>s t. sent t \<le> sent s + 1 \<and> clock t = clock s" env ctx, OF assms(1)] .
  from nobus_do_from_bounded [of sent _ clock ctx 1 3 s, OF this assms(2)] show ?thesis
    by (simp add: nobus_do_def maxAttempts_def numeral_eq_Suc del: nobus_do_from.simps)
qed

text \<open>
  A server that does what it is asked and then answers 503, as a gateway that gives up does; the
  state is the list of the bodies it acted on, and the time waited.
\<close>

definition flaky_Env :: "(json list \<times> nat) NobusEnv" where
  "flaky_Env =
     \<lparr>env_Do = (\<lambda>ctx req s. (Inr \<lparr>rs_StatusCode = 503, rs_Body = BodyEmpty\<rparr>,
        ((case rq_Body req of None \<Rightarrow> fst s | Some j \<Rightarrow> fst s @ [j]), snd s))),
      env_url_Parse = (\<lambda>u. Inl (Foreign u)), env_time_Parse = (\<lambda>_ _. True), env_WithTimeout = (\<lambda>c _. c),
      env_Open = (\<lambda>_ s. (Inr BodyEmpty, s)), ne_BodyText = (\<lambda>_. '''')\<rparr>"

definition flaky_Context :: "(json list \<times> nat) Context" where
  "flaky_Context = \<lparr>ctx_timer = (\<lambda>n s. (True, (fst s, snd s + n))), ctx_Err = (\<lambda>_. None)\<rparr>"

lemma nobus_do_bounded_witness:
  "length (fst (snd (nobus_do flaky_Env pulumi_client flaky_Context ''POST'' ''/x'' None (Some JNull) discard ([], 0)))) \<le> 4 \<and>
   snd (snd (nobus_do flaky_Env pulumi_client flaky_Context ''POST'' ''/x'' None (Some JNull) discard ([], 0))) \<le> 2800"
  using nobus_do_bounded [of "\<lambda>s. length (fst s)" flaky_Env flaky_Context "\<lambda>s. snd s" pulumi_client "''POST''" "''/x''" None
      "Some JNull" discard "([], 0)"]
  by (simp add: flaky_Env_def flaky_Context_def split: option.splits)

lemma flaky_doOnce:
  "nobus_doOnce flaky_Env c ctx meth path query (Some j) decode s =
     (Inl (Wrap ''Service Unavailable'' [Sentinel ErrUnavailable]), (fst s @ [j], snd s))"
  by (simp add: nobus_doOnce_def flaky_Env_def nobus_mapHTTPError_def nobus_message_def http_StatusText_def Let_def)

text \<open>
  C36. A creation is sent again.  The retries do not look at the method: when the server makes the
  volume and the answer is lost as 503, \<open>CreateVolume\<close> sends the same request four times, and four
  volumes are made before the error is returned.
\<close>

theorem creation_is_replayed:
  "snd (nobus_CreateVolume flaky_Env c flaky_Context req s) =
     (fst s @ replicate 4 (json_CreateVolumeReq req), snd s + 2800)"
  by (simp add: nobus_CreateVolume_def nobus_object_def nobus_do_def maxAttempts_def numeral_eq_Suc flaky_doOnce
      flaky_Context_def)

section \<open>Waiting\<close>

lemma waitUntil_loop_done:
  "waitUntil_loop ctx poll fn polls cap s = (None, cap', s') \<Longrightarrow> \<exists>c t. fn ctx c t = (Inr True, cap', s')"
proof (induction polls arbitrary: cap s)
  case 0
  then show ?case by (auto split: prod.splits sum.splits bool.splits)
next
  case (Suc polls)
  obtain r cap1 s1 where f: "fn ctx cap s = (r, cap1, s1)" by (metis prod_cases3)
  obtain b s2 where t: "ctx_timer ctx poll s1 = (b, s2)" by fastforce
  show ?case
  proof (cases r)
    case (Inl err)
    with Suc.prems f show ?thesis by simp
  next
    case (Inr fin)
    show ?thesis
    proof (cases fin)
      case True
      with Suc.prems f Inr have "fn ctx cap s = (Inr True, cap', s')" by simp
      then show ?thesis by blast
    next
      case False
      with Suc.prems f t Inr have "waitUntil_loop ctx poll fn polls cap1 s2 = (None, cap', s')" by (cases b) auto
      then show ?thesis by (rule Suc.IH)
    qed
  qed
qed

lemma waitStatus_done:
  assumes "waitStatus env c ctx timeout get status want s = (None, cur, s')"
  shows "\<exists>x. cur = Some x \<and> strings_ToLower (status x) \<in> set (map strings_ToLower want)"
proof -
  obtain cap t where "status_closure get status want (env_WithTimeout env ctx timeout) cap t = (Inr True, cur, s')"
    using waitUntil_loop_done assms unfolding waitStatus_def waitUntil_def by metis
  then show ?thesis by (auto simp: status_closure_def split: prod.splits sum.splits)
qed

section \<open>A created resource and its difference\<close>

lemmas diff_defs = replaceDiff_def updateDiff_def diffResponse_def Let_def maps_Equal_iff

lemma Volume_Create_success:
  assumes "Volume_Create env cfg ctx name input False s = ((rid, st, None), s')"
  shows "\<exists>p z ready. ResolveScope cfg (va_ProjectID input) (va_AvailabilityZone input) = Inr (p, z) \<and>
    rid = ScopedID z p (nv_ID ready) \<and> strings_ToLower (nv_Status ready) = ''available'' \<and>
    st = stateFromVolume (input\<lparr>va_ProjectID := p, va_AvailabilityZone := z\<rparr>) ready"
proof -
  obtain p z where scope: "ResolveScope cfg (va_ProjectID input) (va_AvailabilityZone input) = Inr (p, z)"
    using assms by (cases "ResolveScope cfg (va_ProjectID input) (va_AvailabilityZone input)") (auto simp: Volume_Create_def)
  let ?input = "input\<lparr>va_ProjectID := p, va_AvailabilityZone := z\<rparr>"
  obtain created s1 where made: "nobus_CreateVolume env (pc_client cfg) ctx (volume_create_request ?input p z) s = (Inr created, s1)"
    using assms scope by (auto simp: Volume_Create_def Let_def split: prod.splits sum.splits)
  obtain err cur s2 where wait: "WaitVolumeStatus env (pc_client cfg) ctx p z (nv_ID created) [''available''] s1 = (err, cur, s2)"
    by (metis prod_cases3)
  have "err = None" using assms scope made wait by (auto simp: Volume_Create_def Let_def split: option.splits)
  with wait obtain ready where "cur = Some ready" "strings_ToLower (nv_Status ready) = ''available''"
    unfolding WaitVolumeStatus_def by (auto dest!: waitStatus_done simp: strings_ToLower_def ascii_lower_def)
  with assms scope made wait \<open>err = None\<close> show ?thesis
    by (auto simp: Volume_Create_def Let_def)
qed

lemma stateFromVolume_Args:
  "va_AvailabilityZone (vs_Args (stateFromVolume input vol)) = va_AvailabilityZone input"
  "va_Size (vs_Args (stateFromVolume input vol)) = (if va_Size input = 0 then nv_Size vol else va_Size input)"
  "va_Name (vs_Args (stateFromVolume input vol)) = (if va_Name input = '''' then nv_Name vol else va_Name input)"
  "va_Description (vs_Args (stateFromVolume input vol)) =
     (if va_Description input = '''' then nv_Description vol else va_Description input)"
  "va_VolumeType (vs_Args (stateFromVolume input vol)) =
     (if va_VolumeType input = '''' then nv_VolumeType vol else va_VolumeType input)"
  "va_SnapshotID (vs_Args (stateFromVolume input vol)) = va_SnapshotID input"
  "va_SourceVolID (vs_Args (stateFromVolume input vol)) = va_SourceVolID input"
  "va_ImageRef (vs_Args (stateFromVolume input vol)) = va_ImageRef input"
  "va_Metadata (vs_Args (stateFromVolume input vol)) = va_Metadata input"
  "vs_Status (stateFromVolume input vol) = nv_Status vol"
  by (auto simp: stateFromVolume_def Let_def split: list.splits)

text \<open>
  A created volume is available, and needs no replacement.  When \<open>Create\<close> returns without an error
  the volume's status is available, and comparing it with the same inputs reports no change, except
  the description when the inputs give none and the server made one up.
\<close>

theorem Volume_created_settles:
  assumes "Volume_Create env cfg ctx name input False s = ((rid, st, None), s')"
  shows "strings_ToLower (vs_Status st) = ''available'' \<and>
    dr_DetailedDiff (Volume_Diff st input) =
      (if va_Description input = '''' \<and> va_Description (vs_Args st) \<noteq> '''' then [(''description'', Update)] else [])"
proof -
  from Volume_Create_success [OF assms] obtain p z ready
    where scope: "ResolveScope cfg (va_ProjectID input) (va_AvailabilityZone input) = Inr (p, z)"
      and ready: "strings_ToLower (nv_Status ready) = ''available''"
      and st: "st = stateFromVolume (input\<lparr>va_ProjectID := p, va_AvailabilityZone := z\<rparr>) ready" by blast
  have zone: "\<not> (va_AvailabilityZone input \<noteq> '''' \<and> z \<noteq> va_AvailabilityZone input)"
    using scope by (simp add: ResolveScope_Inr)
  show ?thesis
    unfolding Volume_Diff_def Let_def st
    by (simp add: diff_defs stateFromVolume_Args zone ready)
qed

text \<open>A server whose volumes are available at once, with a description of its own.\<close>

definition ready_Env :: "unit NobusEnv" where
  "ready_Env =
     \<lparr>env_Do = (\<lambda>ctx req s. (Inr \<lparr>rs_StatusCode = 200, rs_Body = BodyJSON (JObject [(''data'',
        (if rq_Method req = ''POST'' then JObject [(''id'', JString ''vol-1'')]
         else JArray [JObject [(''id'', JString ''vol-1''), (''status'', JString ''AVAILABLE''),
           (''description'', JString ''made'')]]))])\<rparr>, s)),
      env_url_Parse = (\<lambda>u. Inl (Foreign u)), env_time_Parse = (\<lambda>_ _. True), env_WithTimeout = (\<lambda>c _. c),
      env_Open = (\<lambda>_ s. (Inr BodyEmpty, s)), ne_BodyText = (\<lambda>_. '''')\<rparr>"

lemmas decode_defs = decodeJSON_def dec_response_def zero_response_def dec_NVolume_def zero_NVolume_def field_def
  match_field_def listResponse_def dec_raw_def decodeList_def unmarshal_list_def Let_def strings_ToLower_def

lemma ready_Create:
  "nobus_CreateVolume ready_Env c context_Background req () =
     (Inr (zero_NVolume\<lparr>nv_ID := ''vol-1'', nv_AvailabilityZone := cv_AvailabilityZone req\<rparr>), ())"
  by (simp add: nobus_CreateVolume_def nobus_object_def nobus_do_def nobus_doOnce_def ready_Env_def decode_defs)

lemma ready_Get:
  "nobus_GetVolume ready_Env c context_Background p z ''vol-1'' () =
     (Inr (zero_NVolume\<lparr>nv_ID := ''vol-1'', nv_Status := ''AVAILABLE'', nv_Description := ''made'', nv_AvailabilityZone := z\<rparr>), ())"
  by (simp add: nobus_GetVolume_def nobus_ListVolumes_def nobus_list_def nobus_do_def nobus_doOnce_def ready_Env_def decode_defs)

lemma ready_Wait:
  "WaitVolumeStatus ready_Env c context_Background p z ''vol-1'' [''available''] () =
     (None, Some (zero_NVolume\<lparr>nv_ID := ''vol-1'', nv_Status := ''AVAILABLE'', nv_Description := ''made'', nv_AvailabilityZone := z\<rparr>), ())"
proof -
  have "env_WithTimeout ready_Env context_Background n = context_Background" for n by (simp add: ready_Env_def)
  moreover have "strings_ToLower ''AVAILABLE'' = strings_ToLower ''available''" by code_simp
  ultimately show ?thesis
    by (simp add: WaitVolumeStatus_def waitStatus_def waitUntil_def status_closure_def ready_Get zero_NVolume_def)
qed

definition sample_VolumeArgs :: VolumeArgs where
  "sample_VolumeArgs = zero_VolumeArgs\<lparr>va_Size := 10, va_Name := ''data''\<rparr>"

lemma Volume_created_settles_witness:
  "\<exists>rid st s'. Volume_Create ready_Env sample_PConfig context_Background ''v'' sample_VolumeArgs False () = ((rid, st, None), s') \<and>
     dr_DetailedDiff (Volume_Diff st sample_VolumeArgs) = [(''description'', Update)]"
proof -
  have args: "va_ProjectID sample_VolumeArgs = ''''" "va_AvailabilityZone sample_VolumeArgs = ''''"
    "va_Description sample_VolumeArgs = ''''"
    by (simp_all add: sample_VolumeArgs_def zero_VolumeArgs_def)
  obtain rid st s' where made:
    "Volume_Create ready_Env sample_PConfig context_Background ''v'' sample_VolumeArgs False () = ((rid, st, None), s')"
    and "va_Description (vs_Args st) = ''made''"
    by (auto simp: Volume_Create_def args sample_scope Let_def ready_Create ready_Wait zero_NVolume_def stateFromVolume_Args)
  with Volume_created_settles [OF made] args made show ?thesis by auto
qed

section \<open>Backups\<close>

lemma VolumeBackup_Create_success:
  assumes "VolumeBackup_Create env cfg ctx name input False s = ((rid, st, None), s')"
  shows "\<exists>p z ready. ResolveScope cfg (ba_ProjectID input) (ba_AvailabilityZone input) = Inr (p, z) \<and>
    strings_ToLower (nb_Status ready) = ''available'' \<and>
    st = stateFromBackup (input\<lparr>ba_ProjectID := p, ba_AvailabilityZone := z,
      ba_VolumeID := BareResourceID (ba_VolumeID input), ba_SnapshotID := BareResourceID (ba_SnapshotID input)\<rparr>) ready"
proof -
  obtain p z where scope: "ResolveScope cfg (ba_ProjectID input) (ba_AvailabilityZone input) = Inr (p, z)"
    using assms by (cases "ResolveScope cfg (ba_ProjectID input) (ba_AvailabilityZone input)") (auto simp: VolumeBackup_Create_def)
  obtain created s1 err cur s2 where
    wait: "WaitBackupStatus env (pc_client cfg) ctx p z (nb_ID created) [''available''] s1 = (err, cur, s2)"
    and eq: "VolumeBackup_Create env cfg ctx name input False s =
      (case (err, cur) of (None, Some ready) \<Rightarrow>
          ((ScopedID z p (nb_ID ready), stateFromBackup (input\<lparr>ba_ProjectID := p, ba_AvailabilityZone := z,
            ba_VolumeID := BareResourceID (ba_VolumeID input), ba_SnapshotID := BareResourceID (ba_SnapshotID input)\<rparr>) ready, None), s2)
       | _ \<Rightarrow> ((ScopedID z p (nb_ID created), stateFromBackup (input\<lparr>ba_ProjectID := p, ba_AvailabilityZone := z,
            ba_VolumeID := BareResourceID (ba_VolumeID input), ba_SnapshotID := BareResourceID (ba_SnapshotID input)\<rparr>) created, err), s2))"
    using assms scope by (auto simp: VolumeBackup_Create_def Let_def split: prod.splits sum.splits option.splits)
  have "err = None" using assms eq by (auto split: option.splits)
  with wait obtain ready where "cur = Some ready" "strings_ToLower (nb_Status ready) = ''available''"
    unfolding WaitBackupStatus_def by (auto dest!: waitStatus_done simp: strings_ToLower_def ascii_lower_def)
  with assms scope eq \<open>err = None\<close> show ?thesis by auto
qed

text \<open>
  A backup that was made can be replaced for nothing.  After a successful \<open>Create\<close> the same inputs
  compare as different exactly when the server filled in the description or the container that the
  inputs leave open, and either is a replacement: the backup is deleted, and then made again.
\<close>

theorem VolumeBackup_created_difference:
  assumes "VolumeBackup_Create env cfg ctx name input False s = ((rid, st, None), s')"
    and volume: "BareResourceID (ba_VolumeID input) \<noteq> ''''"
  shows "strings_ToLower (bs_Status st) = ''available'' \<and>
    dr_DeleteBeforeReplace (VolumeBackup_Diff st input) \<and>
    set (dr_DetailedDiff (VolumeBackup_Diff st input)) =
      {(f, UpdateReplace) | f. f = ''description'' \<and> ba_Description input = '''' \<and> ba_Description (bs_Args st) \<noteq> '''' \<or>
         f = ''container'' \<and> ba_Container input = '''' \<and> ba_Container (bs_Args st) \<noteq> ''''}"
proof -
  from VolumeBackup_Create_success [OF assms(1)] obtain p z ready
    where scope: "ResolveScope cfg (ba_ProjectID input) (ba_AvailabilityZone input) = Inr (p, z)"
      and ready: "strings_ToLower (nb_Status ready) = ''available''"
      and st: "st = stateFromBackup (input\<lparr>ba_ProjectID := p, ba_AvailabilityZone := z,
        ba_VolumeID := BareResourceID (ba_VolumeID input), ba_SnapshotID := BareResourceID (ba_SnapshotID input)\<rparr>) ready"
    by blast
  have zone: "\<not> (ba_AvailabilityZone input \<noteq> '''' \<and> z \<noteq> ba_AvailabilityZone input)"
    using scope by (simp add: ResolveScope_Inr)
  have args: "ba_AvailabilityZone (bs_Args st) = z" "bs_Status st = nb_Status ready"
    "\<not> (ba_VolumeID input \<noteq> '''' \<and> BareResourceID (ba_VolumeID (bs_Args st)) \<noteq> BareResourceID (ba_VolumeID input))"
    "\<not> (ba_Name input \<noteq> '''' \<and> ba_Name (bs_Args st) \<noteq> ba_Name input)"
    "ba_Description (bs_Args st) \<noteq> ba_Description input \<longleftrightarrow> ba_Description input = '''' \<and> ba_Description (bs_Args st) \<noteq> ''''"
    "ba_Container (bs_Args st) \<noteq> ba_Container input \<longleftrightarrow> ba_Container input = '''' \<and> ba_Container (bs_Args st) \<noteq> ''''"
    "ba_Incremental (bs_Args st) = ba_Incremental input" "ba_Force (bs_Args st) = ba_Force input"
    "BareResourceID (ba_SnapshotID (bs_Args st)) = BareResourceID (ba_SnapshotID input)"
    "ba_Metadata (bs_Args st) = ba_Metadata input"
    unfolding st by (simp_all add: stateFromBackup_def Let_def volume)
  define dd where "dd \<longleftrightarrow> ba_Description input = '''' \<and> ba_Description (bs_Args st) \<noteq> ''''"
  define cc where "cc \<longleftrightarrow> ba_Container input = '''' \<and> ba_Container (bs_Args st) \<noteq> ''''"
  have skip: "replaceDiff f False d = d" for f d by (simp add: replaceDiff_def)
  have "VolumeBackup_Diff st input =
      diffResponse (replaceDiff ''container'' cc (replaceDiff ''description'' dd []))"
    unfolding VolumeBackup_Diff_def Let_def maps_Equal_iff
    by (simp only: args zone skip not_True_eq_False simp_thms dd_def cc_def)
  moreover have "set (replaceDiff ''container'' cc (replaceDiff ''description'' dd [])) =
      {(f, UpdateReplace) | f. f = ''description'' \<and> dd \<or> f = ''container'' \<and> cc}"
    by (cases cc; cases dd) (auto simp: replaceDiff_def)
  ultimately show ?thesis
    using ready args(2) unfolding dd_def cc_def by (simp add: diffResponse_def)
qed

text \<open>A backup service that names the container itself.\<close>

definition backup_Env :: "unit NobusEnv" where
  "backup_Env = ready_Env\<lparr>env_Do := \<lambda>ctx req s. (Inr \<lparr>rs_StatusCode = 200, rs_Body = BodyJSON (JObject [(''data'',
     JObject [(''id'', JString ''b-1''), (''status'', JString ''available''), (''container'', JString ''volumebackups'')])])\<rparr>, s)\<rparr>"

definition backup_made :: NBackup where
  "backup_made = zero_NBackup\<lparr>nb_ID := ''b-1'', nb_Status := ''available'', nb_Container := ''volumebackups''\<rparr>"

lemma backup_object:
  "nobus_object backup_Env c ctx meth path query payload (dec_data dec_NBackup) zero_NBackup () = (Inr backup_made, ())"
  by (simp add: nobus_object_def nobus_do_def nobus_doOnce_def backup_Env_def decode_defs dec_data_def dec_NBackup_def
      zero_NBackup_def backup_made_def)

lemma backup_Create:
  "nobus_CreateBackup backup_Env c ctx req () = (Inr (backup_made\<lparr>nb_AvailabilityZone := cb_AvailabilityZone req\<rparr>), ())"
  by (simp add: nobus_CreateBackup_def backup_object) (simp add: backup_made_def zero_NBackup_def)

lemma backup_Wait:
  "WaitBackupStatus backup_Env c context_Background p z ''b-1'' [''available''] () = (None, Some backup_made, ())"
  by (simp add: WaitBackupStatus_def waitStatus_def waitUntil_def status_closure_def nobus_GetBackup_def backup_object)
    (simp add: backup_made_def zero_NBackup_def)

definition sample_BackupArgs :: VolumeBackupArgs where
  "sample_BackupArgs = zero_VolumeBackupArgs\<lparr>ba_VolumeID := ''vol-1''\<rparr>"

lemma VolumeBackup_created_difference_witness:
  "\<exists>rid st s'. VolumeBackup_Create backup_Env sample_PConfig context_Background ''b'' sample_BackupArgs False () =
       ((rid, st, None), s') \<and>
     set (dr_DetailedDiff (VolumeBackup_Diff st sample_BackupArgs)) = {(''container'', UpdateReplace)}"
proof -
  have args: "ba_ProjectID sample_BackupArgs = ''''" "ba_AvailabilityZone sample_BackupArgs = ''''"
    "ba_Description sample_BackupArgs = ''''" "ba_Container sample_BackupArgs = ''''" "ba_VolumeID sample_BackupArgs = ''vol-1''"
    by (simp_all add: sample_BackupArgs_def zero_VolumeBackupArgs_def)
  have bare: "BareResourceID ''vol-1'' = ''vol-1''" by (rule BareResourceID_bare) simp
  have made_simps: "nb_ID backup_made = ''b-1''" "nb_Description backup_made = ''''" "nb_Container backup_made = ''volumebackups''"
    by (simp_all add: backup_made_def zero_NBackup_def)
  obtain rid st s' where made:
    "VolumeBackup_Create backup_Env sample_PConfig context_Background ''b'' sample_BackupArgs False () = ((rid, st, None), s')"
    and "ba_Container (bs_Args st) = ''volumebackups''" "ba_Description (bs_Args st) = ''''"
    by (simp add: VolumeBackup_Create_def args sample_scope Let_def backup_Create backup_Wait stateFromBackup_def made_simps)
  with VolumeBackup_created_difference [OF made] args bare made show ?thesis by auto
qed

section \<open>Attachments\<close>

lemma VolumeAttachment_Create_rid:
  "VolumeAttachment_Create env cfg ctx name input preview s = ((rid, st, e), s') \<Longrightarrow> rid \<noteq> '''' \<Longrightarrow>
     ResolveScope cfg (ta_ProjectID input) (ta_AvailabilityZone input) =
       Inr (ta_ProjectID (ts_Args st), ta_AvailabilityZone (ts_Args st)) \<and>
     rid = ScopedID (ta_AvailabilityZone (ts_Args st)) (ta_ProjectID (ts_Args st))
       (ta_VolumeID (ts_Args st) @ '':'' @ ta_InstanceID (ts_Args st))"
  by (auto simp: VolumeAttachment_Create_def Let_def split: sum.splits prod.splits if_splits option.splits)

text \<open>
  An attachment is found again by its identifier alone.  The identifier \<open>Create\<close> gives, also when
  it fails after attaching, resolves by an import without any state to the zone and the project of
  the attachment, and the volume and the instance read from it are the attached ones.
\<close>

theorem attachment_import_roundtrip:
  assumes "VolumeAttachment_Create env cfg ctx name input preview s = ((rid, st, e), s')" and "rid \<noteq> ''''"
    and "a = ts_Args st"
    and "CHR ''/'' \<notin> set (ta_AvailabilityZone a @ ta_ProjectID a @ ta_VolumeID a @ ta_InstanceID a)"
    and "CHR '':'' \<notin> set (ta_VolumeID a)"
  shows "\<exists>resource. ResolveImport cfg' rid '''' '''' = Inr (ta_AvailabilityZone a, ta_ProjectID a, resource) \<and>
    attachment_ids zero_VolumeAttachmentArgs zero_VolumeAttachmentArgs resource = (ta_VolumeID a, ta_InstanceID a)"
proof -
  let ?r = "ta_VolumeID a @ '':'' @ ta_InstanceID a"
  note made = VolumeAttachment_Create_rid [OF assms(1,2), folded assms(3)]
  have "ResolveScope cfg' (ta_ProjectID a) (ta_AvailabilityZone a) = Inr (ta_ProjectID a, ta_AvailabilityZone a)"
    using made by (auto simp: ResolveScope_Inr)
  then have "ResolveImport cfg' rid '''' '''' = Inr (ta_AvailabilityZone a, ta_ProjectID a, ?r)"
    using made assms(4) by (auto simp: ResolveImport_def ParseScopedID_ScopedID)
  moreover have "BareResourceID '''' = ''''" by (rule BareResourceID_bare) simp
  then have "attachment_ids zero_VolumeAttachmentArgs zero_VolumeAttachmentArgs ?r = (ta_VolumeID a, ta_InstanceID a)"
    using assms(5) by (simp add: attachment_ids_def zero_VolumeAttachmentArgs_def Let_def)
  ultimately show ?thesis by blast
qed

definition sample_AttachmentArgs :: VolumeAttachmentArgs where
  "sample_AttachmentArgs = zero_VolumeAttachmentArgs\<lparr>ta_VolumeID := ''vol-1'', ta_InstanceID := ''ng1/p1/i-1''\<rparr>"

lemma attachment_import_roundtrip_witness:
  "\<exists>rid st e s' resource.
     VolumeAttachment_Create ready_Env sample_PConfig context_Background ''a'' sample_AttachmentArgs True () = ((rid, st, e), s') \<and>
     ResolveImport sample_PConfig rid '''' '''' = Inr (''ng1'', ''p1'', resource) \<and>
     attachment_ids zero_VolumeAttachmentArgs zero_VolumeAttachmentArgs resource = (''vol-1'', ''i-1'')"
proof -
  have args: "ta_ProjectID sample_AttachmentArgs = ''''" "ta_AvailabilityZone sample_AttachmentArgs = ''''"
    "ta_VolumeID sample_AttachmentArgs = ''vol-1''" "ta_InstanceID sample_AttachmentArgs = ''ng1/p1/i-1''"
    by (simp_all add: sample_AttachmentArgs_def zero_VolumeAttachmentArgs_def)
  have bare: "BareResourceID ''vol-1'' = ''vol-1''" "BareResourceID ''ng1/p1/i-1'' = ''i-1''"
    using BareResourceID_bare [of "''vol-1''"] BareResourceID_ScopedID [of "''ng1''" "''p1''" "''i-1''"]
    by (simp_all add: ScopedID_def)
  obtain rid st s' where made:
    "VolumeAttachment_Create ready_Env sample_PConfig context_Background ''a'' sample_AttachmentArgs True () = ((rid, st, None), s')"
    and st: "rid \<noteq> ''''" "ta_AvailabilityZone (ts_Args st) = ''ng1''" "ta_ProjectID (ts_Args st) = ''p1''"
      "ta_VolumeID (ts_Args st) = ''vol-1''" "ta_InstanceID (ts_Args st) = ''i-1''"
    by (simp add: VolumeAttachment_Create_def args sample_scope Let_def bare ScopedID_def)
  with attachment_import_roundtrip [OF made _ refl, of sample_PConfig] show ?thesis by auto
qed

section \<open>Checks\<close>

text \<open>
  Inputs that pass the check are usable.  When \<open>Check\<close> reports no failure, the volume has a zone that
  is not blank and a positive size, and the inputs handed to the SDK have a zone whenever the provider
  has a default one.
\<close>

theorem Volume_Check_accepts:
  assumes "Volume_Check cfg DefaultCheck newInputs = (args, [], None)"
  shows "strings_TrimSpace (va_AvailabilityZone args) \<noteq> '''' \<and> 0 < va_Size args \<and>
    (\<exists>inputs. DefaultCheck inputs = (args, [], None) \<and>
       (\<forall>c. cfg = Some c \<and> strings_TrimSpace (pc_AvailabilityZone c) \<noteq> '''' \<longrightarrow> \<not> blankInput inputs ''availabilityZone''))"
proof -
  have default: "\<not> blankInput (default_inputs cfg newInputs) ''availabilityZone''"
    if "cfg = Some c" "strings_TrimSpace (pc_AvailabilityZone c) \<noteq> ''''" for c
    using that by (auto simp: default_inputs_def Let_def blankInput_def update_conv' split: option.splits propval.splits)
  from assms have "DefaultCheck (default_inputs cfg newInputs) = (args, [], None)"
      "strings_TrimSpace (va_AvailabilityZone args) \<noteq> ''''" "0 < va_Size args"
    by (auto simp: Volume_Check_def checkResourceArgs_def Let_def split: prod.splits if_splits)
  with default show ?thesis by blast
qed

lemma Volume_Check_accepts_witness:
  "\<exists>args. Volume_Check (Some sample_PConfig) (\<lambda>inputs. (sample_VolumeArgs\<lparr>va_AvailabilityZone :=
        (case map_of inputs ''availabilityZone'' of Some (PString z) \<Rightarrow> z | _ \<Rightarrow> '''')\<rparr>, [], None)) [] = (args, [], None) \<and>
     0 < va_Size args"
proof -
  let ?D = "\<lambda>inputs. (sample_VolumeArgs\<lparr>va_AvailabilityZone :=
        (case map_of inputs ''availabilityZone'' of Some (PString z) \<Rightarrow> z | _ \<Rightarrow> '''')\<rparr>, [], None)"
  obtain args where "Volume_Check (Some sample_PConfig) ?D [] = (args, [], None)"
    by (simp add: Volume_Check_def checkResourceArgs_def default_inputs_def blankInput_def sample_PConfig_def Let_def
        sample_VolumeArgs_def zero_VolumeArgs_def strings_TrimSpace_def ascii_space_def)
  with Volume_Check_accepts [OF this] show ?thesis by blast
qed

end
