(* ===== verification/Effects.thy ===== *)
theory Effects
  imports NobusStorage
begin

text \<open>The member of a body that is an object, and whether it names a given thing.\<close>

definition json_member :: "string \<Rightarrow> json \<Rightarrow> json option" where
  "json_member key j = (case j of JObject ms \<Rightarrow> map_of ms key | _ \<Rightarrow> None)"

definition addressed :: "string \<Rightarrow> string \<Rightarrow> json option \<Rightarrow> bool" where
  "addressed key i payload \<longleftrightarrow> Option.bind payload (json_member key) = Some (JString i)"

text \<open>
  What the calls of the API client do to the server.  A view of the server's state changes by the
  effect of every request that is answered with success; a request that fails, by its status or in
  transport, took effect or did not.  Effects that can be repeated make the retries of the client
  harmless: a call that succeeds has the effect of one request.
\<close>

section \<open>Servers\<close>

type_synonym 'v effect = "string \<Rightarrow> string \<Rightarrow> json option \<Rightarrow> 'v \<Rightarrow> 'v"

definition request_effect :: "'v effect \<Rightarrow> http_request \<Rightarrow> 'v \<Rightarrow> 'v" where
  "request_effect eff req = eff (rq_Method req) (url_Path (rq_URL req)) (rq_Body req)"

definition serves :: "'s NobusEnv \<Rightarrow> 's Context \<Rightarrow> ('s \<Rightarrow> 'v) \<Rightarrow> 'v effect \<Rightarrow> bool" where
  "serves env ctx view eff \<longleftrightarrow>
     (\<forall>c req s. case env_Do env c req s of
        (Inr resp, s1) \<Rightarrow>
          if rs_StatusCode resp < 400 then view s1 = request_effect eff req (view s)
          else view s1 \<in> {view s, request_effect eff req (view s)}
      | (Inl _, s1) \<Rightarrow> view s1 \<in> {view s, request_effect eff req (view s)}) \<and>
     (\<forall>n s. view (snd (ctx_timer ctx n s)) = view s) \<and>
     (\<forall>t n s. view (snd (ctx_timer (env_WithTimeout env ctx t) n s)) = view s)"

text \<open>The contexts of a call: the caller's, or one derived from it with a timeout.\<close>

definition within :: "'s NobusEnv \<Rightarrow> 's Context \<Rightarrow> 's Context \<Rightarrow> bool" where
  "within env ctx cx \<longleftrightarrow> cx = ctx \<or> (\<exists>t. cx = env_WithTimeout env ctx t)"

lemma within_refl [simp]: "within env ctx ctx"
  and within_timeout [simp]: "within env ctx (env_WithTimeout env ctx t)"
  by (auto simp: within_def)

lemma serves_timer: "serves env ctx view eff \<Longrightarrow> within env ctx cx \<Longrightarrow> view (snd (ctx_timer cx n s)) = view s"
  unfolding serves_def within_def by auto

text \<open>A call has the effect \<open>f\<close>: on success it took place, on an error it did or did not.\<close>

definition effect_of :: "('s \<Rightarrow> 'v) \<Rightarrow> ('v \<Rightarrow> 'v) \<Rightarrow> 's \<Rightarrow> (goerr + 'a) \<times> 's \<Rightarrow> bool" where
  "effect_of view f s r \<longleftrightarrow>
     (case r of (Inr _, s1) \<Rightarrow> view s1 = f (view s) | (Inl _, s1) \<Rightarrow> view s1 \<in> {view s, f (view s)})"

lemma effect_of_keeps: "effect_of view f s r \<Longrightarrow> f (view s) = view s \<Longrightarrow> view (snd r) = view s"
  by (cases r; cases "fst r") (auto simp: effect_of_def)

lemma doOnce_effect:
  assumes "serves env ctx view eff"
  shows "effect_of view (eff meth path payload) s (nobus_doOnce env c cx meth path query payload decode s)"
proof -
  let ?req = "\<lparr>rq_Method = meth, rq_URL = (nc_base c)\<lparr>url_Path := path\<rparr>, rq_Query = query, rq_Body = payload,
      rq_Header = [(''Authorization'', ''Bearer '' @ nc_apiKey c)] @
        (if payload \<noteq> None then [(''Content-Type'', ''application/json'')] else [])\<rparr>"
  obtain r s1 where e: "env_Do env cx ?req s = (r, s1)" by fastforce
  have q: "request_effect eff ?req = eff meth path payload" by (simp add: request_effect_def)
  have law: "case env_Do env cx ?req s of
        (Inr resp, s1) \<Rightarrow>
          if rs_StatusCode resp < 400 then view s1 = request_effect eff ?req (view s)
          else view s1 \<in> {view s, request_effect eff ?req (view s)}
      | (Inl _, s1) \<Rightarrow> view s1 \<in> {view s, request_effect eff ?req (view s)}"
    by (rule assms [unfolded serves_def, THEN conjunct1, rule_format])
  show ?thesis
  proof (cases r)
    case (Inl err)
    with law show ?thesis unfolding nobus_doOnce_def Let_def e q by (simp add: effect_of_def)
  next
    case (Inr resp)
    with law show ?thesis unfolding nobus_doOnce_def Let_def e q
      by (cases "decode (rs_Body resp)") (auto simp: effect_of_def)
  qed
qed

lemma do_from_effect:
  assumes once: "\<And>s. effect_of view f s (once s)" and idem: "\<And>v. f (f v) = f v"
    and timer: "\<And>n s. view (snd (ctx_timer ctx n s)) = view s"
  shows "effect_of view f s (nobus_do_from once ctx k left s)"
proof (induction left arbitrary: k s)
  case 0
  with once [of s] show ?case by (auto simp: effect_of_def split: prod.splits sum.splits)
next
  case (Suc left)
  obtain r s1 where o1: "once s = (r, s1)" by fastforce
  obtain b s2 where t: "ctx_timer ctx (k * k * 200) s1 = (b, s2)" by fastforce
  have g2: "view s2 = view s1" using timer [of "k * k * 200" s1] t by simp
  show ?case
  proof (cases r)
    case (Inr v)
    with once [of s] o1 show ?thesis by (simp add: effect_of_def)
  next
    case (Inl err)
    with once [of s] o1 have g1: "view s1 \<in> {view s, f (view s)}" by (simp add: effect_of_def)
    have rec: "effect_of view f s2 (nobus_do_from once ctx (k + 1) left s2)" by (rule Suc.IH)
    show ?thesis
    proof (cases "errors_is err ErrUnavailable \<and> ctx_Err ctx s1 = None \<and> b")
      case True
      with Inl o1 t have "nobus_do_from once ctx k (Suc left) s = nobus_do_from once ctx (k + 1) left s2" by simp
      with rec g1 g2 idem show ?thesis by (auto simp: effect_of_def split: prod.splits sum.splits)
    next
      case False
      with Inl o1 t g1 g2 show ?thesis by (auto simp: effect_of_def)
    qed
  qed
qed

section \<open>Effects that can be repeated\<close>

locale repeatable =
  fixes eff :: "'v effect"
  assumes idem: "eff meth path payload (eff meth path payload v) = eff meth path payload v"
begin

lemma do_effect:
  assumes "serves env ctx view eff" and "within env ctx cx"
  shows "effect_of view (eff meth path payload) s (nobus_do env c cx meth path query payload decode s)"
  unfolding nobus_do_def
  by (rule do_from_effect [OF doOnce_effect [OF assms(1)] idem serves_timer [OF assms]])

lemma do_keeps:
  assumes "serves env ctx view eff" and "within env ctx cx" and "\<And>v. eff meth path payload v = v"
  shows "view (snd (nobus_do env c cx meth path query payload decode s)) = view s"
proof -
  have "effect_of view (eff meth path payload) s (nobus_do env c cx meth path query payload decode s)"
    by (rule do_effect [OF assms(1,2)])
  from effect_of_keeps [OF this] assms(3) show ?thesis by blast
qed

lemma object_effect:
  assumes "serves env ctx view eff" and "within env ctx cx"
  shows "effect_of view (eff meth path payload) s (nobus_object env c cx meth path query payload d zero s)"
proof -
  obtain r s1 where "nobus_do env c cx meth path query payload (decodeJSON d (zero_response zero)) s = (r, s1)" by fastforce
  with do_effect [OF assms, where meth = meth and path = path and payload = payload and s = s and c = c and query = query
      and decode = "decodeJSON d (zero_response zero)"] show ?thesis
    by (cases r) (simp_all add: nobus_object_def effect_of_def)
qed

lemma object_keeps:
  assumes "serves env ctx view eff" and "within env ctx cx" and "\<And>v. eff meth path payload v = v"
  shows "view (snd (nobus_object env c cx meth path query payload d zero s)) = view s"
proof -
  have "effect_of view (eff meth path payload) s (nobus_object env c cx meth path query payload d zero s)"
    by (rule object_effect [OF assms(1,2)])
  from effect_of_keeps [OF this] assms(3) show ?thesis by blast
qed

lemma list_keeps:
  assumes "serves env ctx view eff" and "within env ctx cx" and "\<And>v. eff ''GET'' path None v = v"
  shows "view (snd (nobus_list env c cx path query d zero s)) = view s"
proof -
  obtain r s1 where "nobus_do env c cx ''GET'' path query None (decodeJSON listResponse None) s = (r, s1)" by fastforce
  with do_keeps [OF assms, where s = s and c = c and query = query and decode = "decodeJSON listResponse None"] show ?thesis
    by (cases r) (simp_all add: nobus_list_def)
qed

end

section \<open>Waiting\<close>

lemma waitUntil_loop_keeps:
  assumes "\<And>cap s. view (snd (snd (fn ctx cap s))) = view s" and "\<And>n s. view (snd (ctx_timer ctx n s)) = view s"
  shows "view (snd (snd (waitUntil_loop ctx poll fn polls cap s))) = view s"
proof (induction polls arbitrary: cap s)
  case 0
  with assms(1) [of cap s] show ?case by (auto split: prod.splits sum.splits bool.splits)
next
  case (Suc polls)
  obtain r cap1 s1 where f: "fn ctx cap s = (r, cap1, s1)" by (metis prod_cases3)
  obtain b s2 where t: "ctx_timer ctx poll s1 = (b, s2)" by fastforce
  have "view s1 = view s" using assms(1) [of cap s] f by simp
  moreover have "view s2 = view s1" using assms(2) [of poll s1] t by simp
  ultimately show ?case
    using Suc.IH [of cap1 s2] f t by (cases r) (auto split: bool.splits)
qed

lemma waitStatus_keeps:
  assumes "serves env ctx view eff" and "\<And>cx s. within env ctx cx \<Longrightarrow> view (snd (get cx s)) = view s"
  shows "view (snd (snd (waitStatus env c ctx timeout get status want s))) = view s"
  unfolding waitStatus_def waitUntil_def
proof (rule waitUntil_loop_keeps)
  fix cap s
  obtain r s1 where g: "get (env_WithTimeout env ctx timeout) s = (r, s1)" by fastforce
  then have "view s1 = view s" using assms(2) [of "env_WithTimeout env ctx timeout" s] by simp
  then show "view (snd (snd (status_closure get status want (env_WithTimeout env ctx timeout) cap s))) = view s"
    using g by (cases r) (simp_all add: status_closure_def)
qed (rule serves_timer [OF assms(1) within_timeout])

end
