(* ===== verification/PulumiUpdate.thy ===== *)
theory PulumiUpdate
  imports PulumiCompute PulumiProps Effects
begin

text \<open>
  What the update of an instance does to the server.  The server is described by the set of the
  security groups an instance has and by what the requests do to it; \<open>Instance_Update\<close> leaves it with the
  groups of the new inputs.
\<close>

section \<open>A server that holds security groups\<close>

definition group_name :: "json option \<Rightarrow> string" where
  "group_name b =
     (case b of
        Some (JObject ms) \<Rightarrow> (case map_of ms ''security_group_name'' of Some (JString g) \<Rightarrow> g | _ \<Rightarrow> '''')
      | _ \<Rightarrow> '''')"

text \<open>
  The documented behaviour of the two actions on the groups of the instance \<open>i\<close>; requests of other kinds, and
  those that name another instance, leave the groups alone.
\<close>

definition group_effect :: "string \<Rightarrow> string set effect" where
  "group_effect i meth path payload G =
     (if \<not> addressed ''server_id'' i payload then G
      else if path = ''/api/v3/instance/attach-security-group'' then insert (group_name payload) G
      else if path = ''/api/v3/instance/remove-security-group'' then G - {group_name payload}
      else G)"

definition group_path :: "string \<Rightarrow> bool" where
  "group_path path \<longleftrightarrow> path = ''/api/v3/instance/attach-security-group'' \<or> path = ''/api/v3/instance/remove-security-group''"

lemma group_effect_other: "\<not> group_path path \<Longrightarrow> group_effect i meth path payload G = G"
  by (simp add: group_effect_def group_path_def)

interpretation group: repeatable "group_effect i" for i
  by unfold_locales (auto simp: group_effect_def)

lemma GetInstance_keeps:
  assumes "serves env ctx groups (group_effect srv)" and "within env ctx cx"
  shows "groups (snd (nobus_GetInstance env c cx p z i s)) = groups s"
proof -
  let ?query = "Some (query_Set ''server_id'' i (projectQuery p z))" and ?query2 = "Some (query_Set ''id'' i (projectQuery p z))"
  obtain r s1 where o1: "nobus_object env c cx ''GET'' ''/api/v3/instance'' ?query None (dec_response dec_NInstance)
      zero_NInstance s = (r, s1)" by fastforce
  have "groups (snd (nobus_object env c cx ''GET'' ''/api/v3/instance'' ?query None (dec_response dec_NInstance)
      zero_NInstance s)) = groups s"
    by (rule group.object_keeps [OF assms]) (simp add: group_effect_other group_path_def)
  with o1 have g1: "groups s1 = groups s" by simp
  obtain r2 s2 where o2: "nobus_list env c cx ''/api/v3/instance/list'' ?query2 dec_NInstance zero_NInstance s1 = (r2, s2)"
    by fastforce
  have "groups (snd (nobus_list env c cx ''/api/v3/instance/list'' ?query2 dec_NInstance zero_NInstance s1)) = groups s1"
    by (rule group.list_keeps [OF assms]) (simp add: group_effect_other group_path_def)
  with o2 have g2: "groups s2 = groups s1" by simp
  show ?thesis
    using g1 g2 by (auto simp: nobus_GetInstance_def o1 getInstanceFromList_def o2 split: sum.splits option.splits)
qed

lemma WaitInstanceStatus_keeps:
  assumes "serves env ctx groups (group_effect srv)"
  shows "groups (snd (snd (WaitInstanceStatus env c ctx p z i want s))) = groups s"
  unfolding WaitInstanceStatus_def
proof (rule waitStatus_keeps [OF assms])
  fix cx s
  assume "within env ctx cx"
  then show "groups (snd (nobus_GetInstance env c cx p z i s)) = groups s" by (rule GetInstance_keeps [OF assms])
qed

section \<open>The steps of an update\<close>

lemma done_or_snd [simp]: "snd (done_or m r) = snd r"
  by (cases r; cases "fst r") (auto simp: done_or_def)

lemma instance_action_keeps:
  assumes "serves env ctx groups (group_effect srv)"
    and "\<not> group_path (''/api/v3/instance/'' @ action)"
  shows "groups (snd (instance_action env c ctx action req s)) = groups s"
  unfolding instance_action_def
  by (rule group.do_keeps [OF assms(1) within_refl group_effect_other [OF assms(2)]])

lemma update_name_keeps:
  "serves env ctx groups (group_effect srv) \<Longrightarrow> groups (snd (update_name env c ctx sv old news s)) = groups s"
  by (simp add: update_name_def nobus_UpdateInstance_def instance_action_keeps group_path_def)

lemma update_tags_keeps:
  "serves env ctx groups (group_effect srv) \<Longrightarrow> groups (snd (update_tags env c ctx sv old news s)) = groups s"
  by (simp add: update_tags_def nobus_SetTags_def instance_action_keeps group_path_def)

lemma confirm_resize_keeps:
  assumes "serves env ctx groups (group_effect srv)"
  shows "groups (snd (confirm_resize env c ctx sv s)) = groups s"
proof -
  let ?confirm = "done_or ''confirm resize'' (nobus_ConfirmResize env c ctx (sv_Project sv) (sv_Zone sv) (sv_ID sv) s)"
  obtain r s1 where o1: "?confirm = (r, s1)" by fastforce
  have "groups (snd ?confirm) = groups s"
    by (simp add: nobus_ConfirmResize_def instance_action_keeps [OF assms] group_path_def)
  with o1 have g1: "groups s1 = groups s" by simp
  obtain w m s2 where
    o2: "WaitInstanceStatus env c ctx (sv_Project sv) (sv_Zone sv) (sv_ID sv) [''ACTIVE''] s1 = (w, m, s2)"
    by (metis prod_cases3)
  have "groups s2 = groups s1"
    using WaitInstanceStatus_keeps [OF assms, of c "sv_Project sv" "sv_Zone sv" "sv_ID sv" "[''ACTIVE'']" s1] o2 by simp
  with g1 show ?thesis by (cases r; cases w) (simp_all add: confirm_resize_def o1 o2)
qed

lemma update_flavor_keeps:
  assumes "serves env ctx groups (group_effect srv)"
  shows "groups (snd (update_flavor env c ctx sv old news s)) = groups s"
proof -
  let ?p = "sv_Project sv" and ?z = "sv_Zone sv" and ?i = "sv_ID sv" and ?want = "[''VERIFY_RESIZE'', ''ACTIVE'']"
  let ?resize = "done_or ''resize instance'' (nobus_ResizeInstance env c ctx ?p ?z ?i (BareResourceID (ia_Flavor news)) s)"
  obtain r s1 where o1: "?resize = (r, s1)" by fastforce
  have "groups (snd ?resize) = groups s"
    by (simp add: nobus_ResizeInstance_def instance_action_keeps [OF assms] group_path_def)
  with o1 have g1: "groups s1 = groups s" by simp
  obtain w m s2 where o2: "WaitInstanceStatus env c ctx ?p ?z ?i ?want s1 = (w, m, s2)" by (metis prod_cases3)
  have g2: "groups s2 = groups s1"
    using WaitInstanceStatus_keeps [OF assms, of c ?p ?z ?i ?want s1] o2 by simp
  obtain got s3 where o3: "nobus_GetInstance env c ctx ?p ?z ?i s2 = (got, s3)" by fastforce
  have g3: "groups s3 = groups s2"
    using GetInstance_keeps [OF assms within_refl, of c ?p ?z ?i s2] o3 by simp
  show ?thesis
    using g1 g2 g3 confirm_resize_keeps [OF assms, of c sv s3]
    by (cases r; cases w; cases got) (simp_all add: update_flavor_def o1 o2 o3)
qed

text \<open>The two loops over groups: when no step fails, every one took effect, in their order.\<close>

lemma remove_group_effect:
  assumes "serves env ctx groups (group_effect srv)" and "remove_group env c ctx sv g s = (None, s1)"
  shows "groups s1 = (if srv = sv_ID sv then groups s - {g} else groups s)"
proof -
  let ?path = "''/api/v3/instance/remove-security-group''"
  let ?body = "server_request (sv_Project sv) (sv_Zone sv) (sv_ID sv) [(''security_group_name'', JString g)]"
  have call: "remove_group env c ctx sv g s = done_or (''remove security group '' @ g)
      (nobus_do env c ctx ''POST'' ?path None (Some ?body) discard s)"
    by (simp add: remove_group_def nobus_RemoveSecurityGroup_def instance_action_def)
  obtain r s2 where o: "nobus_do env c ctx ''POST'' ?path None (Some ?body) discard s = (r, s2)" by fastforce
  have f: "group_effect srv ''POST'' ?path (Some ?body) (groups s) = (if srv = sv_ID sv then groups s - {g} else groups s)"
    by (auto simp: group_effect_def addressed_def json_member_def group_name_def server_request_def)
  have "effect_of groups (group_effect srv ''POST'' ?path (Some ?body)) s (r, s2)"
    unfolding o [symmetric] by (rule group.do_effect [OF assms(1) within_refl])
  with assms(2) f show ?thesis unfolding call o by (cases r) (simp_all add: done_or_def effect_of_def)
qed

lemma attach_group_effect:
  assumes "serves env ctx groups (group_effect srv)" and "attach_group env c ctx sv g s = (None, s1)"
  shows "groups s1 = (if srv = sv_ID sv then insert g (groups s) else groups s)"
proof -
  let ?path = "''/api/v3/instance/attach-security-group''"
  let ?body = "server_request (sv_Project sv) (sv_Zone sv) (sv_ID sv) [(''security_group_name'', JString g)]"
  have call: "attach_group env c ctx sv g s = done_or (''attach security group '' @ g)
      (nobus_do env c ctx ''POST'' ?path None (Some ?body) discard s)"
    by (simp add: attach_group_def nobus_AttachSecurityGroup_def instance_action_def)
  obtain r s2 where o: "nobus_do env c ctx ''POST'' ?path None (Some ?body) discard s = (r, s2)" by fastforce
  have f: "group_effect srv ''POST'' ?path (Some ?body) (groups s) = (if srv = sv_ID sv then insert g (groups s) else groups s)"
    by (auto simp: group_effect_def addressed_def json_member_def group_name_def server_request_def)
  have "effect_of groups (group_effect srv ''POST'' ?path (Some ?body)) s (r, s2)"
    unfolding o [symmetric] by (rule group.do_effect [OF assms(1) within_refl])
  with assms(2) f show ?thesis unfolding call o by (cases r) (simp_all add: done_or_def effect_of_def)
qed

lemma each_remove_effect:
  assumes "serves env ctx groups (group_effect srv)" and "each_step (remove_group env c ctx sv) gs s = (None, s1)"
  shows "groups s1 = (if srv = sv_ID sv then groups s - set gs else groups s)"
  using assms(2)
proof (induction gs arbitrary: s)
  case (Cons g gs)
  then obtain s2 where o: "remove_group env c ctx sv g s = (None, s2)"
    and rest: "each_step (remove_group env c ctx sv) gs s2 = (None, s1)"
    by (auto split: prod.splits option.splits)
  from remove_group_effect [OF assms(1) o] Cons.IH [OF rest] show ?case by auto
qed simp

lemma each_attach_effect:
  assumes "serves env ctx groups (group_effect srv)" and "each_step (attach_group env c ctx sv) gs s = (None, s1)"
  shows "groups s1 = (if srv = sv_ID sv then groups s \<union> set gs else groups s)"
  using assms(2)
proof (induction gs arbitrary: s)
  case (Cons g gs)
  then obtain s2 where o: "attach_group env c ctx sv g s = (None, s2)"
    and rest: "each_step (attach_group env c ctx sv) gs s2 = (None, s1)"
    by (auto split: prod.splits option.splits)
  from attach_group_effect [OF assms(1) o] Cons.IH [OF rest] show ?case by auto
qed simp

lemma then_step_None:
  "then_step p q s = (None, s2) \<longleftrightarrow> (\<exists>s1. p s = (None, s1) \<and> q s1 = (None, s2))"
  by (auto simp: then_step_def split: prod.splits option.splits)

lemma bare_equal_map: "length xs = length ys \<Longrightarrow> bare_equal xs ys \<longleftrightarrow> bareIDs xs = bareIDs ys"
  by (induction xs ys rule: list_induct2) (auto simp: bareIDs_def)

lemma stringSlicesEqual_bare_sets:
  assumes "stringSlicesEqual a b"
  shows "set (bareIDs a) = set (bareIDs b)"
proof -
  have "length a = length b" and "bare_equal (sort a) (sort b)"
    using assms by (auto simp: stringSlicesEqual_def split: if_splits)
  then have "set (bareIDs (sort a)) = set (bareIDs (sort b))" by (simp add: bare_equal_map)
  then show ?thesis by (simp add: bareIDs_def)
qed

lemma update_groups_effect:
  assumes "serves env ctx groups (group_effect srv)"
    and "srv = sv_ID sv \<Longrightarrow> groups s = set (bareIDs (ia_SecurityGroups old))"
    and "update_groups env c ctx sv old news s = (None, s1)"
  shows "groups s1 = (if srv = sv_ID sv then set (bareIDs (ia_SecurityGroups news)) else groups s)"
proof (cases "stringSlicesEqual (ia_SecurityGroups old) (ia_SecurityGroups news)")
  case True
  with assms(2,3) stringSlicesEqual_bare_sets [OF True] show ?thesis by (simp add: update_groups_def)
next
  case False
  obtain add remove where d: "sliceDiff (ia_SecurityGroups old) (ia_SecurityGroups news) = (add, remove)" by fastforce
  have a: "set add = set (bareIDs (ia_SecurityGroups news)) - set (bareIDs (ia_SecurityGroups old))"
    and r: "set remove = set (bareIDs (ia_SecurityGroups old)) - set (bareIDs (ia_SecurityGroups news))"
    using d by (auto simp: sliceDiff_def Let_def bareIDs_def)
  obtain s2 where removed: "each_step (remove_group env c ctx sv) remove s = (None, s2)"
    and added: "each_step (attach_group env c ctx sv) add s2 = (None, s1)"
    using assms(3) False d by (auto simp: update_groups_def then_step_None)
  from each_remove_effect [OF assms(1) removed] each_attach_effect [OF assms(1) added] a r assms(2)
  show ?thesis by auto
qed

section \<open>The whole update\<close>

text \<open>
  C39. Updating an instance brings its security groups to the new inputs.  When the instance has the
  groups of the old inputs and the update returns no error, the instance has exactly the groups of the
  new inputs, up to scopes, and every other instance has the groups it had: whatever else the update
  changed, however often a request was repeated, and whether or not a resize had to be confirmed.
\<close>

theorem Instance_Update_converges:
  assumes "serves env ctx groups (group_effect srv)"
    and "srv = BareResourceID rid \<Longrightarrow> groups s = set (bareIDs (ia_SecurityGroups (is_Args olds)))"
    and "Instance_Update env cfg ctx rid olds news False s = ((state, None), s')"
  shows "groups s' = (if srv = BareResourceID rid then set (bareIDs (ia_SecurityGroups news)) else groups s)"
proof -
  from assms(3) obtain az project i where scope:
    "ResolveImport cfg rid (cmp_Or [ia_ProjectID news, ia_ProjectID (is_Args olds)])
       (cmp_Or [ia_AvailabilityZone news, ia_AvailabilityZone (is_Args olds)]) = Inr (az, project, i)"
    by (auto simp: Instance_Update_def split: sum.splits)
  have i: "i = BareResourceID rid" by (rule ResolveImport_id [OF scope])
  let ?news = "news\<lparr>ia_ProjectID := project, ia_AvailabilityZone := az\<rparr>" and ?old = "is_Args olds"
    and ?c = "pc_client cfg" and ?sv = "\<lparr>sv_Project = project, sv_Zone = az, sv_ID = i\<rparr>"
  let ?steps = "then_step (update_name env ?c ctx ?sv ?old ?news) (then_step (update_flavor env ?c ctx ?sv ?old ?news)
      (then_step (update_groups env ?c ctx ?sv ?old ?news) (update_tags env ?c ctx ?sv ?old ?news)))"
  obtain r t where steps: "?steps s = (r, t)" by fastforce
  obtain got u where get: "nobus_GetInstance env ?c ctx project az i t = (got, u)" by fastforce
  have "r = None" and "s' = u"
    using assms(3) scope steps get by (cases r; cases got; simp add: Instance_Update_def)+
  then obtain t1 t2 t3 where
    "update_name env ?c ctx ?sv ?old ?news s = (None, t1)" and "update_flavor env ?c ctx ?sv ?old ?news t1 = (None, t2)"
    and grouped: "update_groups env ?c ctx ?sv ?old ?news t2 = (None, t3)"
    and "update_tags env ?c ctx ?sv ?old ?news t3 = (None, t)"
    using steps by (auto simp: then_step_None)
  then have "groups t1 = groups s" and "groups t2 = groups t1" and "groups t = groups t3" and "groups u = groups t"
    using update_name_keeps [OF assms(1), of ?c ?sv ?old ?news s] update_flavor_keeps [OF assms(1), of ?c ?sv ?old ?news t1]
      update_tags_keeps [OF assms(1), of ?c ?sv ?old ?news t3] GetInstance_keeps [OF assms(1) within_refl, of ?c project az i t] get
    by simp_all
  then show ?thesis
    using update_groups_effect [OF assms(1) _ grouped] assms(2) \<open>s' = u\<close> i by simp
qed

text \<open>A server that only holds groups: it does what it is asked and answers with the one instance it has.\<close>

definition quiet_body :: body where
  "quiet_body = BodyJSON (JObject [(''data'', JObject [(''id'', JString ''i-1'')])])"

definition quiet_Env :: "string set NobusEnv" where
  "quiet_Env =
     \<lparr>env_Do = (\<lambda>ctx req G. (Inr \<lparr>rs_StatusCode = 200, rs_Body = quiet_body\<rparr>, request_effect (group_effect ''i-1'') req G)),
      env_url_Parse = (\<lambda>u. Inl (Foreign u)), env_time_Parse = (\<lambda>_ _. True), env_WithTimeout = (\<lambda>c _. c),
      env_Open = (\<lambda>_ s. (Inr BodyEmpty, s)), ne_BodyText = (\<lambda>_. '''')\<rparr>"

definition quiet_Context :: "string set Context" where
  "quiet_Context = \<lparr>ctx_timer = (\<lambda>n s. (True, s)), ctx_Err = (\<lambda>_. None)\<rparr>"

lemma quiet_serves: "serves quiet_Env quiet_Context (\<lambda>G. G) (group_effect ''i-1'')"
  by (simp add: serves_def quiet_Env_def quiet_Context_def)

lemma quiet_do:
  assumes "decode quiet_body = Inr v"
  shows "nobus_do quiet_Env c quiet_Context meth path query payload decode G = (Inr v, group_effect ''i-1'' meth path payload G)"
proof -
  have "nobus_doOnce quiet_Env c quiet_Context meth path query payload decode G = (Inr v, group_effect ''i-1'' meth path payload G)"
    using assms by (simp add: nobus_doOnce_def quiet_Env_def request_effect_def Let_def)
  then show ?thesis by (simp add: nobus_do_def maxAttempts_def numeral_eq_Suc)
qed

lemma quiet_decoded:
  "decodeJSON (dec_response dec_NInstance) (zero_response zero_NInstance) quiet_body =
     Inr ((zero_response zero_NInstance)\<lparr>rp_Data := zero_NInstance\<lparr>ni_ID := ''i-1''\<rparr>\<rparr>)"
  by (simp add: decodeJSON_def quiet_body_def dec_response_def dec_NInstance_def match_field_def field_def
      zero_response_def zero_NInstance_def)

lemma quiet_GetInstance:
  "nobus_GetInstance quiet_Env c quiet_Context p z i G = (Inr (zero_NInstance\<lparr>ni_ID := ''i-1''\<rparr>), G)"
proof -
  have "nobus_do quiet_Env c quiet_Context ''GET'' ''/api/v3/instance'' query None
      (decodeJSON (dec_response dec_NInstance) (zero_response zero_NInstance)) G =
    (Inr ((zero_response zero_NInstance)\<lparr>rp_Data := zero_NInstance\<lparr>ni_ID := ''i-1''\<rparr>\<rparr>), G)" for query
    using quiet_do [where decode = "decodeJSON (dec_response dec_NInstance) (zero_response zero_NInstance)"
        and path = "''/api/v3/instance''" and payload = None, OF quiet_decoded]
    by (simp add: group_effect_other group_path_def)
  then show ?thesis by (simp add: nobus_GetInstance_def nobus_object_def)
qed

lemma quiet_action:
  "instance_action quiet_Env c quiet_Context action req G = (Inr (), group_effect ''i-1'' ''POST'' (''/api/v3/instance/'' @ action) (Some req) G)"
  unfolding instance_action_def by (rule quiet_do) (simp add: discard_def)

lemma quiet_each_step:
  "(\<And>g G. \<exists>G'. f g G = (None, G')) \<Longrightarrow> \<exists>G'. each_step f gs G = (None, G')"
proof (induction gs arbitrary: G)
  case (Cons g gs)
  from Cons.prems obtain G1 where "f g G = (None, G1)" by blast
  with Cons show ?case by simp
qed simp

lemma quiet_groups: "\<exists>G'. update_groups quiet_Env c quiet_Context sv old news G = (None, G')"
proof -
  have "\<exists>G'. remove_group quiet_Env c quiet_Context sv g G = (None, G')"
    and "\<exists>G'. attach_group quiet_Env c quiet_Context sv g G = (None, G')" for g G
    by (simp_all add: remove_group_def nobus_RemoveSecurityGroup_def attach_group_def nobus_AttachSecurityGroup_def
        quiet_action done_or_def)
  then obtain G1 G2 where
    "each_step (remove_group quiet_Env c quiet_Context sv) (snd (sliceDiff (ia_SecurityGroups old) (ia_SecurityGroups news))) G
       = (None, G1)"
    and "each_step (attach_group quiet_Env c quiet_Context sv) (fst (sliceDiff (ia_SecurityGroups old) (ia_SecurityGroups news))) G1
       = (None, G2)"
    using quiet_each_step by metis
  then show ?thesis by (cases "sliceDiff (ia_SecurityGroups old) (ia_SecurityGroups news)") (simp add: update_groups_def then_step_def)
qed

definition quiet_olds :: InstanceState where
  "quiet_olds = InstanceState_of (zero_InstanceArgs\<lparr>ia_SecurityGroups := [''web'', ''ng1/p1/ssh'']\<rparr>)"

definition quiet_news :: InstanceArgs where
  "quiet_news = zero_InstanceArgs\<lparr>ia_SecurityGroups := [''web'', ''ng1/p1/db'']\<rparr>"

lemma quiet_Update:
  "\<exists>st G'. Instance_Update quiet_Env sample_PConfig quiet_Context ''i-1'' quiet_olds quiet_news False G = ((st, None), G')"
proof -
  have scope: "ResolveImport sample_PConfig ''i-1'' '''' '''' = Inr (''ng1'', ''p1'', ''i-1'')"
    by (simp add: ResolveImport_def ParseScopedID_def sample_scope)
  have args: "ia_ProjectID quiet_news = []" "ia_ProjectID (is_Args quiet_olds) = []"
    "ia_AvailabilityZone quiet_news = []" "ia_AvailabilityZone (is_Args quiet_olds) = []"
    by (simp_all add: quiet_news_def quiet_olds_def zero_InstanceArgs_def InstanceState_of_def)
  let ?news = "quiet_news\<lparr>ia_ProjectID := ''p1'', ia_AvailabilityZone := ''ng1''\<rparr>"
  let ?sv = "\<lparr>sv_Project = ''p1'', sv_Zone = ''ng1'', sv_ID = ''i-1''\<rparr>"
  have name: "update_name quiet_Env c quiet_Context ?sv (is_Args quiet_olds) ?news G = (None, G)"
    and flavor: "update_flavor quiet_Env c quiet_Context ?sv (is_Args quiet_olds) ?news G = (None, G)" for c G
    by (simp_all add: update_name_def update_flavor_def quiet_news_def zero_InstanceArgs_def)
  have tags: "\<exists>G'. update_tags quiet_Env c quiet_Context ?sv (is_Args quiet_olds) ?news G = (None, G')" for c G
    by (simp add: update_tags_def nobus_SetTags_def quiet_action done_or_def)
  obtain G1 where g: "update_groups quiet_Env pulumi_client quiet_Context ?sv (is_Args quiet_olds) ?news G = (None, G1)"
    using quiet_groups by blast
  obtain G2 where t: "update_tags quiet_Env pulumi_client quiet_Context ?sv (is_Args quiet_olds) ?news G1 = (None, G2)"
    using tags by blast
  have c: "pc_client sample_PConfig = pulumi_client" by (simp add: sample_PConfig_def)
  show ?thesis by (simp add: Instance_Update_def args scope Let_def then_step_def c name flavor g t quiet_GetInstance)
qed

lemma Instance_Update_converges_witness:
  "snd (Instance_Update quiet_Env sample_PConfig quiet_Context ''i-1'' quiet_olds quiet_news False {''web'', ''ssh''}) =
     {''web'', ''db''}"
proof -
  have old: "{''web'', ''ssh''} = set (bareIDs (ia_SecurityGroups (is_Args quiet_olds)))"
    and new: "set (bareIDs (ia_SecurityGroups quiet_news)) = {''web'', ''db''}"
    by (simp_all add: quiet_olds_def quiet_news_def InstanceState_of_def zero_InstanceArgs_def bareIDs_def BareResourceID_def
        ParseScopedID_def)
  obtain st G' where u: "Instance_Update quiet_Env sample_PConfig quiet_Context ''i-1'' quiet_olds quiet_news False
      {''web'', ''ssh''} = ((st, None), G')"
    using quiet_Update by blast
  from Instance_Update_converges [OF quiet_serves old u] show ?thesis by (simp add: u new BareResourceID_def ParseScopedID_def)
qed

end
