(* ===== verification/NobusNetwork.thy ===== *)
theory NobusNetwork
  imports NobusCompute
begin

text \<open>
  \<open>pulumi-nobus/provider/pkg/nobusapi/network.go\<close>: the calls on networks, subnets, ports, routers, security
  groups, their rules, and floating addresses.
\<close>

section \<open>Pointers\<close>

text \<open>A pointer field: \<open>null\<close> makes it nil, any other value is decoded into what it points to.\<close>

definition dec_ptr :: "'a decoder \<Rightarrow> 'a \<Rightarrow> 'a option decoder" where
  "dec_ptr d zero j old =
     (if j = JNull then (None, True)
      else case d j (case old of None \<Rightarrow> zero | Some v \<Rightarrow> v) of (v, ok) \<Rightarrow> (Some v, ok))"

definition omit_string_ptr :: "string \<Rightarrow> string option \<Rightarrow> (string \<times> json) list" where
  "omit_string_ptr key v = (case v of None \<Rightarrow> [] | Some t \<Rightarrow> [(key, JString t)])"

section \<open>What the API answers\<close>

record NNetworkSetup =
  nset_NetworkID :: string
  nset_SubnetID :: string
  nset_RouterID :: string

definition zero_NNetworkSetup :: NNetworkSetup where
  "zero_NNetworkSetup = \<lparr>nset_NetworkID = '''', nset_SubnetID = '''', nset_RouterID = ''''\<rparr>"

definition dec_NNetworkSetup :: "NNetworkSetup decoder" where
  "dec_NNetworkSetup = dec_struct
     [field ''network_id'' nset_NetworkID nset_NetworkID_update dec_string,
      field ''subnet_id'' nset_SubnetID nset_SubnetID_update dec_string,
      field ''router_id'' nset_RouterID nset_RouterID_update dec_string]"

record NNetwork =
  nn_ID :: string
  nn_Name :: string
  nn_Description :: string
  nn_Status :: string
  nn_AdminStateUp :: "bool option"
  nn_Shared :: "bool option"
  nn_MTU :: "int option"
  nn_PortSecurityEnabled :: "bool option"
  nn_Subnets :: "string list"

definition zero_NNetwork :: NNetwork where
  "zero_NNetwork = \<lparr>nn_ID = '''', nn_Name = '''', nn_Description = '''', nn_Status = '''', nn_AdminStateUp = None,
     nn_Shared = None, nn_MTU = None, nn_PortSecurityEnabled = None, nn_Subnets = []\<rparr>"

definition dec_NNetwork :: "NNetwork decoder" where
  "dec_NNetwork = dec_struct
     [field ''id'' nn_ID nn_ID_update dec_string,
      field ''name'' nn_Name nn_Name_update dec_string,
      field ''description'' nn_Description nn_Description_update dec_string,
      field ''status'' nn_Status nn_Status_update dec_string,
      field ''admin_state_up'' nn_AdminStateUp nn_AdminStateUp_update (dec_ptr dec_bool False),
      field ''shared'' nn_Shared nn_Shared_update (dec_ptr dec_bool False),
      field ''mtu'' nn_MTU nn_MTU_update (dec_ptr dec_int 0),
      field ''port_security_enabled'' nn_PortSecurityEnabled nn_PortSecurityEnabled_update (dec_ptr dec_bool False),
      field ''subnets'' nn_Subnets nn_Subnets_update (dec_list dec_string '''')]"

record NSubnet =
  nsn_ID :: string
  nsn_Name :: string
  nsn_Description :: string
  nsn_NetworkID :: string
  nsn_CIDR :: string
  nsn_IPVersion :: int
  nsn_GatewayIP :: string
  nsn_EnableDHCP :: "bool option"
  nsn_DNSNameservers :: "string list"

definition zero_NSubnet :: NSubnet where
  "zero_NSubnet = \<lparr>nsn_ID = '''', nsn_Name = '''', nsn_Description = '''', nsn_NetworkID = '''', nsn_CIDR = '''',
     nsn_IPVersion = 0, nsn_GatewayIP = '''', nsn_EnableDHCP = None, nsn_DNSNameservers = []\<rparr>"

definition dec_NSubnet :: "NSubnet decoder" where
  "dec_NSubnet = dec_struct
     [field ''id'' nsn_ID nsn_ID_update dec_string,
      field ''name'' nsn_Name nsn_Name_update dec_string,
      field ''description'' nsn_Description nsn_Description_update dec_string,
      field ''network_id'' nsn_NetworkID nsn_NetworkID_update dec_string,
      field ''cidr'' nsn_CIDR nsn_CIDR_update dec_string,
      field ''ip_version'' nsn_IPVersion nsn_IPVersion_update dec_int,
      field ''gateway_ip'' nsn_GatewayIP nsn_GatewayIP_update dec_string,
      field ''enable_dhcp'' nsn_EnableDHCP nsn_EnableDHCP_update (dec_ptr dec_bool False),
      field ''dns_nameservers'' nsn_DNSNameservers nsn_DNSNameservers_update (dec_list dec_string '''')]"

record NPort =
  npt_ID :: string
  npt_Name :: string
  npt_Description :: string
  npt_NetworkID :: string
  npt_Status :: string
  npt_AdminStateUp :: "bool option"
  npt_MACAddress :: string
  npt_DeviceID :: string
  npt_DeviceOwner :: string
  npt_SecurityGroups :: "string list"
  npt_PortSecurityEnabled :: "bool option"

definition zero_NPort :: NPort where
  "zero_NPort = \<lparr>npt_ID = '''', npt_Name = '''', npt_Description = '''', npt_NetworkID = '''', npt_Status = '''',
     npt_AdminStateUp = None, npt_MACAddress = '''', npt_DeviceID = '''', npt_DeviceOwner = '''',
     npt_SecurityGroups = [], npt_PortSecurityEnabled = None\<rparr>"

definition dec_NPort :: "NPort decoder" where
  "dec_NPort = dec_struct
     [field ''id'' npt_ID npt_ID_update dec_string,
      field ''name'' npt_Name npt_Name_update dec_string,
      field ''description'' npt_Description npt_Description_update dec_string,
      field ''network_id'' npt_NetworkID npt_NetworkID_update dec_string,
      field ''status'' npt_Status npt_Status_update dec_string,
      field ''admin_state_up'' npt_AdminStateUp npt_AdminStateUp_update (dec_ptr dec_bool False),
      field ''mac_address'' npt_MACAddress npt_MACAddress_update dec_string,
      field ''device_id'' npt_DeviceID npt_DeviceID_update dec_string,
      field ''device_owner'' npt_DeviceOwner npt_DeviceOwner_update dec_string,
      field ''security_groups'' npt_SecurityGroups npt_SecurityGroups_update (dec_list dec_string ''''),
      field ''port_security_enabled'' npt_PortSecurityEnabled npt_PortSecurityEnabled_update (dec_ptr dec_bool False)]"

record NRouter =
  nrt_ID :: string
  nrt_Name :: string
  nrt_Description :: string
  nrt_Status :: string
  nrt_AdminStateUp :: "bool option"

definition zero_NRouter :: NRouter where
  "zero_NRouter = \<lparr>nrt_ID = '''', nrt_Name = '''', nrt_Description = '''', nrt_Status = '''', nrt_AdminStateUp = None\<rparr>"

definition dec_NRouter :: "NRouter decoder" where
  "dec_NRouter = dec_struct
     [field ''id'' nrt_ID nrt_ID_update dec_string,
      field ''name'' nrt_Name nrt_Name_update dec_string,
      field ''description'' nrt_Description nrt_Description_update dec_string,
      field ''status'' nrt_Status nrt_Status_update dec_string,
      field ''admin_state_up'' nrt_AdminStateUp nrt_AdminStateUp_update (dec_ptr dec_bool False)]"

record NSecurityGroup =
  nsg_ID :: string
  nsg_Name :: string
  nsg_Description :: string

definition zero_NSecurityGroup :: NSecurityGroup where
  "zero_NSecurityGroup = \<lparr>nsg_ID = '''', nsg_Name = '''', nsg_Description = ''''\<rparr>"

definition dec_NSecurityGroup :: "NSecurityGroup decoder" where
  "dec_NSecurityGroup = dec_struct
     [field ''id'' nsg_ID nsg_ID_update dec_string,
      field ''name'' nsg_Name nsg_Name_update dec_string,
      field ''description'' nsg_Description nsg_Description_update dec_string]"

record NSecurityGroupRule =
  nsr_ID :: string
  nsr_SecurityGroupID :: string
  nsr_Direction :: string
  nsr_Ethertype :: string
  nsr_Protocol :: string
  nsr_PortRangeMin :: "int option"
  nsr_PortRangeMax :: "int option"
  nsr_RemoteIPPrefix :: string
  nsr_RemoteGroupID :: string
  nsr_Description :: string

definition zero_NSecurityGroupRule :: NSecurityGroupRule where
  "zero_NSecurityGroupRule = \<lparr>nsr_ID = '''', nsr_SecurityGroupID = '''', nsr_Direction = '''', nsr_Ethertype = '''',
     nsr_Protocol = '''', nsr_PortRangeMin = None, nsr_PortRangeMax = None, nsr_RemoteIPPrefix = '''',
     nsr_RemoteGroupID = '''', nsr_Description = ''''\<rparr>"

definition dec_NSecurityGroupRule :: "NSecurityGroupRule decoder" where
  "dec_NSecurityGroupRule = dec_struct
     [field ''id'' nsr_ID nsr_ID_update dec_string,
      field ''security_group_id'' nsr_SecurityGroupID nsr_SecurityGroupID_update dec_string,
      field ''direction'' nsr_Direction nsr_Direction_update dec_string,
      field ''ethertype'' nsr_Ethertype nsr_Ethertype_update dec_string,
      field ''protocol'' nsr_Protocol nsr_Protocol_update dec_string,
      field ''port_range_min'' nsr_PortRangeMin nsr_PortRangeMin_update (dec_ptr dec_int 0),
      field ''port_range_max'' nsr_PortRangeMax nsr_PortRangeMax_update (dec_ptr dec_int 0),
      field ''remote_ip_prefix'' nsr_RemoteIPPrefix nsr_RemoteIPPrefix_update dec_string,
      field ''remote_group_id'' nsr_RemoteGroupID nsr_RemoteGroupID_update dec_string,
      field ''description'' nsr_Description nsr_Description_update dec_string]"

record NFloatingIP =
  nfl_ID :: string
  nfl_FloatingNetworkID :: string
  nfl_FloatingIPAddress :: string
  nfl_PortID :: string
  nfl_FixedIPAddress :: string
  nfl_Status :: string
  nfl_Description :: string

definition zero_NFloatingIP :: NFloatingIP where
  "zero_NFloatingIP = \<lparr>nfl_ID = '''', nfl_FloatingNetworkID = '''', nfl_FloatingIPAddress = '''', nfl_PortID = '''',
     nfl_FixedIPAddress = '''', nfl_Status = '''', nfl_Description = ''''\<rparr>"

definition dec_NFloatingIP :: "NFloatingIP decoder" where
  "dec_NFloatingIP = dec_struct
     [field ''id'' nfl_ID nfl_ID_update dec_string,
      field ''floating_network_id'' nfl_FloatingNetworkID nfl_FloatingNetworkID_update dec_string,
      field ''floating_ip_address'' nfl_FloatingIPAddress nfl_FloatingIPAddress_update dec_string,
      field ''port_id'' nfl_PortID nfl_PortID_update dec_string,
      field ''fixed_ip_address'' nfl_FixedIPAddress nfl_FixedIPAddress_update dec_string,
      field ''status'' nfl_Status nfl_Status_update dec_string,
      field ''description'' nfl_Description nfl_Description_update dec_string]"

section \<open>What the API is asked\<close>

record CreateNetworkReq =
  cn_ProjectID :: string
  cn_AvailabilityZone :: string
  cn_NetworkName :: string
  cn_SubnetCIDR :: string
  cn_RouterName :: string
  cn_ExternalNetworkID :: string
  cn_DNSNameservers :: "string list"
  cn_EnableSNAT :: "bool option"

definition json_CreateNetworkReq :: "CreateNetworkReq \<Rightarrow> json" where
  "json_CreateNetworkReq r = JObject (
     [(''project_id'', JString (cn_ProjectID r)),
      (''availability_zone'', JString (cn_AvailabilityZone r)),
      (''network_name'', JString (cn_NetworkName r)),
      (''subnet_cidr'', JString (cn_SubnetCIDR r)),
      (''router_name'', JString (cn_RouterName r))] @
     omit_string ''external_network_id'' (cn_ExternalNetworkID r) @
     omit_strings ''dns_nameservers'' (cn_DNSNameservers r) @
     omit_bool_ptr ''enable_snat'' (cn_EnableSNAT r))"

record NetworkUpdate =
  nu_Name :: string
  nu_Description :: string
  nu_AdminStateUp :: "bool option"

definition zero_NetworkUpdate :: NetworkUpdate where
  "zero_NetworkUpdate = \<lparr>nu_Name = '''', nu_Description = '''', nu_AdminStateUp = None\<rparr>"

definition json_NetworkUpdate :: "NetworkUpdate \<Rightarrow> json" where
  "json_NetworkUpdate r = JObject (
     omit_string ''name'' (nu_Name r) @
     omit_string ''description'' (nu_Description r) @
     omit_bool_ptr ''admin_state_up'' (nu_AdminStateUp r))"

record SubnetCreate =
  snc_NetworkID :: string
  snc_CIDR :: string
  snc_IPVersion :: int
  snc_Name :: string
  snc_Description :: string
  snc_GatewayIP :: string
  snc_EnableDHCP :: "bool option"
  snc_DNSNameservers :: "string list"

definition json_SubnetCreate :: "SubnetCreate \<Rightarrow> json" where
  "json_SubnetCreate r = JObject (
     [(''network_id'', JString (snc_NetworkID r)), (''cidr'', JString (snc_CIDR r)),
      (''ip_version'', JInt (snc_IPVersion r))] @
     omit_string ''name'' (snc_Name r) @
     omit_string ''description'' (snc_Description r) @
     omit_string ''gateway_ip'' (snc_GatewayIP r) @
     omit_bool_ptr ''enable_dhcp'' (snc_EnableDHCP r) @
     omit_strings ''dns_nameservers'' (snc_DNSNameservers r))"

record SubnetUpdate =
  snu_Name :: string
  snu_Description :: string
  snu_GatewayIP :: string
  snu_EnableDHCP :: "bool option"
  snu_DNSNameservers :: "string list"

definition json_SubnetUpdate :: "SubnetUpdate \<Rightarrow> json" where
  "json_SubnetUpdate r = JObject (
     omit_string ''name'' (snu_Name r) @
     omit_string ''description'' (snu_Description r) @
     omit_string ''gateway_ip'' (snu_GatewayIP r) @
     omit_bool_ptr ''enable_dhcp'' (snu_EnableDHCP r) @
     omit_strings ''dns_nameservers'' (snu_DNSNameservers r))"

record PortCreate =
  ptc_NetworkID :: string
  ptc_Name :: string
  ptc_Description :: string
  ptc_AdminStateUp :: "bool option"
  ptc_SecurityGroups :: "string list"
  ptc_DeviceID :: string
  ptc_DeviceOwner :: string
  ptc_PortSecurityEnabled :: "bool option"

definition json_PortCreate :: "PortCreate \<Rightarrow> json" where
  "json_PortCreate r = JObject (
     [(''network_id'', JString (ptc_NetworkID r))] @
     omit_string ''name'' (ptc_Name r) @
     omit_string ''description'' (ptc_Description r) @
     omit_bool_ptr ''admin_state_up'' (ptc_AdminStateUp r) @
     omit_strings ''security_groups'' (ptc_SecurityGroups r) @
     omit_string ''device_id'' (ptc_DeviceID r) @
     omit_string ''device_owner'' (ptc_DeviceOwner r) @
     omit_bool_ptr ''port_security_enabled'' (ptc_PortSecurityEnabled r))"

record PortUpdate =
  ptu_Name :: string
  ptu_Description :: string
  ptu_AdminStateUp :: "bool option"
  ptu_SecurityGroups :: "string list"
  ptu_PortSecurityEnabled :: "bool option"

definition json_PortUpdate :: "PortUpdate \<Rightarrow> json" where
  "json_PortUpdate r = JObject (
     omit_string ''name'' (ptu_Name r) @
     omit_string ''description'' (ptu_Description r) @
     omit_bool_ptr ''admin_state_up'' (ptu_AdminStateUp r) @
     omit_strings ''security_groups'' (ptu_SecurityGroups r) @
     omit_bool_ptr ''port_security_enabled'' (ptu_PortSecurityEnabled r))"

record RouterWrite =
  rw_Name :: string
  rw_Description :: string
  rw_AdminStateUp :: "bool option"

definition zero_RouterWrite :: RouterWrite where
  "zero_RouterWrite = \<lparr>rw_Name = '''', rw_Description = '''', rw_AdminStateUp = None\<rparr>"

definition json_RouterWrite :: "RouterWrite \<Rightarrow> json" where
  "json_RouterWrite r = JObject (
     omit_string ''name'' (rw_Name r) @
     omit_string ''description'' (rw_Description r) @
     omit_bool_ptr ''admin_state_up'' (rw_AdminStateUp r))"

record SecurityGroupWrite =
  sgw_Name :: string
  sgw_Description :: string

definition zero_SecurityGroupWrite :: SecurityGroupWrite where
  "zero_SecurityGroupWrite = \<lparr>sgw_Name = '''', sgw_Description = ''''\<rparr>"

definition json_SecurityGroupWrite :: "SecurityGroupWrite \<Rightarrow> json" where
  "json_SecurityGroupWrite r = JObject (
     omit_string ''name'' (sgw_Name r) @
     omit_string ''description'' (sgw_Description r))"

record SecurityGroupRuleCreate =
  srcr_SecurityGroupID :: string
  srcr_Direction :: string
  srcr_Ethertype :: string
  srcr_Protocol :: string
  srcr_PortRangeMin :: "int option"
  srcr_PortRangeMax :: "int option"
  srcr_RemoteIPPrefix :: string
  srcr_RemoteGroupID :: string
  srcr_Description :: string

definition json_SecurityGroupRuleCreate :: "SecurityGroupRuleCreate \<Rightarrow> json" where
  "json_SecurityGroupRuleCreate r = JObject (
     [(''security_group_id'', JString (srcr_SecurityGroupID r)),
      (''direction'', JString (srcr_Direction r))] @
     omit_string ''ethertype'' (srcr_Ethertype r) @
     omit_string ''protocol'' (srcr_Protocol r) @
     omit_int_ptr ''port_range_min'' (srcr_PortRangeMin r) @
     omit_int_ptr ''port_range_max'' (srcr_PortRangeMax r) @
     omit_string ''remote_ip_prefix'' (srcr_RemoteIPPrefix r) @
     omit_string ''remote_group_id'' (srcr_RemoteGroupID r) @
     omit_string ''description'' (srcr_Description r))"

record FloatingIPCreate =
  flc_FloatingNetworkID :: string
  flc_PortID :: string
  flc_FixedIPAddress :: string
  flc_Description :: string

definition json_FloatingIPCreate :: "FloatingIPCreate \<Rightarrow> json" where
  "json_FloatingIPCreate r = JObject (
     [(''floating_network_id'', JString (flc_FloatingNetworkID r))] @
     omit_string ''port_id'' (flc_PortID r) @
     omit_string ''fixed_ip_address'' (flc_FixedIPAddress r) @
     omit_string ''description'' (flc_Description r))"

record FloatingIPUpdate =
  flu_PortID :: "string option"
  flu_FixedIPAddress :: string
  flu_Description :: string

definition zero_FloatingIPUpdate :: FloatingIPUpdate where
  "zero_FloatingIPUpdate = \<lparr>flu_PortID = None, flu_FixedIPAddress = '''', flu_Description = ''''\<rparr>"

definition json_FloatingIPUpdate :: "FloatingIPUpdate \<Rightarrow> json" where
  "json_FloatingIPUpdate r = JObject (
     omit_string_ptr ''port_id'' (flu_PortID r) @
     omit_string ''fixed_ip_address'' (flu_FixedIPAddress r) @
     omit_string ''description'' (flu_Description r))"

section \<open>The calls\<close>

text \<open>The bodies of the calls that make or change a thing begin with the project and the zone.\<close>

definition scoped_body :: "string \<Rightarrow> string \<Rightarrow> (string \<times> json) list \<Rightarrow> json option" where
  "scoped_body projectID az members = Some (JObject (
     [(''project_id'', JString projectID), (''availability_zone'', JString az)] @ members))"

text \<open>A call in a project and a zone.\<close>

type_synonym ('s, 'a) zone_call = "'s NobusEnv \<Rightarrow> NobusClient \<Rightarrow> 's Context \<Rightarrow> string \<Rightarrow> string \<Rightarrow> 'a"

definition nobus_CreateNetworkBundle ::
  "'s NobusEnv \<Rightarrow> NobusClient \<Rightarrow> 's Context \<Rightarrow> CreateNetworkReq \<Rightarrow> 's \<Rightarrow> (NNetworkSetup, 's) result" where
  "nobus_CreateNetworkBundle env c ctx req =
     nobus_object env c ctx ''POST'' ''/api/v3/network/'' None (Some (json_CreateNetworkReq req))
       (dec_response dec_NNetworkSetup) zero_NNetworkSetup"

definition nobus_GetNetwork ::
  "('s, string \<Rightarrow> 's \<Rightarrow> (NNetwork, 's) result) zone_call" where
  "nobus_GetNetwork env c ctx projectID az rid =
     nobus_object env c ctx ''GET'' ''/api/v3/network/''
       (Some (query_Set ''network_id'' rid (projectQuery projectID az))) None
       (dec_response dec_NNetwork) zero_NNetwork"

definition nobus_UpdateNetwork ::
  "('s, string \<Rightarrow> NetworkUpdate \<Rightarrow> 's \<Rightarrow> (NNetwork, 's) result) zone_call" where
  "nobus_UpdateNetwork env c ctx projectID az rid req =
     nobus_object env c ctx ''PUT'' ''/api/v3/network/'' None
       (scoped_body projectID az [(''network_id'', JString rid), (''network'', json_NetworkUpdate req)])
       (dec_response dec_NNetwork) zero_NNetwork"

definition nobus_DeleteNetwork ::
  "('s, string \<Rightarrow> 's \<Rightarrow> (unit, 's) result) zone_call" where
  "nobus_DeleteNetwork env c ctx projectID az rid =
     nobus_do env c ctx ''DELETE'' ''/api/v3/network/''
       (Some (query_Set ''network_id'' rid (projectQuery projectID az))) None discard"

definition nobus_CreateSubnet ::
  "('s, SubnetCreate \<Rightarrow> 's \<Rightarrow> (NSubnet, 's) result) zone_call" where
  "nobus_CreateSubnet env c ctx projectID az req =
     nobus_object env c ctx ''POST'' ''/api/v3/network/subnet'' None
       (scoped_body projectID az [(''subnet'', json_SubnetCreate req)])
       (dec_response dec_NSubnet) zero_NSubnet"

definition nobus_GetSubnet ::
  "('s, string \<Rightarrow> 's \<Rightarrow> (NSubnet, 's) result) zone_call" where
  "nobus_GetSubnet env c ctx projectID az rid =
     nobus_object env c ctx ''GET'' ''/api/v3/network/subnet''
       (Some (query_Set ''subnet_id'' rid (projectQuery projectID az))) None
       (dec_response dec_NSubnet) zero_NSubnet"

definition nobus_UpdateSubnet ::
  "('s, string \<Rightarrow> SubnetUpdate \<Rightarrow> 's \<Rightarrow> (NSubnet, 's) result) zone_call" where
  "nobus_UpdateSubnet env c ctx projectID az rid req =
     nobus_object env c ctx ''PUT'' ''/api/v3/network/subnet'' None
       (scoped_body projectID az [(''subnet_id'', JString rid), (''subnet'', json_SubnetUpdate req)])
       (dec_response dec_NSubnet) zero_NSubnet"

definition nobus_DeleteSubnet ::
  "('s, string \<Rightarrow> 's \<Rightarrow> (unit, 's) result) zone_call" where
  "nobus_DeleteSubnet env c ctx projectID az rid =
     nobus_do env c ctx ''DELETE'' ''/api/v3/network/subnet''
       (Some (query_Set ''subnet_id'' rid (projectQuery projectID az))) None discard"

definition nobus_CreatePort ::
  "('s, PortCreate \<Rightarrow> 's \<Rightarrow> (NPort, 's) result) zone_call" where
  "nobus_CreatePort env c ctx projectID az req =
     nobus_object env c ctx ''POST'' ''/api/v3/network/port'' None
       (scoped_body projectID az [(''port'', json_PortCreate req)])
       (dec_response dec_NPort) zero_NPort"

definition nobus_GetPort ::
  "('s, string \<Rightarrow> 's \<Rightarrow> (NPort, 's) result) zone_call" where
  "nobus_GetPort env c ctx projectID az rid =
     nobus_object env c ctx ''GET'' ''/api/v3/network/port''
       (Some (query_Set ''port_id'' rid (projectQuery projectID az))) None
       (dec_response dec_NPort) zero_NPort"

definition nobus_UpdatePort ::
  "('s, string \<Rightarrow> PortUpdate \<Rightarrow> 's \<Rightarrow> (NPort, 's) result) zone_call" where
  "nobus_UpdatePort env c ctx projectID az rid req =
     nobus_object env c ctx ''PUT'' ''/api/v3/network/port'' None
       (scoped_body projectID az [(''port_id'', JString rid), (''port'', json_PortUpdate req)])
       (dec_response dec_NPort) zero_NPort"

definition nobus_DeletePort ::
  "('s, string \<Rightarrow> 's \<Rightarrow> (unit, 's) result) zone_call" where
  "nobus_DeletePort env c ctx projectID az rid =
     nobus_do env c ctx ''DELETE'' ''/api/v3/network/port''
       (Some (query_Set ''port_id'' rid (projectQuery projectID az))) None discard"

definition nobus_CreateRouter ::
  "('s, RouterWrite \<Rightarrow> 's \<Rightarrow> (NRouter, 's) result) zone_call" where
  "nobus_CreateRouter env c ctx projectID az req =
     nobus_object env c ctx ''POST'' ''/api/v3/network/router'' None
       (scoped_body projectID az [(''router'', json_RouterWrite req)])
       (dec_response dec_NRouter) zero_NRouter"

definition nobus_GetRouter ::
  "('s, string \<Rightarrow> 's \<Rightarrow> (NRouter, 's) result) zone_call" where
  "nobus_GetRouter env c ctx projectID az rid =
     nobus_object env c ctx ''GET'' ''/api/v3/network/router''
       (Some (query_Set ''router_id'' rid (projectQuery projectID az))) None
       (dec_response dec_NRouter) zero_NRouter"

definition nobus_UpdateRouter ::
  "('s, string \<Rightarrow> RouterWrite \<Rightarrow> 's \<Rightarrow> (NRouter, 's) result) zone_call" where
  "nobus_UpdateRouter env c ctx projectID az rid req =
     nobus_object env c ctx ''PUT'' ''/api/v3/network/router'' None
       (scoped_body projectID az [(''router_id'', JString rid), (''router'', json_RouterWrite req)])
       (dec_response dec_NRouter) zero_NRouter"

definition nobus_DeleteRouter ::
  "('s, string \<Rightarrow> 's \<Rightarrow> (unit, 's) result) zone_call" where
  "nobus_DeleteRouter env c ctx projectID az rid =
     nobus_do env c ctx ''DELETE'' ''/api/v3/network/router''
       (Some (query_Set ''router_id'' rid (projectQuery projectID az))) None discard"

definition nobus_CreateSecurityGroup ::
  "('s, SecurityGroupWrite \<Rightarrow> 's \<Rightarrow> (NSecurityGroup, 's) result) zone_call" where
  "nobus_CreateSecurityGroup env c ctx projectID az req =
     nobus_object env c ctx ''POST'' ''/api/v3/network/security-group'' None
       (scoped_body projectID az [(''security_group'', json_SecurityGroupWrite req)])
       (dec_response dec_NSecurityGroup) zero_NSecurityGroup"

definition nobus_GetSecurityGroup ::
  "('s, string \<Rightarrow> 's \<Rightarrow> (NSecurityGroup, 's) result) zone_call" where
  "nobus_GetSecurityGroup env c ctx projectID az rid =
     nobus_object env c ctx ''GET'' ''/api/v3/network/security-group''
       (Some (query_Set ''security_group_id'' rid (projectQuery projectID az))) None
       (dec_response dec_NSecurityGroup) zero_NSecurityGroup"

definition nobus_UpdateSecurityGroup ::
  "('s, string \<Rightarrow> SecurityGroupWrite \<Rightarrow> 's \<Rightarrow> (NSecurityGroup, 's) result) zone_call" where
  "nobus_UpdateSecurityGroup env c ctx projectID az rid req =
     nobus_object env c ctx ''PUT'' ''/api/v3/network/security-group'' None
       (scoped_body projectID az [(''securitygroup_id'', JString rid), (''security_group'', json_SecurityGroupWrite req)])
       (dec_response dec_NSecurityGroup) zero_NSecurityGroup"

definition nobus_DeleteSecurityGroup ::
  "('s, string \<Rightarrow> 's \<Rightarrow> (unit, 's) result) zone_call" where
  "nobus_DeleteSecurityGroup env c ctx projectID az rid =
     nobus_do env c ctx ''DELETE'' ''/api/v3/network/security-group''
       (Some (query_Set ''security_group_id'' rid (projectQuery projectID az))) None discard"

definition nobus_CreateSecurityGroupRule ::
  "('s, SecurityGroupRuleCreate \<Rightarrow> 's \<Rightarrow> (NSecurityGroupRule, 's) result) zone_call" where
  "nobus_CreateSecurityGroupRule env c ctx projectID az req =
     nobus_object env c ctx ''POST'' ''/api/v3/network/security-group-rule'' None
       (scoped_body projectID az [(''security_group_rule'', json_SecurityGroupRuleCreate req)])
       (dec_response dec_NSecurityGroupRule) zero_NSecurityGroupRule"

definition nobus_GetSecurityGroupRule ::
  "('s, string \<Rightarrow> 's \<Rightarrow> (NSecurityGroupRule, 's) result) zone_call" where
  "nobus_GetSecurityGroupRule env c ctx projectID az rid =
     nobus_object env c ctx ''GET'' ''/api/v3/network/security-group-rule''
       (Some (query_Set ''security_group_rule_id'' rid (projectQuery projectID az))) None
       (dec_response dec_NSecurityGroupRule) zero_NSecurityGroupRule"

definition nobus_DeleteSecurityGroupRule ::
  "('s, string \<Rightarrow> 's \<Rightarrow> (unit, 's) result) zone_call" where
  "nobus_DeleteSecurityGroupRule env c ctx projectID az rid =
     nobus_do env c ctx ''DELETE'' ''/api/v3/network/security-group-rule''
       (Some (query_Set ''security_group_rule_id'' rid (projectQuery projectID az))) None discard"

definition nobus_CreateFloatingIP ::
  "('s, FloatingIPCreate \<Rightarrow> 's \<Rightarrow> (NFloatingIP, 's) result) zone_call" where
  "nobus_CreateFloatingIP env c ctx projectID az req =
     nobus_object env c ctx ''POST'' ''/api/v3/network/floating-ip'' None
       (scoped_body projectID az [(''floatingip'', json_FloatingIPCreate req)])
       (dec_response dec_NFloatingIP) zero_NFloatingIP"

definition nobus_GetFloatingIP ::
  "('s, string \<Rightarrow> 's \<Rightarrow> (NFloatingIP, 's) result) zone_call" where
  "nobus_GetFloatingIP env c ctx projectID az rid =
     nobus_object env c ctx ''GET'' ''/api/v3/network/floating-ip''
       (Some (query_Set ''floating_ip_id'' rid (projectQuery projectID az))) None
       (dec_response dec_NFloatingIP) zero_NFloatingIP"

definition nobus_UpdateFloatingIP ::
  "('s, string \<Rightarrow> FloatingIPUpdate \<Rightarrow> 's \<Rightarrow> (NFloatingIP, 's) result) zone_call" where
  "nobus_UpdateFloatingIP env c ctx projectID az rid req =
     nobus_object env c ctx ''PUT'' ''/api/v3/network/floating-ip'' None
       (scoped_body projectID az [(''floatingip_id'', JString rid), (''floatingip'', json_FloatingIPUpdate req)])
       (dec_response dec_NFloatingIP) zero_NFloatingIP"

definition nobus_DeleteFloatingIP ::
  "('s, string \<Rightarrow> 's \<Rightarrow> (unit, 's) result) zone_call" where
  "nobus_DeleteFloatingIP env c ctx projectID az rid =
     nobus_do env c ctx ''DELETE'' ''/api/v3/network/floating-ip''
       (Some (query_Set ''floating_ip_id'' rid (projectQuery projectID az))) None discard"

end
