(* ===== verification/PulumiNetwork.thy ===== *)
theory PulumiNetwork
  imports PulumiVolume NobusNetwork
begin

text \<open>
  \<open>pulumi-nobus/provider/pkg/provider/network.go\<close>: the resources \<open>Network\<close>, \<open>Subnet\<close>, \<open>Port\<close> and \<open>Router\<close>.
  The state of a resource holds its inputs and what the API adds to them.
\<close>

text \<open>A failure for an input that is empty.\<close>

definition absent :: "string \<Rightarrow> string \<Rightarrow> string \<Rightarrow> CheckFailure list" where
  "absent key reason v = (if v = '''' then [\<lparr>cf_Property = key, cf_Reason = reason\<rparr>] else [])"

section \<open>Network\<close>

record NetworkArgs =
  nwa_NetworkName :: string
  nwa_SubnetCIDR :: string
  nwa_RouterName :: string
  nwa_AvailabilityZone :: string
  nwa_ProjectID :: string
  nwa_ExternalNetworkID :: string
  nwa_DNSNameservers :: "string list"
  nwa_EnableSNAT :: "bool option"
  nwa_Name :: string
  nwa_Description :: string
  nwa_AdminStateUp :: "bool option"

record NetworkState =
  nws_Args :: NetworkArgs
  nws_SubnetID :: string
  nws_RouterID :: string
  nws_Status :: string
  nws_MTU :: "int option"
  nws_Shared :: "bool option"
  nws_PortSecurityEnabled :: "bool option"
  nws_Subnets :: "string list"

definition zero_NetworkArgs :: NetworkArgs where
  "zero_NetworkArgs = \<lparr>nwa_NetworkName = '''', nwa_SubnetCIDR = '''', nwa_RouterName = '''', nwa_AvailabilityZone = '''',
     nwa_ProjectID = '''', nwa_ExternalNetworkID = '''', nwa_DNSNameservers = [], nwa_EnableSNAT = None,
     nwa_Name = '''', nwa_Description = '''', nwa_AdminStateUp = None\<rparr>"

definition NetworkState_of :: "NetworkArgs \<Rightarrow> NetworkState" where
  "NetworkState_of args = \<lparr>nws_Args = args, nws_SubnetID = '''', nws_RouterID = '''', nws_Status = '''', nws_MTU = None,
     nws_Shared = None, nws_PortSecurityEnabled = None, nws_Subnets = []\<rparr>"

definition Network_Check ::
  "PConfig option \<Rightarrow> (PropertyMap \<Rightarrow> NetworkArgs \<times> CheckFailure list \<times> goerr option) \<Rightarrow> PropertyMap \<Rightarrow>
     NetworkArgs \<times> CheckFailure list \<times> goerr option" where
  "Network_Check cfg DefaultCheck newInputs =
     (case checkResourceArgs cfg DefaultCheck newInputs nwa_AvailabilityZone of (args, failures, err) \<Rightarrow>
        if err \<noteq> None \<or> failures \<noteq> [] then (args, failures, err)
        else (args, failures @ absent ''networkName'' ''networkName is required'' (nwa_NetworkName args) @
            absent ''subnetCidr'' ''subnetCidr is required'' (nwa_SubnetCIDR args) @
            absent ''routerName'' ''routerName is required'' (nwa_RouterName args), None))"

definition enrichNetworkState :: "NetworkState \<Rightarrow> NNetwork \<Rightarrow> NetworkState" where
  "enrichNetworkState state net =
     (let args = (nws_Args state)\<lparr>nwa_AdminStateUp := nn_AdminStateUp net\<rparr>;
          args = (if nwa_Name args = '''' then args\<lparr>nwa_Name := nn_Name net\<rparr> else args);
          args = (if nwa_Description args = '''' then args\<lparr>nwa_Description := nn_Description net\<rparr> else args)
      in state\<lparr>nws_Args := args, nws_Status := nn_Status net, nws_MTU := nn_MTU net, nws_Shared := nn_Shared net,
           nws_PortSecurityEnabled := nn_PortSecurityEnabled net, nws_Subnets := nn_Subnets net\<rparr>)"

definition Network_Create ::
  "'s NobusEnv \<Rightarrow> PConfig \<Rightarrow> 's Context \<Rightarrow> string \<Rightarrow> NetworkArgs \<Rightarrow> bool \<Rightarrow> 's \<Rightarrow>
     (string \<times> NetworkState \<times> goerr option) \<times> 's" where
  "Network_Create env cfg ctx name input preview s =
     (case ResolveScope cfg (nwa_ProjectID input) (nwa_AvailabilityZone input) of
        Inl err \<Rightarrow> (('''', NetworkState_of zero_NetworkArgs, Some err), s)
      | Inr (projectID, az) \<Rightarrow>
          (let input = input\<lparr>nwa_ProjectID := projectID, nwa_AvailabilityZone := az\<rparr>;
               state = NetworkState_of input
           in if preview then ((ScopedID az projectID name, state, None), s)
              else (case nobus_CreateNetworkBundle env (pc_client cfg) ctx
                       \<lparr>cn_ProjectID = projectID, cn_AvailabilityZone = az,
                        cn_NetworkName = nwa_NetworkName input, cn_SubnetCIDR = nwa_SubnetCIDR input,
                        cn_RouterName = nwa_RouterName input,
                        cn_ExternalNetworkID = BareResourceID (nwa_ExternalNetworkID input),
                        cn_DNSNameservers = nwa_DNSNameservers input,
                        cn_EnableSNAT = nwa_EnableSNAT input\<rparr> s of
                  (Inl err, s1) \<Rightarrow> (('''', NetworkState_of zero_NetworkArgs, Some err), s1)
                | (Inr created, s1) \<Rightarrow>
                    (let state = state\<lparr>nws_SubnetID := nset_SubnetID created, nws_RouterID := nset_RouterID created\<rparr>
                     in case nobus_GetNetwork env (pc_client cfg) ctx projectID az (nset_NetworkID created) s1 of
                          (Inl err, s2) \<Rightarrow>
                            ((ScopedID az projectID (nset_NetworkID created), state,
                              Some (Wrap (''read network '' @ nset_NetworkID created) [err])), s2)
                        | (Inr got, s2) \<Rightarrow>
                            ((ScopedID az projectID (nset_NetworkID created), enrichNetworkState state got, None), s2)))))"

definition Network_Read ::
  "'s NobusEnv \<Rightarrow> PConfig \<Rightarrow> 's Context \<Rightarrow> string \<Rightarrow> NetworkArgs \<Rightarrow> NetworkState \<Rightarrow> 's \<Rightarrow>
     (string \<times> NetworkArgs \<times> NetworkState \<times> goerr option) \<times> 's" where
  "Network_Read env cfg ctx rid inputs state s =
     (case ResolveImport cfg rid (cmp_Or [nwa_ProjectID (nws_Args state), nwa_ProjectID inputs])
             (cmp_Or [nwa_AvailabilityZone (nws_Args state), nwa_AvailabilityZone inputs]) of
        Inl err \<Rightarrow> ((rid, inputs, state, Some err), s)
      | Inr (az, projectID, resourceID) \<Rightarrow>
          (case nobus_GetNetwork env (pc_client cfg) ctx projectID az resourceID s of
             (Inl err, s1) \<Rightarrow>
               if errors_is err ErrNotFound
               then (('''', zero_NetworkArgs, NetworkState_of zero_NetworkArgs, None), s1)
               else ((rid, inputs, state, Some err), s1)
           | (Inr got, s1) \<Rightarrow>
               (let args = nws_Args state;
                    args = (if nwa_NetworkName args = '''' then inputs else args);
                    args = args\<lparr>nwa_ProjectID := projectID, nwa_AvailabilityZone := az\<rparr>;
                    state = enrichNetworkState (state\<lparr>nws_Args := args\<rparr>) got
                in ((ScopedID az projectID (nn_ID got), nws_Args state, state, None), s1))))"

definition Network_Diff :: "NetworkState \<Rightarrow> NetworkArgs \<Rightarrow> DiffResponse" where
  "Network_Diff olds news =
     (let old = nws_Args olds;
          diff = [];
          diff = replaceDiff ''availabilityZone''
            (nwa_AvailabilityZone news \<noteq> '''' \<and> nwa_AvailabilityZone old \<noteq> nwa_AvailabilityZone news) diff;
          diff = replaceDiff ''networkName''
            (nwa_NetworkName news \<noteq> '''' \<and> nwa_NetworkName old \<noteq> nwa_NetworkName news) diff;
          diff = replaceDiff ''subnetCidr''
            (nwa_SubnetCIDR news \<noteq> '''' \<and> nwa_SubnetCIDR old \<noteq> nwa_SubnetCIDR news) diff;
          diff = replaceDiff ''routerName''
            (nwa_RouterName news \<noteq> '''' \<and> nwa_RouterName old \<noteq> nwa_RouterName news) diff;
          diff = replaceDiff ''externalNetworkId''
            (nwa_ExternalNetworkID news \<noteq> '''' \<and> BareResourceID (nwa_ExternalNetworkID old) \<noteq> BareResourceID (nwa_ExternalNetworkID news)) diff;
          diff = updateDiff ''name'' (nwa_Name news \<noteq> '''' \<and> nwa_Name old \<noteq> nwa_Name news) diff;
          diff = updateDiff ''description'' (nwa_Description old \<noteq> nwa_Description news) diff
      in diffResponse diff)"

definition Network_Update ::
  "'s NobusEnv \<Rightarrow> PConfig \<Rightarrow> 's Context \<Rightarrow> string \<Rightarrow> NetworkState \<Rightarrow> NetworkArgs \<Rightarrow> bool \<Rightarrow> 's \<Rightarrow>
     (NetworkState \<times> goerr option) \<times> 's" where
  "Network_Update env cfg ctx rid olds news preview s =
     (case ResolveImport cfg rid (cmp_Or [nwa_ProjectID news, nwa_ProjectID (nws_Args olds)])
             (cmp_Or [nwa_AvailabilityZone news, nwa_AvailabilityZone (nws_Args olds)]) of
        Inl err \<Rightarrow> ((olds, Some err), s)
      | Inr (az, projectID, resourceID) \<Rightarrow>
          (let news = news\<lparr>nwa_ProjectID := projectID, nwa_AvailabilityZone := az\<rparr>;
               state = olds\<lparr>nws_Args := news\<rparr>;
               body = \<lparr>nu_Name = nwa_Name news, nu_Description = nwa_Description news, nu_AdminStateUp = nwa_AdminStateUp news\<rparr>
           in if preview then ((state, None), s)
              else if body = zero_NetworkUpdate then ((state, None), s)
              else (case nobus_UpdateNetwork env (pc_client cfg) ctx projectID az resourceID body s of
                  (Inl err, s1) \<Rightarrow> ((state, Some err), s1)
                | (Inr got, s1) \<Rightarrow> ((enrichNetworkState state got, None), s1))))"

definition Network_Delete ::
  "'s NobusEnv \<Rightarrow> PConfig \<Rightarrow> 's Context \<Rightarrow> string \<Rightarrow> NetworkState \<Rightarrow> 's \<Rightarrow> goerr option \<times> 's" where
  "Network_Delete env cfg ctx rid state s =
     (case ResolveImport cfg rid (nwa_ProjectID (nws_Args state)) (nwa_AvailabilityZone (nws_Args state)) of
        Inl err \<Rightarrow> (Some err, s)
      | Inr (az, projectID, resourceID) \<Rightarrow>
          forgive_NotFound (nobus_DeleteNetwork env (pc_client cfg) ctx projectID az resourceID s))"

section \<open>Subnet\<close>

record SubnetArgs =
  sba_NetworkID :: string
  sba_CIDR :: string
  sba_IPVersion :: int
  sba_AvailabilityZone :: string
  sba_Name :: string
  sba_Description :: string
  sba_GatewayIP :: string
  sba_EnableDHCP :: "bool option"
  sba_DNSNameservers :: "string list"
  sba_ProjectID :: string

record SubnetState =
  sbs_Args :: SubnetArgs

definition zero_SubnetArgs :: SubnetArgs where
  "zero_SubnetArgs = \<lparr>sba_NetworkID = '''', sba_CIDR = '''', sba_IPVersion = 0, sba_AvailabilityZone = '''',
     sba_Name = '''', sba_Description = '''', sba_GatewayIP = '''', sba_EnableDHCP = None,
     sba_DNSNameservers = [], sba_ProjectID = ''''\<rparr>"

definition SubnetState_of :: "SubnetArgs \<Rightarrow> SubnetState" where
  "SubnetState_of args = \<lparr>sbs_Args = args\<rparr>"

definition Subnet_Check ::
  "PConfig option \<Rightarrow> (PropertyMap \<Rightarrow> SubnetArgs \<times> CheckFailure list \<times> goerr option) \<Rightarrow> PropertyMap \<Rightarrow>
     SubnetArgs \<times> CheckFailure list \<times> goerr option" where
  "Subnet_Check cfg DefaultCheck newInputs =
     (case checkResourceArgs cfg DefaultCheck newInputs sba_AvailabilityZone of (args, failures, err) \<Rightarrow>
        if err \<noteq> None \<or> failures \<noteq> [] then (args, failures, err)
        else (args, failures @ absent ''networkId'' ''networkId is required'' (sba_NetworkID args) @
            absent ''cidr'' ''cidr is required'' (sba_CIDR args), None))"

definition Subnet_Create ::
  "'s NobusEnv \<Rightarrow> PConfig \<Rightarrow> 's Context \<Rightarrow> string \<Rightarrow> SubnetArgs \<Rightarrow> bool \<Rightarrow> 's \<Rightarrow>
     (string \<times> SubnetState \<times> goerr option) \<times> 's" where
  "Subnet_Create env cfg ctx name input preview s =
     (case ResolveScope cfg (sba_ProjectID input) (sba_AvailabilityZone input) of
        Inl err \<Rightarrow> (('''', SubnetState_of zero_SubnetArgs, Some err), s)
      | Inr (projectID, az) \<Rightarrow>
          (let input = input\<lparr>sba_ProjectID := projectID, sba_AvailabilityZone := az\<rparr>;
               input = input\<lparr>sba_NetworkID := BareResourceID (sba_NetworkID input)\<rparr>;
               input = (if sba_IPVersion input = 0 then input\<lparr>sba_IPVersion := 4\<rparr> else input);
               state = SubnetState_of input
           in if preview then ((ScopedID az projectID name, state, None), s)
              else (case nobus_CreateSubnet env (pc_client cfg) ctx projectID az
                       \<lparr>snc_NetworkID = sba_NetworkID input, snc_CIDR = sba_CIDR input,
                        snc_IPVersion = sba_IPVersion input, snc_Name = sba_Name input,
                        snc_Description = sba_Description input, snc_GatewayIP = sba_GatewayIP input,
                        snc_EnableDHCP = sba_EnableDHCP input,
                        snc_DNSNameservers = sba_DNSNameservers input\<rparr> s of
                  (Inl err, s1) \<Rightarrow> (('''', SubnetState_of zero_SubnetArgs, Some err), s1)
                | (Inr created, s1) \<Rightarrow>
                    (let state = (if sba_Name (sbs_Args state) = ''''
                                  then state\<lparr>sbs_Args := (sbs_Args state)\<lparr>sba_Name := nsn_Name created\<rparr>\<rparr> else state)
                     in ((ScopedID az projectID (nsn_ID created), state, None), s1)))))"

definition Subnet_Read ::
  "'s NobusEnv \<Rightarrow> PConfig \<Rightarrow> 's Context \<Rightarrow> string \<Rightarrow> SubnetArgs \<Rightarrow> SubnetState \<Rightarrow> 's \<Rightarrow>
     (string \<times> SubnetArgs \<times> SubnetState \<times> goerr option) \<times> 's" where
  "Subnet_Read env cfg ctx rid inputs state s =
     (case ResolveImport cfg rid (cmp_Or [sba_ProjectID (sbs_Args state), sba_ProjectID inputs])
             (cmp_Or [sba_AvailabilityZone (sbs_Args state), sba_AvailabilityZone inputs]) of
        Inl err \<Rightarrow> ((rid, inputs, state, Some err), s)
      | Inr (az, projectID, resourceID) \<Rightarrow>
          (case nobus_GetSubnet env (pc_client cfg) ctx projectID az resourceID s of
             (Inl err, s1) \<Rightarrow>
               if errors_is err ErrNotFound
               then (('''', zero_SubnetArgs, SubnetState_of zero_SubnetArgs, None), s1)
               else ((rid, inputs, state, Some err), s1)
           | (Inr got, s1) \<Rightarrow>
               (let state = state\<lparr>sbs_Args := (sbs_Args state)\<lparr>sba_NetworkID := nsn_NetworkID got, sba_CIDR := nsn_CIDR got,
                          sba_IPVersion := nsn_IPVersion got, sba_Name := nsn_Name got,
                          sba_Description := nsn_Description got, sba_GatewayIP := nsn_GatewayIP got,
                          sba_EnableDHCP := nsn_EnableDHCP got,
                          sba_DNSNameservers := nsn_DNSNameservers got, sba_ProjectID := projectID,
                          sba_AvailabilityZone := az\<rparr>\<rparr>
                in ((ScopedID az projectID (nsn_ID got), sbs_Args state, state, None), s1))))"

definition Subnet_Diff :: "SubnetState \<Rightarrow> SubnetArgs \<Rightarrow> DiffResponse" where
  "Subnet_Diff olds news =
     (let old = sbs_Args olds;
          diff = [];
          diff = replaceDiff ''availabilityZone''
            (sba_AvailabilityZone news \<noteq> '''' \<and> sba_AvailabilityZone old \<noteq> sba_AvailabilityZone news) diff;
          diff = replaceDiff ''networkId''
            (sba_NetworkID news \<noteq> '''' \<and> BareResourceID (sba_NetworkID old) \<noteq> BareResourceID (sba_NetworkID news)) diff;
          diff = replaceDiff ''cidr'' (sba_CIDR news \<noteq> '''' \<and> sba_CIDR old \<noteq> sba_CIDR news) diff;
          diff = replaceDiff ''ipVersion''
            (sba_IPVersion news \<noteq> 0 \<and> sba_IPVersion old \<noteq> sba_IPVersion news) diff;
          diff = updateDiff ''name'' (sba_Name news \<noteq> '''' \<and> sba_Name old \<noteq> sba_Name news) diff;
          diff = updateDiff ''gatewayIp'' (sba_GatewayIP old \<noteq> sba_GatewayIP news) diff
      in diffResponse diff)"

definition Subnet_Update ::
  "'s NobusEnv \<Rightarrow> PConfig \<Rightarrow> 's Context \<Rightarrow> string \<Rightarrow> SubnetState \<Rightarrow> SubnetArgs \<Rightarrow> bool \<Rightarrow> 's \<Rightarrow>
     (SubnetState \<times> goerr option) \<times> 's" where
  "Subnet_Update env cfg ctx rid olds news preview s =
     (case ResolveImport cfg rid (cmp_Or [sba_ProjectID news, sba_ProjectID (sbs_Args olds)])
             (cmp_Or [sba_AvailabilityZone news, sba_AvailabilityZone (sbs_Args olds)]) of
        Inl err \<Rightarrow> ((olds, Some err), s)
      | Inr (az, projectID, resourceID) \<Rightarrow>
          (let news = news\<lparr>sba_ProjectID := projectID, sba_AvailabilityZone := az\<rparr>;
               news = news\<lparr>sba_NetworkID := BareResourceID (cmp_Or [sba_NetworkID news, sba_NetworkID (sbs_Args olds)])\<rparr>;
               state = olds\<lparr>sbs_Args := news\<rparr>;
               body = \<lparr>snu_Name = sba_Name news, snu_Description = sba_Description news,
                      snu_GatewayIP = sba_GatewayIP news, snu_EnableDHCP = sba_EnableDHCP news,
                      snu_DNSNameservers = sba_DNSNameservers news\<rparr>
           in if preview then ((state, None), s)
              else if snu_Name body = '''' \<and> snu_Description body = '''' \<and> snu_GatewayIP body = '''' \<and> snu_EnableDHCP body = None \<and>
                   snu_DNSNameservers body = [] then ((state, None), s)
              else (case nobus_UpdateSubnet env (pc_client cfg) ctx projectID az resourceID body s of
                  (Inl err, s1) \<Rightarrow> ((state, Some err), s1)
                | (Inr got, s1) \<Rightarrow> ((state, None), s1))))"

definition Subnet_Delete ::
  "'s NobusEnv \<Rightarrow> PConfig \<Rightarrow> 's Context \<Rightarrow> string \<Rightarrow> SubnetState \<Rightarrow> 's \<Rightarrow> goerr option \<times> 's" where
  "Subnet_Delete env cfg ctx rid state s =
     (case ResolveImport cfg rid (sba_ProjectID (sbs_Args state)) (sba_AvailabilityZone (sbs_Args state)) of
        Inl err \<Rightarrow> (Some err, s)
      | Inr (az, projectID, resourceID) \<Rightarrow>
          forgive_NotFound (nobus_DeleteSubnet env (pc_client cfg) ctx projectID az resourceID s))"

section \<open>Port\<close>

record PortArgs =
  pta_NetworkID :: string
  pta_AvailabilityZone :: string
  pta_Name :: string
  pta_Description :: string
  pta_AdminStateUp :: "bool option"
  pta_SecurityGroups :: "string list"
  pta_DeviceID :: string
  pta_DeviceOwner :: string
  pta_PortSecurityEnabled :: "bool option"
  pta_ProjectID :: string

record PortState =
  pts_Args :: PortArgs
  pts_Status :: string
  pts_MACAddress :: string

definition zero_PortArgs :: PortArgs where
  "zero_PortArgs = \<lparr>pta_NetworkID = '''', pta_AvailabilityZone = '''', pta_Name = '''', pta_Description = '''',
     pta_AdminStateUp = None, pta_SecurityGroups = [], pta_DeviceID = '''', pta_DeviceOwner = '''',
     pta_PortSecurityEnabled = None, pta_ProjectID = ''''\<rparr>"

definition PortState_of :: "PortArgs \<Rightarrow> PortState" where
  "PortState_of args = \<lparr>pts_Args = args, pts_Status = '''', pts_MACAddress = ''''\<rparr>"

definition Port_Check ::
  "PConfig option \<Rightarrow> (PropertyMap \<Rightarrow> PortArgs \<times> CheckFailure list \<times> goerr option) \<Rightarrow> PropertyMap \<Rightarrow>
     PortArgs \<times> CheckFailure list \<times> goerr option" where
  "Port_Check cfg DefaultCheck newInputs =
     (case checkResourceArgs cfg DefaultCheck newInputs pta_AvailabilityZone of (args, failures, err) \<Rightarrow>
        if err \<noteq> None \<or> failures \<noteq> [] then (args, failures, err)
        else (args, failures @ absent ''networkId'' ''networkId is required'' (pta_NetworkID args), None))"

definition Port_Create ::
  "'s NobusEnv \<Rightarrow> PConfig \<Rightarrow> 's Context \<Rightarrow> string \<Rightarrow> PortArgs \<Rightarrow> bool \<Rightarrow> 's \<Rightarrow>
     (string \<times> PortState \<times> goerr option) \<times> 's" where
  "Port_Create env cfg ctx name input preview s =
     (case ResolveScope cfg (pta_ProjectID input) (pta_AvailabilityZone input) of
        Inl err \<Rightarrow> (('''', PortState_of zero_PortArgs, Some err), s)
      | Inr (projectID, az) \<Rightarrow>
          (let input = input\<lparr>pta_ProjectID := projectID, pta_AvailabilityZone := az\<rparr>;
               input = input\<lparr>pta_NetworkID := BareResourceID (pta_NetworkID input), pta_DeviceID := BareResourceID (pta_DeviceID input),
                       pta_SecurityGroups := bareIDs (pta_SecurityGroups input)\<rparr>;
               state = PortState_of input
           in if preview then ((ScopedID az projectID name, state, None), s)
              else (case nobus_CreatePort env (pc_client cfg) ctx projectID az
                       \<lparr>ptc_NetworkID = pta_NetworkID input, ptc_Name = pta_Name input,
                        ptc_Description = pta_Description input,
                        ptc_AdminStateUp = pta_AdminStateUp input,
                        ptc_SecurityGroups = pta_SecurityGroups input, ptc_DeviceID = pta_DeviceID input,
                        ptc_DeviceOwner = pta_DeviceOwner input,
                        ptc_PortSecurityEnabled = pta_PortSecurityEnabled input\<rparr> s of
                  (Inl err, s1) \<Rightarrow> (('''', PortState_of zero_PortArgs, Some err), s1)
                | (Inr created, s1) \<Rightarrow>
                    (let state = state\<lparr>pts_Status := npt_Status created, pts_MACAddress := npt_MACAddress created\<rparr>
                     in ((ScopedID az projectID (npt_ID created), state, None), s1)))))"

definition Port_Read ::
  "'s NobusEnv \<Rightarrow> PConfig \<Rightarrow> 's Context \<Rightarrow> string \<Rightarrow> PortArgs \<Rightarrow> PortState \<Rightarrow> 's \<Rightarrow>
     (string \<times> PortArgs \<times> PortState \<times> goerr option) \<times> 's" where
  "Port_Read env cfg ctx rid inputs state s =
     (case ResolveImport cfg rid (cmp_Or [pta_ProjectID (pts_Args state), pta_ProjectID inputs])
             (cmp_Or [pta_AvailabilityZone (pts_Args state), pta_AvailabilityZone inputs]) of
        Inl err \<Rightarrow> ((rid, inputs, state, Some err), s)
      | Inr (az, projectID, resourceID) \<Rightarrow>
          (case nobus_GetPort env (pc_client cfg) ctx projectID az resourceID s of
             (Inl err, s1) \<Rightarrow>
               if errors_is err ErrNotFound
               then (('''', zero_PortArgs, PortState_of zero_PortArgs, None), s1)
               else ((rid, inputs, state, Some err), s1)
           | (Inr got, s1) \<Rightarrow>
               (let state = state\<lparr>pts_Args := (pts_Args state)\<lparr>pta_NetworkID := npt_NetworkID got, pta_Name := npt_Name got,
                          pta_Description := npt_Description got,
                          pta_AdminStateUp := npt_AdminStateUp got,
                          pta_SecurityGroups := npt_SecurityGroups got, pta_DeviceID := npt_DeviceID got,
                          pta_DeviceOwner := npt_DeviceOwner got,
                          pta_PortSecurityEnabled := npt_PortSecurityEnabled got,
                          pta_ProjectID := projectID, pta_AvailabilityZone := az\<rparr>,
                     pts_Status := npt_Status got,
                     pts_MACAddress := npt_MACAddress got\<rparr>
                in ((ScopedID az projectID (npt_ID got), pts_Args state, state, None), s1))))"

definition Port_Diff :: "PortState \<Rightarrow> PortArgs \<Rightarrow> DiffResponse" where
  "Port_Diff olds news =
     (let old = pts_Args olds;
          diff = [];
          diff = replaceDiff ''availabilityZone''
            (pta_AvailabilityZone news \<noteq> '''' \<and> pta_AvailabilityZone old \<noteq> pta_AvailabilityZone news) diff;
          diff = replaceDiff ''networkId''
            (pta_NetworkID news \<noteq> '''' \<and> BareResourceID (pta_NetworkID old) \<noteq> BareResourceID (pta_NetworkID news)) diff;
          diff = updateDiff ''name'' (pta_Name news \<noteq> '''' \<and> pta_Name old \<noteq> pta_Name news) diff;
          diff = updateDiff ''deviceId'' (BareResourceID (pta_DeviceID old) \<noteq> BareResourceID (pta_DeviceID news)) diff;
          diff = updateDiff ''securityGroups''
            (\<not> stringSlicesEqual (pta_SecurityGroups old) (pta_SecurityGroups news)) diff;
          diff = updateDiff ''description'' (pta_Description old \<noteq> pta_Description news) diff
      in diffResponse diff)"

definition Port_Update ::
  "'s NobusEnv \<Rightarrow> PConfig \<Rightarrow> 's Context \<Rightarrow> string \<Rightarrow> PortState \<Rightarrow> PortArgs \<Rightarrow> bool \<Rightarrow> 's \<Rightarrow>
     (PortState \<times> goerr option) \<times> 's" where
  "Port_Update env cfg ctx rid olds news preview s =
     (case ResolveImport cfg rid (cmp_Or [pta_ProjectID news, pta_ProjectID (pts_Args olds)])
             (cmp_Or [pta_AvailabilityZone news, pta_AvailabilityZone (pts_Args olds)]) of
        Inl err \<Rightarrow> ((olds, Some err), s)
      | Inr (az, projectID, resourceID) \<Rightarrow>
          (let news = news\<lparr>pta_ProjectID := projectID, pta_AvailabilityZone := az\<rparr>;
               news = news\<lparr>pta_NetworkID := BareResourceID (cmp_Or [pta_NetworkID news, pta_NetworkID (pts_Args olds)]),
                 pta_SecurityGroups := bareIDs (pta_SecurityGroups news)\<rparr>;
               state = olds\<lparr>pts_Args := news\<rparr>;
               body = \<lparr>ptu_Name = pta_Name news, ptu_Description = pta_Description news,
                      ptu_AdminStateUp = pta_AdminStateUp news,
                      ptu_SecurityGroups = pta_SecurityGroups news,
                      ptu_PortSecurityEnabled = pta_PortSecurityEnabled news\<rparr>
           in if preview then ((state, None), s)
              else if ptu_Name body = '''' \<and> ptu_Description body = '''' \<and> ptu_AdminStateUp body = None \<and> ptu_SecurityGroups body = [] \<and>
                   ptu_PortSecurityEnabled body = None then ((state, None), s)
              else (case nobus_UpdatePort env (pc_client cfg) ctx projectID az resourceID body s of
                  (Inl err, s1) \<Rightarrow> ((state, Some err), s1)
                | (Inr got, s1) \<Rightarrow> ((state\<lparr>pts_Status := npt_Status got, pts_MACAddress := npt_MACAddress got\<rparr>, None), s1))))"

definition Port_Delete ::
  "'s NobusEnv \<Rightarrow> PConfig \<Rightarrow> 's Context \<Rightarrow> string \<Rightarrow> PortState \<Rightarrow> 's \<Rightarrow> goerr option \<times> 's" where
  "Port_Delete env cfg ctx rid state s =
     (case ResolveImport cfg rid (pta_ProjectID (pts_Args state)) (pta_AvailabilityZone (pts_Args state)) of
        Inl err \<Rightarrow> (Some err, s)
      | Inr (az, projectID, resourceID) \<Rightarrow>
          forgive_NotFound (nobus_DeletePort env (pc_client cfg) ctx projectID az resourceID s))"

section \<open>Router\<close>

record RouterArgs =
  rta_Name :: string
  rta_AvailabilityZone :: string
  rta_Description :: string
  rta_AdminStateUp :: "bool option"
  rta_ProjectID :: string

record RouterState =
  rts_Args :: RouterArgs
  rts_Status :: string

definition zero_RouterArgs :: RouterArgs where
  "zero_RouterArgs = \<lparr>rta_Name = '''', rta_AvailabilityZone = '''', rta_Description = '''', rta_AdminStateUp = None,
     rta_ProjectID = ''''\<rparr>"

definition RouterState_of :: "RouterArgs \<Rightarrow> RouterState" where
  "RouterState_of args = \<lparr>rts_Args = args, rts_Status = ''''\<rparr>"

definition Router_Check ::
  "PConfig option \<Rightarrow> (PropertyMap \<Rightarrow> RouterArgs \<times> CheckFailure list \<times> goerr option) \<Rightarrow> PropertyMap \<Rightarrow>
     RouterArgs \<times> CheckFailure list \<times> goerr option" where
  "Router_Check cfg DefaultCheck newInputs =
     (case checkResourceArgs cfg DefaultCheck newInputs rta_AvailabilityZone of (args, failures, err) \<Rightarrow>
        if err \<noteq> None \<or> failures \<noteq> [] then (args, failures, err)
        else (args, failures @ absent ''name'' ''name is required'' (rta_Name args), None))"

definition Router_Create ::
  "'s NobusEnv \<Rightarrow> PConfig \<Rightarrow> 's Context \<Rightarrow> string \<Rightarrow> RouterArgs \<Rightarrow> bool \<Rightarrow> 's \<Rightarrow>
     (string \<times> RouterState \<times> goerr option) \<times> 's" where
  "Router_Create env cfg ctx name input preview s =
     (case ResolveScope cfg (rta_ProjectID input) (rta_AvailabilityZone input) of
        Inl err \<Rightarrow> (('''', RouterState_of zero_RouterArgs, Some err), s)
      | Inr (projectID, az) \<Rightarrow>
          (let input = input\<lparr>rta_ProjectID := projectID, rta_AvailabilityZone := az\<rparr>;
               state = RouterState_of input
           in if preview then ((ScopedID az projectID name, state, None), s)
              else (case nobus_CreateRouter env (pc_client cfg) ctx projectID az
                       \<lparr>rw_Name = rta_Name input, rw_Description = rta_Description input,
                        rw_AdminStateUp = rta_AdminStateUp input\<rparr> s of
                  (Inl err, s1) \<Rightarrow> (('''', RouterState_of zero_RouterArgs, Some err), s1)
                | (Inr created, s1) \<Rightarrow>
                    (let state = state\<lparr>rts_Status := nrt_Status created\<rparr>
                     in ((ScopedID az projectID (nrt_ID created), state, None), s1)))))"

definition Router_Read ::
  "'s NobusEnv \<Rightarrow> PConfig \<Rightarrow> 's Context \<Rightarrow> string \<Rightarrow> RouterArgs \<Rightarrow> RouterState \<Rightarrow> 's \<Rightarrow>
     (string \<times> RouterArgs \<times> RouterState \<times> goerr option) \<times> 's" where
  "Router_Read env cfg ctx rid inputs state s =
     (case ResolveImport cfg rid (cmp_Or [rta_ProjectID (rts_Args state), rta_ProjectID inputs])
             (cmp_Or [rta_AvailabilityZone (rts_Args state), rta_AvailabilityZone inputs]) of
        Inl err \<Rightarrow> ((rid, inputs, state, Some err), s)
      | Inr (az, projectID, resourceID) \<Rightarrow>
          (case nobus_GetRouter env (pc_client cfg) ctx projectID az resourceID s of
             (Inl err, s1) \<Rightarrow>
               if errors_is err ErrNotFound
               then (('''', zero_RouterArgs, RouterState_of zero_RouterArgs, None), s1)
               else ((rid, inputs, state, Some err), s1)
           | (Inr got, s1) \<Rightarrow>
               (let state = state\<lparr>rts_Args := (rts_Args state)\<lparr>rta_Name := nrt_Name got, rta_Description := nrt_Description got,
                          rta_AdminStateUp := nrt_AdminStateUp got, rta_ProjectID := projectID,
                          rta_AvailabilityZone := az\<rparr>,
                     rts_Status := nrt_Status got\<rparr>
                in ((ScopedID az projectID (nrt_ID got), rts_Args state, state, None), s1))))"

definition Router_Diff :: "RouterState \<Rightarrow> RouterArgs \<Rightarrow> DiffResponse" where
  "Router_Diff olds news =
     (let old = rts_Args olds;
          diff = [];
          diff = replaceDiff ''availabilityZone''
            (rta_AvailabilityZone news \<noteq> '''' \<and> rta_AvailabilityZone old \<noteq> rta_AvailabilityZone news) diff;
          diff = updateDiff ''name'' (rta_Name news \<noteq> '''' \<and> rta_Name old \<noteq> rta_Name news) diff;
          diff = updateDiff ''description'' (rta_Description old \<noteq> rta_Description news) diff
      in diffResponse diff)"

definition Router_Update ::
  "'s NobusEnv \<Rightarrow> PConfig \<Rightarrow> 's Context \<Rightarrow> string \<Rightarrow> RouterState \<Rightarrow> RouterArgs \<Rightarrow> bool \<Rightarrow> 's \<Rightarrow>
     (RouterState \<times> goerr option) \<times> 's" where
  "Router_Update env cfg ctx rid olds news preview s =
     (case ResolveImport cfg rid (cmp_Or [rta_ProjectID news, rta_ProjectID (rts_Args olds)])
             (cmp_Or [rta_AvailabilityZone news, rta_AvailabilityZone (rts_Args olds)]) of
        Inl err \<Rightarrow> ((olds, Some err), s)
      | Inr (az, projectID, resourceID) \<Rightarrow>
          (let news = news\<lparr>rta_ProjectID := projectID, rta_AvailabilityZone := az\<rparr>;
               state = olds\<lparr>rts_Args := news\<rparr>;
               body = \<lparr>rw_Name = rta_Name news, rw_Description = rta_Description news,
                      rw_AdminStateUp = rta_AdminStateUp news\<rparr>
           in if preview then ((state, None), s)
              else if body = zero_RouterWrite then ((state, None), s)
              else (case nobus_UpdateRouter env (pc_client cfg) ctx projectID az resourceID body s of
                  (Inl err, s1) \<Rightarrow> ((state, Some err), s1)
                | (Inr got, s1) \<Rightarrow> ((state\<lparr>rts_Status := nrt_Status got\<rparr>, None), s1))))"

definition Router_Delete ::
  "'s NobusEnv \<Rightarrow> PConfig \<Rightarrow> 's Context \<Rightarrow> string \<Rightarrow> RouterState \<Rightarrow> 's \<Rightarrow> goerr option \<times> 's" where
  "Router_Delete env cfg ctx rid state s =
     (case ResolveImport cfg rid (rta_ProjectID (rts_Args state)) (rta_AvailabilityZone (rts_Args state)) of
        Inl err \<Rightarrow> (Some err, s)
      | Inr (az, projectID, resourceID) \<Rightarrow>
          forgive_NotFound (nobus_DeleteRouter env (pc_client cfg) ctx projectID az resourceID s))"

end
