(* ===== verification/PulumiSecurity.thy ===== *)
theory PulumiSecurity
  imports PulumiNetwork
begin

text \<open>
  \<open>pulumi-nobus/provider/pkg/provider/security.go\<close>: the resources \<open>SecurityGroup\<close>, \<open>SecurityGroupRule\<close> and
  \<open>FloatingIp\<close>.
\<close>

section \<open>SecurityGroup\<close>

record SecurityGroupArgs =
  sga_Name :: string
  sga_AvailabilityZone :: string
  sga_Description :: string
  sga_ProjectID :: string

record SecurityGroupState =
  sgs_Args :: SecurityGroupArgs

definition zero_SecurityGroupArgs :: SecurityGroupArgs where
  "zero_SecurityGroupArgs = \<lparr>sga_Name = '''', sga_AvailabilityZone = '''', sga_Description = '''', sga_ProjectID = ''''\<rparr>"

definition SecurityGroupState_of :: "SecurityGroupArgs \<Rightarrow> SecurityGroupState" where
  "SecurityGroupState_of args = \<lparr>sgs_Args = args\<rparr>"

definition SecurityGroup_Check ::
  "PConfig option \<Rightarrow> (PropertyMap \<Rightarrow> SecurityGroupArgs \<times> CheckFailure list \<times> goerr option) \<Rightarrow> PropertyMap \<Rightarrow>
     SecurityGroupArgs \<times> CheckFailure list \<times> goerr option" where
  "SecurityGroup_Check cfg DefaultCheck newInputs =
     (case checkResourceArgs cfg DefaultCheck newInputs sga_AvailabilityZone of (args, failures, err) \<Rightarrow>
        if err \<noteq> None \<or> failures \<noteq> [] then (args, failures, err)
        else (args, failures @ absent ''name'' ''name is required'' (sga_Name args), None))"

definition SecurityGroup_Create ::
  "'s NobusEnv \<Rightarrow> PConfig \<Rightarrow> 's Context \<Rightarrow> string \<Rightarrow> SecurityGroupArgs \<Rightarrow> bool \<Rightarrow> 's \<Rightarrow>
     (string \<times> SecurityGroupState \<times> goerr option) \<times> 's" where
  "SecurityGroup_Create env cfg ctx name input preview s =
     (case ResolveScope cfg (sga_ProjectID input) (sga_AvailabilityZone input) of
        Inl err \<Rightarrow> (('''', SecurityGroupState_of zero_SecurityGroupArgs, Some err), s)
      | Inr (projectID, az) \<Rightarrow>
          (let input = input\<lparr>sga_ProjectID := projectID, sga_AvailabilityZone := az\<rparr>;
               state = SecurityGroupState_of input
           in if preview then ((ScopedID az projectID name, state, None), s)
              else (case nobus_CreateSecurityGroup env (pc_client cfg) ctx projectID az
                       \<lparr>sgw_Name = sga_Name input, sgw_Description = sga_Description input\<rparr> s of
                  (Inl err, s1) \<Rightarrow> (('''', SecurityGroupState_of zero_SecurityGroupArgs, Some err), s1)
                | (Inr created, s1) \<Rightarrow>
                    ((ScopedID az projectID (nsg_ID created), state, None), s1))))"

definition SecurityGroup_Read ::
  "'s NobusEnv \<Rightarrow> PConfig \<Rightarrow> 's Context \<Rightarrow> string \<Rightarrow> SecurityGroupArgs \<Rightarrow> SecurityGroupState \<Rightarrow> 's \<Rightarrow>
     (string \<times> SecurityGroupArgs \<times> SecurityGroupState \<times> goerr option) \<times> 's" where
  "SecurityGroup_Read env cfg ctx rid inputs state s =
     (case ResolveImport cfg rid (cmp_Or [sga_ProjectID (sgs_Args state), sga_ProjectID inputs])
             (cmp_Or [sga_AvailabilityZone (sgs_Args state), sga_AvailabilityZone inputs]) of
        Inl err \<Rightarrow> ((rid, inputs, state, Some err), s)
      | Inr (az, projectID, resourceID) \<Rightarrow>
          (case nobus_GetSecurityGroup env (pc_client cfg) ctx projectID az resourceID s of
             (Inl err, s1) \<Rightarrow>
               if errors_is err ErrNotFound
               then (('''', zero_SecurityGroupArgs, SecurityGroupState_of zero_SecurityGroupArgs, None), s1)
               else ((rid, inputs, state, Some err), s1)
           | (Inr got, s1) \<Rightarrow>
               (let state = state\<lparr>sgs_Args := (sgs_Args state)\<lparr>sga_Name := nsg_Name got, sga_Description := nsg_Description got,
                          sga_ProjectID := projectID, sga_AvailabilityZone := az\<rparr>\<rparr>
                in ((ScopedID az projectID (nsg_ID got), sgs_Args state, state, None), s1))))"

definition SecurityGroup_Diff :: "SecurityGroupState \<Rightarrow> SecurityGroupArgs \<Rightarrow> DiffResponse" where
  "SecurityGroup_Diff olds news =
     (let old = sgs_Args olds;
          diff = [];
          diff = replaceDiff ''availabilityZone''
            (sga_AvailabilityZone news \<noteq> '''' \<and> sga_AvailabilityZone old \<noteq> sga_AvailabilityZone news) diff;
          diff = updateDiff ''name'' (sga_Name news \<noteq> '''' \<and> sga_Name old \<noteq> sga_Name news) diff;
          diff = updateDiff ''description'' (sga_Description old \<noteq> sga_Description news) diff
      in diffResponse diff)"

definition SecurityGroup_Update ::
  "'s NobusEnv \<Rightarrow> PConfig \<Rightarrow> 's Context \<Rightarrow> string \<Rightarrow> SecurityGroupState \<Rightarrow> SecurityGroupArgs \<Rightarrow> bool \<Rightarrow> 's \<Rightarrow>
     (SecurityGroupState \<times> goerr option) \<times> 's" where
  "SecurityGroup_Update env cfg ctx rid olds news preview s =
     (case ResolveImport cfg rid (cmp_Or [sga_ProjectID news, sga_ProjectID (sgs_Args olds)])
             (cmp_Or [sga_AvailabilityZone news, sga_AvailabilityZone (sgs_Args olds)]) of
        Inl err \<Rightarrow> ((olds, Some err), s)
      | Inr (az, projectID, resourceID) \<Rightarrow>
          (let news = news\<lparr>sga_ProjectID := projectID, sga_AvailabilityZone := az\<rparr>;
               state = olds\<lparr>sgs_Args := news\<rparr>;
               body = \<lparr>sgw_Name = sga_Name news, sgw_Description = sga_Description news\<rparr>
           in if preview then ((state, None), s)
              else if body = zero_SecurityGroupWrite then ((state, None), s)
              else (case nobus_UpdateSecurityGroup env (pc_client cfg) ctx projectID az resourceID body s of
                  (Inl err, s1) \<Rightarrow> ((state, Some err), s1)
                | (Inr got, s1) \<Rightarrow> ((state, None), s1))))"

definition SecurityGroup_Delete ::
  "'s NobusEnv \<Rightarrow> PConfig \<Rightarrow> 's Context \<Rightarrow> string \<Rightarrow> SecurityGroupState \<Rightarrow> 's \<Rightarrow> goerr option \<times> 's" where
  "SecurityGroup_Delete env cfg ctx rid state s =
     (case ResolveImport cfg rid (sga_ProjectID (sgs_Args state)) (sga_AvailabilityZone (sgs_Args state)) of
        Inl err \<Rightarrow> (Some err, s)
      | Inr (az, projectID, resourceID) \<Rightarrow>
          forgive_NotFound (nobus_DeleteSecurityGroup env (pc_client cfg) ctx projectID az resourceID s))"

section \<open>SecurityGroupRule\<close>

record SecurityGroupRuleArgs =
  sra_SecurityGroupID :: string
  sra_Direction :: string
  sra_AvailabilityZone :: string
  sra_Ethertype :: string
  sra_Protocol :: string
  sra_PortRangeMin :: "int option"
  sra_PortRangeMax :: "int option"
  sra_RemoteIPPrefix :: string
  sra_RemoteGroupID :: string
  sra_Description :: string
  sra_ProjectID :: string

record SecurityGroupRuleState =
  srs_Args :: SecurityGroupRuleArgs

definition zero_SecurityGroupRuleArgs :: SecurityGroupRuleArgs where
  "zero_SecurityGroupRuleArgs = \<lparr>sra_SecurityGroupID = '''', sra_Direction = '''', sra_AvailabilityZone = '''', sra_Ethertype = '''',
     sra_Protocol = '''', sra_PortRangeMin = None, sra_PortRangeMax = None, sra_RemoteIPPrefix = '''',
     sra_RemoteGroupID = '''', sra_Description = '''', sra_ProjectID = ''''\<rparr>"

definition SecurityGroupRuleState_of :: "SecurityGroupRuleArgs \<Rightarrow> SecurityGroupRuleState" where
  "SecurityGroupRuleState_of args = \<lparr>srs_Args = args\<rparr>"

definition SecurityGroupRule_Check ::
  "PConfig option \<Rightarrow> (PropertyMap \<Rightarrow> SecurityGroupRuleArgs \<times> CheckFailure list \<times> goerr option) \<Rightarrow> PropertyMap \<Rightarrow>
     SecurityGroupRuleArgs \<times> CheckFailure list \<times> goerr option" where
  "SecurityGroupRule_Check cfg DefaultCheck newInputs =
     (case checkResourceArgs cfg DefaultCheck newInputs sra_AvailabilityZone of (args, failures, err) \<Rightarrow>
        if err \<noteq> None \<or> failures \<noteq> [] then (args, failures, err)
        else (args, failures @ absent ''securityGroupId'' ''securityGroupId is required'' (sra_SecurityGroupID args) @
            absent ''direction'' ''direction is required (ingress or egress)'' (sra_Direction args), None))"

definition SecurityGroupRule_Create ::
  "'s NobusEnv \<Rightarrow> PConfig \<Rightarrow> 's Context \<Rightarrow> string \<Rightarrow> SecurityGroupRuleArgs \<Rightarrow> bool \<Rightarrow> 's \<Rightarrow>
     (string \<times> SecurityGroupRuleState \<times> goerr option) \<times> 's" where
  "SecurityGroupRule_Create env cfg ctx name input preview s =
     (case ResolveScope cfg (sra_ProjectID input) (sra_AvailabilityZone input) of
        Inl err \<Rightarrow> (('''', SecurityGroupRuleState_of zero_SecurityGroupRuleArgs, Some err), s)
      | Inr (projectID, az) \<Rightarrow>
          (let input = input\<lparr>sra_ProjectID := projectID, sra_AvailabilityZone := az\<rparr>;
               input = input\<lparr>sra_SecurityGroupID := BareResourceID (sra_SecurityGroupID input),
                       sra_RemoteGroupID := BareResourceID (sra_RemoteGroupID input)\<rparr>;
               input = (if sra_Ethertype input = '''' then input\<lparr>sra_Ethertype := ''IPv4''\<rparr> else input);
               state = SecurityGroupRuleState_of input
           in if preview then ((ScopedID az projectID name, state, None), s)
              else (case nobus_CreateSecurityGroupRule env (pc_client cfg) ctx projectID az
                       \<lparr>srcr_SecurityGroupID = sra_SecurityGroupID input,
                        srcr_Direction = sra_Direction input, srcr_Ethertype = sra_Ethertype input,
                        srcr_Protocol = sra_Protocol input, srcr_PortRangeMin = sra_PortRangeMin input,
                        srcr_PortRangeMax = sra_PortRangeMax input,
                        srcr_RemoteIPPrefix = sra_RemoteIPPrefix input,
                        srcr_RemoteGroupID = sra_RemoteGroupID input,
                        srcr_Description = sra_Description input\<rparr> s of
                  (Inl err, s1) \<Rightarrow> (('''', SecurityGroupRuleState_of zero_SecurityGroupRuleArgs, Some err), s1)
                | (Inr created, s1) \<Rightarrow>
                    ((ScopedID az projectID (nsr_ID created), state, None), s1))))"

definition SecurityGroupRule_Read ::
  "'s NobusEnv \<Rightarrow> PConfig \<Rightarrow> 's Context \<Rightarrow> string \<Rightarrow> SecurityGroupRuleArgs \<Rightarrow> SecurityGroupRuleState \<Rightarrow> 's \<Rightarrow>
     (string \<times> SecurityGroupRuleArgs \<times> SecurityGroupRuleState \<times> goerr option) \<times> 's" where
  "SecurityGroupRule_Read env cfg ctx rid inputs state s =
     (case ResolveImport cfg rid (cmp_Or [sra_ProjectID (srs_Args state), sra_ProjectID inputs])
             (cmp_Or [sra_AvailabilityZone (srs_Args state), sra_AvailabilityZone inputs]) of
        Inl err \<Rightarrow> ((rid, inputs, state, Some err), s)
      | Inr (az, projectID, resourceID) \<Rightarrow>
          (case nobus_GetSecurityGroupRule env (pc_client cfg) ctx projectID az resourceID s of
             (Inl err, s1) \<Rightarrow>
               if errors_is err ErrNotFound
               then (('''', zero_SecurityGroupRuleArgs, SecurityGroupRuleState_of zero_SecurityGroupRuleArgs, None), s1)
               else ((rid, inputs, state, Some err), s1)
           | (Inr got, s1) \<Rightarrow>
               (let state = state\<lparr>srs_Args := (srs_Args state)\<lparr>sra_SecurityGroupID := nsr_SecurityGroupID got,
                          sra_Direction := nsr_Direction got, sra_Ethertype := nsr_Ethertype got,
                          sra_Protocol := nsr_Protocol got, sra_PortRangeMin := nsr_PortRangeMin got,
                          sra_PortRangeMax := nsr_PortRangeMax got,
                          sra_RemoteIPPrefix := nsr_RemoteIPPrefix got,
                          sra_RemoteGroupID := nsr_RemoteGroupID got,
                          sra_Description := nsr_Description got, sra_ProjectID := projectID,
                          sra_AvailabilityZone := az\<rparr>\<rparr>
                in ((ScopedID az projectID (nsr_ID got), srs_Args state, state, None), s1))))"

definition SecurityGroupRule_Diff :: "SecurityGroupRuleState \<Rightarrow> SecurityGroupRuleArgs \<Rightarrow> DiffResponse" where
  "SecurityGroupRule_Diff olds news =
     (let old = srs_Args olds;
          diff = [];
          diff = replaceDiff ''availabilityZone''
            (sra_AvailabilityZone news \<noteq> '''' \<and> sra_AvailabilityZone old \<noteq> sra_AvailabilityZone news) diff;
          diff = replaceDiff ''securityGroupId''
            (sra_SecurityGroupID news \<noteq> '''' \<and> BareResourceID (sra_SecurityGroupID old) \<noteq> BareResourceID (sra_SecurityGroupID news)) diff;
          diff = replaceDiff ''direction''
            (sra_Direction news \<noteq> '''' \<and> sra_Direction old \<noteq> sra_Direction news) diff;
          diff = replaceDiff ''ethertype''
            (sra_Ethertype news \<noteq> '''' \<and> sra_Ethertype old \<noteq> sra_Ethertype news) diff;
          diff = replaceDiff ''protocol''
            (sra_Protocol news \<noteq> '''' \<and> sra_Protocol old \<noteq> sra_Protocol news) diff;
          diff = replaceDiff ''portRangeMin'' (\<not> intPtrEqual (sra_PortRangeMin old) (sra_PortRangeMin news)) diff;
          diff = replaceDiff ''portRangeMax'' (\<not> intPtrEqual (sra_PortRangeMax old) (sra_PortRangeMax news)) diff;
          diff = replaceDiff ''remoteIpPrefix''
            (sra_RemoteIPPrefix news \<noteq> '''' \<and> sra_RemoteIPPrefix old \<noteq> sra_RemoteIPPrefix news) diff;
          diff = replaceDiff ''remoteGroupId''
            (sra_RemoteGroupID news \<noteq> '''' \<and> BareResourceID (sra_RemoteGroupID old) \<noteq> BareResourceID (sra_RemoteGroupID news)) diff;
          diff = replaceDiff ''description'' (sra_Description old \<noteq> sra_Description news) diff
      in diffResponse diff)"

definition SecurityGroupRule_Delete ::
  "'s NobusEnv \<Rightarrow> PConfig \<Rightarrow> 's Context \<Rightarrow> string \<Rightarrow> SecurityGroupRuleState \<Rightarrow> 's \<Rightarrow> goerr option \<times> 's" where
  "SecurityGroupRule_Delete env cfg ctx rid state s =
     (case ResolveImport cfg rid (sra_ProjectID (srs_Args state)) (sra_AvailabilityZone (srs_Args state)) of
        Inl err \<Rightarrow> (Some err, s)
      | Inr (az, projectID, resourceID) \<Rightarrow>
          forgive_NotFound (nobus_DeleteSecurityGroupRule env (pc_client cfg) ctx projectID az resourceID s))"

section \<open>FloatingIp\<close>

record FloatingIpArgs =
  fia_FloatingNetworkID :: string
  fia_AvailabilityZone :: string
  fia_PortID :: string
  fia_FixedIPAddress :: string
  fia_Description :: string
  fia_ProjectID :: string

record FloatingIpState =
  fis_Args :: FloatingIpArgs
  fis_FloatingIPAddress :: string
  fis_Status :: string

definition zero_FloatingIpArgs :: FloatingIpArgs where
  "zero_FloatingIpArgs = \<lparr>fia_FloatingNetworkID = '''', fia_AvailabilityZone = '''', fia_PortID = '''',
     fia_FixedIPAddress = '''', fia_Description = '''', fia_ProjectID = ''''\<rparr>"

definition FloatingIpState_of :: "FloatingIpArgs \<Rightarrow> FloatingIpState" where
  "FloatingIpState_of args = \<lparr>fis_Args = args, fis_FloatingIPAddress = '''', fis_Status = ''''\<rparr>"

definition FloatingIp_Check ::
  "PConfig option \<Rightarrow> (PropertyMap \<Rightarrow> FloatingIpArgs \<times> CheckFailure list \<times> goerr option) \<Rightarrow> PropertyMap \<Rightarrow>
     FloatingIpArgs \<times> CheckFailure list \<times> goerr option" where
  "FloatingIp_Check cfg DefaultCheck newInputs =
     (case checkResourceArgs cfg DefaultCheck newInputs fia_AvailabilityZone of (args, failures, err) \<Rightarrow>
        if err \<noteq> None \<or> failures \<noteq> [] then (args, failures, err)
        else (args, failures @ absent ''floatingNetworkId'' ''floatingNetworkId is required'' (fia_FloatingNetworkID args), None))"

definition FloatingIp_Create ::
  "'s NobusEnv \<Rightarrow> PConfig \<Rightarrow> 's Context \<Rightarrow> string \<Rightarrow> FloatingIpArgs \<Rightarrow> bool \<Rightarrow> 's \<Rightarrow>
     (string \<times> FloatingIpState \<times> goerr option) \<times> 's" where
  "FloatingIp_Create env cfg ctx name input preview s =
     (case ResolveScope cfg (fia_ProjectID input) (fia_AvailabilityZone input) of
        Inl err \<Rightarrow> (('''', FloatingIpState_of zero_FloatingIpArgs, Some err), s)
      | Inr (projectID, az) \<Rightarrow>
          (let input = input\<lparr>fia_ProjectID := projectID, fia_AvailabilityZone := az\<rparr>;
               input = input\<lparr>fia_FloatingNetworkID := BareResourceID (fia_FloatingNetworkID input),
                       fia_PortID := BareResourceID (fia_PortID input)\<rparr>;
               state = FloatingIpState_of input
           in if preview then ((ScopedID az projectID name, state, None), s)
              else (case nobus_CreateFloatingIP env (pc_client cfg) ctx projectID az
                       \<lparr>flc_FloatingNetworkID = fia_FloatingNetworkID input,
                        flc_PortID = fia_PortID input, flc_FixedIPAddress = fia_FixedIPAddress input,
                        flc_Description = fia_Description input\<rparr> s of
                  (Inl err, s1) \<Rightarrow> (('''', FloatingIpState_of zero_FloatingIpArgs, Some err), s1)
                | (Inr created, s1) \<Rightarrow>
                    (let state = state\<lparr>fis_FloatingIPAddress := nfl_FloatingIPAddress created, fis_Status := nfl_Status created,
                       fis_Args := (fis_Args state)\<lparr>fia_PortID := nfl_PortID created,
                         fia_FixedIPAddress := nfl_FixedIPAddress created\<rparr>\<rparr>
                     in ((ScopedID az projectID (nfl_ID created), state, None), s1)))))"

definition FloatingIp_Read ::
  "'s NobusEnv \<Rightarrow> PConfig \<Rightarrow> 's Context \<Rightarrow> string \<Rightarrow> FloatingIpArgs \<Rightarrow> FloatingIpState \<Rightarrow> 's \<Rightarrow>
     (string \<times> FloatingIpArgs \<times> FloatingIpState \<times> goerr option) \<times> 's" where
  "FloatingIp_Read env cfg ctx rid inputs state s =
     (case ResolveImport cfg rid (cmp_Or [fia_ProjectID (fis_Args state), fia_ProjectID inputs])
             (cmp_Or [fia_AvailabilityZone (fis_Args state), fia_AvailabilityZone inputs]) of
        Inl err \<Rightarrow> ((rid, inputs, state, Some err), s)
      | Inr (az, projectID, resourceID) \<Rightarrow>
          (case nobus_GetFloatingIP env (pc_client cfg) ctx projectID az resourceID s of
             (Inl err, s1) \<Rightarrow>
               if errors_is err ErrNotFound
               then (('''', zero_FloatingIpArgs, FloatingIpState_of zero_FloatingIpArgs, None), s1)
               else ((rid, inputs, state, Some err), s1)
           | (Inr got, s1) \<Rightarrow>
               (let state = state\<lparr>fis_Args := (fis_Args state)\<lparr>fia_FloatingNetworkID := nfl_FloatingNetworkID got,
                          fia_PortID := nfl_PortID got, fia_FixedIPAddress := nfl_FixedIPAddress got,
                          fia_Description := nfl_Description got, fia_ProjectID := projectID,
                          fia_AvailabilityZone := az\<rparr>,
                     fis_FloatingIPAddress := nfl_FloatingIPAddress got,
                     fis_Status := nfl_Status got\<rparr>
                in ((ScopedID az projectID (nfl_ID got), fis_Args state, state, None), s1))))"

definition FloatingIp_Diff :: "FloatingIpState \<Rightarrow> FloatingIpArgs \<Rightarrow> DiffResponse" where
  "FloatingIp_Diff olds news =
     (let old = fis_Args olds;
          diff = [];
          diff = replaceDiff ''availabilityZone''
            (fia_AvailabilityZone news \<noteq> '''' \<and> fia_AvailabilityZone old \<noteq> fia_AvailabilityZone news) diff;
          diff = replaceDiff ''floatingNetworkId''
            (fia_FloatingNetworkID news \<noteq> '''' \<and> BareResourceID (fia_FloatingNetworkID old) \<noteq> BareResourceID (fia_FloatingNetworkID news)) diff;
          diff = updateDiff ''portId'' (BareResourceID (fia_PortID old) \<noteq> BareResourceID (fia_PortID news)) diff;
          diff = updateDiff ''description'' (fia_Description old \<noteq> fia_Description news) diff
      in diffResponse diff)"

definition FloatingIp_Update ::
  "'s NobusEnv \<Rightarrow> PConfig \<Rightarrow> 's Context \<Rightarrow> string \<Rightarrow> FloatingIpState \<Rightarrow> FloatingIpArgs \<Rightarrow> bool \<Rightarrow> 's \<Rightarrow>
     (FloatingIpState \<times> goerr option) \<times> 's" where
  "FloatingIp_Update env cfg ctx rid olds news preview s =
     (case ResolveImport cfg rid (cmp_Or [fia_ProjectID news, fia_ProjectID (fis_Args olds)])
             (cmp_Or [fia_AvailabilityZone news, fia_AvailabilityZone (fis_Args olds)]) of
        Inl err \<Rightarrow> ((olds, Some err), s)
      | Inr (az, projectID, resourceID) \<Rightarrow>
          (let news = news\<lparr>fia_ProjectID := projectID, fia_AvailabilityZone := az\<rparr>;
               news = news\<lparr>fia_FloatingNetworkID := BareResourceID (cmp_Or [fia_FloatingNetworkID news, fia_FloatingNetworkID (fis_Args olds)]),
                 fia_PortID := BareResourceID (fia_PortID news)\<rparr>;
               state = olds\<lparr>fis_Args := news\<rparr>;
               body = \<lparr>flu_PortID = (if BareResourceID (fia_PortID news) \<noteq> BareResourceID (fia_PortID (fis_Args olds))
                        then Some (fia_PortID news) else None),
                      flu_FixedIPAddress = fia_FixedIPAddress news, flu_Description = fia_Description news\<rparr>
           in if preview then ((state, None), s)
              else if body = zero_FloatingIPUpdate then ((state, None), s)
              else (case nobus_UpdateFloatingIP env (pc_client cfg) ctx projectID az resourceID body s of
                  (Inl err, s1) \<Rightarrow> ((state, Some err), s1)
                | (Inr got, s1) \<Rightarrow> ((state\<lparr>fis_FloatingIPAddress := nfl_FloatingIPAddress got, fis_Status := nfl_Status got,
                       fis_Args := (fis_Args state)\<lparr>fia_PortID := nfl_PortID got, fia_FixedIPAddress := nfl_FixedIPAddress got\<rparr>\<rparr>, None), s1))))"

definition FloatingIp_Delete ::
  "'s NobusEnv \<Rightarrow> PConfig \<Rightarrow> 's Context \<Rightarrow> string \<Rightarrow> FloatingIpState \<Rightarrow> 's \<Rightarrow> goerr option \<times> 's" where
  "FloatingIp_Delete env cfg ctx rid state s =
     (case ResolveImport cfg rid (fia_ProjectID (fis_Args state)) (fia_AvailabilityZone (fis_Args state)) of
        Inl err \<Rightarrow> (Some err, s)
      | Inr (az, projectID, resourceID) \<Rightarrow>
          forgive_NotFound (nobus_DeleteFloatingIP env (pc_client cfg) ctx projectID az resourceID s))"

end
