(* ===== verification/PulumiDiffs.thy ===== *)
theory PulumiDiffs
  imports PulumiUpdate PulumiBackup PulumiSecurity
begin

text \<open>
  Properties of the differences the resources report, over all thirteen of them: what a difference
  decides, and that there is none after a read.
\<close>

section \<open>What a difference decides\<close>

text \<open>
  The engine reads one of three verdicts off a difference: nothing to do, an update in place, or a
  replacement.
\<close>

datatype verdict = Keep | Change | Remake

definition verdict_of :: "DiffResponse \<Rightarrow> verdict" where
  "verdict_of d =
     (if \<not> dr_HasChanges d then Keep
      else if UpdateReplace \<in> snd ` set (dr_DetailedDiff d) then Remake else Change)"

text \<open>
  The reference: inputs are viewed as a part that is fixed when the resource is made and a part that
  can be changed, and a difference of the fixed parts asks for a replacement.
\<close>

definition verdict_spec :: "'f \<times> 'c \<Rightarrow> 'f \<times> 'c \<Rightarrow> verdict" where
  "verdict_spec old new = (if fst old \<noteq> fst new then Remake else if snd old \<noteq> snd new then Change else Keep)"

text \<open>
  The views of the thirteen resources.  An input that is left out (\<open>given\<close>) keeps what the old inputs say,
  a reference stands for its bare identifier (\<open>bare_given\<close> is one that may be left out), a Go map for the
  finite map it is, and a list of references for the bare identifiers in the order \<open>stringSlicesEqual\<close>
  sorts them to.
\<close>

definition given :: "'a \<Rightarrow> 'a \<Rightarrow> 'a \<Rightarrow> 'a" where
  "given none old new = (if new = none then old else new)"

definition bare_given :: "string \<Rightarrow> string \<Rightarrow> string" where
  "bare_given old new = BareResourceID (given '''' old new)"

definition bare_sorted :: "string list \<Rightarrow> string list" where
  "bare_sorted l = bareIDs (sort l)"

definition volume_view :: "VolumeArgs \<Rightarrow> VolumeArgs \<Rightarrow>
    (string \<times> int \<times> string \<times> string \<times> string \<times> string) \<times> string \<times> string \<times> (string \<rightharpoonup> string)" where
  "volume_view old x =
     ((given '''' (va_AvailabilityZone old) (va_AvailabilityZone x), given 0 (va_Size old) (va_Size x),
       given '''' (va_VolumeType old) (va_VolumeType x), given '''' (va_SnapshotID old) (va_SnapshotID x),
       given '''' (va_SourceVolID old) (va_SourceVolID x), given '''' (va_ImageRef old) (va_ImageRef x)),
      given '''' (va_Name old) (va_Name x), va_Description x, map_of (va_Metadata x))"

definition attachment_view :: "VolumeAttachmentArgs \<Rightarrow> VolumeAttachmentArgs \<Rightarrow> (string \<times> string \<times> string) \<times> unit" where
  "attachment_view old x =
     ((given '''' (ta_AvailabilityZone old) (ta_AvailabilityZone x), bare_given (ta_VolumeID old) (ta_VolumeID x),
       bare_given (ta_InstanceID old) (ta_InstanceID x)), ())"

definition snapshot_view :: "VolumeSnapshotArgs \<Rightarrow> VolumeSnapshotArgs \<Rightarrow>
    (string \<times> string \<times> string \<times> string \<times> bool \<times> (string \<rightharpoonup> string)) \<times> unit" where
  "snapshot_view old x =
     ((given '''' (sa_AvailabilityZone old) (sa_AvailabilityZone x), bare_given (sa_VolumeID old) (sa_VolumeID x),
       given '''' (sa_Name old) (sa_Name x), sa_Description x, sa_Force x, map_of (sa_Metadata x)), ())"

definition backup_view :: "VolumeBackupArgs \<Rightarrow> VolumeBackupArgs \<Rightarrow>
    (string \<times> string \<times> string \<times> string \<times> string \<times> bool \<times> bool \<times> string \<times> (string \<rightharpoonup> string)) \<times> unit" where
  "backup_view old x =
     ((given '''' (ba_AvailabilityZone old) (ba_AvailabilityZone x), bare_given (ba_VolumeID old) (ba_VolumeID x),
       given '''' (ba_Name old) (ba_Name x), ba_Description x, ba_Container x, ba_Incremental x, ba_Force x,
       BareResourceID (ba_SnapshotID x), map_of (ba_Metadata x)), ())"

definition keypair_view :: "KeyPairArgs \<Rightarrow> KeyPairArgs \<Rightarrow> (string \<times> string \<times> string) \<times> unit" where
  "keypair_view old x =
     ((given '''' (ka_AvailabilityZone old) (ka_AvailabilityZone x), given '''' (ka_Name old) (ka_Name x),
       given '''' (ka_ProjectID old) (ka_ProjectID x)), ())"

definition instance_view :: "InstanceArgs \<Rightarrow> InstanceArgs \<Rightarrow>
    (string \<times> string \<times> string \<times> string \<times> int option \<times> string \<times> string) \<times>
    string \<times> string \<times> string list \<times> string list \<times> bool option" where
  "instance_view old x =
     ((given '''' (ia_AvailabilityZone old) (ia_AvailabilityZone x), bare_given (ia_Image old) (ia_Image x),
       given '''' (ia_KeyName old) (ia_KeyName x), bare_given (ia_NetworkID old) (ia_NetworkID x),
       given None (ia_VolumeSize old) (ia_VolumeSize x), ia_UserData x, given '''' (ia_AdminPass old) (ia_AdminPass x)),
      given '''' (ia_Name old) (ia_Name x), bare_given (ia_Flavor old) (ia_Flavor x), bare_sorted (ia_SecurityGroups x),
      bare_sorted (ia_Tags x), ia_DeleteVolume x)"

definition network_view :: "NetworkArgs \<Rightarrow> NetworkArgs \<Rightarrow> (string \<times> string \<times> string \<times> string \<times> string) \<times> string \<times> string" where
  "network_view old x =
     ((given '''' (nwa_AvailabilityZone old) (nwa_AvailabilityZone x), given '''' (nwa_NetworkName old) (nwa_NetworkName x),
       given '''' (nwa_SubnetCIDR old) (nwa_SubnetCIDR x), given '''' (nwa_RouterName old) (nwa_RouterName x),
       bare_given (nwa_ExternalNetworkID old) (nwa_ExternalNetworkID x)),
      given '''' (nwa_Name old) (nwa_Name x), nwa_Description x)"

definition subnet_view :: "SubnetArgs \<Rightarrow> SubnetArgs \<Rightarrow> (string \<times> string \<times> string \<times> int) \<times> string \<times> string" where
  "subnet_view old x =
     ((given '''' (sba_AvailabilityZone old) (sba_AvailabilityZone x), bare_given (sba_NetworkID old) (sba_NetworkID x),
       given '''' (sba_CIDR old) (sba_CIDR x), given 0 (sba_IPVersion old) (sba_IPVersion x)),
      given '''' (sba_Name old) (sba_Name x), sba_GatewayIP x)"

definition port_view :: "PortArgs \<Rightarrow> PortArgs \<Rightarrow> (string \<times> string) \<times> string \<times> string \<times> string list \<times> string" where
  "port_view old x =
     ((given '''' (pta_AvailabilityZone old) (pta_AvailabilityZone x), bare_given (pta_NetworkID old) (pta_NetworkID x)),
      given '''' (pta_Name old) (pta_Name x), BareResourceID (pta_DeviceID x), bare_sorted (pta_SecurityGroups x), pta_Description x)"

definition router_view :: "RouterArgs \<Rightarrow> RouterArgs \<Rightarrow> string \<times> string \<times> string" where
  "router_view old x =
     (given '''' (rta_AvailabilityZone old) (rta_AvailabilityZone x),
      given '''' (rta_Name old) (rta_Name x), rta_Description x)"

definition group_view :: "SecurityGroupArgs \<Rightarrow> SecurityGroupArgs \<Rightarrow> string \<times> string \<times> string" where
  "group_view old x =
     (given '''' (sga_AvailabilityZone old) (sga_AvailabilityZone x),
      given '''' (sga_Name old) (sga_Name x), sga_Description x)"

definition rule_view :: "SecurityGroupRuleArgs \<Rightarrow> SecurityGroupRuleArgs \<Rightarrow>
    (string \<times> string \<times> string \<times> string \<times> string \<times> int option \<times> int option \<times> string \<times> string \<times> string) \<times> unit" where
  "rule_view old x =
     ((given '''' (sra_AvailabilityZone old) (sra_AvailabilityZone x), bare_given (sra_SecurityGroupID old) (sra_SecurityGroupID x),
       given '''' (sra_Direction old) (sra_Direction x), given '''' (sra_Ethertype old) (sra_Ethertype x),
       given '''' (sra_Protocol old) (sra_Protocol x), sra_PortRangeMin x, sra_PortRangeMax x,
       given '''' (sra_RemoteIPPrefix old) (sra_RemoteIPPrefix x), bare_given (sra_RemoteGroupID old) (sra_RemoteGroupID x),
       sra_Description x), ())"

definition address_view :: "FloatingIpArgs \<Rightarrow> FloatingIpArgs \<Rightarrow> (string \<times> string) \<times> string \<times> string" where
  "address_view old x =
     ((given '''' (fia_AvailabilityZone old) (fia_AvailabilityZone x),
       bare_given (fia_FloatingNetworkID old) (fia_FloatingNetworkID x)),
      BareResourceID (fia_PortID x), fia_Description x)"

subsection \<open>Emptiness and replacements of the lists that \<open>Diff\<close> builds\<close>

definition replaces :: "diff \<Rightarrow> bool" where
  "replaces d \<longleftrightarrow> UpdateReplace \<in> snd ` set d"

definition unlisted :: "string \<Rightarrow> diff \<Rightarrow> bool" where
  "unlisted k d \<longleftrightarrow> k \<notin> fst ` set d"

lemma unlisted_simps [simp]:
  "unlisted k []"
  "k \<noteq> f \<Longrightarrow> unlisted k (replaceDiff f c d) \<longleftrightarrow> unlisted k d"
  "k \<noteq> f \<Longrightarrow> unlisted k (updateDiff f c d) \<longleftrightarrow> unlisted k d"
  by (auto simp: unlisted_def replaceDiff_def updateDiff_def dom_update)

lemma update_unlisted: "unlisted k d \<Longrightarrow> AList.update k v d = d @ [(k, v)]"
  by (induction d) (auto simp: unlisted_def)

lemma listed_simps [simp]:
  "\<not> replaces []"
  "unlisted f d \<Longrightarrow> replaces (replaceDiff f c d) \<longleftrightarrow> c \<or> replaces d"
  "unlisted f d \<Longrightarrow> replaces (updateDiff f c d) \<longleftrightarrow> replaces d"
  "unlisted f d \<Longrightarrow> replaceDiff f c d = [] \<longleftrightarrow> \<not> c \<and> d = []"
  "unlisted f d \<Longrightarrow> updateDiff f c d = [] \<longleftrightarrow> \<not> c \<and> d = []"
  by (auto simp: replaces_def replaceDiff_def updateDiff_def update_unlisted)

lemma verdict_of_response: "verdict_of (diffResponse d) = (if d = [] then Keep else if replaces d then Remake else Change)"
  by (simp add: verdict_of_def diffResponse_def replaces_def)

lemma given_differs: "given none old old \<noteq> given none old new \<longleftrightarrow> new \<noteq> none \<and> old \<noteq> new"
  by (simp add: given_def)

lemma bare_given_differs: "bare_given old old \<noteq> bare_given old new \<longleftrightarrow> new \<noteq> '''' \<and> BareResourceID old \<noteq> BareResourceID new"
  by (simp add: bare_given_def given_def)

lemma stringSlicesEqual_bare_sorted: "stringSlicesEqual a b \<longleftrightarrow> bare_sorted a = bare_sorted b"
proof (cases "length a = length b")
  case True
  then show ?thesis by (simp add: stringSlicesEqual_def bare_sorted_def bare_equal_map)
next
  case False
  then have "bare_sorted a \<noteq> bare_sorted b" unfolding bare_sorted_def bareIDs_def by (metis length_map length_sort)
  with False show ?thesis by (simp add: stringSlicesEqual_def)
qed

lemma intPtrEqual_eq: "intPtrEqual a b \<longleftrightarrow> a = b"
  by (cases a; cases b) (simp_all add: intPtrEqual_def)

lemma boolPtrEqual_eq: "boolPtrEqual a b \<longleftrightarrow> a = b"
  by (cases a; cases b) (simp_all add: boolPtrEqual_def)

lemmas verdicts = Let_def verdict_of_response verdict_spec_def maps_Equal_iff intPtrEqual_eq boolPtrEqual_eq
  stringSlicesEqual_bare_sorted prod.inject de_Morgan_conj given_differs bare_given_differs fst_conv snd_conv

lemma Volume_verdict:
  "verdict_of (Volume_Diff st new) = verdict_spec (volume_view (vs_Args st) (vs_Args st)) (volume_view (vs_Args st) new)"
  by (simp add: Volume_Diff_def volume_view_def verdicts del: not_None_eq; blast)

lemma VolumeAttachment_verdict:
  "verdict_of (VolumeAttachment_Diff st new) = verdict_spec (attachment_view (ts_Args st) (ts_Args st)) (attachment_view (ts_Args st) new)"
  by (simp add: VolumeAttachment_Diff_def attachment_view_def verdicts del: not_None_eq; blast)

lemma VolumeSnapshot_verdict:
  "verdict_of (VolumeSnapshot_Diff st new) = verdict_spec (snapshot_view (ss_Args st) (ss_Args st)) (snapshot_view (ss_Args st) new)"
  by (simp add: VolumeSnapshot_Diff_def snapshot_view_def verdicts del: not_None_eq; blast)

lemma VolumeBackup_verdict:
  "verdict_of (VolumeBackup_Diff st new) = verdict_spec (backup_view (bs_Args st) (bs_Args st)) (backup_view (bs_Args st) new)"
  by (simp add: VolumeBackup_Diff_def backup_view_def verdicts del: not_None_eq; blast)

lemma KeyPair_verdict:
  "verdict_of (KeyPair_Diff st new) = verdict_spec (keypair_view (ks_Args st) (ks_Args st)) (keypair_view (ks_Args st) new)"
  by (simp add: KeyPair_Diff_def keypair_view_def verdicts del: not_None_eq; blast)

lemma Instance_verdict:
  "verdict_of (Instance_Diff st new) = verdict_spec (instance_view (is_Args st) (is_Args st)) (instance_view (is_Args st) new)"
  by (simp add: Instance_Diff_def instance_view_def verdicts del: not_None_eq; blast)

lemma Network_verdict:
  "verdict_of (Network_Diff st new) = verdict_spec (network_view (nws_Args st) (nws_Args st)) (network_view (nws_Args st) new)"
  by (simp add: Network_Diff_def network_view_def verdicts del: not_None_eq; blast)

lemma Subnet_verdict:
  "verdict_of (Subnet_Diff st new) = verdict_spec (subnet_view (sbs_Args st) (sbs_Args st)) (subnet_view (sbs_Args st) new)"
  by (simp add: Subnet_Diff_def subnet_view_def verdicts del: not_None_eq; blast)

lemma Port_verdict:
  "verdict_of (Port_Diff st new) = verdict_spec (port_view (pts_Args st) (pts_Args st)) (port_view (pts_Args st) new)"
  by (simp add: Port_Diff_def port_view_def verdicts del: not_None_eq; blast)

lemma Router_verdict:
  "verdict_of (Router_Diff st new) = verdict_spec (router_view (rts_Args st) (rts_Args st)) (router_view (rts_Args st) new)"
  by (simp add: Router_Diff_def router_view_def verdicts del: not_None_eq; blast)

lemma SecurityGroup_verdict:
  "verdict_of (SecurityGroup_Diff st new) = verdict_spec (group_view (sgs_Args st) (sgs_Args st)) (group_view (sgs_Args st) new)"
  by (simp add: SecurityGroup_Diff_def group_view_def verdicts del: not_None_eq; blast)

lemma SecurityGroupRule_verdict:
  "verdict_of (SecurityGroupRule_Diff st new) = verdict_spec (rule_view (srs_Args st) (srs_Args st)) (rule_view (srs_Args st) new)"
  by (simp add: SecurityGroupRule_Diff_def rule_view_def verdicts del: not_None_eq; blast)

lemma FloatingIp_verdict:
  "verdict_of (FloatingIp_Diff st new) = verdict_spec (address_view (fis_Args st) (fis_Args st)) (address_view (fis_Args st) new)"
  by (simp add: FloatingIp_Diff_def address_view_def verdicts del: not_None_eq; blast)

text \<open>
  C34. A difference decides rightly between nothing, an update and a replacement.  Read with what is left
  out taken from the old inputs, references as bare identifiers and maps as finite maps, the new inputs of
  each of the thirteen resources agree with the old ones in all that its \<open>Diff\<close> looks at exactly when it
  reports no change; it asks for a replacement exactly when they differ in the part that is fixed at
  creation, and for an update when they differ only in the rest, of which the five resources without an
  \<open>Update\<close> method have nothing.
\<close>

theorem Diff_decides:
  "verdict_of (Volume_Diff vo vn) = verdict_spec (volume_view (vs_Args vo) (vs_Args vo)) (volume_view (vs_Args vo) vn) \<and>
   verdict_of (VolumeAttachment_Diff ao an) = verdict_spec (attachment_view (ts_Args ao) (ts_Args ao)) (attachment_view (ts_Args ao) an) \<and>
   verdict_of (VolumeSnapshot_Diff so sn) = verdict_spec (snapshot_view (ss_Args so) (ss_Args so)) (snapshot_view (ss_Args so) sn) \<and>
   verdict_of (VolumeBackup_Diff bo bn) = verdict_spec (backup_view (bs_Args bo) (bs_Args bo)) (backup_view (bs_Args bo) bn) \<and>
   verdict_of (KeyPair_Diff ko kn) = verdict_spec (keypair_view (ks_Args ko) (ks_Args ko)) (keypair_view (ks_Args ko) kn) \<and>
   verdict_of (Instance_Diff io inew) = verdict_spec (instance_view (is_Args io) (is_Args io)) (instance_view (is_Args io) inew) \<and>
   verdict_of (Network_Diff wo wn) = verdict_spec (network_view (nws_Args wo) (nws_Args wo)) (network_view (nws_Args wo) wn) \<and>
   verdict_of (Subnet_Diff uo un) = verdict_spec (subnet_view (sbs_Args uo) (sbs_Args uo)) (subnet_view (sbs_Args uo) un) \<and>
   verdict_of (Port_Diff po pn) = verdict_spec (port_view (pts_Args po) (pts_Args po)) (port_view (pts_Args po) pn) \<and>
   verdict_of (Router_Diff ro rn) = verdict_spec (router_view (rts_Args ro) (rts_Args ro)) (router_view (rts_Args ro) rn) \<and>
   verdict_of (SecurityGroup_Diff go gn) = verdict_spec (group_view (sgs_Args go) (sgs_Args go)) (group_view (sgs_Args go) gn) \<and>
   verdict_of (SecurityGroupRule_Diff eo en) = verdict_spec (rule_view (srs_Args eo) (srs_Args eo)) (rule_view (srs_Args eo) en) \<and>
   verdict_of (FloatingIp_Diff fo fn) = verdict_spec (address_view (fis_Args fo) (fis_Args fo)) (address_view (fis_Args fo) fn)"
  by (simp only: Volume_verdict VolumeAttachment_verdict VolumeSnapshot_verdict VolumeBackup_verdict KeyPair_verdict 
      Instance_verdict Network_verdict Subnet_verdict Port_verdict Router_verdict SecurityGroup_verdict SecurityGroupRule_verdict FloatingIp_verdict simp_thms)

section \<open>After a read\<close>

lemmas Diff_defs =
  Volume_Diff_def VolumeAttachment_Diff_def VolumeSnapshot_Diff_def VolumeBackup_Diff_def KeyPair_Diff_def Instance_Diff_def
  Network_Diff_def Subnet_Diff_def Port_Diff_def Router_Diff_def SecurityGroup_Diff_def SecurityGroupRule_Diff_def
  FloatingIp_Diff_def

lemma replaceDiff_False [simp]: "replaceDiff f False d = d"
  by (simp add: replaceDiff_def)

lemma updateDiff_False [simp]: "updateDiff f False d = d"
  by (simp add: updateDiff_def)

lemma bare_equal_refl [simp]: "bare_equal xs xs"
  by (induction xs) auto

lemma stringSlicesEqual_refl [simp]: "stringSlicesEqual a a"
  by (simp add: stringSlicesEqual_def)

lemma intPtrEqual_refl [simp]: "intPtrEqual a a"
  by (simp add: intPtrEqual_def)

lemma boolPtrEqual_refl [simp]: "boolPtrEqual a a"
  by (simp add: boolPtrEqual_def)

lemma maps_Equal_refl [simp]: "maps_Equal m m"
  by (simp add: maps_Equal_iff)

text \<open>A successful read answers the inputs that are inside the state it answers.\<close>

definition reads_inputs :: "('st \<Rightarrow> 'a) \<Rightarrow> (string \<times> 'a \<times> 'st \<times> goerr option) \<times> 's \<Rightarrow> bool" where
  "reads_inputs args_of r \<longleftrightarrow> (case r of ((_, args, st, err), _) \<Rightarrow> err = None \<longrightarrow> args = args_of st)"

definition settled :: "('st \<Rightarrow> 'a \<Rightarrow> DiffResponse) \<Rightarrow> (string \<times> 'a \<times> 'st \<times> goerr option) \<times> 's \<Rightarrow> bool" where
  "settled diff r \<longleftrightarrow> (case r of ((_, args, st, err), _) \<Rightarrow> err = None \<longrightarrow> dr_DetailedDiff (diff st args) = [])"

lemma settledI:
  assumes "reads_inputs args_of r" and "\<And>st. dr_DetailedDiff (diff st (args_of st)) = []"
  shows "settled diff r"
proof -
  obtain rid args st err s where r: "r = ((rid, args, st, err), s)" by (metis prod.exhaust)
  with assms show ?thesis by (auto simp: settled_def reads_inputs_def)
qed

lemmas zero_states =
  VolumeState_of_def zero_VolumeAttachmentState_def VolumeSnapshotState_of_def VolumeBackupState_of_def KeyPairState_of_def
  InstanceState_of_def NetworkState_of_def SubnetState_of_def PortState_of_def RouterState_of_def
  SecurityGroupState_of_def SecurityGroupRuleState_of_def FloatingIpState_of_def

lemma own_inputs:
  "dr_DetailedDiff (Volume_Diff st1 (vs_Args st1)) = []"
  "dr_DetailedDiff (VolumeAttachment_Diff st2 (ts_Args st2)) = []"
  "dr_DetailedDiff (VolumeSnapshot_Diff st3 (ss_Args st3)) = []"
  "dr_DetailedDiff (VolumeBackup_Diff st4 (bs_Args st4)) = []"
  "dr_DetailedDiff (KeyPair_Diff st5 (ks_Args st5)) = []"
  "dr_DetailedDiff (Instance_Diff st6 (is_Args st6)) = []"
  "dr_DetailedDiff (Network_Diff st7 (nws_Args st7)) = []"
  "dr_DetailedDiff (Subnet_Diff st8 (sbs_Args st8)) = []"
  "dr_DetailedDiff (Port_Diff st9 (pts_Args st9)) = []"
  "dr_DetailedDiff (Router_Diff st10 (rts_Args st10)) = []"
  "dr_DetailedDiff (SecurityGroup_Diff st11 (sgs_Args st11)) = []"
  "dr_DetailedDiff (SecurityGroupRule_Diff st12 (srs_Args st12)) = []"
  "dr_DetailedDiff (FloatingIp_Diff st13 (fis_Args st13)) = []"
  by (simp_all add: Diff_defs diffResponse_def)

lemma reads_own: "reads_inputs args_of ((rid, args_of st, st, None), s)"
  by (simp add: reads_inputs_def)

lemma reads_failed: "reads_inputs args_of ((rid, args, st, Some err), s)"
  by (simp add: reads_inputs_def)

text \<open>The shape of a read: resolve the scope, ask the API, forget what is gone, or take over what is there.\<close>

lemma reads_inputs_shape:
  assumes "args_of st0 = args0" and "\<And>az p r got s1. reads_inputs args_of (found az p r got s1)"
  shows "reads_inputs args_of
    (case import of
       Inl err \<Rightarrow> ((rid, inputs, state, Some err), s)
     | Inr (az, p, r) \<Rightarrow>
         (case ask az p r of
            (Inl err, s1) \<Rightarrow> if errors_is err ErrNotFound then (('''', args0, st0, None), s1) else ((rid, inputs, state, Some err), s1)
          | (Inr got, s1) \<Rightarrow> found az p r got s1))"
proof (cases import)
  case (Inl err)
  then show ?thesis by (simp add: reads_failed)
next
  case (Inr scope)
  obtain az p r where scope: "scope = (az, p, r)" by (metis prod_cases3)
  obtain answer s1 where "ask az p r = (answer, s1)" by fastforce
  with Inr scope assms show ?thesis by (cases answer) (auto simp: reads_inputs_def)
qed

lemma Volume_Read_inputs: "reads_inputs vs_Args (Volume_Read env cfg ctx rid inputs state s)"
  unfolding Volume_Read_def by (rule reads_inputs_shape) (simp_all add: zero_states reads_inputs_def Let_def)

lemma VolumeAttachment_Read_inputs: "reads_inputs ts_Args (VolumeAttachment_Read env cfg ctx rid inputs state s)"
proof (cases "ResolveImport cfg rid (cmp_Or [ta_ProjectID (ts_Args state), ta_ProjectID inputs])
    (cmp_Or [ta_AvailabilityZone (ts_Args state), ta_AvailabilityZone inputs])")
  case (Inl err)
  then show ?thesis by (simp add: VolumeAttachment_Read_def reads_failed del: cmp_Or.simps)
next
  case (Inr scope)
  obtain az p r where scope: "scope = (az, p, r)" by (metis prod_cases3)
  obtain v i where ids: "attachment_ids (ts_Args state) inputs r = (v, i)" by fastforce
  obtain answer s1 where "nobus_GetVolume env (pc_client cfg) ctx p az v s = (answer, s1)" by fastforce
  with Inr scope ids show ?thesis
    by (cases answer; cases "find (\<lambda>a. na_ServerID a = i) (nv_Attachments (projr answer))")
      (simp_all add: VolumeAttachment_Read_def reads_inputs_def zero_VolumeAttachmentState_def Let_def del: cmp_Or.simps)
qed

lemma VolumeSnapshot_Read_inputs: "reads_inputs ss_Args (VolumeSnapshot_Read env cfg ctx rid inputs state s)"
  unfolding VolumeSnapshot_Read_def by (rule reads_inputs_shape) (simp_all add: zero_states reads_inputs_def Let_def)

lemma VolumeBackup_Read_inputs: "reads_inputs bs_Args (VolumeBackup_Read env cfg ctx rid inputs state s)"
  unfolding VolumeBackup_Read_def by (rule reads_inputs_shape) (simp_all add: zero_states reads_inputs_def Let_def)

lemma KeyPair_Read_inputs: "reads_inputs ks_Args (KeyPair_Read env cfg ctx rid inputs state s)"
  unfolding KeyPair_Read_def by (rule reads_inputs_shape) (simp_all add: zero_states reads_inputs_def Let_def)

lemma Instance_Read_inputs: "reads_inputs is_Args (Instance_Read env cfg ctx rid inputs state s)"
  unfolding Instance_Read_def by (rule reads_inputs_shape) (simp_all add: zero_states reads_inputs_def Let_def)

lemma Network_Read_inputs: "reads_inputs nws_Args (Network_Read env cfg ctx rid inputs state s)"
  unfolding Network_Read_def by (rule reads_inputs_shape) (simp_all add: zero_states reads_inputs_def Let_def)

lemma Subnet_Read_inputs: "reads_inputs sbs_Args (Subnet_Read env cfg ctx rid inputs state s)"
  unfolding Subnet_Read_def by (rule reads_inputs_shape) (simp_all add: zero_states reads_inputs_def Let_def)

lemma Port_Read_inputs: "reads_inputs pts_Args (Port_Read env cfg ctx rid inputs state s)"
  unfolding Port_Read_def by (rule reads_inputs_shape) (simp_all add: zero_states reads_inputs_def Let_def)

lemma Router_Read_inputs: "reads_inputs rts_Args (Router_Read env cfg ctx rid inputs state s)"
  unfolding Router_Read_def by (rule reads_inputs_shape) (simp_all add: zero_states reads_inputs_def Let_def)

lemma SecurityGroup_Read_inputs: "reads_inputs sgs_Args (SecurityGroup_Read env cfg ctx rid inputs state s)"
  unfolding SecurityGroup_Read_def by (rule reads_inputs_shape) (simp_all add: zero_states reads_inputs_def Let_def)

lemma SecurityGroupRule_Read_inputs: "reads_inputs srs_Args (SecurityGroupRule_Read env cfg ctx rid inputs state s)"
  unfolding SecurityGroupRule_Read_def by (rule reads_inputs_shape) (simp_all add: zero_states reads_inputs_def Let_def)

lemma FloatingIp_Read_inputs: "reads_inputs fis_Args (FloatingIp_Read env cfg ctx rid inputs state s)"
  unfolding FloatingIp_Read_def by (rule reads_inputs_shape) (simp_all add: zero_states reads_inputs_def Let_def)

text \<open>
  C33. After a read there is nothing to change.  Whatever the API answers, when the \<open>Read\<close> of one of the
  thirteen resources returns no error, the inputs it returns compare as unchanged with the state it
  returns; a refresh or an import is followed by an empty difference.
\<close>

theorem Read_settles:
  "settled Volume_Diff (Volume_Read env cfg ctx rid i1 st1 s) \<and>
   settled VolumeAttachment_Diff (VolumeAttachment_Read env cfg ctx rid i2 st2 s) \<and>
   settled VolumeSnapshot_Diff (VolumeSnapshot_Read env cfg ctx rid i3 st3 s) \<and>
   settled VolumeBackup_Diff (VolumeBackup_Read env cfg ctx rid i4 st4 s) \<and>
   settled KeyPair_Diff (KeyPair_Read env cfg ctx rid i5 st5 s) \<and>
   settled Instance_Diff (Instance_Read env cfg ctx rid i6 st6 s) \<and>
   settled Network_Diff (Network_Read env cfg ctx rid i7 st7 s) \<and>
   settled Subnet_Diff (Subnet_Read env cfg ctx rid i8 st8 s) \<and>
   settled Port_Diff (Port_Read env cfg ctx rid i9 st9 s) \<and>
   settled Router_Diff (Router_Read env cfg ctx rid i10 st10 s) \<and>
   settled SecurityGroup_Diff (SecurityGroup_Read env cfg ctx rid i11 st11 s) \<and>
   settled SecurityGroupRule_Diff (SecurityGroupRule_Read env cfg ctx rid i12 st12 s) \<and>
   settled FloatingIp_Diff (FloatingIp_Read env cfg ctx rid i13 st13 s)"
proof (intro conjI)
  show "settled Volume_Diff (Volume_Read env cfg ctx rid i1 st1 s)"
    by (rule settledI [where args_of = vs_Args, OF Volume_Read_inputs]) (rule own_inputs)
  show "settled VolumeAttachment_Diff (VolumeAttachment_Read env cfg ctx rid i2 st2 s)"
    by (rule settledI [where args_of = ts_Args, OF VolumeAttachment_Read_inputs]) (rule own_inputs)
  show "settled VolumeSnapshot_Diff (VolumeSnapshot_Read env cfg ctx rid i3 st3 s)"
    by (rule settledI [where args_of = ss_Args, OF VolumeSnapshot_Read_inputs]) (rule own_inputs)
  show "settled VolumeBackup_Diff (VolumeBackup_Read env cfg ctx rid i4 st4 s)"
    by (rule settledI [where args_of = bs_Args, OF VolumeBackup_Read_inputs]) (rule own_inputs)
  show "settled KeyPair_Diff (KeyPair_Read env cfg ctx rid i5 st5 s)"
    by (rule settledI [where args_of = ks_Args, OF KeyPair_Read_inputs]) (rule own_inputs)
  show "settled Instance_Diff (Instance_Read env cfg ctx rid i6 st6 s)"
    by (rule settledI [where args_of = is_Args, OF Instance_Read_inputs]) (rule own_inputs)
  show "settled Network_Diff (Network_Read env cfg ctx rid i7 st7 s)"
    by (rule settledI [where args_of = nws_Args, OF Network_Read_inputs]) (rule own_inputs)
  show "settled Subnet_Diff (Subnet_Read env cfg ctx rid i8 st8 s)"
    by (rule settledI [where args_of = sbs_Args, OF Subnet_Read_inputs]) (rule own_inputs)
  show "settled Port_Diff (Port_Read env cfg ctx rid i9 st9 s)"
    by (rule settledI [where args_of = pts_Args, OF Port_Read_inputs]) (rule own_inputs)
  show "settled Router_Diff (Router_Read env cfg ctx rid i10 st10 s)"
    by (rule settledI [where args_of = rts_Args, OF Router_Read_inputs]) (rule own_inputs)
  show "settled SecurityGroup_Diff (SecurityGroup_Read env cfg ctx rid i11 st11 s)"
    by (rule settledI [where args_of = sgs_Args, OF SecurityGroup_Read_inputs]) (rule own_inputs)
  show "settled SecurityGroupRule_Diff (SecurityGroupRule_Read env cfg ctx rid i12 st12 s)"
    by (rule settledI [where args_of = srs_Args, OF SecurityGroupRule_Read_inputs]) (rule own_inputs)
  show "settled FloatingIp_Diff (FloatingIp_Read env cfg ctx rid i13 st13 s)"
    by (rule settledI [where args_of = fis_Args, OF FloatingIp_Read_inputs]) (rule own_inputs)
qed

end
