(* ===== verification/PulumiServer.thy ===== *)
theory PulumiServer
  imports PulumiDiffs
begin

text \<open>
  Updates against a server that holds one field of a resource: what they reach and what they lose.
\<close>

section \<open>A server that holds a field\<close>

text \<open>
  The documented behaviour of an update on a field \<open>key\<close> of the resource \<open>i\<close>, which the member \<open>name\<close> of the
  body names: a \<open>PUT\<close> stores the members of the object under \<open>wrap\<close>, and leaves alone what it does not mention.
\<close>

definition field_effect :: "string \<Rightarrow> string \<Rightarrow> string \<Rightarrow> string \<Rightarrow> string \<Rightarrow> json effect" where
  "field_effect path name i wrap key meth path' payload v =
     (if meth = ''PUT'' \<and> path' = path \<and> addressed name i payload
      then (case Option.bind payload (\<lambda>j. Option.bind (json_member wrap j) (json_member key)) of Some w \<Rightarrow> w | None \<Rightarrow> v)
      else v)"

interpretation fields: repeatable "field_effect path name i wrap key" for path name i wrap key
  by unfold_locales (simp add: field_effect_def split: option.splits)

lemmas field_effect_simps = field_effect_def addressed_def scoped_body_def json_member_def

lemma field_update_effect:
  assumes "serves env ctx view (field_effect path name i wrap key)"
    and "nobus_object env c ctx ''PUT'' path None (scoped_body p z [(name, JString j), (wrap, JObject ms)]) d zero s = (Inr r, s1)"
    and "name \<noteq> wrap" and "wrap \<noteq> ''project_id''" and "wrap \<noteq> ''availability_zone''"
    and "name \<noteq> ''project_id''" and "name \<noteq> ''availability_zone''"
  shows "view s1 = (if i = j then (case map_of ms key of Some w \<Rightarrow> w | None \<Rightarrow> view s) else view s)"
proof -
  let ?body = "scoped_body p z [(name, JString j), (wrap, JObject ms)]"
  have "effect_of view (field_effect path name i wrap key ''PUT'' path ?body) s (Inr r, s1)"
    unfolding assms(2) [symmetric] by (rule fields.object_effect [OF assms(1) within_refl])
  with assms(3-7) show ?thesis
    by (auto simp: effect_of_def field_effect_simps split: option.splits)
qed

lemma field_update_keeps:
  assumes "serves env ctx view (field_effect path name i wrap key)" and "map_of ms key = None"
    and "name \<noteq> wrap" and "wrap \<noteq> ''project_id''" and "wrap \<noteq> ''availability_zone''"
  shows "view (snd (nobus_object env c ctx ''PUT'' path None (scoped_body p z [(name, JString j), (wrap, JObject ms)]) d zero s)) = view s"
  by (rule fields.object_keeps [OF assms(1) within_refl])
    (use assms(2-5) in \<open>simp add: field_effect_simps split: option.splits\<close>)

lemmas omitted = omit_string_def omit_string_ptr_def omit_bool_ptr_def omit_strings_def

section \<open>Floating addresses\<close>

text \<open>
  C30. Updating a floating address moves it to the port of the new inputs.  When the server has it at the
  port of the old inputs and the update returns no error, the server has it at the port of the new ones,
  and at none when they give none: an empty port is sent, although empty texts are left out elsewhere.
  Every other floating address stays where it was.
\<close>

theorem FloatingIp_Update_converges:
  assumes "serves env ctx port (field_effect ''/api/v3/network/floating-ip'' ''floatingip_id'' address ''floatingip'' ''port_id'')"
    and "address = BareResourceID rid \<Longrightarrow> port s = JString (BareResourceID (fia_PortID (fis_Args olds)))"
    and "FloatingIp_Update env cfg ctx rid olds news False s = ((state, None), s')"
  shows "port s' = (if address = BareResourceID rid then JString (BareResourceID (fia_PortID news)) else port s)"
proof -
  from assms(3) obtain az project i where scope:
    "ResolveImport cfg rid (cmp_Or [fia_ProjectID news, fia_ProjectID (fis_Args olds)])
       (cmp_Or [fia_AvailabilityZone news, fia_AvailabilityZone (fis_Args olds)]) = Inr (az, project, i)"
    by (auto simp: FloatingIp_Update_def split: sum.splits)
  have i: "i = BareResourceID rid" by (rule ResolveImport_id [OF scope])
  let ?port = "if BareResourceID (fia_PortID news) \<noteq> BareResourceID (fia_PortID (fis_Args olds))
      then Some (BareResourceID (fia_PortID news)) else None"
  let ?body = "\<lparr>flu_PortID = ?port, flu_FixedIPAddress = fia_FixedIPAddress news, flu_Description = fia_Description news\<rparr>"
  let ?call = "nobus_UpdateFloatingIP env (pc_client cfg) ctx project az i ?body s"
  obtain r s1 where call: "?call = (r, s1)" by fastforce
  show ?thesis
  proof (cases "?body = zero_FloatingIPUpdate")
    case True
    then have "BareResourceID (fia_PortID news) = BareResourceID (fia_PortID (fis_Args olds))"
      by (auto simp: zero_FloatingIPUpdate_def split: if_splits)
    moreover have "s' = s" using assms(3) scope True by (simp add: FloatingIp_Update_def Let_def cong: if_cong)
    ultimately show ?thesis using assms(2) by simp
  next
    case False
    have "s' = s1" and ok: "\<exists>v. r = Inr v"
      using assms(3) scope call False by (cases r; simp add: FloatingIp_Update_def Let_def cong: if_cong)+
    from ok obtain v where v: "r = Inr v" by blast
    have "port s1 = (if address = i then (case map_of (omit_string_ptr ''port_id'' (flu_PortID ?body) @
        omit_string ''fixed_ip_address'' (flu_FixedIPAddress ?body) @ omit_string ''description'' (flu_Description ?body))
        ''port_id'' of Some w \<Rightarrow> w | None \<Rightarrow> port s) else port s)"
      by (rule field_update_effect [OF assms(1) call [unfolded v nobus_UpdateFloatingIP_def json_FloatingIPUpdate_def]]) simp_all
    with assms(2) \<open>s' = s1\<close> i show ?thesis by (auto simp: omitted split: if_splits)
  qed
qed

text \<open>The plainest server: it does what it is asked, and answers an empty object.\<close>

definition plain_Env :: "json effect \<Rightarrow> json NobusEnv" where
  "plain_Env eff =
     \<lparr>env_Do = (\<lambda>ctx req v. (Inr \<lparr>rs_StatusCode = 200, rs_Body = BodyJSON (JObject [])\<rparr>, request_effect eff req v)),
      env_url_Parse = (\<lambda>u. Inl (Foreign u)), env_time_Parse = (\<lambda>_ _. True), env_WithTimeout = (\<lambda>c _. c),
      env_Open = (\<lambda>_ s. (Inr BodyEmpty, s)), ne_BodyText = (\<lambda>_. '''')\<rparr>"

definition plain_Context :: "json Context" where
  "plain_Context = \<lparr>ctx_timer = (\<lambda>n s. (True, s)), ctx_Err = (\<lambda>_. None)\<rparr>"

lemma plain_serves: "serves (plain_Env eff) plain_Context (\<lambda>v. v) eff"
  by (simp add: serves_def plain_Env_def plain_Context_def)

lemma plain_object:
  "nobus_object (plain_Env eff) c plain_Context meth path query payload (dec_response d) zero v = (Inr zero, eff meth path payload v)"
proof -
  have "nobus_doOnce (plain_Env eff) c plain_Context meth path query payload
      (decodeJSON (dec_response d) (zero_response zero)) v = (Inr (zero_response zero), eff meth path payload v)"
    by (simp add: nobus_doOnce_def plain_Env_def request_effect_def Let_def decodeJSON_def dec_response_def)
  then show ?thesis by (simp add: nobus_object_def nobus_do_def maxAttempts_def numeral_eq_Suc zero_response_def)
qed

lemma sample_import: "ResolveImport sample_PConfig ''r-1'' '''' '''' = Inr (''ng1'', ''p1'', ''r-1'')"
  by (simp add: ResolveImport_def ParseScopedID_def sample_scope)

lemma FloatingIp_Update_converges_witness:
  "snd (FloatingIp_Update (plain_Env (field_effect ''/api/v3/network/floating-ip'' ''floatingip_id'' ''r-1'' ''floatingip'' ''port_id'')) sample_PConfig
     plain_Context ''r-1'' (FloatingIpState_of (zero_FloatingIpArgs\<lparr>fia_PortID := ''ng1/p1/port-1''\<rparr>)) zero_FloatingIpArgs False
     (JString ''port-1'')) = JString ''''"
proof -
  let ?env = "plain_Env (field_effect ''/api/v3/network/floating-ip'' ''floatingip_id'' ''r-1'' ''floatingip'' ''port_id'')"
  let ?olds = "FloatingIpState_of (zero_FloatingIpArgs\<lparr>fia_PortID := ''ng1/p1/port-1''\<rparr>)"
  have old: "JString ''port-1'' = JString (BareResourceID (fia_PortID (fis_Args ?olds)))"
    and new: "BareResourceID (fia_PortID zero_FloatingIpArgs) = ''''"
    and bare: "BareResourceID ''r-1'' = ''r-1''"
    by (simp_all add: FloatingIpState_of_def zero_FloatingIpArgs_def BareResourceID_def ParseScopedID_def)
  have args: "fia_ProjectID zero_FloatingIpArgs = []" "fia_AvailabilityZone zero_FloatingIpArgs = []"
    "fia_ProjectID (fis_Args ?olds) = []" "fia_AvailabilityZone (fis_Args ?olds) = []"
    by (simp_all add: FloatingIpState_of_def zero_FloatingIpArgs_def)
  have "\<exists>st s'. FloatingIp_Update ?env sample_PConfig plain_Context ''r-1'' ?olds zero_FloatingIpArgs False (JString ''port-1'')
      = ((st, None), s')"
    by (simp add: FloatingIp_Update_def Let_def args sample_import nobus_UpdateFloatingIP_def plain_object)
  then obtain st s' where u: "FloatingIp_Update ?env sample_PConfig plain_Context ''r-1'' ?olds zero_FloatingIpArgs False
      (JString ''port-1'') = ((st, None), s')" by blast
  from FloatingIp_Update_converges [OF plain_serves old u] show ?thesis by (simp add: u new bare)
qed

section \<open>What an update loses\<close>

lemma map_of_replaceDiff: "map_of (replaceDiff f c d) k = (if c \<and> k = f then Some UpdateReplace else map_of d k)"
  by (simp add: replaceDiff_def update_conv')

lemma map_of_updateDiff: "map_of (updateDiff f c d) k = (if c \<and> k = f then Some Update else map_of d k)"
  by (simp add: updateDiff_def update_conv')

text \<open>
  A port's new device is reported and never sent.  \<open>Diff\<close> lists a change of \<open>deviceId\<close> as an
  update, and \<open>Update\<close> does to the world exactly what it does without that change.
\<close>

theorem Port_device_change_lost:
  "map_of (dr_DetailedDiff (Port_Diff olds (news\<lparr>pta_DeviceID := d\<rparr>))) ''deviceId'' =
     (if BareResourceID (pta_DeviceID (pts_Args olds)) \<noteq> BareResourceID d then Some Update else None) \<and>
   snd (Port_Update env cfg ctx rid olds (news\<lparr>pta_DeviceID := d\<rparr>) preview s) =
     snd (Port_Update env cfg ctx rid olds news preview s)"
proof
  show "map_of (dr_DetailedDiff (Port_Diff olds (news\<lparr>pta_DeviceID := d\<rparr>))) ''deviceId'' =
     (if BareResourceID (pta_DeviceID (pts_Args olds)) \<noteq> BareResourceID d then Some Update else None)"
    by (simp add: Port_Diff_def Let_def diffResponse_def map_of_replaceDiff map_of_updateDiff)
  show "snd (Port_Update env cfg ctx rid olds (news\<lparr>pta_DeviceID := d\<rparr>) preview s) =
     snd (Port_Update env cfg ctx rid olds news preview s)"
  proof (cases "ResolveImport cfg rid (cmp_Or [pta_ProjectID news, pta_ProjectID (pts_Args olds)])
      (cmp_Or [pta_AvailabilityZone news, pta_AvailabilityZone (pts_Args olds)])")
    case (Inl err)
    then show ?thesis by (simp add: Port_Update_def del: cmp_Or.simps)
  next
    case (Inr scope)
    obtain z p i where scope: "scope = (z, p, i)" by (metis prod_cases3)
    let ?body = "\<lparr>ptu_Name = pta_Name news, ptu_Description = pta_Description news, ptu_AdminStateUp = pta_AdminStateUp news,
        ptu_SecurityGroups = bareIDs (pta_SecurityGroups news), ptu_PortSecurityEnabled = pta_PortSecurityEnabled news\<rparr>"
    obtain r s1 where "nobus_UpdatePort env (pc_client cfg) ctx p z i ?body s = (r, s1)" by fastforce
    with Inr scope show ?thesis by (cases r) (simp_all add: Port_Update_def Let_def del: cmp_Or.simps)
  qed
qed

text \<open>
  C35. A description cannot be cleared.  When the new inputs of a router give no description and the old
  ones gave one, \<open>Diff\<close> reports an update, and \<open>Update\<close> leaves the server's description of every router as
  it is, whether or not it returns an error, because an empty description is left out of the request.
\<close>

theorem Router_description_not_cleared:
  assumes "serves env ctx desc (field_effect ''/api/v3/network/router'' ''router_id'' router ''router'' ''description'')"
    and "rta_Description news = ''''" and "rta_Description (rts_Args olds) \<noteq> ''''"
  shows "map_of (dr_DetailedDiff (Router_Diff olds news)) ''description'' = Some Update \<and>
    desc (snd (Router_Update env cfg ctx rid olds news preview s)) = desc s"
proof
  show "map_of (dr_DetailedDiff (Router_Diff olds news)) ''description'' = Some Update"
    using assms(2,3) by (simp add: Router_Diff_def Let_def diffResponse_def map_of_replaceDiff map_of_updateDiff)
  have call: "desc (snd (nobus_UpdateRouter env (pc_client cfg) ctx p z i
      \<lparr>rw_Name = n, rw_Description = '''', rw_AdminStateUp = a\<rparr> s)) = desc s" for p z i n a
    unfolding nobus_UpdateRouter_def json_RouterWrite_def
    by (rule field_update_keeps [OF assms(1)]) (simp_all add: omitted split: option.splits)
  show "desc (snd (Router_Update env cfg ctx rid olds news preview s)) = desc s"
  proof (cases "ResolveImport cfg rid (cmp_Or [rta_ProjectID news, rta_ProjectID (rts_Args olds)])
      (cmp_Or [rta_AvailabilityZone news, rta_AvailabilityZone (rts_Args olds)])")
    case (Inl err)
    then show ?thesis by (simp add: Router_Update_def)
  next
    case (Inr scope)
    obtain z p i where "scope = (z, p, i)" by (metis prod_cases3)
    moreover obtain r s1 where u: "nobus_UpdateRouter env (pc_client cfg) ctx p z i
        \<lparr>rw_Name = rta_Name news, rw_Description = '''', rw_AdminStateUp = rta_AdminStateUp news\<rparr> s = (r, s1)" by fastforce
    moreover have "desc s1 = desc s" using call [of p z i "rta_Name news" "rta_AdminStateUp news"] u by simp
    ultimately show ?thesis using Inr assms(2) by (cases r) (simp_all add: Router_Update_def Let_def)
  qed
qed

lemma Router_description_not_cleared_witness:
  "map_of (dr_DetailedDiff (Router_Diff (RouterState_of (zero_RouterArgs\<lparr>rta_Description := ''edge''\<rparr>)) zero_RouterArgs))
     ''description'' = Some Update \<and>
   snd (Router_Update (plain_Env (field_effect ''/api/v3/network/router'' ''router_id'' ''r-1'' ''router'' ''description'')) sample_PConfig plain_Context
     ''r-1'' (RouterState_of (zero_RouterArgs\<lparr>rta_Description := ''edge''\<rparr>)) (zero_RouterArgs\<lparr>rta_Name := ''r''\<rparr>) False
     (JString ''edge'')) = JString ''edge''"
  using Router_description_not_cleared [OF plain_serves, of zero_RouterArgs
      "RouterState_of (zero_RouterArgs\<lparr>rta_Description := ''edge''\<rparr>)"]
    Router_description_not_cleared [OF plain_serves, of "zero_RouterArgs\<lparr>rta_Name := ''r''\<rparr>"
      "RouterState_of (zero_RouterArgs\<lparr>rta_Description := ''edge''\<rparr>)"]
  by (simp add: zero_RouterArgs_def RouterState_of_def)

text \<open>The security groups of a port cannot be emptied either: an empty list is left out.\<close>

lemma Port_groups_not_emptied:
  assumes "serves env ctx groups (field_effect ''/api/v3/network/port'' ''port_id'' i ''port'' ''security_groups'')"
  shows "groups (snd (nobus_UpdatePort env c ctx p z i
    \<lparr>ptu_Name = n, ptu_Description = d, ptu_AdminStateUp = a, ptu_SecurityGroups = [], ptu_PortSecurityEnabled = e\<rparr> s)) = groups s"
  unfolding nobus_UpdatePort_def json_PortUpdate_def
  by (rule field_update_keeps [OF assms]) (simp_all add: omitted split: option.splits)

end
