(* ===== verification/PulumiWait.thy ===== *)
theory PulumiWait
  imports PulumiUpdate
begin

text \<open>
  Waiting for a status: that it ends well when the status comes in time, and an update of an instance
  that stops waiting too early.
\<close>

section \<open>Waiting succeeds\<close>

text \<open>The world after a poll and the pause that follows it, and the polls of a wait.\<close>

definition poll_step :: "('s Context \<Rightarrow> 's \<Rightarrow> ('a, 's) result) \<Rightarrow> 's Context \<Rightarrow> nat \<Rightarrow> 's \<Rightarrow> 's" where
  "poll_step get cx poll s = snd (ctx_timer cx poll (snd (get cx s)))"

definition wanted :: "('a \<Rightarrow> string) \<Rightarrow> string list \<Rightarrow> 'a \<Rightarrow> bool" where
  "wanted status want v \<longleftrightarrow> strings_ToLower (status v) \<in> set (map strings_ToLower want)"

fun comes_up :: "('s Context \<Rightarrow> 's \<Rightarrow> ('a, 's) result) \<Rightarrow> ('a \<Rightarrow> string) \<Rightarrow> string list \<Rightarrow> 's Context \<Rightarrow> nat \<Rightarrow> nat \<Rightarrow> 's \<Rightarrow>
    'a \<Rightarrow> bool" where
  "comes_up get status want cx poll 0 s v \<longleftrightarrow> fst (get cx s) = Inr v \<and> wanted status want v"
| "comes_up get status want cx poll (Suc k) s v \<longleftrightarrow>
     (case fst (get cx s) of Inl _ \<Rightarrow> False | Inr u \<Rightarrow> \<not> wanted status want u) \<and>
     fst (ctx_timer cx poll (snd (get cx s))) \<and> comes_up get status want cx poll k (poll_step get cx poll s) v"

lemma waitUntil_loop_again:
  assumes "fn cx cap s = (Inr False, cap1, s1)" and "ctx_timer cx poll s1 = (True, s2)"
  shows "waitUntil_loop cx poll fn (Suc polls) cap s = waitUntil_loop cx poll fn polls cap1 s2"
  by (subst waitUntil_loop.simps) (simp add: assms del: waitUntil_loop.simps)

lemma waitUntil_loop_reaches:
  assumes "comes_up get status want cx poll k s v" and "k \<le> polls"
  shows "waitUntil_loop cx poll (status_closure get status want) polls cap s =
    (None, Some v, snd (get cx ((poll_step get cx poll ^^ k) s)))"
  using assms
proof (induction k arbitrary: s polls cap)
  case 0
  then obtain s1 where "get cx s = (Inr v, s1)" by (cases "get cx s") simp
  with 0 show ?case by (simp add: status_closure_def wanted_def)
next
  case (Suc k)
  then obtain u s1 s2 polls' where g: "get cx s = (Inr u, s1)" and t: "ctx_timer cx poll s1 = (True, s2)"
    and p: "polls = Suc polls'" "k \<le> polls'" and u: "\<not> wanted status want u"
    by (cases "get cx s"; cases polls; cases "ctx_timer cx poll (snd (get cx s))") (auto split: sum.splits)
  then have step: "poll_step get cx poll s = s2" by (simp add: poll_step_def)
  have "comes_up get status want cx poll k s2 v" using Suc.prems(1) step by simp
  then have rest: "waitUntil_loop cx poll (status_closure get status want) polls' (Some u) s2 =
      (None, Some v, snd (get cx ((poll_step get cx poll ^^ k) s2)))"
    by (rule Suc.IH [OF _ p(2)])
  have "status_closure get status want cx cap s = (Inr False, Some u, s1)"
    using g u by (simp add: status_closure_def wanted_def)
  note again = waitUntil_loop_again [where fn = "status_closure get status want" and cap = cap and s = s, OF this t]
  show ?case unfolding p(1) again rest funpow_Suc_right comp_apply step ..
qed

text \<open>
  C31. A wait ends well when the status comes in time.  If the object answers every poll, the timers
  fire, and after \<open>k\<close> pauses it has one of the wanted statuses, then a wait whose timeout has room for
  \<open>k\<close> pauses returns that object and no error, having polled \<open>k + 1\<close> times.
\<close>

theorem waitStatus_reaches:
  assumes "comes_up get status want (env_WithTimeout env ctx timeout) (nc_poll c) k s v"
    and "k \<le> timeout div nc_poll c"
  shows "waitStatus env c ctx timeout get status want s =
    (None, Some v, snd (get (env_WithTimeout env ctx timeout)
       ((poll_step get (env_WithTimeout env ctx timeout) (nc_poll c) ^^ k) s)))"
  unfolding waitStatus_def waitUntil_def using assms by (rule waitUntil_loop_reaches)

section \<open>A resize that is not confirmed\<close>

text \<open>
  The first answer of a wait that already shows a wanted status ends it.  \<open>ACTIVE\<close> is wanted after a
  resize, and it is also what an instance shows before the server begins.
\<close>

lemma WaitInstanceStatus_at_once:
  assumes "nobus_GetInstance env c (env_WithTimeout env ctx 900000) p z i s = (Inr got, s1)" and "wanted ni_Status want got"
  shows "WaitInstanceStatus env c ctx p z i want s = (None, Some got, s1)"
proof -
  let ?cx = "env_WithTimeout env ctx 900000" and ?get = "\<lambda>cx. nobus_GetInstance env c cx p z i"
  have "comes_up ?get ni_Status want ?cx (nc_poll c) 0 s got" using assms by simp
  from waitUntil_loop_reaches [OF this le0] assms(1) show ?thesis
    by (simp add: WaitInstanceStatus_def waitStatus_def waitUntil_def)
qed

lemma update_flavor_unconfirmed:
  assumes "ia_Flavor news \<noteq> ''''" and "BareResourceID (ia_Flavor old) \<noteq> BareResourceID (ia_Flavor news)"
    and "nobus_ResizeInstance env c ctx (sv_Project sv) (sv_Zone sv) (sv_ID sv) (BareResourceID (ia_Flavor news)) s = (Inr (), s1)"
    and "nobus_GetInstance env c (env_WithTimeout env ctx 900000) (sv_Project sv) (sv_Zone sv) (sv_ID sv) s1 = (Inr g1, s2)"
    and "strings_ToLower (ni_Status g1) = ''active''"
    and "nobus_GetInstance env c ctx (sv_Project sv) (sv_Zone sv) (sv_ID sv) s2 = (Inr g2, s3)"
    and "strings_ToLower (ni_Status g2) = ''active''"
  shows "update_flavor env c ctx sv old news s = (None, s3)"
proof -
  have low: "strings_ToLower ''ACTIVE'' = ''active''" "strings_ToLower ''VERIFY_RESIZE'' = ''verify_resize''"
    by code_simp+
  have "wanted ni_Status [''VERIFY_RESIZE'', ''ACTIVE''] g1" using assms(5) low by (simp add: wanted_def)
  from WaitInstanceStatus_at_once [OF assms(4) this] assms(1-3,6,7) low show ?thesis
    by (simp add: update_flavor_def done_or_def)
qed

text \<open>
  C32. A resize can be left unconfirmed.  Whatever the server: if an update, whose rename succeeds or
  is not needed, changes the flavor, the resize is accepted, and the two lookups that follow still show
  the instance as \<open>ACTIVE\<close>, because the server has not begun, then no confirmation is sent.  The update
  goes straight on from the second lookup to the groups and the tags, and when these and the lookup
  at the end succeed it returns the new state and no error.
\<close>

theorem slow_resize_unconfirmed:
  assumes "ResolveImport cfg rid (cmp_Or [ia_ProjectID news, ia_ProjectID (is_Args olds)])
      (cmp_Or [ia_AvailabilityZone news, ia_AvailabilityZone (is_Args olds)]) = Inr (z, p, i)"
    and "new = news\<lparr>ia_ProjectID := p, ia_AvailabilityZone := z\<rparr>" and "old = is_Args olds" and "c = pc_client cfg"
    and "sv = \<lparr>sv_Project = p, sv_Zone = z, sv_ID = i\<rparr>"
    and "ia_Flavor news \<noteq> ''''" and "BareResourceID (ia_Flavor old) \<noteq> BareResourceID (ia_Flavor news)"
    and "update_name env c ctx sv old new s = (None, s0)"
    and "nobus_ResizeInstance env c ctx p z i (BareResourceID (ia_Flavor news)) s0 = (Inr (), s1)"
    and "nobus_GetInstance env c (env_WithTimeout env ctx 900000) p z i s1 = (Inr g1, s2)"
    and "strings_ToLower (ni_Status g1) = ''active''"
    and "nobus_GetInstance env c ctx p z i s2 = (Inr g2, s3)" and "strings_ToLower (ni_Status g2) = ''active''"
    and "then_step (update_groups env c ctx sv old new) (update_tags env c ctx sv old new) s3 = (None, s4)"
    and "nobus_GetInstance env c ctx p z i s4 = (Inr g3, s5)"
  shows "Instance_Update env cfg ctx rid olds news False s = ((stateFromInstance new g3, None), s5)"
proof -
  have "update_flavor env c ctx sv old new s0 = (None, s3)"
    using update_flavor_unconfirmed [of new old env c ctx sv s0 s1 g1 s2 g2 s3] assms(2,5-7,9-13) by simp
  then show ?thesis
    using assms(1-5,8,14,15) by (simp add: Instance_Update_def then_step_def Let_def del: cmp_Or.simps)
qed

subsection \<open>A server where it happens\<close>

text \<open>
  A server that takes its time: after a resize is asked for, the next \<open>sl_busy\<close> answers still show the
  instance as \<open>ACTIVE\<close>, then it waits in \<open>VERIFY_RESIZE\<close> for a confirmation.
\<close>

record slow =
  sl_busy :: nat
  sl_posts :: "string list"

definition slow_status :: "slow \<Rightarrow> string" where
  "slow_status s =
     (if ''/api/v3/instance/resize'' \<in> set (sl_posts s) \<and> sl_busy s = 0 \<and>
         ''/api/v3/instance/confirm-resize'' \<notin> set (sl_posts s)
      then ''VERIFY_RESIZE'' else ''ACTIVE'')"

definition slow_body :: "slow \<Rightarrow> body" where
  "slow_body s = BodyJSON (JObject [(''data'', JObject [(''id'', JString ''i-1''), (''status'', JString (slow_status s))])])"

definition slow_Env :: "slow NobusEnv" where
  "slow_Env =
     \<lparr>env_Do = (\<lambda>ctx req s.
        (Inr \<lparr>rs_StatusCode = 200, rs_Body = slow_body s\<rparr>,
         if rq_Method req = ''POST'' then s\<lparr>sl_posts := sl_posts s @ [url_Path (rq_URL req)]\<rparr>
         else s\<lparr>sl_busy := sl_busy s - 1\<rparr>)),
      env_url_Parse = (\<lambda>u. Inl (Foreign u)), env_time_Parse = (\<lambda>_ _. True), env_WithTimeout = (\<lambda>c _. c),
      env_Open = (\<lambda>_ s. (Inr BodyEmpty, s)), ne_BodyText = (\<lambda>_. '''')\<rparr>"

definition slow_Context :: "slow Context" where
  "slow_Context = \<lparr>ctx_timer = (\<lambda>n s. (True, s)), ctx_Err = (\<lambda>_. None)\<rparr>"

lemma slow_do:
  "decode (slow_body s) = Inr v \<Longrightarrow>
   nobus_do slow_Env c slow_Context meth path query payload decode s =
     (Inr v, if meth = ''POST'' then s\<lparr>sl_posts := sl_posts s @ [path]\<rparr> else s\<lparr>sl_busy := sl_busy s - 1\<rparr>)"
  by (simp add: nobus_do_def maxAttempts_def numeral_eq_Suc nobus_doOnce_def slow_Env_def Let_def)

lemma slow_decoded:
  "decodeJSON (dec_response dec_NInstance) (zero_response zero_NInstance) (slow_body s) =
     Inr ((zero_response zero_NInstance)\<lparr>rp_Data := zero_NInstance\<lparr>ni_ID := ''i-1'', ni_Status := slow_status s\<rparr>\<rparr>)"
  by (simp add: decodeJSON_def slow_body_def dec_response_def dec_NInstance_def match_field_def field_def
      zero_response_def zero_NInstance_def)

lemma slow_GetInstance:
  "nobus_GetInstance slow_Env c slow_Context p z i s =
     (Inr (zero_NInstance\<lparr>ni_ID := ''i-1'', ni_Status := slow_status s\<rparr>), s\<lparr>sl_busy := sl_busy s - 1\<rparr>)"
proof -
  have "nobus_do slow_Env c slow_Context ''GET'' ''/api/v3/instance'' query None
      (decodeJSON (dec_response dec_NInstance) (zero_response zero_NInstance)) s =
    (Inr ((zero_response zero_NInstance)\<lparr>rp_Data := zero_NInstance\<lparr>ni_ID := ''i-1'', ni_Status := slow_status s\<rparr>\<rparr>),
     s\<lparr>sl_busy := sl_busy s - 1\<rparr>)" for query
    using slow_do [where decode = "decodeJSON (dec_response dec_NInstance) (zero_response zero_NInstance)" and meth = "''GET''",
        OF slow_decoded] by simp
  then show ?thesis by (simp add: nobus_GetInstance_def nobus_object_def)
qed

lemma slow_action:
  "instance_action slow_Env c slow_Context action req s =
     (Inr (), s\<lparr>sl_posts := sl_posts s @ [''/api/v3/instance/'' @ action]\<rparr>)"
  unfolding instance_action_def by (subst slow_do [where v = "()"]) (simp_all add: discard_def)

lemma slow_active:
  "sl_busy s > 0 \<Longrightarrow> slow_status s = ''ACTIVE''"
  by (simp add: slow_status_def)

lemma ResolveImport_own:
  assumes "CHR ''/'' \<notin> set i"
  shows "ResolveImport sample_PConfig (''ng1/p1/'' @ i) '''' '''' = Inr (''ng1'', ''p1'', i)"
proof -
  have "ResolveImport sample_PConfig (ScopedID ''ng1'' ''p1'' i) '''' '''' = Inr (''ng1'', ''p1'', i)"
    by (rule conjunct1 [OF ScopedID_import_roundtrip [OF sample_scope]]) (use assms in simp_all)
  then show ?thesis by (simp add: ScopedID_def)
qed

lemma slow_got:
  "nobus_GetInstance slow_Env c (env_WithTimeout slow_Env slow_Context t) p z i s =
     (Inr (zero_NInstance\<lparr>ni_ID := ''i-1'', ni_Status := slow_status s\<rparr>), s\<lparr>sl_busy := sl_busy s - 1\<rparr>)"
proof -
  have "env_WithTimeout slow_Env slow_Context t = slow_Context" by (simp add: slow_Env_def)
  then show ?thesis by (simp add: slow_GetInstance)
qed

lemma slow_wait:
  assumes "strings_ToLower (slow_status s) \<in> set (map strings_ToLower want)"
  shows "WaitInstanceStatus slow_Env c slow_Context p z i want s =
    (None, Some (zero_NInstance\<lparr>ni_ID := ''i-1'', ni_Status := slow_status s\<rparr>), s\<lparr>sl_busy := sl_busy s - 1\<rparr>)"
  by (rule WaitInstanceStatus_at_once [OF slow_got]) (use assms in \<open>simp add: wanted_def\<close>)

text \<open>
  The server of the witness comes to rest unconfirmed exactly when two answers or more still show the
  instance as \<open>ACTIVE\<close>; with fewer the update sees \<open>VERIFY_RESIZE\<close> and confirms.
\<close>

lemma slow_update_flavor:
  assumes "ia_Flavor news \<noteq> ''''" and "BareResourceID (ia_Flavor old) \<noteq> BareResourceID (ia_Flavor news)"
  shows "\<exists>s'. update_flavor slow_Env c slow_Context sv old news \<lparr>sl_busy = n, sl_posts = []\<rparr> = (None, s') \<and>
    sl_posts s' = (if n \<ge> 2 then [''/api/v3/instance/resize'']
      else [''/api/v3/instance/resize'', ''/api/v3/instance/confirm-resize'']) \<and>
    slow_status (s'\<lparr>sl_busy := 0\<rparr>) = (if n \<ge> 2 then ''VERIFY_RESIZE'' else ''ACTIVE'')"
proof -
  have low: "strings_ToLower ''ACTIVE'' = ''active''" "strings_ToLower ''VERIFY_RESIZE'' = ''verify_resize''"
    by code_simp+
  consider "n = 0" | "n = 1" | "n \<ge> 2" by linarith
  then show ?thesis
    by cases (simp_all add: assms update_flavor_def nobus_ResizeInstance_def slow_action done_or_def slow_wait slow_GetInstance
        slow_status_def low confirm_resize_def nobus_ConfirmResize_def)
qed

lemma slow_resize_unconfirmed_witness:
  "\<exists>st s'. Instance_Update slow_Env sample_PConfig slow_Context ''ng1/p1/i-1''
      (InstanceState_of (zero_InstanceArgs\<lparr>ia_Flavor := ''small''\<rparr>)) (zero_InstanceArgs\<lparr>ia_Flavor := ''big''\<rparr>) False
      \<lparr>sl_busy = 3, sl_posts = []\<rparr> = ((st, None), s') \<and>
    ia_Flavor (is_Args st) = ''big'' \<and> sl_posts s' = [''/api/v3/instance/resize''] \<and> slow_status s' = ''VERIFY_RESIZE''"
proof -
  let ?news = "zero_InstanceArgs\<lparr>ia_Flavor := ''big''\<rparr>" and ?olds = "InstanceState_of (zero_InstanceArgs\<lparr>ia_Flavor := ''small''\<rparr>)"
  let ?new = "?news\<lparr>ia_ProjectID := ''p1'', ia_AvailabilityZone := ''ng1''\<rparr>"
  let ?sv = "\<lparr>sv_Project = ''p1'', sv_Zone = ''ng1'', sv_ID = ''i-1''\<rparr>" and ?c = "pc_client sample_PConfig"
  let ?s = "\<lambda>n. \<lparr>sl_busy = n, sl_posts = [''/api/v3/instance/resize'']\<rparr>"
  let ?got = "zero_NInstance\<lparr>ni_ID := ''i-1'', ni_Status := ''ACTIVE''\<rparr>"
  have scope: "ResolveImport sample_PConfig ''ng1/p1/i-1'' (cmp_Or [ia_ProjectID ?news, ia_ProjectID (is_Args ?olds)])
      (cmp_Or [ia_AvailabilityZone ?news, ia_AvailabilityZone (is_Args ?olds)]) = Inr (''ng1'', ''p1'', ''i-1'')"
    using ResolveImport_own [of "''i-1''"] by (simp add: InstanceState_of_def zero_InstanceArgs_def)
  have cx: "env_WithTimeout slow_Env slow_Context 900000 = slow_Context" by (simp add: slow_Env_def)
  have low: "strings_ToLower (ni_Status ?got) = ''active''" by code_simp
  have bare: "BareResourceID (ia_Flavor (is_Args ?olds)) \<noteq> BareResourceID (ia_Flavor ?news)"
    by (simp add: InstanceState_of_def BareResourceID_def ParseScopedID_def)
  have name: "update_name slow_Env ?c slow_Context ?sv (is_Args ?olds) ?new \<lparr>sl_busy = 3, sl_posts = []\<rparr> =
      (None, \<lparr>sl_busy = 3, sl_posts = []\<rparr>)"
    by (simp add: update_name_def zero_InstanceArgs_def)
  have resize: "nobus_ResizeInstance slow_Env ?c slow_Context ''p1'' ''ng1'' ''i-1'' (BareResourceID (ia_Flavor ?news))
      \<lparr>sl_busy = 3, sl_posts = []\<rparr> = (Inr (), ?s 3)"
    by (simp add: nobus_ResizeInstance_def slow_action)
  have get: "nobus_GetInstance slow_Env ?c slow_Context ''p1'' ''ng1'' ''i-1'' (?s n) = (Inr ?got, ?s (n - 1))" if "n > 0" for n
    using that by (simp add: slow_GetInstance slow_active)
  have rest: "then_step (update_groups slow_Env ?c slow_Context ?sv (is_Args ?olds) ?new)
      (update_tags slow_Env ?c slow_Context ?sv (is_Args ?olds) ?new) (?s 1) = (None, ?s 1)"
    by (simp add: then_step_def update_groups_def update_tags_def InstanceState_of_def zero_InstanceArgs_def stringSlicesEqual_def)
  have "Instance_Update slow_Env sample_PConfig slow_Context ''ng1/p1/i-1'' ?olds ?news False \<lparr>sl_busy = 3, sl_posts = []\<rparr> =
      ((stateFromInstance ?new ?got, None), ?s 0)"
    using get [of 3] get [of 2] get [of 1] cx
    by (intro slow_resize_unconfirmed [OF scope refl refl refl refl _ bare name resize _ low _ low rest]) simp_all
  then show ?thesis by (auto simp: stateFromInstance_def Let_def slow_status_def)
qed

text \<open>Waiting for \<open>VERIFY_RESIZE\<close> alone does wait for it, on the same server.\<close>

lemma waitStatus_reaches_witness:
  "waitStatus slow_Env pulumi_client slow_Context 900000 (\<lambda>ctx. nobus_GetInstance slow_Env pulumi_client ctx ''p1'' ''ng1'' ''i-1'') ni_Status
      [''VERIFY_RESIZE''] \<lparr>sl_busy = 2, sl_posts = [''/api/v3/instance/resize'']\<rparr> =
    (None, Some (zero_NInstance\<lparr>ni_ID := ''i-1'', ni_Status := ''VERIFY_RESIZE''\<rparr>),
     \<lparr>sl_busy = 0, sl_posts = [''/api/v3/instance/resize'']\<rparr>)"
proof -
  let ?get = "\<lambda>ctx. nobus_GetInstance slow_Env pulumi_client ctx ''p1'' ''ng1'' ''i-1''"
  let ?s = "\<lambda>n. \<lparr>sl_busy = n, sl_posts = [''/api/v3/instance/resize'']\<rparr>"
  have cx: "env_WithTimeout slow_Env slow_Context 900000 = slow_Context" by (simp add: slow_Env_def)
  have poll: "nc_poll pulumi_client = 100000" by (simp add: pulumi_client_def)
  have status: "slow_status (?s 0) = ''VERIFY_RESIZE''" "n > 0 \<Longrightarrow> slow_status (?s n) = ''ACTIVE''" for n
    by (simp_all add: slow_status_def)
  have step: "poll_step ?get slow_Context k (?s n) = ?s (n - 1)" for k n
    by (simp add: poll_step_def slow_GetInstance) (simp add: slow_Context_def)
  have timer: "fst (ctx_timer slow_Context k s)" for k s by (simp add: slow_Context_def)
  have "comes_up ?get ni_Status [''VERIFY_RESIZE''] slow_Context 100000 (Suc (Suc 0)) (?s 2)
      (zero_NInstance\<lparr>ni_ID := ''i-1'', ni_Status := ''VERIFY_RESIZE''\<rparr>)"
    by (simp add: slow_GetInstance step timer status wanted_def) (simp add: strings_ToLower_def ascii_lower_def)
  then have "comes_up ?get ni_Status [''VERIFY_RESIZE''] (env_WithTimeout slow_Env slow_Context 900000) (nc_poll pulumi_client)
      (Suc (Suc 0)) (?s 2) (zero_NInstance\<lparr>ni_ID := ''i-1'', ni_Status := ''VERIFY_RESIZE''\<rparr>)"
    by (simp only: cx poll)
  from waitStatus_reaches [OF this] show ?thesis
    by (simp add: cx poll step slow_GetInstance)
qed

end
