(* ===== verification/MockApi.thy ===== *)
theory MockApi
  imports NobusStorage
begin

text \<open>
  \<open>pulumi-nobus/provider/internal/testapi/server.go\<close>: the in-memory API the provider is tested with.  A
  request is answered in one step, under the mock's mutex.  A Go map is an association list: where the
  code ranges over one, in an order Go leaves open, the model takes the order of the list, and the
  members of a document come in that order too, which no decoder of the client looks at.
\<close>

section \<open>State\<close>

type_synonym jmap = "(string \<times> json) list"

type_synonym store = "(string \<times> jmap) list"

record Mock =
  mk_instances :: store
  mk_volumes :: store
  mk_snapshots :: store
  mk_backups :: store
  mk_keypairs :: store
  mk_networks :: store
  mk_subnets :: store
  mk_ports :: store
  mk_routers :: store
  mk_sgs :: store
  mk_sgRules :: store
  mk_fips :: store
  mk_flavors :: "jmap list"
  mk_images :: "jmap list"
  mk_projects :: "jmap list"
  mk_zones :: "jmap list"
  mk_FailNext :: "(string \<times> int) list"
  mk_Calls :: "string list"

definition mock_New :: Mock where
  "mock_New =
     \<lparr>mk_instances = [], mk_volumes = [], mk_snapshots = [], mk_backups = [], mk_keypairs = [], mk_networks = [],
      mk_subnets = [], mk_ports = [], mk_routers = [], mk_sgs = [], mk_sgRules = [], mk_fips = [],
      mk_flavors =
        [[(''id'', JString ''fl-1''), (''name'', JString ''s1.small''), (''vcpus'', JInt 1), (''ram'', JInt 1024), (''disk'', JInt 20)],
         [(''id'', JString ''fl-2''), (''name'', JString ''s1.medium''), (''vcpus'', JInt 2), (''ram'', JInt 2048), (''disk'', JInt 40)]],
      mk_images =
        [[(''id'', JString ''img-1''), (''name'', JString ''Ubuntu'')],
         [(''id'', JString ''img-2''), (''name'', JString ''Debian'')]],
      mk_projects =
        [[(''id'', JString ''proj-1''), (''name'', JString ''default''), (''availability_zone'', JString ''ng1''), (''is_default'', JBool True)],
         [(''id'', JString ''proj-2''), (''name'', JString ''other''), (''availability_zone'', JString ''ng1''), (''is_default'', JBool False)]],
      mk_zones = [[(''name'', JString ''ng1'')], [(''name'', JString ''nobus-wa-az1'')]],
      mk_FailNext = [], mk_Calls = []\<rparr>"

section \<open>Values\<close>

text \<open>Reading a \<open>map[string]any\<close>: a missing member is nil, and so is \<open>null\<close>.\<close>

definition any_get :: "jmap \<Rightarrow> string \<Rightarrow> json" where
  "any_get m k = (case map_of m k of Some v \<Rightarrow> v | None \<Rightarrow> JNull)"

definition as_string :: "json \<Rightarrow> string option" where
  "as_string j = (case j of JString t \<Rightarrow> Some t | _ \<Rightarrow> None)"

text \<open>\<open>v, _ := m[k].(string)\<close>.\<close>

definition string_or_empty :: "json \<Rightarrow> string" where
  "string_or_empty j = (case as_string j of Some t \<Rightarrow> t | None \<Rightarrow> '''')"

definition put_all :: "jmap \<Rightarrow> jmap \<Rightarrow> jmap" where
  "put_all new m = fold (\<lambda>(k, v). AList.update k v) new m"

text \<open>The body of a request, decoded into a map; the error of decoding is dropped.\<close>

definition body_map :: "json option \<Rightarrow> jmap" where
  "body_map b = (case b of Some (JObject ms) \<Rightarrow> put_all ms [] | _ \<Rightarrow> [])"

definition query_Get :: "gomap option \<Rightarrow> string \<Rightarrow> string" where
  "query_Get q k = (case q of None \<Rightarrow> '''' | Some m \<Rightarrow> (case map_of m k of Some v \<Rightarrow> v | None \<Rightarrow> ''''))"

definition seed :: "string \<Rightarrow> jmap \<Rightarrow> jmap \<Rightarrow> jmap" where
  "seed rid defaults item =
     fold (\<lambda>(k, v) m. if any_get m k = JNull then AList.update k v m else m) ((''id'', JString rid) # defaults) item"

definition SeedInstance :: "string \<Rightarrow> jmap \<Rightarrow> Mock \<Rightarrow> Mock" where
  "SeedInstance rid item m =
     m\<lparr>mk_instances := AList.update rid (seed rid [(''status'', JString ''ACTIVE'')] item) (mk_instances m)\<rparr>"

definition SeedVolume :: "string \<Rightarrow> jmap \<Rightarrow> Mock \<Rightarrow> Mock" where
  "SeedVolume rid item m =
     m\<lparr>mk_volumes := AList.update rid
        (seed rid [(''status'', JString ''available''), (''attachments'', JArray [])] item) (mk_volumes m)\<rparr>"

definition SeedKeyPair :: "string \<Rightarrow> jmap \<Rightarrow> Mock \<Rightarrow> Mock" where
  "SeedKeyPair rid item m = m\<lparr>mk_keypairs := AList.update rid (seed rid [] item) (mk_keypairs m)\<rparr>"

definition SeedNetwork :: "string \<Rightarrow> jmap \<Rightarrow> Mock \<Rightarrow> Mock" where
  "SeedNetwork rid item m = m\<lparr>mk_networks := AList.update rid (seed rid [] item) (mk_networks m)\<rparr>"

section \<open>Answers\<close>

text \<open>
  An answer is a response, or an error of the transport: a handler that panics closes the connection.
\<close>

type_synonym answer = "goerr + http_response"

definition WriteJSON :: "int \<Rightarrow> json \<Rightarrow> answer" where
  "WriteJSON status body = Inr \<lparr>rs_StatusCode = status, rs_Body = BodyJSON body\<rparr>"

definition OkData :: "json \<Rightarrow> json" where
  "OkData v = JObject [(''status'', JBool True), (''data'', v)]"

definition no_content :: answer where
  "no_content = Inr \<lparr>rs_StatusCode = 204, rs_Body = BodyEmpty\<rparr>"

definition message_body :: "string \<Rightarrow> json" where
  "message_body t = JObject [(''message'', JString t)]"

definition panics :: answer where
  "panics = Inl (Foreign ''EOF'')"

definition ok_message :: answer where
  "ok_message = WriteJSON 200 (OkData (message_body ''ok''))"

definition items_of :: "store \<Rightarrow> json" where
  "items_of st = JArray (map (\<lambda>(k, item). JObject item) st)"

definition get_item :: "store \<Rightarrow> string \<Rightarrow> answer" where
  "get_item st rid =
     (case map_of st rid of
        None \<Rightarrow> WriteJSON 404 (message_body ''not found'')
      | Some item \<Rightarrow> WriteJSON 200 (OkData (JObject item)))"

text \<open>Changing the item of an identifier in place, when there is one.\<close>

definition change_item :: "string \<Rightarrow> (jmap \<Rightarrow> jmap) \<Rightarrow> store \<Rightarrow> store" where
  "change_item rid f st = (case map_of st rid of None \<Rightarrow> st | Some item \<Rightarrow> AList.update rid (f item) st)"

section \<open>The generic resources\<close>

fun first_string :: "string list \<Rightarrow> jmap \<Rightarrow> string" where
  "first_string [] body = ''''"
| "first_string (k # ks) body =
     (case as_string (any_get body k) of
        Some v \<Rightarrow> if v \<noteq> '''' then v else first_string ks body
      | None \<Rightarrow> first_string ks body)"

definition nested_members :: "jmap \<Rightarrow> string \<Rightarrow> jmap" where
  "nested_members body wrapKey = (case any_get body wrapKey of JObject ms \<Rightarrow> ms | _ \<Rightarrow> [])"

definition handleGenericCRUD ::
  "string \<Rightarrow> gomap option \<Rightarrow> json option \<Rightarrow> string \<Rightarrow> string \<Rightarrow> store \<Rightarrow> jmap \<Rightarrow> answer \<times> store" where
  "handleGenericCRUD meth q b wrapKey idQuery st template =
     (if meth = ''POST''
      then (let item = put_all (nested_members (body_map b) wrapKey) (put_all template []);
                rid = string_or_empty (any_get item ''id'');
                st = (if rid \<noteq> '''' then AList.update rid item st else st)
            in (WriteJSON 200 (OkData (JObject item)), st))
      else if meth = ''GET''
      then (let rid = query_Get q idQuery;
                rid = (if rid = '''' then query_Get q ''securitygroup_id'' else rid)
            in case map_of st rid of
                 None \<Rightarrow> (WriteJSON 404 (message_body (rid @ '' not found'')), st)
               | Some item \<Rightarrow> (WriteJSON 200 (OkData (JObject item)), st))
      else if meth = ''PUT''
      then (let body = body_map b;
                rid = first_string [idQuery, ''securitygroup_id'', ''floatingip_id'', ''subnet_id'', ''port_id'', ''router_id''] body;
                rid = (if rid = '''' then query_Get q idQuery else rid);
                item = (case map_of st rid of
                   None \<Rightarrow> AList.update ''id'' (JString rid) (put_all template [])
                 | Some item \<Rightarrow> item);
                item = put_all (nested_members body wrapKey) item
            in (WriteJSON 200 (OkData (JObject item)), AList.update rid item st))
      else if meth = ''DELETE'' then (no_content, AList.delete (query_Get q idQuery) st)
      else (WriteJSON 405 (message_body ''method not allowed''), st))"

section \<open>The handler\<close>

text \<open>
  The cases of the handler's switch, in groups: each answers \<open>None\<close> for a request that is none of its
  cases, and then the next group is asked.
\<close>

type_synonym route = "string \<Rightarrow> string \<Rightarrow> gomap option \<Rightarrow> json option \<Rightarrow> Mock \<Rightarrow> (answer \<times> Mock) option"

definition route_keypair :: route where
  "route_keypair meth path q b m =
     (if path \<noteq> ''/api/v3/keypair/'' then None
      else if meth = ''POST''
      then (case as_string (any_get (body_map b) ''name'') of
          None \<Rightarrow> Some (panics, m)
        | Some name \<Rightarrow>
            (let rid = ''kp-'' @ name;
                 item = [(''id'', JString rid), (''name'', JString name), (''public_key'', JString ''ssh-rsa A''),
                   (''private_key'', JString ''PRIV''), (''fingerprint'', JString ''aa:bb''), (''type'', JString ''ssh'')]
             in Some (WriteJSON 200 (OkData (JObject item)), m\<lparr>mk_keypairs := AList.update rid item (mk_keypairs m)\<rparr>)))
      else if meth = ''GET'' then Some (WriteJSON 200 (OkData (items_of (mk_keypairs m))), m)
      else if meth = ''DELETE''
      then Some (no_content, m\<lparr>mk_keypairs := AList.delete (query_Get q ''keypair_id'') (mk_keypairs m)\<rparr>)
      else None)"

definition mock_addresses :: json where
  "mock_addresses = JObject [(''net'', JArray
     [JObject [(''addr'', JString ''10.0.0.5''), (''version'', JInt 4), (''OS-EXT-IPS:type'', JString ''fixed'')],
      JObject [(''addr'', JString ''1.2.3.4''), (''version'', JInt 4), (''OS-EXT-IPS:type'', JString ''floating'')]])]"

definition route_instance :: route where
  "route_instance meth path q b m =
     (let body = body_map b; sid = string_or_empty (any_get body ''server_id'')
      in if path = ''/api/v3/instance'' \<and> meth = ''POST''
         then (let item = [(''id'', JString ''srv-1''), (''name'', any_get body ''name''), (''status'', JString ''ACTIVE''),
                     (''key_name'', any_get body ''key_name''), (''created'', JString ''now''), (''updated'', JString ''now''),
                     (''addresses'', mock_addresses)]
               in Some (WriteJSON 200 (OkData (JObject item)), m\<lparr>mk_instances := AList.update ''srv-1'' item (mk_instances m)\<rparr>))
         else if path = ''/api/v3/instance'' \<and> meth = ''GET''
         then Some (get_item (mk_instances m) (query_Get q ''server_id''), m)
         else if path = ''/api/v3/instance'' \<and> meth = ''DELETE''
         then Some (no_content, m\<lparr>mk_instances := AList.delete (query_Get q ''server_id'') (mk_instances m)\<rparr>)
         else if path = ''/api/v3/instance/list'' then Some (WriteJSON 200 (OkData (items_of (mk_instances m))), m)
         else if path = ''/api/v3/instance/update-server''
         then Some (ok_message, m\<lparr>mk_instances := change_item sid
                (\<lambda>item. case as_string (any_get body ''name'') of
                   Some name \<Rightarrow> if name \<noteq> '''' then AList.update ''name'' (JString name) item else item
                 | None \<Rightarrow> item) (mk_instances m)\<rparr>)
         else if path = ''/api/v3/instance/resize''
         then Some (ok_message, m\<lparr>mk_instances := change_item sid
                (\<lambda>item. AList.update ''flavor'' (any_get body ''flavor_id'')
                   (AList.update ''status'' (JString ''VERIFY_RESIZE'') item)) (mk_instances m)\<rparr>)
         else if path = ''/api/v3/instance/confirm-resize''
         then Some (ok_message, m\<lparr>mk_instances := change_item sid
                (AList.update ''status'' (JString ''ACTIVE'')) (mk_instances m)\<rparr>)
         else if path \<in> {''/api/v3/instance/attach-security-group'', ''/api/v3/instance/remove-security-group'',
                ''/api/v3/instance/set-tags''}
         then Some (ok_message, m)
         else None)"

definition route_volume :: route where
  "route_volume meth path q b m =
     (let body = body_map b; vid = string_or_empty (any_get body ''volume_id'');
          sid = string_or_empty (any_get body ''server_id'')
      in if path = ''/api/v3/volume/'' \<and> meth = ''POST''
         then (let item = [(''id'', JString ''vol-1''), (''name'', any_get body ''name''), (''size'', any_get body ''size''),
                     (''status'', JString ''available''), (''volume_type'', any_get body ''volume_type''),
                     (''availability_zone'', any_get body ''availability_zone''), (''attachments'', JArray []),
                     (''metadata'', any_get body ''metadata'')]
               in Some (WriteJSON 200 (OkData (JObject item)), m\<lparr>mk_volumes := AList.update ''vol-1'' item (mk_volumes m)\<rparr>))
         else if path = ''/api/v3/volume/list''
         then Some (WriteJSON 200 (OkData (JObject [(''items'', items_of (mk_volumes m))])), m)
         else if path = ''/api/v3/volume/'' \<and> meth = ''PUT''
         then (let rid = query_Get q ''volume_id'' in
               case map_of (mk_volumes m) rid of
                 None \<Rightarrow> Some (WriteJSON 404 (message_body ''not found''), m)
               | Some item \<Rightarrow>
                   (let item = (case as_string (any_get body ''name'') of
                           Some name \<Rightarrow> AList.update ''name'' (JString name) item | None \<Rightarrow> item);
                        item = (case as_string (any_get body ''description'') of
                           Some desc \<Rightarrow> AList.update ''description'' (JString desc) item | None \<Rightarrow> item)
                    in Some (WriteJSON 200 (OkData (JObject item)), m\<lparr>mk_volumes := AList.update rid item (mk_volumes m)\<rparr>)))
         else if path = ''/api/v3/volume/'' \<and> meth = ''DELETE''
         then Some (no_content, m\<lparr>mk_volumes := AList.delete (query_Get q ''volume_id'') (mk_volumes m)\<rparr>)
         else if path = ''/api/v3/volume/attach''
         then Some (ok_message, m\<lparr>mk_volumes := change_item vid
                (\<lambda>item. AList.update ''attachments''
                   (JArray [JObject [(''server_id'', JString sid), (''device'', JString ''/dev/vdb'')]])
                   (AList.update ''status'' (JString ''in-use'') item)) (mk_volumes m)\<rparr>)
         else if path = ''/api/v3/volume/detach''
         then Some (ok_message, m\<lparr>mk_volumes := change_item vid
                (\<lambda>item. AList.update ''attachments'' (JArray []) (AList.update ''status'' (JString ''available'') item))
                (mk_volumes m)\<rparr>)
         else None)"

definition route_snapshot :: route where
  "route_snapshot meth path q b m =
     (let body = body_map b
      in if path = ''/api/v3/volume/snapshot'' \<and> meth = ''POST''
         then (let item = [(''id'', JString ''snap-1''), (''name'', any_get body ''name''),
                     (''description'', any_get body ''description''), (''volume_id'', any_get body ''volume_id''),
                     (''status'', JString ''available''), (''size'', JInt 10), (''created_at'', JString ''now''),
                     (''metadata'', any_get body ''metadata'')]
               in Some (WriteJSON 200 (OkData (JObject item)), m\<lparr>mk_snapshots := AList.update ''snap-1'' item (mk_snapshots m)\<rparr>))
         else if path = ''/api/v3/volume/snapshot'' \<and> meth = ''GET''
         then Some (get_item (mk_snapshots m) (query_Get q ''snapshot_id''), m)
         else if path = ''/api/v3/volume/snapshot'' \<and> meth = ''DELETE''
         then Some (no_content, m\<lparr>mk_snapshots := AList.delete (query_Get q ''snapshot_id'') (mk_snapshots m)\<rparr>)
         else if path = ''/api/v3/volume/snapshot/list''
         then Some (WriteJSON 200 (OkData (JObject [(''items'', items_of (mk_snapshots m))])), m)
         else None)"

definition route_backup :: route where
  "route_backup meth path q b m =
     (let body = body_map b
      in if path = ''/api/v3/volume/backup'' \<and> meth = ''POST''
         then (let item = [(''id'', JString ''bak-1''), (''name'', any_get body ''name''),
                     (''description'', any_get body ''description''), (''volume_id'', any_get body ''volume_id''),
                     (''status'', JString ''available''), (''size'', JInt 10), (''container'', any_get body ''container''),
                     (''created_at'', JString ''now''), (''availability_zone'', any_get body ''availability_zone''),
                     (''metadata'', any_get body ''metadata'')]
               in Some (WriteJSON 200 (OkData (JObject item)), m\<lparr>mk_backups := AList.update ''bak-1'' item (mk_backups m)\<rparr>))
         else if path = ''/api/v3/volume/backup'' \<and> meth = ''GET''
         then Some (get_item (mk_backups m) (query_Get q ''backup_id''), m)
         else if path = ''/api/v3/volume/backup'' \<and> meth = ''DELETE''
         then Some (no_content, m\<lparr>mk_backups := AList.delete (query_Get q ''backup_id'') (mk_backups m)\<rparr>)
         else if path = ''/api/v3/volume/backup/list''
         then Some (WriteJSON 200 (OkData (JObject [(''items'', items_of (mk_backups m))])), m)
         else if path = ''/api/v3/volume/availability_zone/list''
         then Some (WriteJSON 200 (OkData (JObject [(''items'', JArray (map JObject (mk_zones m)))])), m)
         else None)"

definition route_network :: route where
  "route_network meth path q b m =
     (let body = body_map b
      in if path \<noteq> ''/api/v3/network/'' then None
         else if meth = ''POST''
         then (let net = [(''id'', JString ''net-1''), (''name'', any_get body ''network_name''), (''status'', JString ''ACTIVE''),
                     (''admin_state_up'', JBool True), (''mtu'', JInt 1500), (''shared'', JBool False),
                     (''port_security_enabled'', JBool True), (''subnets'', JArray [JString ''sub-1''])];
                   sub = [(''id'', JString ''sub-1''), (''network_id'', JString ''net-1''), (''cidr'', any_get body ''subnet_cidr''),
                     (''ip_version'', JInt 4)];
                   rtr = [(''id'', JString ''rtr-1''), (''name'', any_get body ''router_name''), (''status'', JString ''ACTIVE'')]
               in Some (WriteJSON 200 (OkData (JObject [(''network_id'', JString ''net-1''), (''subnet_id'', JString ''sub-1''),
                          (''router_id'', JString ''rtr-1'')])),
                    m\<lparr>mk_networks := AList.update ''net-1'' net (mk_networks m),
                      mk_subnets := AList.update ''sub-1'' sub (mk_subnets m),
                      mk_routers := AList.update ''rtr-1'' rtr (mk_routers m)\<rparr>))
         else if meth = ''GET'' then Some (get_item (mk_networks m) (query_Get q ''network_id''), m)
         else if meth = ''PUT''
         then (let rid = string_or_empty (any_get body ''network_id'');
                   networks = change_item rid (put_all (nested_members body ''network'')) (mk_networks m)
               in Some (WriteJSON 200 (OkData (case map_of networks rid of Some item \<Rightarrow> JObject item | None \<Rightarrow> JNull)),
                    m\<lparr>mk_networks := networks\<rparr>))
         else if meth = ''DELETE''
         then Some (no_content, m\<lparr>mk_networks := AList.delete (query_Get q ''network_id'') (mk_networks m)\<rparr>)
         else None)"

definition route_generic :: route where
  "route_generic meth path q b m =
     (if strings_HasPrefix path ''/api/v3/network/subnet''
      then (case handleGenericCRUD meth q b ''subnet'' ''subnet_id'' (mk_subnets m)
               [(''id'', JString ''sub-x''), (''network_id'', JString ''net-1''), (''cidr'', JString ''10.0.0.0/24''),
                (''ip_version'', JInt 4), (''name'', JString ''s'')] of (a, st) \<Rightarrow> Some (a, m\<lparr>mk_subnets := st\<rparr>))
      else if strings_HasPrefix path ''/api/v3/network/port''
      then (case handleGenericCRUD meth q b ''port'' ''port_id'' (mk_ports m)
               [(''id'', JString ''port-1''), (''network_id'', JString ''net-1''), (''status'', JString ''ACTIVE''),
                (''mac_address'', JString ''aa:bb'')] of (a, st) \<Rightarrow> Some (a, m\<lparr>mk_ports := st\<rparr>))
      else if strings_HasPrefix path ''/api/v3/network/router''
      then (case handleGenericCRUD meth q b ''router'' ''router_id'' (mk_routers m)
               [(''id'', JString ''rtr-x''), (''name'', JString ''r''), (''status'', JString ''ACTIVE'')]
               of (a, st) \<Rightarrow> Some (a, m\<lparr>mk_routers := st\<rparr>))
      else if strings_HasPrefix path ''/api/v3/network/security-group-rule''
      then (case handleGenericCRUD meth q b ''security_group_rule'' ''security_group_rule_id'' (mk_sgRules m)
               [(''id'', JString ''rule-1''), (''security_group_id'', JString ''sg-1''), (''direction'', JString ''ingress''),
                (''ethertype'', JString ''IPv4'')] of (a, st) \<Rightarrow> Some (a, m\<lparr>mk_sgRules := st\<rparr>))
      else if strings_HasPrefix path ''/api/v3/network/security-group''
      then (case handleGenericCRUD meth q b ''security_group'' ''security_group_id'' (mk_sgs m)
               [(''id'', JString ''sg-1''), (''name'', JString ''web''), (''description'', JString ''d'')]
               of (a, st) \<Rightarrow> Some (a, m\<lparr>mk_sgs := st\<rparr>))
      else if strings_HasPrefix path ''/api/v3/network/floating-ip''
      then (case handleGenericCRUD meth q b ''floatingip'' ''floating_ip_id'' (mk_fips m)
               [(''id'', JString ''fip-1''), (''floating_network_id'', JString ''ext''),
                (''floating_ip_address'', JString ''8.8.8.8''), (''status'', JString ''DOWN'')]
               of (a, st) \<Rightarrow> Some (a, m\<lparr>mk_fips := st\<rparr>))
      else None)"

definition route_catalogue :: route where
  "route_catalogue meth path q b m =
     (if path = ''/api/v3/flavor/'' then Some (WriteJSON 200 (OkData (JArray (map JObject (mk_flavors m)))), m)
      else if path = ''/api/v3/image/'' then Some (WriteJSON 200 (OkData (JArray (map JObject (mk_images m)))), m)
      else if path = ''/api/v3/project/'' then Some (WriteJSON 200 (OkData (JArray (map JObject (mk_projects m)))), m)
      else None)"

fun first_route :: "route list \<Rightarrow> string \<Rightarrow> string \<Rightarrow> gomap option \<Rightarrow> json option \<Rightarrow> Mock \<Rightarrow> answer \<times> Mock" where
  "first_route [] meth path q b m = (WriteJSON 404 (message_body (''unhandled '' @ meth @ '' '' @ path)), m)"
| "first_route (r # rs) meth path q b m =
     (case r meth path q b m of Some answered \<Rightarrow> answered | None \<Rightarrow> first_route rs meth path q b m)"

text \<open>The failures a test has asked for: the first whose prefix fits is taken, once.\<close>

definition take_failure :: "string \<Rightarrow> (string \<times> int) list \<Rightarrow> (int \<times> (string \<times> int) list) option" where
  "take_failure path fails =
     (case find (\<lambda>(p, code). strings_HasPrefix path p) fails of
        Some (p, code) \<Rightarrow> Some (code, AList.delete p fails)
      | None \<Rightarrow> None)"

definition mock_serve :: "http_request \<Rightarrow> Mock \<Rightarrow> answer \<times> Mock" where
  "mock_serve r m =
     (let path = url_Path (rq_URL r);
          m = m\<lparr>mk_Calls := mk_Calls m @ [rq_Method r @ '' '' @ path]\<rparr>
      in case take_failure path (mk_FailNext m) of
           Some (code, fails) \<Rightarrow> (WriteJSON code (message_body (http_StatusText code)), m\<lparr>mk_FailNext := fails\<rparr>)
         | None \<Rightarrow>
             first_route [route_keypair, route_instance, route_volume, route_snapshot, route_backup, route_network,
                 route_generic, route_catalogue]
               (rq_Method r) path (rq_Query r) (rq_Body r) m)"

end
