(* ===== verification/PulumiMock.thy ===== *)
theory PulumiMock
  imports PulumiServer PulumiWait MockApi
begin

text \<open>
  The in-memory API as the world of the client, over any state in which no failure is due: what a call of
  the client gives, from what the route it takes answers.
\<close>

section \<open>The mock as the world of the client\<close>

definition mock_Env :: "Mock NobusEnv" where
  "mock_Env =
     \<lparr>env_Do = (\<lambda>ctx r m. mock_serve r m),
      env_url_Parse = (\<lambda>u. Inl (Foreign u)), env_time_Parse = (\<lambda>_ _. True), env_WithTimeout = (\<lambda>c _. c),
      env_Open = (\<lambda>_ s. (Inr BodyEmpty, s)), ne_BodyText = (\<lambda>_. '''')\<rparr>"

definition mock_Context :: "Mock Context" where
  "mock_Context = \<lparr>ctx_timer = (\<lambda>n s. (True, s)), ctx_Err = (\<lambda>_. None)\<rparr>"

definition called :: "string \<Rightarrow> string \<Rightarrow> Mock \<Rightarrow> Mock" where
  "called meth path m = m\<lparr>mk_Calls := mk_Calls m @ [meth @ '' '' @ path]\<rparr>"

lemma called_simps [simp]:
  "mk_FailNext (called meth path m) = mk_FailNext m" "mk_routers (called meth path m) = mk_routers m"
  "mk_volumes (called meth path m) = mk_volumes m" "mk_instances (called meth path m) = mk_instances m"
  by (simp_all add: called_def)

definition mock_routes :: "route list" where
  "mock_routes = [route_keypair, route_instance, route_volume, route_snapshot, route_backup, route_network,
     route_generic, route_catalogue]"

lemma mock_Env_simps:
  "env_Do mock_Env ctx r m = mock_serve r m" "ne_BodyText mock_Env = (\<lambda>_. '''')" "env_WithTimeout mock_Env cx t = cx"
  by (simp_all add: mock_Env_def)

lemma mock_serve_routes:
  "mk_FailNext m = [] \<Longrightarrow>
   mock_serve r m = first_route mock_routes (rq_Method r) (url_Path (rq_URL r)) (rq_Query r) (rq_Body r)
     (called (rq_Method r) (url_Path (rq_URL r)) m)"
  by (simp add: mock_serve_def take_failure_def called_def mock_routes_def Let_def del: first_route.simps)

lemma mock_doOnce:
  assumes "mk_FailNext m = []"
  shows "nobus_doOnce mock_Env c ctx meth path q b decode m =
    (case first_route mock_routes meth path q b (called meth path m) of
       (Inl err, m1) \<Rightarrow> (Inl (Wrap ''call Nobus API'' [Wrap '''' [Sentinel ErrUnavailable, err]]), m1)
     | (Inr resp, m1) \<Rightarrow>
         if rs_StatusCode resp \<ge> 400 then (Inl (nobus_mapHTTPError (\<lambda>_. '''') resp), m1) else (decode (rs_Body resp), m1))"
proof -
  obtain r m1 where "first_route mock_routes meth path q b (called meth path m) = (r, m1)" by fastforce
  then show ?thesis by (cases r) (simp_all add: nobus_doOnce_def mock_Env_simps mock_serve_routes [OF assms] Let_def)
qed

lemma do_first_success:
  "nobus_doOnce env c ctx meth path q b decode m = (Inr v, m1) \<Longrightarrow>
   nobus_do env c ctx meth path q b decode m = (Inr v, m1)"
  by (simp add: nobus_do_def maxAttempts_def numeral_eq_Suc)

lemma do_first_final:
  "nobus_doOnce env c ctx meth path q b decode m = (Inl err, m1) \<Longrightarrow> \<not> errors_is err ErrUnavailable \<Longrightarrow>
   nobus_do env c ctx meth path q b decode m = (Inl err, m1)"
  by (simp add: nobus_do_def maxAttempts_def numeral_eq_Suc)

lemma mock_object:
  assumes "mk_FailNext m = []"
    and "first_route mock_routes meth path q b (called meth path m) = (WriteJSON 200 j, m1)"
    and "decodeJSON d (zero_response zero) (BodyJSON j) = Inr r"
  shows "nobus_object mock_Env c ctx meth path q b d zero m = (Inr (rp_Data r), m1)"
proof -
  have "nobus_doOnce mock_Env c ctx meth path q b (decodeJSON d (zero_response zero)) m = (Inr r, m1)"
    using assms(2,3) by (simp add: mock_doOnce [OF assms(1)] WriteJSON_def)
  from do_first_success [OF this] show ?thesis by (simp add: nobus_object_def)
qed

definition missing :: "string \<Rightarrow> goerr" where
  "missing t = Wrap t [Sentinel ErrNotFound]"

lemma missing_simps [simp]: "errors_is (missing t) ErrNotFound" "\<not> errors_is (missing t) ErrUnavailable"
  by (simp_all add: missing_def)

lemma mock_object_not_found:
  assumes "mk_FailNext m = []"
    and "first_route mock_routes meth path q b (called meth path m) = (WriteJSON 404 j, m1)"
  shows "nobus_object mock_Env c ctx meth path q b d zero m =
    (Inl (missing (nobus_message (\<lambda>_. '''') \<lparr>rs_StatusCode = 404, rs_Body = BodyJSON j\<rparr>)), m1)"
proof -
  let ?t = "nobus_message (\<lambda>_. '''') \<lparr>rs_StatusCode = 404, rs_Body = BodyJSON j\<rparr>"
  have "nobus_doOnce mock_Env c ctx meth path q b (decodeJSON d (zero_response zero)) m = (Inl (missing ?t), m1)"
    using assms(2) by (simp add: mock_doOnce [OF assms(1)] WriteJSON_def nobus_mapHTTPError_def missing_def Let_def)
  from do_first_final [OF this] show ?thesis by (simp add: nobus_object_def)
qed

lemma mock_object_missing:
  assumes "mk_FailNext m = []"
    and "first_route mock_routes meth path q b (called meth path m) = (WriteJSON 404 j, m1)"
  shows "\<exists>t. nobus_object mock_Env c ctx meth path q b d zero m = (Inl (missing t), m1)"
  by (rule exI, rule mock_object_not_found [OF assms])

lemma mock_discard:
  assumes "mk_FailNext m = []"
    and "first_route mock_routes meth path q b (called meth path m) = (Inr resp, m1)" and "rs_StatusCode resp < 400"
  shows "nobus_do mock_Env c ctx meth path q b discard m = (Inr (), m1)"
proof -
  have "nobus_doOnce mock_Env c ctx meth path q b discard m = (Inr (), m1)"
    using assms(2,3) by (simp add: mock_doOnce [OF assms(1)] discard_def)
  then show ?thesis by (rule do_first_success)
qed

text \<open>The routes, one by one, unfolded for a concrete path.\<close>

lemmas routes = mock_routes_def route_keypair_def route_instance_def route_volume_def route_snapshot_def route_backup_def
  route_network_def route_generic_def route_catalogue_def strings_HasPrefix_def

lemmas bodies = body_map_def scoped_body_def put_all_def nested_members_def any_get_def string_or_empty_def as_string_def

lemma query_Get_Set [simp]: "query_Get (Some (query_Set k v q)) k = v"
  by (simp add: query_Get_def query_Set_def update_conv')

text \<open>A resolved scope resolves to itself, whatever is given beside it.\<close>

lemma import_own:
  assumes "ResolveScope cfg project az = Inr (p, z)" and "CHR ''/'' \<notin> set p" and "CHR ''/'' \<notin> set z" and "CHR ''/'' \<notin> set i"
  shows "ResolveImport cfg (ScopedID z p i) '''' '''' = Inr (z, p, i)" and "ResolveImport cfg (ScopedID z p i) p z = Inr (z, p, i)"
proof -
  have s: "ResolveScope cfg p z = Inr (p, z)" and ne: "p \<noteq> ''''" "z \<noteq> ''''"
    using assms(1) by (auto simp: ResolveScope_Inr)
  show "ResolveImport cfg (ScopedID z p i) '''' '''' = Inr (z, p, i)"
    and "ResolveImport cfg (ScopedID z p i) p z = Inr (z, p, i)"
    using assms s ne by (simp_all add: ResolveImport_def ParseScopedID_ScopedID)
qed

end
