(* ===== verification/MockCrud.thy ===== *)
theory MockCrud
  imports PulumiMock
begin

text \<open>
  The six resources that the in-memory API serves with \<open>handleGenericCRUD\<close>, through one contract, and
  their life from creation to deletion.
\<close>

section \<open>Documents built in steps\<close>

text \<open>What a request adds to a template, and how a field that is left out is decoded.\<close>

definition fresh :: "string \<Rightarrow> jmap \<Rightarrow> bool" where
  "fresh k m \<longleftrightarrow> k \<notin> fst ` set m"

lemma fresh_simps [simp]:
  "fresh k []" "fresh k ((k', v) # m) \<longleftrightarrow> k \<noteq> k' \<and> fresh k m" "fresh k (m @ n) \<longleftrightarrow> fresh k m \<and> fresh k n"
  by (auto simp: fresh_def)

lemma fresh_omit:
  assumes "k \<noteq> k'"
  shows "fresh k (omit_string k' t)" "fresh k (omit_bool_ptr k' b)" "fresh k (omit_int_ptr k' i)" "fresh k (omit_strings k' ts)"
  using assms by (simp_all add: omitted omit_int_ptr_def split: option.splits)

lemma update_fresh: "fresh k m \<Longrightarrow> AList.update k v m = m @ [(k, v)]"
  by (induction m) auto

lemma put_all_simps:
  "put_all [] m = m" "put_all ((k, v) # new) m = put_all new (AList.update k v m)"
  "put_all (new @ new') m = put_all new' (put_all new m)"
  by (simp_all add: put_all_def)

lemma put_all_omit:
  assumes "fresh k m"
  shows "put_all (omit_string k t) m = m @ omit_string k t" "put_all (omit_bool_ptr k b) m = m @ omit_bool_ptr k b"
    "put_all (omit_int_ptr k i) m = m @ omit_int_ptr k i" "put_all (omit_strings k ts) m = m @ omit_strings k ts"
  using update_fresh [OF assms] by (simp_all add: put_all_simps omitted omit_int_ptr_def split: option.splits)

lemma put_all_given: "t \<noteq> '''' \<Longrightarrow> put_all (omit_string k t) m = AList.update k (JString t) m"
  by (simp add: omitted put_all_simps)

lemma put_all_other: "fresh k new \<Longrightarrow> map_of (put_all new m) k = map_of m k"
  by (induction new arbitrary: m) (auto simp: update_conv' put_all_simps)

lemma dec_members_append:
  "dec_members fs (ms @ ns) r =
     (case dec_members fs ms r of (r1, ok) \<Rightarrow> (case dec_members fs ns r1 of (r2, ok') \<Rightarrow> (r2, ok \<and> ok')))"
  by (induction fs ms r rule: dec_members.induct) (auto split: option.splits prod.splits)

text \<open>A field left out decodes like the value it had, where the record already holds it.\<close>

definition ptr_json :: "('a \<Rightarrow> json) \<Rightarrow> 'a option \<Rightarrow> json" where
  "ptr_json j v = (case v of None \<Rightarrow> JNull | Some x \<Rightarrow> j x)"

lemma dec_omit:
  "dec_members fs [(k, JString '''')] r = (r, True) \<Longrightarrow>
     dec_members fs (omit_string k t) r = dec_members fs [(k, JString t)] r"
  "dec_members fs [(k, JNull)] r = (r, True) \<Longrightarrow>
     dec_members fs (omit_bool_ptr k b) r = dec_members fs [(k, ptr_json JBool b)] r"
  "dec_members fs [(k, JNull)] r = (r, True) \<Longrightarrow>
     dec_members fs (omit_int_ptr k i) r = dec_members fs [(k, ptr_json JInt i)] r"
  "dec_members fs [(k, JArray [])] r = (r, True) \<Longrightarrow>
     dec_members fs (omit_strings k ts) r = dec_members fs [(k, JArray (map JString ts))] r"
  by (auto simp: omitted omit_int_ptr_def ptr_json_def split: option.splits)

lemma dec_ptr_json:
  "dec_ptr dec_bool False (ptr_json JBool b) old = (b, True)"
  "dec_ptr dec_bool False JNull old = (None, True)" "dec_ptr dec_int 0 JNull old' = (None, True)"
  "(\<forall>n \<in> set_option i. int64_ok n) \<Longrightarrow> dec_ptr dec_int 0 (ptr_json JInt i) old' = (i, True)"
  by (auto simp: dec_ptr_def ptr_json_def split: option.splits)

lemma dec_strings:
  "map ((\<lambda>v. fst (dec_string v t)) \<circ> JString) ts = ts" "list_all (\<lambda>v. snd (dec_string v t)) (map JString ts)"
  by (simp_all add: list_all_iff comp_def)

definition decodes :: "'a decoder \<Rightarrow> 'a \<Rightarrow> jmap \<Rightarrow> 'a \<Rightarrow> bool" where
  "decodes d zero item v \<longleftrightarrow> d (JObject item) zero = (v, True)"

lemmas decoding = decodes_def put_all_simps put_all_omit fresh_omit dec_members_append dec_omit dec_ptr_json dec_strings field_def match_field_def

section \<open>The contract of a generic resource\<close>

text \<open>
  The life of a resource: made with the state \<open>st\<close>, it is imported by its identifier alone with the inputs
  \<open>args\<close> and the state \<open>st'\<close>; deleted, it reads as gone, and can be deleted again.
\<close>

definition lives ::
  "('s \<Rightarrow> (string \<times> 'st \<times> goerr option) \<times> 's) \<Rightarrow>
   (string \<Rightarrow> 'a \<Rightarrow> 'st \<Rightarrow> 's \<Rightarrow> (string \<times> 'a \<times> 'st \<times> goerr option) \<times> 's) \<Rightarrow>
   (string \<Rightarrow> 'st \<Rightarrow> 's \<Rightarrow> goerr option \<times> 's) \<Rightarrow> 'a \<Rightarrow> 'st \<Rightarrow> string \<Rightarrow> 'st \<Rightarrow> 'a \<Rightarrow> 'st \<Rightarrow> 's \<Rightarrow> bool" where
  "lives create read delete noArgs none rid st args st' m \<longleftrightarrow>
     (\<exists>m1 m2 m3 m4 m5. create m = ((rid, st, None), m1) \<and>
        read rid noArgs none m1 = ((rid, args, st', None), m2) \<and>
        delete rid st' m2 = (None, m3) \<and>
        read rid noArgs st' m3 = (('''', noArgs, none, None), m4) \<and>
        delete rid st' m4 = (None, m5))"

text \<open>The states after the resource with the identifier \<open>rid\<close> has been made, read and deleted.\<close>

definition made :: "string \<Rightarrow> string \<Rightarrow> (Mock \<Rightarrow> store) \<Rightarrow> (store \<Rightarrow> Mock \<Rightarrow> Mock) \<Rightarrow> jmap \<Rightarrow> Mock \<Rightarrow> Mock" where
  "made path rid get put item m = put (AList.update rid item (get m)) (called ''POST'' path m)"

definition gone :: "string \<Rightarrow> string \<Rightarrow> (Mock \<Rightarrow> store) \<Rightarrow> (store \<Rightarrow> Mock \<Rightarrow> Mock) \<Rightarrow> Mock \<Rightarrow> Mock" where
  "gone path rid get put m = put (AList.delete rid (get m)) (called ''DELETE'' path m)"

locale crud_store =
  fixes path wrap query rid :: string
    and template :: jmap
    and get :: "Mock \<Rightarrow> store"
    and put :: "store \<Rightarrow> Mock \<Rightarrow> Mock"
  assumes routed: "first_route mock_routes meth path q b m =
      (case handleGenericCRUD meth q b wrap query (get m) template of (a, st) \<Rightarrow> (a, put st m))"
    and get_put [simp]: "get (put st m) = st"
    and put_get [simp]: "put (get m) m = m"
    and get_called [simp]: "get (called meth p m) = get m"
    and put_fails [simp]: "mk_FailNext (put st m) = mk_FailNext m"
    and template_id: "map_of template ''id'' = Some (JString rid)" "rid \<noteq> ''''"
    and template_distinct: "put_all template [] = template"
    and wrap: "wrap \<noteq> ''project_id'' \<and> wrap \<noteq> ''availability_zone''"
begin

lemma steps [simp]:
  "mk_FailNext (made path rid get put item m) = mk_FailNext m" "mk_FailNext (gone path rid get put m) = mk_FailNext m"
  "map_of (get (made path rid get put item m)) rid = Some item" "map_of (get (gone path rid get put m)) rid = None"
  by (simp_all add: made_def gone_def update_conv' delete_conv')

lemma answered:
  assumes "decodes d zero item v"
  shows "decodeJSON (dec_response d) (zero_response zero) (BodyJSON (OkData (JObject item))) =
    Inr \<lparr>rp_Status = True, rp_Data = v\<rparr>"
  using assms by (simp add: decodes_def decodeJSON_def OkData_def dec_response_def match_field_def field_def zero_response_def)

lemma created:
  assumes "mk_FailNext m = []" and "fresh ''id'' new" and "decodes d zero (put_all new template) v"
  shows "nobus_object mock_Env c ctx ''POST'' path None (scoped_body p z [(wrap, JObject new)])
      (dec_response d) zero m = (Inr v, made path rid get put (put_all new template) m)"
proof -
  let ?item = "put_all new template"
  have "map_of ?item ''id'' = Some (JString rid)" using assms(2) template_id by (simp add: put_all_other)
  moreover have "nested_members (body_map (scoped_body p z [(wrap, JObject new)])) wrap = new"
    using wrap by (simp add: nested_members_def body_map_def scoped_body_def any_get_def update_conv' put_all_simps)
  ultimately have "first_route mock_routes ''POST'' path None (scoped_body p z [(wrap, JObject new)]) (called ''POST'' path m) =
      (WriteJSON 200 (OkData (JObject ?item)), made path rid get put ?item m)"
    using template_id by (simp add: routed handleGenericCRUD_def any_get_def string_or_empty_def as_string_def
        template_distinct made_def Let_def)
  from mock_object [OF assms(1) this answered [OF assms(3)]] show ?thesis by simp
qed

lemma got:
  assumes "mk_FailNext m = []" and "map_of (get m) rid = Some item" and "decodes d zero item v"
  shows "nobus_object mock_Env c ctx ''GET'' path (Some (query_Set query rid q)) None (dec_response d) zero m =
    (Inr v, called ''GET'' path m)"
proof -
  have "first_route mock_routes ''GET'' path (Some (query_Set query rid q)) None (called ''GET'' path m) =
      (WriteJSON 200 (OkData (JObject item)), called ''GET'' path m)"
    using assms(2) template_id(2) put_get [of "called ''GET'' path m"]
    by (simp add: routed handleGenericCRUD_def Let_def)
  from mock_object [OF assms(1) this answered [OF assms(3)]] show ?thesis by simp
qed

lemma missed:
  assumes "mk_FailNext m = []" and "map_of (get m) rid = None"
  shows "nobus_object mock_Env c ctx ''GET'' path (Some (query_Set query rid q)) None d zero m =
    (Inl (missing (nobus_message (\<lambda>_. '''') \<lparr>rs_StatusCode = 404, rs_Body = BodyJSON (message_body (rid @ '' not found''))\<rparr>)),
     called ''GET'' path m)"
  using assms(2) template_id(2) put_get [of "called ''GET'' path m"]
  by (intro mock_object_not_found [OF assms(1)]) (simp add: routed handleGenericCRUD_def Let_def)

lemma deleted:
  assumes "mk_FailNext m = []"
  shows "nobus_do mock_Env c ctx ''DELETE'' path (Some (query_Set query rid q)) None discard m = (Inr (), gone path rid get put m)"
proof -
  have "first_route mock_routes ''DELETE'' path (Some (query_Set query rid q)) None (called ''DELETE'' path m) = (no_content, gone path rid get put m)"
    by (simp add: routed handleGenericCRUD_def gone_def Let_def)
  then show ?thesis unfolding no_content_def by (rule mock_discard [OF assms]) simp
qed

lemma life:
  assumes "mk_FailNext m = []" and "create m = ((i, st, None), made path rid get put item m)"
    and "\<And>m. mk_FailNext m = [] \<Longrightarrow> map_of (get m) rid = Some item \<Longrightarrow>
      read i noArgs none m = ((i, args, st', None), called ''GET'' path m)"
    and "\<And>m. mk_FailNext m = [] \<Longrightarrow> map_of (get m) rid = None \<Longrightarrow>
      read i noArgs st' m = (('''', noArgs, none, None), called ''GET'' path m)"
    and "\<And>m. mk_FailNext m = [] \<Longrightarrow> delete i st' m = (None, gone path rid get put m)"
  shows "lives create read delete noArgs none i st args st' m"
proof -
  let ?m1 = "made path rid get put item m" and ?get = "called ''GET'' path" and ?gone = "gone path rid get put"
  have "read i noArgs none ?m1 = ((i, args, st', None), ?get ?m1)"
    and "delete i st' (?get ?m1) = (None, ?gone (?get ?m1))"
    and "read i noArgs st' (?gone (?get ?m1)) = (('''', noArgs, none, None), ?get (?gone (?get ?m1)))"
    and "delete i st' (?get (?gone (?get ?m1))) = (None, ?gone (?get (?gone (?get ?m1))))"
    using assms(1) by (simp_all add: assms(3-5))
  with assms(2) show ?thesis unfolding lives_def by blast
qed

end

section \<open>The six resources\<close>

abbreviation subnet_template :: jmap where
  "subnet_template \<equiv> [(''id'', JString ''sub-x''), (''network_id'', JString ''net-1''), (''cidr'', JString ''10.0.0.0/24''),
    (''ip_version'', JInt 4), (''name'', JString ''s'')]"

abbreviation port_template :: jmap where
  "port_template \<equiv> [(''id'', JString ''port-1''), (''network_id'', JString ''net-1''), (''status'', JString ''ACTIVE''),
    (''mac_address'', JString ''aa:bb'')]"

abbreviation router_template :: jmap where
  "router_template \<equiv> [(''id'', JString ''rtr-x''), (''name'', JString ''r''), (''status'', JString ''ACTIVE'')]"

abbreviation group_template :: jmap where
  "group_template \<equiv> [(''id'', JString ''sg-1''), (''name'', JString ''web''), (''description'', JString ''d'')]"

abbreviation rule_template :: jmap where
  "rule_template \<equiv> [(''id'', JString ''rule-1''), (''security_group_id'', JString ''sg-1''), (''direction'', JString ''ingress''),
    (''ethertype'', JString ''IPv4'')]"

abbreviation address_template :: jmap where
  "address_template \<equiv> [(''id'', JString ''fip-1''), (''floating_network_id'', JString ''ext''),
    (''floating_ip_address'', JString ''8.8.8.8''), (''status'', JString ''DOWN'')]"

interpretation subnets: crud_store "''/api/v3/network/subnet''" "''subnet''" "''subnet_id''" "''sub-x''"
  subnet_template mk_subnets "\<lambda>st m. m\<lparr>mk_subnets := st\<rparr>"
  by unfold_locales (simp_all add: routes called_def put_all_simps split: prod.split)

interpretation ports: crud_store "''/api/v3/network/port''" "''port''" "''port_id''" "''port-1''"
  port_template mk_ports "\<lambda>st m. m\<lparr>mk_ports := st\<rparr>"
  by unfold_locales (simp_all add: routes called_def put_all_simps split: prod.split)

interpretation routers: crud_store "''/api/v3/network/router''" "''router''" "''router_id''" "''rtr-x''"
  router_template
  mk_routers "\<lambda>st m. m\<lparr>mk_routers := st\<rparr>"
  by unfold_locales (simp_all add: routes called_def put_all_simps split: prod.split)

interpretation sgs: crud_store "''/api/v3/network/security-group''" "''security_group''" "''security_group_id''" "''sg-1''"
  group_template
  mk_sgs "\<lambda>st m. m\<lparr>mk_sgs := st\<rparr>"
  by unfold_locales (simp_all add: routes called_def put_all_simps split: prod.split)

interpretation rules: crud_store "''/api/v3/network/security-group-rule''" "''security_group_rule''"
  "''security_group_rule_id''" "''rule-1''"
  rule_template mk_sgRules "\<lambda>st m. m\<lparr>mk_sgRules := st\<rparr>"
  by unfold_locales (simp_all add: routes called_def put_all_simps split: prod.split)

interpretation fips: crud_store "''/api/v3/network/floating-ip''" "''floatingip''" "''floating_ip_id''" "''fip-1''"
  address_template mk_fips "\<lambda>st m. m\<lparr>mk_fips := st\<rparr>"
  by unfold_locales (simp_all add: routes called_def put_all_simps split: prod.split)

text \<open>\<open>input\<close> resolves to the project \<open>p\<close> and the zone \<open>z\<close>, both fit for an identifier.\<close>

definition resolves :: "PConfig \<Rightarrow> string \<Rightarrow> string \<Rightarrow> string \<Rightarrow> string \<Rightarrow> bool" where
  "resolves cfg project az p z \<longleftrightarrow>
     ResolveScope cfg project az = Inr (p, z) \<and> CHR ''/'' \<notin> set p \<and> CHR ''/'' \<notin> set z"

lemma resolves_import:
  assumes "resolves cfg project az p z" and "CHR ''/'' \<notin> set i"
  shows "ResolveScope cfg project az = Inr (p, z)" "p \<noteq> ''''" "z \<noteq> ''''"
    "ResolveImport cfg (ScopedID z p i) '''' '''' = Inr (z, p, i)" "ResolveImport cfg (ScopedID z p i) p z = Inr (z, p, i)"
  using assms import_own [of cfg project az p z i] by (auto simp: resolves_def ResolveScope_Inr)

section \<open>Routers\<close>

definition router_made :: "string \<Rightarrow> string \<Rightarrow> RouterArgs \<Rightarrow> RouterState" where
  "router_made p z input = \<lparr>rts_Args = input\<lparr>rta_ProjectID := p, rta_AvailabilityZone := z\<rparr>, rts_Status = ''ACTIVE''\<rparr>"

lemma router_decoded:
  assumes "n \<noteq> ''''"
  shows "decodes dec_NRouter zero_NRouter (put_all (omit_string ''name'' n @ omit_string ''description'' d @
        omit_bool_ptr ''admin_state_up'' a) router_template)
    \<lparr>nrt_ID = ''rtr-x'', nrt_Name = n, nrt_Description = d, nrt_Status = ''ACTIVE'', nrt_AdminStateUp = a\<rparr>"
  using assms by (simp add: dec_NRouter_def put_all_given decoding zero_NRouter_def)

lemma Router_lives:
  assumes "resolves cfg (rta_ProjectID input) (rta_AvailabilityZone input) p z" and "rta_Name input \<noteq> ''''" and "mk_FailNext m = []"
  shows "lives (Router_Create mock_Env cfg mock_Context name input False) (Router_Read mock_Env cfg mock_Context)
    (Router_Delete mock_Env cfg mock_Context) zero_RouterArgs (RouterState_of zero_RouterArgs) (ScopedID z p ''rtr-x'')
    (router_made p z input) (rts_Args (router_made p z input)) (router_made p z input) m"
proof -
  note scope = resolves_import [OF assms(1), of "''rtr-x''", simplified]
  note decoded = router_decoded [OF assms(2), of "rta_Description input" "rta_AdminStateUp input"]
  show ?thesis
    by (rule routers.life [OF assms(3)],
        simp add: assms(3) Router_Create_def nobus_CreateRouter_def json_RouterWrite_def RouterState_of_def router_made_def fresh_omit scope
          routers.created [OF _ _ decoded] Let_def)
      (simp_all add: Router_Read_def Router_Delete_def nobus_GetRouter_def nobus_DeleteRouter_def RouterState_of_def router_made_def
        zero_RouterArgs_def Let_def scope routers.got [OF _ _ decoded] routers.missed routers.deleted forgive_NotFound_def)
qed

lemma Router_life:
  assumes "ResolveScope cfg (rta_ProjectID input) (rta_AvailabilityZone input) = Inr (p, z)"
    and "CHR ''/'' \<notin> set p" and "CHR ''/'' \<notin> set z" and "rta_Name input \<noteq> ''''" and "mk_FailNext m = []"
  shows "\<exists>rid st m1 m2 m3 m4 m5.
    Router_Create mock_Env cfg mock_Context name input False m = ((rid, st, None), m1) \<and>
    rts_Args st = input\<lparr>rta_ProjectID := p, rta_AvailabilityZone := z\<rparr> \<and>
    Router_Read mock_Env cfg mock_Context rid zero_RouterArgs (RouterState_of zero_RouterArgs) m1 =
      ((rid, rts_Args st, st, None), m2) \<and>
    Router_Delete mock_Env cfg mock_Context rid st m2 = (None, m3) \<and>
    Router_Read mock_Env cfg mock_Context rid zero_RouterArgs st m3 =
      (('''', zero_RouterArgs, RouterState_of zero_RouterArgs, None), m4) \<and>
    Router_Delete mock_Env cfg mock_Context rid st m4 = (None, m5)"
proof -
  have "rts_Args (router_made p z input) = input\<lparr>rta_ProjectID := p, rta_AvailabilityZone := z\<rparr>"
    by (simp add: router_made_def)
  with Router_lives [of cfg input p z m name] assms show ?thesis unfolding lives_def resolves_def by metis
qed

section \<open>Subnets\<close>

text \<open>The API names a subnet that is given no name; an unset version is 4.\<close>

definition subnet_made :: "string \<Rightarrow> string \<Rightarrow> SubnetArgs \<Rightarrow> SubnetState" where
  "subnet_made p z input = \<lparr>sbs_Args = input\<lparr>sba_ProjectID := p, sba_AvailabilityZone := z,
     sba_NetworkID := BareResourceID (sba_NetworkID input),
     sba_IPVersion := (if sba_IPVersion input = 0 then 4 else sba_IPVersion input),
     sba_Name := (if sba_Name input = '''' then ''s'' else sba_Name input)\<rparr>\<rparr>"

lemma subnet_decoded:
  assumes "int64_ok v"
  shows "decodes dec_NSubnet zero_NSubnet
    (put_all ((''network_id'', JString i) # (''cidr'', JString c) # (''ip_version'', JInt v) # omit_string ''name'' n @
        omit_string ''description'' d @ omit_string ''gateway_ip'' g @ omit_bool_ptr ''enable_dhcp'' e @
        omit_strings ''dns_nameservers'' ns) subnet_template)
    \<lparr>nsn_ID = ''sub-x'', nsn_Name = (if n = '''' then ''s'' else n), nsn_Description = d, nsn_NetworkID = i, nsn_CIDR = c,
      nsn_IPVersion = v, nsn_GatewayIP = g, nsn_EnableDHCP = e, nsn_DNSNameservers = ns\<rparr>"
proof (cases "n = ''''")
  case True
  then have "omit_string ''name'' n = []" by (simp add: omit_string_def)
  with assms True show ?thesis by (simp add: dec_NSubnet_def decoding zero_NSubnet_def)
next
  case False
  with assms show ?thesis by (simp add: dec_NSubnet_def put_all_given decoding zero_NSubnet_def)
qed

lemmas subnet_makes = Subnet_Create_def nobus_CreateSubnet_def json_SubnetCreate_def SubnetState_of_def subnet_made_def Let_def

lemmas subnet_reads = Subnet_Read_def Subnet_Delete_def nobus_GetSubnet_def nobus_DeleteSubnet_def SubnetState_of_def
  subnet_made_def zero_SubnetArgs_def Let_def forgive_NotFound_def

lemma Subnet_lives:
  assumes "resolves cfg (sba_ProjectID input) (sba_AvailabilityZone input) p z" and "int64_ok (sba_IPVersion input)"
    and "mk_FailNext m = []"
  shows "lives (Subnet_Create mock_Env cfg mock_Context name input False) (Subnet_Read mock_Env cfg mock_Context)
    (Subnet_Delete mock_Env cfg mock_Context) zero_SubnetArgs (SubnetState_of zero_SubnetArgs) (ScopedID z p ''sub-x'')
    (subnet_made p z input) (sbs_Args (subnet_made p z input)) (subnet_made p z input) m"
proof -
  note scope = resolves_import [OF assms(1), of "''sub-x''", simplified]
  have four: "int64_ok 4" by (simp add: int64_ok_def)
  note decoded = subnet_decoded [of _ "BareResourceID (sba_NetworkID input)" "sba_CIDR input" "sba_Name input"
      "sba_Description input" "sba_GatewayIP input" "sba_EnableDHCP input" "sba_DNSNameservers input"]
  show ?thesis
  proof (cases "sba_IPVersion input = 0")
    case True
    show ?thesis
      by (rule subnets.life [OF assms(3)], simp add: True assms(3) subnet_makes fresh_omit scope subnets.created [OF _ _ decoded [OF four]])
        (simp_all add: True subnet_reads scope subnets.got [OF _ _ decoded [OF four]] subnets.missed subnets.deleted)
  next
    case False
    show ?thesis
      by (rule subnets.life [OF assms(3)], simp add: False assms(3) subnet_makes fresh_omit scope subnets.created [OF _ _ decoded [OF assms(2)]])
        (simp_all add: False subnet_reads scope subnets.got [OF _ _ decoded [OF assms(2)]] subnets.missed subnets.deleted)
  qed
qed

section \<open>Ports\<close>

definition port_made :: "string \<Rightarrow> string \<Rightarrow> PortArgs \<Rightarrow> PortState" where
  "port_made p z input = \<lparr>pts_Args = input\<lparr>pta_ProjectID := p, pta_AvailabilityZone := z,
     pta_NetworkID := BareResourceID (pta_NetworkID input), pta_DeviceID := BareResourceID (pta_DeviceID input),
     pta_SecurityGroups := bareIDs (pta_SecurityGroups input)\<rparr>, pts_Status = ''ACTIVE'', pts_MACAddress = ''aa:bb''\<rparr>"

lemma port_decoded:
  "decodes dec_NPort zero_NPort
    (put_all ((''network_id'', JString i) # omit_string ''name'' n @ omit_string ''description'' d @
        omit_bool_ptr ''admin_state_up'' a @ omit_strings ''security_groups'' gs @ omit_string ''device_id'' v @
        omit_string ''device_owner'' w @ omit_bool_ptr ''port_security_enabled'' s) port_template)
    \<lparr>npt_ID = ''port-1'', npt_Name = n, npt_Description = d, npt_NetworkID = i, npt_Status = ''ACTIVE'', npt_AdminStateUp = a,
      npt_MACAddress = ''aa:bb'', npt_DeviceID = v, npt_DeviceOwner = w, npt_SecurityGroups = gs, npt_PortSecurityEnabled = s\<rparr>"
  by (simp add: dec_NPort_def decoding zero_NPort_def)

lemma Port_lives:
  assumes "resolves cfg (pta_ProjectID input) (pta_AvailabilityZone input) p z" and "mk_FailNext m = []"
  shows "lives (Port_Create mock_Env cfg mock_Context name input False) (Port_Read mock_Env cfg mock_Context)
    (Port_Delete mock_Env cfg mock_Context) zero_PortArgs (PortState_of zero_PortArgs) (ScopedID z p ''port-1'')
    (port_made p z input) (pts_Args (port_made p z input)) (port_made p z input) m"
proof -
  note scope = resolves_import [OF assms(1), of "''port-1''", simplified]
  note decoded = port_decoded [of "BareResourceID (pta_NetworkID input)" "pta_Name input" "pta_Description input"
      "pta_AdminStateUp input" "bareIDs (pta_SecurityGroups input)" "BareResourceID (pta_DeviceID input)"
      "pta_DeviceOwner input" "pta_PortSecurityEnabled input"]
  show ?thesis
    by (rule ports.life [OF assms(2)],
        simp add: assms(2) Port_Create_def nobus_CreatePort_def json_PortCreate_def PortState_of_def port_made_def
          fresh_omit scope ports.created [OF _ _ decoded] Let_def)
      (simp_all add: Port_Read_def Port_Delete_def nobus_GetPort_def nobus_DeletePort_def PortState_of_def
        port_made_def zero_PortArgs_def Let_def scope ports.got [OF _ _ decoded] ports.missed ports.deleted
        forgive_NotFound_def)
qed

section \<open>Security groups and their rules\<close>

definition group_made :: "string \<Rightarrow> string \<Rightarrow> SecurityGroupArgs \<Rightarrow> SecurityGroupState" where
  "group_made p z input = \<lparr>sgs_Args = input\<lparr>sga_ProjectID := p, sga_AvailabilityZone := z\<rparr>\<rparr>"

text \<open>The API gives a group without a description the one of its template, which creation does not report.\<close>

definition group_found :: "string \<Rightarrow> string \<Rightarrow> SecurityGroupArgs \<Rightarrow> SecurityGroupState" where
  "group_found p z input = \<lparr>sgs_Args = input\<lparr>sga_ProjectID := p, sga_AvailabilityZone := z,
     sga_Description := (if sga_Description input = '''' then ''d'' else sga_Description input)\<rparr>\<rparr>"

lemma group_decoded:
  assumes "n \<noteq> ''''"
  shows "decodes dec_NSecurityGroup zero_NSecurityGroup
    (put_all (omit_string ''name'' n @ omit_string ''description'' d) group_template)
    \<lparr>nsg_ID = ''sg-1'', nsg_Name = n, nsg_Description = (if d = '''' then ''d'' else d)\<rparr>"
proof (cases "d = ''''")
  case True
  then have "omit_string ''description'' d = []" by (simp add: omit_string_def)
  with assms True show ?thesis by (simp add: dec_NSecurityGroup_def put_all_given decoding zero_NSecurityGroup_def)
next
  case False
  with assms show ?thesis by (simp add: dec_NSecurityGroup_def put_all_given decoding zero_NSecurityGroup_def)
qed

lemma SecurityGroup_lives:
  assumes "resolves cfg (sga_ProjectID input) (sga_AvailabilityZone input) p z" and "sga_Name input \<noteq> ''''" and "mk_FailNext m = []"
  shows "lives (SecurityGroup_Create mock_Env cfg mock_Context name input False) (SecurityGroup_Read mock_Env cfg mock_Context)
    (SecurityGroup_Delete mock_Env cfg mock_Context) zero_SecurityGroupArgs (SecurityGroupState_of zero_SecurityGroupArgs)
    (ScopedID z p ''sg-1'') (group_made p z input) (sgs_Args (group_found p z input)) (group_found p z input) m"
proof -
  note scope = resolves_import [OF assms(1), of "''sg-1''", simplified]
  note decoded = group_decoded [OF assms(2), of "sga_Description input"]
  show ?thesis
    by (rule sgs.life [OF assms(3)],
        simp add: assms(3) SecurityGroup_Create_def nobus_CreateSecurityGroup_def json_SecurityGroupWrite_def
          SecurityGroupState_of_def group_made_def fresh_omit scope sgs.created [OF _ _ decoded] Let_def)
      (simp_all add: SecurityGroup_Read_def SecurityGroup_Delete_def nobus_GetSecurityGroup_def nobus_DeleteSecurityGroup_def
        SecurityGroupState_of_def group_found_def zero_SecurityGroupArgs_def Let_def scope sgs.got [OF _ _ decoded] sgs.missed
        sgs.deleted forgive_NotFound_def)
qed

definition rule_made :: "string \<Rightarrow> string \<Rightarrow> SecurityGroupRuleArgs \<Rightarrow> SecurityGroupRuleState" where
  "rule_made p z input = \<lparr>srs_Args = input\<lparr>sra_ProjectID := p, sra_AvailabilityZone := z,
     sra_SecurityGroupID := BareResourceID (sra_SecurityGroupID input),
     sra_RemoteGroupID := BareResourceID (sra_RemoteGroupID input),
     sra_Ethertype := (if sra_Ethertype input = '''' then ''IPv4'' else sra_Ethertype input)\<rparr>\<rparr>"

lemma rule_decoded:
  assumes "e \<noteq> ''''" and "\<forall>n \<in> set_option lo. int64_ok n" and "\<forall>n \<in> set_option hi. int64_ok n"
  shows "decodes dec_NSecurityGroupRule zero_NSecurityGroupRule
    (put_all ((''security_group_id'', JString g) # (''direction'', JString d) # omit_string ''ethertype'' e @
        omit_string ''protocol'' q @ omit_int_ptr ''port_range_min'' lo @ omit_int_ptr ''port_range_max'' hi @
        omit_string ''remote_ip_prefix'' i @ omit_string ''remote_group_id'' r @ omit_string ''description'' t) rule_template)
    \<lparr>nsr_ID = ''rule-1'', nsr_SecurityGroupID = g, nsr_Direction = d, nsr_Ethertype = e, nsr_Protocol = q,
      nsr_PortRangeMin = lo, nsr_PortRangeMax = hi, nsr_RemoteIPPrefix = i, nsr_RemoteGroupID = r, nsr_Description = t\<rparr>"
  using assms by (simp add: dec_NSecurityGroupRule_def put_all_given decoding zero_NSecurityGroupRule_def)

lemmas rule_makes = SecurityGroupRule_Create_def nobus_CreateSecurityGroupRule_def json_SecurityGroupRuleCreate_def
  SecurityGroupRuleState_of_def rule_made_def Let_def

lemmas rule_reads = SecurityGroupRule_Read_def SecurityGroupRule_Delete_def nobus_GetSecurityGroupRule_def
  nobus_DeleteSecurityGroupRule_def SecurityGroupRuleState_of_def rule_made_def zero_SecurityGroupRuleArgs_def Let_def
  forgive_NotFound_def

lemma SecurityGroupRule_lives:
  assumes "resolves cfg (sra_ProjectID input) (sra_AvailabilityZone input) p z"
    and "\<forall>n \<in> set_option (sra_PortRangeMin input) \<union> set_option (sra_PortRangeMax input). int64_ok n" and "mk_FailNext m = []"
  shows "lives (SecurityGroupRule_Create mock_Env cfg mock_Context name input False)
    (SecurityGroupRule_Read mock_Env cfg mock_Context) (SecurityGroupRule_Delete mock_Env cfg mock_Context)
    zero_SecurityGroupRuleArgs (SecurityGroupRuleState_of zero_SecurityGroupRuleArgs) (ScopedID z p ''rule-1'')
    (rule_made p z input) (srs_Args (rule_made p z input)) (rule_made p z input) m"
proof -
  note scope = resolves_import [OF assms(1), of "''rule-1''", simplified]
  have lo: "\<forall>n \<in> set_option (sra_PortRangeMin input). int64_ok n" and hi: "\<forall>n \<in> set_option (sra_PortRangeMax input). int64_ok n"
    using assms(2) by blast+
  note decoded = rule_decoded [OF _ lo hi, of _ "BareResourceID (sra_SecurityGroupID input)" "sra_Direction input"
      "sra_Protocol input" "sra_RemoteIPPrefix input" "BareResourceID (sra_RemoteGroupID input)" "sra_Description input"]
  show ?thesis
  proof (cases "sra_Ethertype input = ''''")
    case True
    have "''IPv4'' \<noteq> ''''" by simp
    note decoded = decoded [OF this]
    show ?thesis
      by (rule rules.life [OF assms(3)], simp add: True assms(3) rule_makes fresh_omit scope rules.created [OF _ _ decoded])
        (simp_all add: True rule_reads scope rules.got [OF _ _ decoded] rules.missed rules.deleted)
  next
    case False
    note decoded = decoded [OF False]
    show ?thesis
      by (rule rules.life [OF assms(3)], simp add: False assms(3) rule_makes fresh_omit scope rules.created [OF _ _ decoded])
        (simp_all add: False rule_reads scope rules.got [OF _ _ decoded] rules.missed rules.deleted)
  qed
qed

section \<open>Floating addresses\<close>

definition address_made :: "string \<Rightarrow> string \<Rightarrow> FloatingIpArgs \<Rightarrow> FloatingIpState" where
  "address_made p z input = \<lparr>fis_Args = input\<lparr>fia_ProjectID := p, fia_AvailabilityZone := z,
     fia_FloatingNetworkID := BareResourceID (fia_FloatingNetworkID input), fia_PortID := BareResourceID (fia_PortID input)\<rparr>,
     fis_FloatingIPAddress = ''8.8.8.8'', fis_Status = ''DOWN''\<rparr>"

lemma address_decoded:
  "decodes dec_NFloatingIP zero_NFloatingIP
    (put_all ((''floating_network_id'', JString i) # omit_string ''port_id'' q @ omit_string ''fixed_ip_address'' f @
        omit_string ''description'' d) address_template)
    \<lparr>nfl_ID = ''fip-1'', nfl_FloatingNetworkID = i, nfl_FloatingIPAddress = ''8.8.8.8'', nfl_PortID = q,
      nfl_FixedIPAddress = f, nfl_Status = ''DOWN'', nfl_Description = d\<rparr>"
  by (simp add: dec_NFloatingIP_def decoding zero_NFloatingIP_def)

lemma FloatingIp_lives:
  assumes "resolves cfg (fia_ProjectID input) (fia_AvailabilityZone input) p z" and "mk_FailNext m = []"
  shows "lives (FloatingIp_Create mock_Env cfg mock_Context name input False) (FloatingIp_Read mock_Env cfg mock_Context)
    (FloatingIp_Delete mock_Env cfg mock_Context) zero_FloatingIpArgs (FloatingIpState_of zero_FloatingIpArgs)
    (ScopedID z p ''fip-1'') (address_made p z input) (fis_Args (address_made p z input)) (address_made p z input) m"
proof -
  note scope = resolves_import [OF assms(1), of "''fip-1''", simplified]
  note decoded = address_decoded [of "BareResourceID (fia_FloatingNetworkID input)" "BareResourceID (fia_PortID input)"
      "fia_FixedIPAddress input" "fia_Description input"]
  show ?thesis
    by (rule fips.life [OF assms(2)],
        simp add: assms(2) FloatingIp_Create_def nobus_CreateFloatingIP_def json_FloatingIPCreate_def FloatingIpState_of_def
          address_made_def fresh_omit scope fips.created [OF _ _ decoded] Let_def)
      (simp_all add: FloatingIp_Read_def FloatingIp_Delete_def nobus_GetFloatingIP_def nobus_DeleteFloatingIP_def
        FloatingIpState_of_def address_made_def zero_FloatingIpArgs_def Let_def scope fips.got [OF _ _ decoded] fips.missed
        fips.deleted forgive_NotFound_def)
qed

section \<open>The life of every generic resource\<close>

text \<open>
  C28. The life of the six resources that the API serves alike.  Over any state of the API in which no
  failure is due, with inputs that resolve to one project and zone (without a slash), a name for the
  router and the security group, which \<open>Check\<close> requires, and numbers that fit a Go \<open>int\<close>: creating a
  subnet, a port, a router, a security group, a rule or a floating address returns the given inputs with
  the project, the zone, bare references and the defaults filled in; an import by the returned identifier,
  with no other knowledge, finds the same inputs and state, but for the description of a security group
  that was given none: creation returns it empty, and the import finds the one of the API's template;
  deleting succeeds, after that a read reports the resource as gone, and deleting it again succeeds.
\<close>

theorem network_resources_live:
  assumes "mk_FailNext m = []"
    and "resolves cfg (sba_ProjectID sn) (sba_AvailabilityZone sn) p z" and "int64_ok (sba_IPVersion sn)"
    and "resolves cfg (pta_ProjectID pt) (pta_AvailabilityZone pt) p z"
    and "resolves cfg (rta_ProjectID rt) (rta_AvailabilityZone rt) p z" and "rta_Name rt \<noteq> ''''"
    and "resolves cfg (sga_ProjectID sg) (sga_AvailabilityZone sg) p z" and "sga_Name sg \<noteq> ''''"
    and "resolves cfg (sra_ProjectID sr) (sra_AvailabilityZone sr) p z"
    and "\<forall>n \<in> set_option (sra_PortRangeMin sr) \<union> set_option (sra_PortRangeMax sr). int64_ok n"
    and "resolves cfg (fia_ProjectID fl) (fia_AvailabilityZone fl) p z"
  shows
    "lives (Subnet_Create mock_Env cfg mock_Context name sn False) (Subnet_Read mock_Env cfg mock_Context)
       (Subnet_Delete mock_Env cfg mock_Context) zero_SubnetArgs (SubnetState_of zero_SubnetArgs) (ScopedID z p ''sub-x'')
       (subnet_made p z sn) (sbs_Args (subnet_made p z sn)) (subnet_made p z sn) m \<and>
     lives (Port_Create mock_Env cfg mock_Context name pt False) (Port_Read mock_Env cfg mock_Context)
       (Port_Delete mock_Env cfg mock_Context) zero_PortArgs (PortState_of zero_PortArgs) (ScopedID z p ''port-1'')
       (port_made p z pt) (pts_Args (port_made p z pt)) (port_made p z pt) m \<and>
     lives (Router_Create mock_Env cfg mock_Context name rt False) (Router_Read mock_Env cfg mock_Context)
       (Router_Delete mock_Env cfg mock_Context) zero_RouterArgs (RouterState_of zero_RouterArgs) (ScopedID z p ''rtr-x'')
       (router_made p z rt) (rts_Args (router_made p z rt)) (router_made p z rt) m \<and>
     lives (SecurityGroup_Create mock_Env cfg mock_Context name sg False) (SecurityGroup_Read mock_Env cfg mock_Context)
       (SecurityGroup_Delete mock_Env cfg mock_Context) zero_SecurityGroupArgs (SecurityGroupState_of zero_SecurityGroupArgs)
       (ScopedID z p ''sg-1'') (group_made p z sg) (sgs_Args (group_found p z sg)) (group_found p z sg) m \<and>
     lives (SecurityGroupRule_Create mock_Env cfg mock_Context name sr False)
       (SecurityGroupRule_Read mock_Env cfg mock_Context) (SecurityGroupRule_Delete mock_Env cfg mock_Context)
       zero_SecurityGroupRuleArgs (SecurityGroupRuleState_of zero_SecurityGroupRuleArgs) (ScopedID z p ''rule-1'')
       (rule_made p z sr) (srs_Args (rule_made p z sr)) (rule_made p z sr) m \<and>
     lives (FloatingIp_Create mock_Env cfg mock_Context name fl False) (FloatingIp_Read mock_Env cfg mock_Context)
       (FloatingIp_Delete mock_Env cfg mock_Context) zero_FloatingIpArgs (FloatingIpState_of zero_FloatingIpArgs)
       (ScopedID z p ''fip-1'') (address_made p z fl) (fis_Args (address_made p z fl)) (address_made p z fl) m"
  using Subnet_lives [OF assms(2,3,1)] Port_lives [OF assms(4,1)] Router_lives [OF assms(5,6,1)]
    SecurityGroup_lives [OF assms(7,8,1)] SecurityGroupRule_lives [OF assms(9,10,1)] FloatingIp_lives [OF assms(11,1)]
  by blast

lemma network_resources_live_witness:
  "lives (Port_Create mock_Env sample_PConfig mock_Context ''a'' zero_PortArgs False) (Port_Read mock_Env sample_PConfig mock_Context)
     (Port_Delete mock_Env sample_PConfig mock_Context) zero_PortArgs (PortState_of zero_PortArgs) ''ng1/p1/port-1''
     (port_made ''p1'' ''ng1'' zero_PortArgs) (pts_Args (port_made ''p1'' ''ng1'' zero_PortArgs))
     (port_made ''p1'' ''ng1'' zero_PortArgs) mock_New \<and>
   lives (SecurityGroup_Create mock_Env sample_PConfig mock_Context ''a'' (zero_SecurityGroupArgs\<lparr>sga_Name := ''g''\<rparr>) False)
     (SecurityGroup_Read mock_Env sample_PConfig mock_Context) (SecurityGroup_Delete mock_Env sample_PConfig mock_Context)
     zero_SecurityGroupArgs (SecurityGroupState_of zero_SecurityGroupArgs) ''ng1/p1/sg-1''
     (group_made ''p1'' ''ng1'' (zero_SecurityGroupArgs\<lparr>sga_Name := ''g''\<rparr>))
     (sgs_Args (group_found ''p1'' ''ng1'' (zero_SecurityGroupArgs\<lparr>sga_Name := ''g''\<rparr>)))
     (group_found ''p1'' ''ng1'' (zero_SecurityGroupArgs\<lparr>sga_Name := ''g''\<rparr>)) mock_New"
proof -
  have scope: "resolves sample_PConfig '''' '''' ''p1'' ''ng1''" using sample_scope by (simp add: resolves_def)
  have rid: "ScopedID ''ng1'' ''p1'' ''port-1'' = ''ng1/p1/port-1''" "ScopedID ''ng1'' ''p1'' ''sg-1'' = ''ng1/p1/sg-1''"
    by (simp_all add: ScopedID_def)
  from network_resources_live [where m = mock_New and cfg = sample_PConfig and p = "''p1''" and z = "''ng1''" and name = "''a''"
      and sn = zero_SubnetArgs and pt = zero_PortArgs and rt = "zero_RouterArgs\<lparr>rta_Name := ''r''\<rparr>"
      and sg = "zero_SecurityGroupArgs\<lparr>sga_Name := ''g''\<rparr>"
      and sr = zero_SecurityGroupRuleArgs and fl = zero_FloatingIpArgs] scope
  show ?thesis
    by (simp add: rid mock_New_def zero_SubnetArgs_def zero_PortArgs_def zero_RouterArgs_def zero_SecurityGroupArgs_def
        zero_SecurityGroupRuleArgs_def zero_FloatingIpArgs_def int64_ok_def)
qed

end
