(* ===== verification/MockVolumes.thy ===== *)
theory MockVolumes
  imports PulumiMock
begin

text \<open>
  The life of an attachment against the in-memory API, over a volume that was seeded there.
\<close>

section \<open>The API with one volume\<close>

text \<open>The volume \<open>v\<close>, attached to the servers \<open>sids\<close>, which is none or one.\<close>

definition volume_item :: "string \<Rightarrow> string \<Rightarrow> string list \<Rightarrow> jmap" where
  "volume_item v st sids =
     [(''id'', JString v), (''status'', JString st),
      (''attachments'', JArray (map (\<lambda>i. JObject [(''server_id'', JString i), (''device'', JString ''/dev/vdb'')]) sids))]"

definition volume_answer :: "string \<Rightarrow> string \<Rightarrow> string list \<Rightarrow> string \<Rightarrow> NVolume" where
  "volume_answer v st sids z = zero_NVolume\<lparr>nv_ID := v, nv_Status := st, nv_AvailabilityZone := z,
     nv_Attachments := map (\<lambda>i. \<lparr>na_ServerID = i, na_Device = ''/dev/vdb''\<rparr>) sids\<rparr>"

definition one_volume :: "string \<Rightarrow> string \<Rightarrow> string list \<Rightarrow> Mock \<Rightarrow> bool" where
  "one_volume v st sids m \<longleftrightarrow> mk_FailNext m = [] \<and> mk_volumes m = [(v, volume_item v st sids)]"

lemma one_volume_called [simp]: "one_volume v st sids (called meth path m) = one_volume v st sids m"
  by (simp add: one_volume_def)

lemma seeded: "mk_FailNext m = [] \<Longrightarrow> mk_volumes m = [] \<Longrightarrow> one_volume v ''available'' [] (SeedVolume v [] m)"
  by (simp add: one_volume_def SeedVolume_def seed_def any_get_def volume_item_def)

lemma volume_decoded:
  "dec_NVolume (JObject (volume_item v st sids)) zero_NVolume = (volume_answer v st sids '''', True)"
proof -
  have "dec_list dec_NVolumeAttachment zero_NVolumeAttachment
      (JArray (map (\<lambda>i. JObject [(''server_id'', JString i), (''device'', JString ''/dev/vdb'')]) sids)) [] =
    (map (\<lambda>i. \<lparr>na_ServerID = i, na_Device = ''/dev/vdb''\<rparr>) sids, True)"
    by (simp add: list_all_iff dec_NVolumeAttachment_def match_field_def field_def zero_NVolumeAttachment_def)
  then show ?thesis
    by (simp add: dec_NVolume_def volume_item_def volume_answer_def match_field_def field_def zero_NVolume_def
        del: dec_list.simps)
qed

lemma volume_got:
  assumes "one_volume v st sids m" and "z \<noteq> ''''"
  shows "nobus_GetVolume mock_Env c ctx p z v m = (Inr (volume_answer v st sids z), called ''GET'' ''/api/v3/volume/list'' m)"
proof -
  have fails: "mk_FailNext m = []" and store: "mk_volumes m = [(v, volume_item v st sids)]"
    using assms(1) by (simp_all add: one_volume_def)
  let ?items = "JObject [(''items'', JArray [JObject (volume_item v st sids)])]"
  have "first_route mock_routes ''GET'' ''/api/v3/volume/list'' (Some (projectQuery p z)) None
      (called ''GET'' ''/api/v3/volume/list'' m) =
    (WriteJSON 200 (OkData ?items), called ''GET'' ''/api/v3/volume/list'' m)"
    by (simp add: routes items_of_def store)
  then have "nobus_doOnce mock_Env c ctx ''GET'' ''/api/v3/volume/list'' (Some (projectQuery p z)) None
      (decodeJSON listResponse None) m = (Inr (Some ?items), called ''GET'' ''/api/v3/volume/list'' m)"
    by (simp add: mock_doOnce [OF fails] WriteJSON_def decodeJSON_def OkData_def listResponse_def match_field_def dec_raw_def)
  note sent = do_first_success [OF this]
  have "decodeList dec_NVolume zero_NVolume (Some ?items) = Inr [volume_answer v st sids '''']"
    by (simp add: decodeList_def unmarshal_list_def match_field_def dec_raw_def volume_decoded)
  with sent have "nobus_ListVolumes mock_Env c ctx p z m =
      (Inr [volume_answer v st sids ''''], called ''GET'' ''/api/v3/volume/list'' m)"
    by (simp add: nobus_ListVolumes_def nobus_list_def)
  with assms(2) show ?thesis by (simp add: nobus_GetVolume_def volume_answer_def zero_NVolume_def)
qed

lemma volume_attached:
  assumes "one_volume v st sids m"
  shows "\<exists>m1. nobus_AttachVolume mock_Env c ctx
      \<lparr>at_ProjectID = p, at_AvailabilityZone = z, at_ServerID = i, at_VolumeID = v\<rparr> m = (Inr (), m1) \<and>
    one_volume v ''in-use'' [i] m1"
proof -
  let ?req = "\<lparr>at_ProjectID = p, at_AvailabilityZone = z, at_ServerID = i, at_VolumeID = v\<rparr>"
  let ?m1 = "(called ''POST'' ''/api/v3/volume/attach'' m)\<lparr>mk_volumes := [(v, volume_item v ''in-use'' [i])]\<rparr>"
  have fails: "mk_FailNext m = []" and store: "mk_volumes m = [(v, volume_item v st sids)]"
    using assms(1) by (simp_all add: one_volume_def)
  have "first_route mock_routes ''POST'' ''/api/v3/volume/attach'' None (Some (json_AttachVolumeReq ?req))
      (called ''POST'' ''/api/v3/volume/attach'' m) = (ok_message, ?m1)"
    by (simp add: routes bodies json_AttachVolumeReq_def change_item_def store volume_item_def Let_def)
  then have "nobus_AttachVolume mock_Env c ctx ?req m = (Inr (), ?m1)"
    unfolding nobus_AttachVolume_def ok_message_def WriteJSON_def by (rule mock_discard [OF fails]) simp
  moreover have "one_volume v ''in-use'' [i] ?m1" using fails by (simp add: one_volume_def)
  ultimately show ?thesis by blast
qed

lemma volume_detached:
  assumes "one_volume v st sids m"
  shows "\<exists>m1. nobus_DetachVolume mock_Env c ctx
      \<lparr>at_ProjectID = p, at_AvailabilityZone = z, at_ServerID = i, at_VolumeID = v\<rparr> m = (Inr (), m1) \<and>
    one_volume v ''available'' [] m1"
proof -
  let ?req = "\<lparr>at_ProjectID = p, at_AvailabilityZone = z, at_ServerID = i, at_VolumeID = v\<rparr>"
  let ?m1 = "(called ''POST'' ''/api/v3/volume/detach'' m)\<lparr>mk_volumes := [(v, volume_item v ''available'' [])]\<rparr>"
  have fails: "mk_FailNext m = []" and store: "mk_volumes m = [(v, volume_item v st sids)]"
    using assms(1) by (simp_all add: one_volume_def)
  have "first_route mock_routes ''POST'' ''/api/v3/volume/detach'' None (Some (json_AttachVolumeReq ?req))
      (called ''POST'' ''/api/v3/volume/detach'' m) = (ok_message, ?m1)"
    by (simp add: routes bodies json_AttachVolumeReq_def change_item_def store volume_item_def Let_def)
  then have "nobus_DetachVolume mock_Env c ctx ?req m = (Inr (), ?m1)"
    unfolding nobus_DetachVolume_def ok_message_def WriteJSON_def by (rule mock_discard [OF fails]) simp
  moreover have "one_volume v ''available'' [] ?m1" using fails by (simp add: one_volume_def)
  ultimately show ?thesis by blast
qed

section \<open>The life of an attachment\<close>

lemma volume_waited:
  assumes "one_volume v st [i] m" and "z \<noteq> ''''"
  shows "WaitVolumeAttached mock_Env c mock_Context p z v i m = (None, ''/dev/vdb'', called ''GET'' ''/api/v3/volume/list'' m)"
proof -
  have "attached_closure mock_Env c p z v i mock_Context '''' m =
      (Inr True, ''/dev/vdb'', called ''GET'' ''/api/v3/volume/list'' m)"
    by (simp add: attached_closure_def volume_got [OF assms] volume_answer_def)
  then show ?thesis
    unfolding WaitVolumeAttached_def waitUntil_def mock_Env_simps by (subst waitUntil_loop.simps) simp
qed

lemma attachment_read:
  assumes "one_volume v st sids m" and "z \<noteq> ''''" and "p \<noteq> ''''"
    and "ResolveImport cfg rid project az = Inr (z, p, resource)"
    and "project = cmp_Or [ta_ProjectID (ts_Args state), ta_ProjectID inputs]"
    and "az = cmp_Or [ta_AvailabilityZone (ts_Args state), ta_AvailabilityZone inputs]"
    and "attachment_ids (ts_Args state) inputs resource = (v, i)"
  shows "VolumeAttachment_Read mock_Env cfg mock_Context rid inputs state m =
    ((if i \<in> set sids
      then (ScopedID z p (v @ '':'' @ i), \<lparr>ta_VolumeID = v, ta_InstanceID = i, ta_AvailabilityZone = z, ta_ProjectID = p\<rparr>,
        \<lparr>ts_Args = \<lparr>ta_VolumeID = v, ta_InstanceID = i, ta_AvailabilityZone = z, ta_ProjectID = p\<rparr>, ts_Device = ''/dev/vdb''\<rparr>, None)
      else ('''', zero_VolumeAttachmentArgs, zero_VolumeAttachmentState, None)), called ''GET'' ''/api/v3/volume/list'' m)"
proof -
  have found: "find (\<lambda>a. na_ServerID a = i) (map (\<lambda>i. \<lparr>na_ServerID = i, na_Device = ''/dev/vdb''\<rparr>) sids) =
      (if i \<in> set sids then Some \<lparr>na_ServerID = i, na_Device = ''/dev/vdb''\<rparr> else None)"
    by (induction sids) auto
  have got: "nv_Attachments (volume_answer v st sids z) = map (\<lambda>i. \<lparr>na_ServerID = i, na_Device = ''/dev/vdb''\<rparr>) sids"
    by (simp add: volume_answer_def)
  show ?thesis
    using assms(4) unfolding VolumeAttachment_Read_def assms(5,6)
    by (simp add: assms(7) volume_got [OF assms(1,2)] got found Let_def del: cmp_Or.simps)
qed

text \<open>
  C27. The life of an attachment.  Over the API with one volume, attaching it to a server returns the
  device and an identifier under which an import, with no other knowledge, finds the same inputs and the
  same state; deleting the attachment succeeds and frees the volume, and after that a read reports the
  attachment as gone.
\<close>

theorem VolumeAttachment_life:
  assumes "ResolveScope cfg (ta_ProjectID input) (ta_AvailabilityZone input) = Inr (p, z)"
    and "CHR ''/'' \<notin> set p" and "CHR ''/'' \<notin> set z"
    and "v = BareResourceID (ta_VolumeID input)" and "i = BareResourceID (ta_InstanceID input)" and "v \<noteq> ''''" and "i \<noteq> ''''"
    and "CHR ''/'' \<notin> set (v @ i)" and "CHR '':'' \<notin> set v"
    and "one_volume v ''available'' [] m"
  shows "\<exists>rid st m1 m2 m3 m4.
    VolumeAttachment_Create mock_Env cfg mock_Context name input False m = ((rid, st, None), m1) \<and> ts_Device st = ''/dev/vdb'' \<and>
    VolumeAttachment_Read mock_Env cfg mock_Context rid zero_VolumeAttachmentArgs zero_VolumeAttachmentState m1 =
      ((rid, ts_Args st, st, None), m2) \<and>
    VolumeAttachment_Delete mock_Env cfg mock_Context rid st m2 = (None, m3) \<and> one_volume v ''available'' [] m3 \<and>
    VolumeAttachment_Read mock_Env cfg mock_Context rid zero_VolumeAttachmentArgs st m3 =
      (('''', zero_VolumeAttachmentArgs, zero_VolumeAttachmentState, None), m4)"
proof -
  let ?c = "pc_client cfg" and ?r = "v @ '':'' @ i" and ?get = "called ''GET'' ''/api/v3/volume/list''"
  let ?args = "\<lparr>ta_VolumeID = v, ta_InstanceID = i, ta_AvailabilityZone = z, ta_ProjectID = p\<rparr>"
  let ?st = "\<lparr>ts_Args = ?args, ts_Device = ''/dev/vdb''\<rparr>" and ?rid = "ScopedID z p (v @ '':'' @ i)"
  have ne: "p \<noteq> ''''" "z \<noteq> ''''" using assms(1) by (auto simp: ResolveScope_Inr)
  have "CHR ''/'' \<notin> set ?r" using assms(8) by simp
  note import = import_own [OF assms(1-3) this]
  have bare: "BareResourceID v = v" "BareResourceID i = i" "BareResourceID '''' = ''''"
    using assms(4,5) by simp_all (rule BareResourceID_bare, simp)
  have ids: "attachment_ids zero_VolumeAttachmentArgs zero_VolumeAttachmentArgs ?r = (v, i)"
    "attachment_ids ?args zero_VolumeAttachmentArgs ?r = (v, i)"
    using assms(6,7,9) bare by (simp_all add: attachment_ids_def zero_VolumeAttachmentArgs_def Let_def)
  obtain a1 where attach: "nobus_AttachVolume mock_Env ?c mock_Context
      \<lparr>at_ProjectID = p, at_AvailabilityZone = z, at_ServerID = i, at_VolumeID = v\<rparr> m = (Inr (), a1)"
    and one1: "one_volume v ''in-use'' [i] a1" using volume_attached [OF assms(10)] by blast
  have 1: "VolumeAttachment_Create mock_Env cfg mock_Context name input False m = ((?rid, ?st, None), ?get a1)"
    using assms(1) attach volume_waited [OF one1 ne(2), of ?c p]
    by (simp add: VolumeAttachment_Create_def Let_def assms(4,5) [symmetric])
  have one2: "one_volume v ''in-use'' [i] (?get a1)" using one1 by simp
  have 2: "VolumeAttachment_Read mock_Env cfg mock_Context ?rid zero_VolumeAttachmentArgs zero_VolumeAttachmentState (?get a1) =
      ((?rid, ts_Args ?st, ?st, None), ?get (?get a1))"
    using ids(1)
    by (subst attachment_read [OF one2 ne(2,1) import(1), where i = i])
      (simp_all add: zero_VolumeAttachmentState_def zero_VolumeAttachmentArgs_def)
  have one3: "one_volume v ''in-use'' [i] (?get (?get a1))" using one1 by simp
  obtain a3 where detach: "nobus_DetachVolume mock_Env ?c mock_Context
      \<lparr>at_ProjectID = p, at_AvailabilityZone = z, at_ServerID = i, at_VolumeID = v\<rparr> (?get (?get a1)) = (Inr (), a3)"
    and one4: "one_volume v ''available'' [] a3" using volume_detached [OF one3] by blast
  have 3: "VolumeAttachment_Delete mock_Env cfg mock_Context ?rid ?st (?get (?get a1)) = (None, a3)"
    using import(2) detach by (simp add: VolumeAttachment_Delete_def bare forgive_NotFound_def)
  have 4: "VolumeAttachment_Read mock_Env cfg mock_Context ?rid zero_VolumeAttachmentArgs ?st a3 =
      (('''', zero_VolumeAttachmentArgs, zero_VolumeAttachmentState, None), ?get a3)"
    using ids(2) ne by (subst attachment_read [OF one4 ne(2,1) import(2), where i = i]) simp_all
  have d: "ts_Device ?st = ''/dev/vdb''" by simp
  show ?thesis by (intro exI conjI, rule 1, rule d, rule 2, rule 3, rule one4, rule 4)
qed

lemma VolumeAttachment_life_witness:
  "\<exists>rid st m1. VolumeAttachment_Create mock_Env sample_PConfig mock_Context ''a'' sample_AttachmentArgs False
       (SeedVolume ''vol-1'' [] mock_New) = ((rid, st, None), m1) \<and> ts_Device st = ''/dev/vdb''"
proof -
  have args: "ResolveScope sample_PConfig (ta_ProjectID sample_AttachmentArgs) (ta_AvailabilityZone sample_AttachmentArgs)
      = Inr (''p1'', ''ng1'')"
    using sample_scope by (simp add: sample_AttachmentArgs_def zero_VolumeAttachmentArgs_def)
  have ids: "''vol-1'' = BareResourceID (ta_VolumeID sample_AttachmentArgs)" "''i-1'' = BareResourceID (ta_InstanceID sample_AttachmentArgs)"
    using BareResourceID_bare [of "''vol-1''"] BareResourceID_ScopedID [of "''ng1''" "''p1''" "''i-1''"]
    by (simp_all add: sample_AttachmentArgs_def zero_VolumeAttachmentArgs_def ScopedID_def)
  have "one_volume ''vol-1'' ''available'' [] (SeedVolume ''vol-1'' [] mock_New)"
    by (rule seeded) (simp_all add: mock_New_def)
  from VolumeAttachment_life [OF args _ _ ids _ _ _ _ this, of "''a''"] show ?thesis by auto
qed

end
