(* ===== verification/MockInstances.thy ===== *)
theory MockInstances
  imports PulumiMock
begin

text \<open>
  The life of an instance against the in-memory API: creation, an update with a resize and its
  confirmation, and deletion.
\<close>

section \<open>The API with the instance\<close>

text \<open>The instance as the API holds it: a resize adds the flavor.\<close>

definition inst_item :: "string \<Rightarrow> string \<Rightarrow> string \<Rightarrow> string option \<Rightarrow> jmap" where
  "inst_item n k st flavor =
     [(''id'', JString ''srv-1''), (''name'', JString n), (''status'', JString st), (''key_name'', JString k),
      (''created'', JString ''now''), (''updated'', JString ''now''), (''addresses'', mock_addresses)] @
     (case flavor of None \<Rightarrow> [] | Some f \<Rightarrow> [(''flavor'', JString f)])"

definition inst_addresses :: Addresses where
  "inst_addresses = [(''net'',
     [\<lparr>ae_Addr = ''10.0.0.5'', ae_Version = 4, ae_Type = ''fixed''\<rparr>, \<lparr>ae_Addr = ''1.2.3.4'', ae_Version = 4, ae_Type = ''floating''\<rparr>])]"

definition inst_answer :: "string \<Rightarrow> string \<Rightarrow> string \<Rightarrow> NInstance" where
  "inst_answer n k st = zero_NInstance\<lparr>ni_ID := ''srv-1'', ni_Name := n, ni_Status := st, ni_KeyName := k,
     ni_Created := ''now'', ni_Updated := ''now'', ni_Addresses := inst_addresses\<rparr>"

definition holds_instance :: "string \<Rightarrow> string \<Rightarrow> string \<Rightarrow> string option \<Rightarrow> Mock \<Rightarrow> bool" where
  "holds_instance n k st flavor m \<longleftrightarrow>
     mk_FailNext m = [] \<and> map_of (mk_instances m) ''srv-1'' = Some (inst_item n k st flavor)"

lemma called_holds [simp]: "holds_instance n k st flavor (called meth path m) = holds_instance n k st flavor m"
  by (simp add: holds_instance_def)

lemma addresses_decoded: "UnmarshalAddresses mock_addresses = Inr inst_addresses"
  by (simp add: UnmarshalAddresses_def mock_addresses_def decodeAddressEntries_def dec_AddressEntry_def match_field_def
      field_def zero_AddressEntry_def inst_addresses_def int64_ok_def)

text \<open>The names of the members in lower case; none is the flavor's.\<close>

lemma lower_names:
  "strings_ToLower ''id'' = ''id''" "strings_ToLower ''name'' = ''name''" "strings_ToLower ''status'' = ''status''"
  "strings_ToLower ''description'' = ''description''" "strings_ToLower ''key_name'' = ''key_name''"
  "strings_ToLower ''created'' = ''created''" "strings_ToLower ''updated'' = ''updated''"
  "strings_ToLower ''addresses'' = ''addresses''" "strings_ToLower ''flavor'' = ''flavor''"
  by (simp_all add: strings_ToLower_def ascii_lower_def)

lemma inst_decoded:
  "decodeJSON (dec_response dec_NInstance) (zero_response zero_NInstance)
     (BodyJSON (OkData (JObject (inst_item n k st flavor)))) =
   Inr \<lparr>rp_Status = True, rp_Data = inst_answer n k st\<rparr>"
  by (cases flavor; simp add: decodeJSON_def OkData_def inst_item_def inst_answer_def dec_response_def dec_NInstance_def
      match_field_def field_def zero_response_def zero_NInstance_def dec_Addresses_def addresses_decoded lower_names)

text \<open>Reading a member of a request's body: the last one of its name.\<close>

lemma map_of_put_all: "map_of (put_all ms m) = map_of m ++ map_of (rev ms)"
  by (induction ms arbitrary: m) (auto simp: put_all_def update_conv' split: prod.splits)

lemma any_get_body: "any_get (body_map (Some (JObject ms))) k = (case map_of (rev ms) k of Some v \<Rightarrow> v | None \<Rightarrow> JNull)"
  by (simp add: any_get_def body_map_def map_of_put_all)

lemma inst_created:
  assumes "mk_FailNext m = []"
  shows "\<exists>m1. nobus_CreateInstance mock_Env c ctx req m = (Inr (inst_answer (ci_Name req) (ci_KeyName req) ''ACTIVE''), m1) \<and>
    holds_instance (ci_Name req) (ci_KeyName req) ''ACTIVE'' None m1"
proof -
  let ?item = "inst_item (ci_Name req) (ci_KeyName req) ''ACTIVE'' None"
  let ?m1 = "(called ''POST'' ''/api/v3/instance'' m)\<lparr>mk_instances := AList.update ''srv-1'' ?item (mk_instances m)\<rparr>"
  have body: "any_get (body_map (Some (json_CreateInstanceReq req))) ''name'' = JString (ci_Name req)"
    "any_get (body_map (Some (json_CreateInstanceReq req))) ''key_name'' = JString (ci_KeyName req)"
    by (simp_all add: any_get_body json_CreateInstanceReq_def omit_int_ptr_def omit_strings_def omit_string_def map_add_def
        split: option.split)
  have "first_route mock_routes ''POST'' ''/api/v3/instance'' None (Some (json_CreateInstanceReq req))
      (called ''POST'' ''/api/v3/instance'' m) = (WriteJSON 200 (OkData (JObject ?item)), ?m1)"
    by (simp add: routes body inst_item_def Let_def)
  from mock_object [OF assms this inst_decoded]
  have "nobus_CreateInstance mock_Env c ctx req m = (Inr (inst_answer (ci_Name req) (ci_KeyName req) ''ACTIVE''), ?m1)"
    by (simp add: nobus_CreateInstance_def)
  moreover have "holds_instance (ci_Name req) (ci_KeyName req) ''ACTIVE'' None ?m1"
    using assms by (simp add: holds_instance_def update_conv')
  ultimately show ?thesis by blast
qed

lemma inst_got:
  assumes "holds_instance n k st flavor m"
  shows "nobus_GetInstance mock_Env c ctx p z ''srv-1'' m = (Inr (inst_answer n k st), called ''GET'' ''/api/v3/instance'' m)"
proof -
  have "first_route mock_routes ''GET'' ''/api/v3/instance''
      (Some (query_Set ''server_id'' ''srv-1'' (projectQuery p z))) None (called ''GET'' ''/api/v3/instance'' m) =
    (WriteJSON 200 (OkData (JObject (inst_item n k st flavor))), called ''GET'' ''/api/v3/instance'' m)"
    using assms by (simp add: routes get_item_def holds_instance_def)
  from mock_object [OF _ this inst_decoded] assms show ?thesis
    by (simp add: nobus_GetInstance_def holds_instance_def inst_answer_def)
qed

lemma inst_missing:
  assumes "mk_FailNext m = []" and "map_of (mk_instances m) ''srv-1'' = None"
  shows "\<exists>t. nobus_GetInstance mock_Env c ctx p z ''srv-1'' m = (Inl (missing t), called ''GET'' ''/api/v3/instance'' m)"
proof -
  have "first_route mock_routes ''GET'' ''/api/v3/instance''
      (Some (query_Set ''server_id'' ''srv-1'' (projectQuery p z))) None (called ''GET'' ''/api/v3/instance'' m) =
    (WriteJSON 404 (message_body ''not found''), called ''GET'' ''/api/v3/instance'' m)"
    using assms(2) by (simp add: routes get_item_def)
  from mock_object_missing [OF assms(1) this, of c ctx "dec_response dec_NInstance" zero_NInstance]
  show ?thesis by (auto simp: nobus_GetInstance_def)
qed

lemma inst_deleted:
  assumes "mk_FailNext m = []"
  shows "\<exists>m1. nobus_DeleteInstance mock_Env c ctx p z ''srv-1'' v m = (Inr (), m1) \<and>
    mk_FailNext m1 = [] \<and> map_of (mk_instances m1) ''srv-1'' = None"
proof -
  let ?q = "if v then query_Set ''delete_volume'' ''true'' (query_Set ''server_id'' ''srv-1'' (projectQuery p z))
     else query_Set ''server_id'' ''srv-1'' (projectQuery p z)"
  let ?m1 = "(called ''DELETE'' ''/api/v3/instance'' m)\<lparr>mk_instances := AList.delete ''srv-1'' (mk_instances m)\<rparr>"
  have "query_Get (Some ?q) ''server_id'' = ''srv-1''"
    by (simp add: query_Get_def query_Set_def update_conv')
  then have "first_route mock_routes ''DELETE'' ''/api/v3/instance'' (Some ?q) None (called ''DELETE'' ''/api/v3/instance'' m) =
      (no_content, ?m1)"
    by (simp add: routes del: if_split)
  then have "nobus_DeleteInstance mock_Env c ctx p z ''srv-1'' v m = (Inr (), ?m1)"
    unfolding nobus_DeleteInstance_def no_content_def Let_def by (rule mock_discard [OF assms]) simp
  moreover have "mk_FailNext ?m1 = []" "map_of (mk_instances ?m1) ''srv-1'' = None"
    using assms by (simp_all add: delete_conv')
  ultimately show ?thesis by blast
qed

section \<open>Actions\<close>

lemmas action_route = route_keypair_def route_instance_def

text \<open>An action on the instance changes its item, and succeeds.\<close>

lemma action_done:
  assumes "holds_instance n k st flavor m"
    and "route_instance ''POST'' (''/api/v3/instance/'' @ action) None (Some req) (called ''POST'' (''/api/v3/instance/'' @ action) m) =
      Some (ok_message, (called ''POST'' (''/api/v3/instance/'' @ action) m)\<lparr>mk_instances := change_item ''srv-1'' f (mk_instances m)\<rparr>)"
    and "f (inst_item n k st flavor) = inst_item n' k st' flavor'"
  shows "\<exists>m1. instance_action mock_Env c ctx action req m = (Inr (), m1) \<and> holds_instance n' k st' flavor' m1"
proof -
  have fails: "mk_FailNext m = []" using assms(1) by (simp add: holds_instance_def)
  let ?m1 = "(called ''POST'' (''/api/v3/instance/'' @ action) m)\<lparr>mk_instances := change_item ''srv-1'' f (mk_instances m)\<rparr>"
  have "first_route mock_routes ''POST'' (''/api/v3/instance/'' @ action) None (Some req)
      (called ''POST'' (''/api/v3/instance/'' @ action) m) = (ok_message, ?m1)"
    using assms(2) by (simp add: mock_routes_def route_keypair_def)
  then have "instance_action mock_Env c ctx action req m = (Inr (), ?m1)"
    unfolding instance_action_def ok_message_def WriteJSON_def by (rule mock_discard [OF fails]) simp
  moreover have "holds_instance n' k st' flavor' ?m1"
    using assms(1,3) by (simp add: holds_instance_def change_item_def update_conv')
  ultimately show ?thesis by blast
qed

lemma server_bodies:
  "string_or_empty (any_get (body_map (Some (server_request p z i []))) ''server_id'') = i"
  "string_or_empty (any_get (body_map (Some (server_request p z i [(k, v)]))) ''server_id'') = (if k = ''server_id'' then string_or_empty v else i)"
  by (simp_all add: bodies server_request_def update_conv')

lemma action_kept:
  assumes "holds_instance n k st flavor m"
    and "action \<in> {''attach-security-group'', ''remove-security-group'', ''set-tags''}"
  shows "\<exists>m1. instance_action mock_Env c ctx action req m = (Inr (), m1) \<and> holds_instance n k st flavor m1"
proof (rule action_done [OF assms(1), where f = "\<lambda>item. item"])
  have "change_item ''srv-1'' (\<lambda>item. item) (mk_instances m) = mk_instances m"
    by (simp add: change_item_def update_triv split: option.split)
  with assms(2) show "route_instance ''POST'' (''/api/v3/instance/'' @ action) None (Some req)
      (called ''POST'' (''/api/v3/instance/'' @ action) m) =
    Some (ok_message, (called ''POST'' (''/api/v3/instance/'' @ action) m)\<lparr>mk_instances :=
      change_item ''srv-1'' (\<lambda>item. item) (mk_instances m)\<rparr>)"
    by (auto simp: route_instance_def called_def Let_def)
qed simp

lemma inst_renamed:
  assumes "holds_instance n k st flavor m" and "n' \<noteq> ''''"
  shows "\<exists>m1. nobus_UpdateInstance mock_Env c ctx p z ''srv-1'' n' '''' '''' m = (Inr (), m1) \<and>
    holds_instance n' k st flavor m1"
  unfolding nobus_UpdateInstance_def
proof (rule action_done [OF assms(1), where f = "AList.update ''name'' (JString n')"])
  let ?req = "server_request p z ''srv-1'' (omit_string ''name'' n' @ omit_string ''description'' '''' @ omit_string ''hostname'' '''')"
  have "as_string (any_get (body_map (Some ?req)) ''name'') = Some n'"
    "string_or_empty (any_get (body_map (Some ?req)) ''server_id'') = ''srv-1''"
    using assms(2) by (simp_all add: bodies server_request_def omit_string_def update_conv')
  with assms(2) show "route_instance ''POST'' (''/api/v3/instance/'' @ ''update-server'') None (Some ?req)
      (called ''POST'' (''/api/v3/instance/'' @ ''update-server'') m) =
    Some (ok_message, (called ''POST'' (''/api/v3/instance/'' @ ''update-server'') m)\<lparr>mk_instances :=
      change_item ''srv-1'' (AList.update ''name'' (JString n')) (mk_instances m)\<rparr>)"
    by (simp add: route_instance_def Let_def)
qed (simp add: inst_item_def)

lemma inst_resized:
  assumes "holds_instance n k st flavor m"
  shows "\<exists>m1. nobus_ResizeInstance mock_Env c ctx p z ''srv-1'' fl m = (Inr (), m1) \<and>
    holds_instance n k ''VERIFY_RESIZE'' (Some fl) m1"
  unfolding nobus_ResizeInstance_def
proof (rule action_done [OF assms,
      where f = "\<lambda>item. AList.update ''flavor'' (JString fl) (AList.update ''status'' (JString ''VERIFY_RESIZE'') item)"])
  show "route_instance ''POST'' (''/api/v3/instance/'' @ ''resize'') None
      (Some (server_request p z ''srv-1'' [(''flavor_id'', JString fl)])) (called ''POST'' (''/api/v3/instance/'' @ ''resize'') m) =
    Some (ok_message, (called ''POST'' (''/api/v3/instance/'' @ ''resize'') m)\<lparr>mk_instances :=
      change_item ''srv-1'' (\<lambda>item. AList.update ''flavor'' (JString fl)
        (AList.update ''status'' (JString ''VERIFY_RESIZE'') item)) (mk_instances m)\<rparr>)"
    by (simp add: route_instance_def Let_def server_bodies) (simp add: bodies server_request_def)
qed (cases flavor; simp add: inst_item_def)

lemma inst_confirmed:
  assumes "holds_instance n k st flavor m"
  shows "\<exists>m1. nobus_ConfirmResize mock_Env c ctx p z ''srv-1'' m = (Inr (), m1) \<and> holds_instance n k ''ACTIVE'' flavor m1"
  unfolding nobus_ConfirmResize_def
  by (rule action_done [OF assms, where f = "AList.update ''status'' (JString ''ACTIVE'')"])
    (simp_all add: route_instance_def Let_def server_bodies inst_item_def)

text \<open>A wait for the status the instance has takes one request.\<close>

lemma inst_waited:
  assumes "holds_instance n k st flavor m" and "st \<in> set want"
  shows "WaitInstanceStatus mock_Env c mock_Context p z ''srv-1'' want m =
    (None, Some (inst_answer n k st), called ''GET'' ''/api/v3/instance'' m)"
proof -
  have "status_closure (\<lambda>ctx. nobus_GetInstance mock_Env c ctx p z ''srv-1'') ni_Status want mock_Context None m =
      (Inr True, Some (inst_answer n k st), called ''GET'' ''/api/v3/instance'' m)"
    using assms(2) by (simp add: status_closure_def inst_got [OF assms(1)] inst_answer_def)
  then show ?thesis
    unfolding WaitInstanceStatus_def waitStatus_def waitUntil_def mock_Env_simps by (subst waitUntil_loop.simps) simp
qed

section \<open>The steps of an update\<close>

abbreviation settles :: "('s \<Rightarrow> goerr option \<times> 's) \<Rightarrow> 's \<Rightarrow> ('s \<Rightarrow> bool) \<Rightarrow> bool" where
  "settles step m P \<equiv> \<exists>m1. step m = (None, m1) \<and> P m1"

lemma then_settles: "settles a m P \<Longrightarrow> (\<And>m1. P m1 \<Longrightarrow> settles b m1 Q) \<Longrightarrow> settles (then_step a b) m Q"
  by (auto simp: then_step_def)

lemma each_settles: "P m \<Longrightarrow> (\<And>x m. P m \<Longrightarrow> settles (f x) m P) \<Longrightarrow> settles (each_step f xs) m P"
proof (induction xs arbitrary: m)
  case (Cons x xs)
  from Cons.prems(2) [OF Cons.prems(1)] obtain m1 where "f x m = (None, m1)" and "P m1" by blast
  with Cons.IH [OF \<open>P m1\<close> Cons.prems(2)] show ?case by simp
qed simp

abbreviation srv :: "string \<Rightarrow> string \<Rightarrow> server_ref" where
  "srv p z \<equiv> \<lparr>sv_Project = p, sv_Zone = z, sv_ID = ''srv-1''\<rparr>"

lemma name_settles:
  assumes "holds_instance (ia_Name old) k st flavor m"
  shows "settles (update_name mock_Env c mock_Context (srv p z) old news) m
    (holds_instance (if ia_Name news = '''' then ia_Name old else ia_Name news) k st flavor)"
  using assms inst_renamed [OF assms(1), of "ia_Name news" c mock_Context p z]
  by (auto simp: update_name_def done_or_def)

definition new_flavor :: "InstanceArgs \<Rightarrow> InstanceArgs \<Rightarrow> bool" where
  "new_flavor old news \<longleftrightarrow> ia_Flavor news \<noteq> '''' \<and> BareResourceID (ia_Flavor old) \<noteq> BareResourceID (ia_Flavor news)"

lemma flavor_settles:
  assumes "holds_instance n k ''ACTIVE'' flavor m"
  shows "settles (update_flavor mock_Env c mock_Context (srv p z) old news) m
    (holds_instance n k ''ACTIVE'' (if new_flavor old news then Some (BareResourceID (ia_Flavor news)) else flavor))"
proof (cases "new_flavor old news")
  case True
  let ?fl = "BareResourceID (ia_Flavor news)" and ?get = "called ''GET'' ''/api/v3/instance''"
  obtain m1 where resize: "nobus_ResizeInstance mock_Env c mock_Context p z ''srv-1'' ?fl m = (Inr (), m1)"
    and verify: "holds_instance n k ''VERIFY_RESIZE'' (Some ?fl) m1" using inst_resized [OF assms] by blast
  have verify2: "holds_instance n k ''VERIFY_RESIZE'' (Some ?fl) (?get (?get m1))" using verify by simp
  obtain m2 where confirm: "nobus_ConfirmResize mock_Env c mock_Context p z ''srv-1'' (?get (?get m1)) = (Inr (), m2)"
    and active: "holds_instance n k ''ACTIVE'' (Some ?fl) m2" using inst_confirmed [OF verify2] by blast
  have "WaitInstanceStatus mock_Env c mock_Context p z ''srv-1'' [''VERIFY_RESIZE'', ''ACTIVE''] m1 =
      (None, Some (inst_answer n k ''VERIFY_RESIZE''), ?get m1)" by (rule inst_waited [OF verify]) simp
  moreover have "nobus_GetInstance mock_Env c mock_Context p z ''srv-1'' (?get m1) =
      (Inr (inst_answer n k ''VERIFY_RESIZE''), ?get (?get m1))" by (rule inst_got [where flavor = "Some ?fl"]) (simp add: verify)
  moreover have "WaitInstanceStatus mock_Env c mock_Context p z ''srv-1'' [''ACTIVE''] m2 =
      (None, Some (inst_answer n k ''ACTIVE''), ?get m2)" by (rule inst_waited [OF active]) simp
  ultimately have "update_flavor mock_Env c mock_Context (srv p z) old news m = (None, ?get m2)"
    using True resize confirm
    by (simp add: update_flavor_def new_flavor_def done_or_def confirm_resize_def inst_answer_def)
  with active True show ?thesis by simp
next
  case False
  with assms show ?thesis by (auto simp: update_flavor_def new_flavor_def)
qed

lemma kept_settles:
  assumes "holds_instance n k st flavor m"
    and "action \<in> {''attach-security-group'', ''remove-security-group'', ''set-tags''}"
  shows "settles (\<lambda>m. done_or text (instance_action mock_Env c ctx action req m)) m (holds_instance n k st flavor)"
proof -
  obtain m1 where "instance_action mock_Env c ctx action req m = (Inr (), m1)" and "holds_instance n k st flavor m1"
    using action_kept [OF assms, of c ctx req] by blast
  then show ?thesis by (simp add: done_or_def)
qed

lemma groups_settle:
  assumes "holds_instance n k st flavor m"
  shows "settles (update_groups mock_Env c mock_Context (srv p z) old news) m (holds_instance n k st flavor)"
proof -
  have remove: "settles (remove_group mock_Env c mock_Context (srv p z) sg) m (holds_instance n k st flavor)"
    if "holds_instance n k st flavor m" for sg m
    unfolding remove_group_def nobus_RemoveSecurityGroup_def by (rule kept_settles [OF that]) simp
  have attach: "settles (attach_group mock_Env c mock_Context (srv p z) sg) m (holds_instance n k st flavor)"
    if "holds_instance n k st flavor m" for sg m
    unfolding attach_group_def nobus_AttachSecurityGroup_def by (rule kept_settles [OF that]) simp
  have "settles (then_step (each_step (remove_group mock_Env c mock_Context (srv p z)) rs)
      (each_step (attach_group mock_Env c mock_Context (srv p z)) as)) m (holds_instance n k st flavor)" for as rs
    by (rule then_settles [of _ _ "holds_instance n k st flavor"])
      (rule each_settles, rule assms, erule remove, rule each_settles, assumption, erule attach)
  with assms show ?thesis by (auto simp: update_groups_def split: prod.split)
qed

lemma tags_settle:
  assumes "holds_instance n k st flavor m"
  shows "settles (update_tags mock_Env c mock_Context (srv p z) old news) m (holds_instance n k st flavor)"
proof -
  have "settles (\<lambda>m. done_or ''set tags'' (nobus_SetTags mock_Env c mock_Context p z ''srv-1'' (ia_Tags news) m)) m
      (holds_instance n k st flavor)"
    unfolding nobus_SetTags_def by (rule kept_settles [OF assms]) simp
  with assms show ?thesis by (auto simp: update_tags_def)
qed

section \<open>The life of an instance\<close>

lemma inst_parsed: "ParseAddresses inst_addresses = \<lparr>pa_Networks = [''net''], pa_IPv4 = [''10.0.0.5'', ''1.2.3.4''],
   pa_IPv6 = [], pa_PrivateIPv4 = ''10.0.0.5'', pa_PublicIPv4 = ''1.2.3.4''\<rparr>"
  by (simp add: ParseAddresses_def inst_addresses_def add_network_def add_entry_def empty_ParsedAddresses_def
      fallback_addresses_def Let_def)

lemma instance_made:
  assumes "ResolveScope cfg (ia_ProjectID input) (ia_AvailabilityZone input) = Inr (p, z)" and "mk_FailNext m = []"
  shows "\<exists>st m1. Instance_Create mock_Env cfg mock_Context name input False m = ((ScopedID z p ''srv-1'', st, None), m1) \<and>
    st = stateFromInstance (input\<lparr>ia_ProjectID := p, ia_AvailabilityZone := z\<rparr>)
      (inst_answer (ia_Name input) (ia_KeyName input) ''ACTIVE'') \<and>
    holds_instance (ia_Name input) (ia_KeyName input) ''ACTIVE'' None m1"
proof -
  let ?c = "pc_client cfg" and ?get = "called ''GET'' ''/api/v3/instance''"
  let ?req = "\<lparr>ci_ProjectID = p, ci_AvailabilityZone = z, ci_Name = ia_Name input, ci_Image = BareResourceID (ia_Image input),
    ci_Flavor = BareResourceID (ia_Flavor input), ci_KeyName = ia_KeyName input, ci_VolumeSize = ia_VolumeSize input,
    ci_NetworkID = BareResourceID (ia_NetworkID input), ci_SecurityGroups = bareIDs (ia_SecurityGroups input),
    ci_AdminPass = ia_AdminPass input, ci_UserData = ia_UserData input\<rparr>"
  let ?inst = "inst_answer (ia_Name input) (ia_KeyName input) ''ACTIVE''"
  obtain m1 where create: "nobus_CreateInstance mock_Env ?c mock_Context ?req m = (Inr ?inst, m1)"
    and one: "holds_instance (ia_Name input) (ia_KeyName input) ''ACTIVE'' None m1"
    using inst_created [OF assms(2), of ?c mock_Context ?req] by auto
  have wait: "WaitInstanceStatus mock_Env ?c mock_Context p z ''srv-1'' [''ACTIVE''] m1 = (None, Some ?inst, ?get m1)"
    by (rule inst_waited [OF one]) simp
  have sid: "ni_ID ?inst = ''srv-1''" by (simp add: inst_answer_def)
  have one2: "holds_instance (ia_Name input) (ia_KeyName input) ''ACTIVE'' None (?get m1)" using one by simp
  obtain m2 where "nobus_SetTags mock_Env ?c mock_Context p z ''srv-1'' (ia_Tags input) (?get m1) = (Inr (), m2)"
    and "holds_instance (ia_Name input) (ia_KeyName input) ''ACTIVE'' None m2"
    using action_kept [OF one2, of "''set-tags''" ?c mock_Context] unfolding nobus_SetTags_def by blast
  with assms(1) create wait one2 show ?thesis by (simp add: Instance_Create_def Let_def sid)
qed

text \<open>
  What an update leaves: the name of the new inputs, when they give one, and their flavor, when it is
  another.
\<close>

definition updated :: "InstanceArgs \<Rightarrow> InstanceArgs \<Rightarrow> Mock \<Rightarrow> bool" where
  "updated old news = holds_instance (if ia_Name news = '''' then ia_Name old else ia_Name news) (ia_KeyName old) ''ACTIVE''
     (if new_flavor old news then Some (BareResourceID (ia_Flavor news)) else None)"

lemma instance_updated:
  assumes "ResolveImport cfg rid (cmp_Or [ia_ProjectID news, ia_ProjectID (is_Args olds)])
      (cmp_Or [ia_AvailabilityZone news, ia_AvailabilityZone (is_Args olds)]) = Inr (z, p, ''srv-1'')"
    and "holds_instance (ia_Name (is_Args olds)) (ia_KeyName (is_Args olds)) ''ACTIVE'' None m"
  shows "\<exists>st m1. Instance_Update mock_Env cfg mock_Context rid olds news False m = ((st, None), m1) \<and>
    is_Args st = news\<lparr>ia_ProjectID := p, ia_AvailabilityZone := z\<rparr> \<and> is_Status st = ''ACTIVE'' \<and> updated (is_Args olds) news m1"
proof -
  let ?old = "is_Args olds" and ?news = "news\<lparr>ia_ProjectID := p, ia_AvailabilityZone := z\<rparr>" and ?c = "pc_client cfg"
  let ?n = "if ia_Name news = '''' then ia_Name ?old else ia_Name news"
  have flavor: "new_flavor ?old ?news = new_flavor ?old news" by (simp add: new_flavor_def)
  have name: "ia_Name ?news = ia_Name news" by simp
  have "settles (update_name mock_Env ?c mock_Context (srv p z) ?old ?news) m
      (holds_instance ?n (ia_KeyName ?old) ''ACTIVE'' None)"
    using name_settles [OF assms(2), of ?c p z ?news] unfolding name .
  moreover have "settles (update_flavor mock_Env ?c mock_Context (srv p z) ?old ?news) m1 (updated ?old news)"
    if "holds_instance ?n (ia_KeyName ?old) ''ACTIVE'' None m1" for m1
    using flavor_settles [OF that, of ?c p z ?old ?news] by (simp add: updated_def flavor cong: if_cong)
  moreover have "settles (update_groups mock_Env ?c mock_Context (srv p z) ?old ?news) m1 (updated ?old news)"
    "settles (update_tags mock_Env ?c mock_Context (srv p z) ?old ?news) m1 (updated ?old news)" if "updated ?old news m1" for m1
    using that unfolding updated_def by (rule groups_settle, rule tags_settle)
  ultimately have "settles (then_step (update_name mock_Env ?c mock_Context (srv p z) ?old ?news)
      (then_step (update_flavor mock_Env ?c mock_Context (srv p z) ?old ?news)
        (then_step (update_groups mock_Env ?c mock_Context (srv p z) ?old ?news)
          (update_tags mock_Env ?c mock_Context (srv p z) ?old ?news)))) m (updated ?old news)"
    by (intro then_settles) assumption+
  then obtain m1 where steps: "then_step (update_name mock_Env ?c mock_Context (srv p z) ?old ?news)
      (then_step (update_flavor mock_Env ?c mock_Context (srv p z) ?old ?news)
        (then_step (update_groups mock_Env ?c mock_Context (srv p z) ?old ?news)
          (update_tags mock_Env ?c mock_Context (srv p z) ?old ?news))) m = (None, m1)" and one: "updated ?old news m1" by blast
  have "nobus_GetInstance mock_Env ?c mock_Context p z ''srv-1'' m1 =
      (Inr (inst_answer ?n (ia_KeyName ?old) ''ACTIVE''), called ''GET'' ''/api/v3/instance'' m1)"
    using one unfolding updated_def by (rule inst_got)
  moreover have "updated ?old news (called ''GET'' ''/api/v3/instance'' m1)" using one by (simp add: updated_def)
  ultimately show ?thesis
    using assms(1) steps
    by (simp add: Instance_Update_def Let_def stateFromInstance_def inst_answer_def del: cmp_Or.simps)
qed

text \<open>
  C29. The life of an instance.  Over any state of the API in which no failure is due, creating an instance
  returns it as active with the addresses the API gave it; any update within the same project and zone
  succeeds and leaves the API with the name and the flavor of the new inputs and the instance active, the
  resize confirmed; deleting it succeeds, and after that a read reports it as gone.
\<close>

theorem Instance_life:
  assumes "ResolveScope cfg (ia_ProjectID input) (ia_AvailabilityZone input) = Inr (p, z)"
    and "CHR ''/'' \<notin> set p" and "CHR ''/'' \<notin> set z" and "mk_FailNext m = []"
    and "ia_ProjectID news \<in> {'''', p}" and "ia_AvailabilityZone news \<in> {'''', z}"
  shows "\<exists>rid st m1 st2 m2 m3 m4.
    Instance_Create mock_Env cfg mock_Context name input False m = ((rid, st, None), m1) \<and>
    is_Status st = ''ACTIVE'' \<and> is_PrivateIPv4 st = ''10.0.0.5'' \<and> is_PublicIPv4 st = ''1.2.3.4'' \<and>
    Instance_Update mock_Env cfg mock_Context rid st news False m1 = ((st2, None), m2) \<and>
    is_Args st2 = news\<lparr>ia_ProjectID := p, ia_AvailabilityZone := z\<rparr> \<and> is_Status st2 = ''ACTIVE'' \<and>
    updated input news m2 \<and>
    Instance_Delete mock_Env cfg mock_Context rid st2 m2 = (None, m3) \<and>
    Instance_Read mock_Env cfg mock_Context rid zero_InstanceArgs st2 m3 =
      (('''', zero_InstanceArgs, InstanceState_of zero_InstanceArgs, None), m4)"
proof -
  let ?c = "pc_client cfg" and ?rid = "ScopedID z p ''srv-1''" and ?args = "input\<lparr>ia_ProjectID := p, ia_AvailabilityZone := z\<rparr>"
  have ne: "p \<noteq> ''''" "z \<noteq> ''''" using assms(1) by (auto simp: ResolveScope_Inr)
  note import = import_own(2) [OF assms(1-3), of "''srv-1''", simplified]
  obtain st m1 where create: "Instance_Create mock_Env cfg mock_Context name input False m = ((?rid, st, None), m1)"
    and st: "st = stateFromInstance ?args (inst_answer (ia_Name input) (ia_KeyName input) ''ACTIVE'')"
    and one: "holds_instance (ia_Name input) (ia_KeyName input) ''ACTIVE'' None m1"
    using instance_made [OF assms(1,4), of name] by blast
  have args: "is_Args st = ?args" and active: "is_Status st = ''ACTIVE''"
    and addresses: "is_PrivateIPv4 st = ''10.0.0.5''" "is_PublicIPv4 st = ''1.2.3.4''"
    by (simp_all add: st stateFromInstance_def inst_answer_def inst_parsed)
  have "cmp_Or [ia_ProjectID news, ia_ProjectID (is_Args st)] = p"
    and "cmp_Or [ia_AvailabilityZone news, ia_AvailabilityZone (is_Args st)] = z"
    using assms(5,6) ne by (auto simp: args)
  with import have "ResolveImport cfg ?rid (cmp_Or [ia_ProjectID news, ia_ProjectID (is_Args st)])
      (cmp_Or [ia_AvailabilityZone news, ia_AvailabilityZone (is_Args st)]) = Inr (z, p, ''srv-1'')" by simp
  from instance_updated [OF this, of m1] one obtain st2 m2 where
    update: "Instance_Update mock_Env cfg mock_Context ?rid st news False m1 = ((st2, None), m2)"
    and st2: "is_Args st2 = news\<lparr>ia_ProjectID := p, ia_AvailabilityZone := z\<rparr>" "is_Status st2 = ''ACTIVE''"
    and "updated (is_Args st) news m2" unfolding args by auto
  then have two: "updated input news m2" by (simp add: updated_def new_flavor_def args cong: if_cong)
  then have "mk_FailNext m2 = []" by (simp add: updated_def holds_instance_def)
  from inst_deleted [OF this, of ?c mock_Context p z "ia_DeleteVolume news = Some True"] obtain m3 where
    "nobus_DeleteInstance mock_Env ?c mock_Context p z ''srv-1'' (ia_DeleteVolume news = Some True) m2 = (Inr (), m3)"
    and gone: "mk_FailNext m3 = []" "map_of (mk_instances m3) ''srv-1'' = None" by blast
  then have delete: "Instance_Delete mock_Env cfg mock_Context ?rid st2 m2 = (None, m3)"
    using import by (simp add: Instance_Delete_def st2 forgive_NotFound_def)
  obtain t where "nobus_GetInstance mock_Env ?c mock_Context p z ''srv-1'' m3 =
      (Inl (missing t), called ''GET'' ''/api/v3/instance'' m3)"
    using inst_missing [OF gone, of ?c mock_Context p z] by blast
  then have "Instance_Read mock_Env cfg mock_Context ?rid zero_InstanceArgs st2 m3 =
      (('''', zero_InstanceArgs, InstanceState_of zero_InstanceArgs, None), called ''GET'' ''/api/v3/instance'' m3)"
    using import ne by (simp add: Instance_Read_def st2)
  with create active addresses update st2 two delete show ?thesis by blast
qed

lemma Instance_life_witness:
  "\<exists>rid st m1 st2 m2. Instance_Create mock_Env sample_PConfig mock_Context ''web''
       (zero_InstanceArgs\<lparr>ia_Name := ''web'', ia_Flavor := ''fl-1'', ia_KeyName := ''k''\<rparr>) False mock_New = ((rid, st, None), m1) \<and>
     Instance_Update mock_Env sample_PConfig mock_Context rid st
       (zero_InstanceArgs\<lparr>ia_Name := ''web'', ia_Flavor := ''fl-2'', ia_KeyName := ''k''\<rparr>) False m1 = ((st2, None), m2) \<and>
     holds_instance ''web'' ''k'' ''ACTIVE'' (Some ''fl-2'') m2"
proof -
  let ?input = "zero_InstanceArgs\<lparr>ia_Name := ''web'', ia_Flavor := ''fl-1'', ia_KeyName := ''k''\<rparr>"
  let ?news = "zero_InstanceArgs\<lparr>ia_Name := ''web'', ia_Flavor := ''fl-2'', ia_KeyName := ''k''\<rparr>"
  have scope: "ResolveScope sample_PConfig (ia_ProjectID ?input) (ia_AvailabilityZone ?input) = Inr (''p1'', ''ng1'')"
    using sample_scope by (simp add: zero_InstanceArgs_def)
  have "updated ?input ?news = holds_instance ''web'' ''k'' ''ACTIVE'' (Some ''fl-2'')"
    by (simp add: updated_def new_flavor_def BareResourceID_def ParseScopedID_def)
  with Instance_life [OF scope, of mock_New ?news "''web''"] show ?thesis
    by (fastforce simp: mock_New_def zero_InstanceArgs_def)
qed

end
