(* ===== verification/MockRetries.thy ===== *)
theory MockRetries
  imports PulumiMock
begin

text \<open>
  Failures that pass: what the retries of the API client hide, stated for any world and then for the
  failures a test asks the in-memory API for.
\<close>

section \<open>Any world\<close>

text \<open>
  \<open>fails_from once ctx attempt k s s'\<close>: from \<open>s\<close>, the next \<open>k\<close> attempts fail in a way that is tried again,
  their pauses end, and then the world is \<open>s'\<close>.
\<close>

fun fails_from :: "('s \<Rightarrow> ('a, 's) result) \<Rightarrow> 's Context \<Rightarrow> nat \<Rightarrow> nat \<Rightarrow> 's \<Rightarrow> 's \<Rightarrow> bool" where
  "fails_from once ctx attempt 0 s s' \<longleftrightarrow> s' = s"
| "fails_from once ctx attempt (Suc k) s s' \<longleftrightarrow>
     (case once s of
        (Inr _, s1) \<Rightarrow> False
      | (Inl err, s1) \<Rightarrow> errors_is err ErrUnavailable \<and> ctx_Err ctx s1 = None \<and>
          (case ctx_timer ctx (attempt * attempt * 200) s1 of (fired, s2) \<Rightarrow> fired \<and> fails_from once ctx (attempt + 1) k s2 s'))"

lemma do_from_hides:
  "fails_from once ctx attempt k s s' \<Longrightarrow> k \<le> left \<Longrightarrow>
   nobus_do_from once ctx attempt left s = nobus_do_from once ctx (attempt + k) (left - k) s'"
proof (induction k arbitrary: attempt left s)
  case (Suc k)
  from Suc.prems obtain left' err s1 s2 where left: "left = Suc left'" "k \<le> left'"
    and once: "once s = (Inl err, s1)" "errors_is err ErrUnavailable" "ctx_Err ctx s1 = None"
    and timer: "ctx_timer ctx (attempt * attempt * 200) s1 = (True, s2)" and rest: "fails_from once ctx (attempt + 1) k s2 s'"
    by (cases left) (auto split: prod.splits sum.splits)
  from Suc.IH [OF rest left(2)] show ?case
    by (subst nobus_do_from.simps) (simp add: once timer left(1) del: nobus_do_from.simps)
qed simp

text \<open>The last of the failures.\<close>

lemma fails_from_last:
  "fails_from once ctx attempt (Suc k) s s' \<Longrightarrow>
   \<exists>s1 err s2. fails_from once ctx attempt k s s1 \<and> once s1 = (Inl err, s2) \<and> errors_is err ErrUnavailable \<and>
     ctx_timer ctx ((attempt + k) * (attempt + k) * 200) s2 = (True, s')"
proof (induction k arbitrary: attempt s)
  case 0
  then show ?case by (auto split: prod.splits sum.splits)
next
  case (Suc k)
  from Suc.prems obtain err s1 s2 where once: "once s = (Inl err, s1)" "errors_is err ErrUnavailable" "ctx_Err ctx s1 = None"
    and timer: "ctx_timer ctx (attempt * attempt * 200) s1 = (True, s2)"
    and rest: "fails_from once ctx (attempt + 1) (Suc k) s2 s'"
    by (simp only: fails_from.simps(2) [of once ctx attempt "Suc k"]) (auto split: prod.splits sum.splits simp del: fails_from.simps)
  from Suc.IH [OF rest] obtain t err' t2 where "fails_from once ctx (attempt + 1) k s2 t" and "once t = (Inl err', t2)"
    "errors_is err' ErrUnavailable" "ctx_timer ctx ((attempt + 1 + k) * (attempt + 1 + k) * 200) t2 = (True, s')" by blast
  with once timer show ?case by (intro exI [of _ t]) (simp add: add.commute add.left_commute)
qed

lemma do_from_settled:
  assumes "case fst (once s) of Inl err \<Rightarrow> \<not> errors_is err ErrUnavailable | Inr _ \<Rightarrow> True"
  shows "nobus_do_from once ctx attempt left s = once s"
  using assms by (cases "once s") (auto split: sum.splits nat.splits)

lemma do_from_last: "nobus_do_from once ctx attempt 0 s = once s"
  by (simp split: prod.splits sum.splits)

section \<open>The failures a test asks for\<close>

abbreviation due :: "string \<Rightarrow> string \<times> int \<Rightarrow> bool" where
  "due path \<equiv> \<lambda>(p, code). strings_HasPrefix path p"

text \<open>The failures that are left when the first \<open>n\<close> due ones are taken.\<close>

fun drop_due :: "string \<Rightarrow> nat \<Rightarrow> (string \<times> int) list \<Rightarrow> (string \<times> int) list" where
  "drop_due path 0 fails = fails"
| "drop_due path (Suc n) [] = []"
| "drop_due path (Suc n) (f # fails) = (if due path f then drop_due path n fails else f # drop_due path (Suc n) fails)"

definition after_failures :: "string \<Rightarrow> string \<Rightarrow> nat \<Rightarrow> Mock \<Rightarrow> Mock" where
  "after_failures meth path n m =
     m\<lparr>mk_FailNext := drop_due path n (mk_FailNext m), mk_Calls := mk_Calls m @ replicate n (meth @ '' '' @ path)\<rparr>"

definition transient :: "int \<Rightarrow> bool" where
  "transient code \<longleftrightarrow> code = 429 \<or> code \<ge> 500"

lemma drop_due_Suc: "drop_due path (Suc n) fails = drop_due path n (drop_due path (Suc 0) fails)"
proof (induction fails)
  case (Cons f fails)
  then show ?case by (cases n) auto
qed (cases n; simp)

lemma drop_due_set: "set (drop_due path n fails) \<subseteq> set fails"
  by (induction path n fails rule: drop_due.induct) auto

lemma drop_due_distinct: "distinct (map fst fails) \<Longrightarrow> distinct (map fst (drop_due path n fails))"
  by (induction path n fails rule: drop_due.induct) (use drop_due_set in \<open>fastforce+\<close>)

lemma drop_due_count: "length (filter (due path) (drop_due path (Suc 0) fails)) = length (filter (due path) fails) - 1"
  by (induction fails) auto

lemma take_failure_due:
  assumes "distinct (map fst fails)" and "filter (due path) fails = (p, code) # rest"
  shows "take_failure path fails = Some (code, drop_due path (Suc 0) fails)"
proof -
  have "find (due path) fails = Some (p, code) \<and> AList.delete p fails = drop_due path (Suc 0) fails"
    using assms
  proof (induction fails)
    case (Cons f fails)
    obtain p' code' where f: "f = (p', code')" by fastforce
    show ?case
    proof (cases "due path f")
      case True
      with Cons.prems f have "p' = p" "code' = code" "p \<notin> fst ` set fails" by auto
      with True f show ?thesis by (simp add: delete_id)
    next
      case False
      with Cons.prems have "(p, code) \<in> set fails" by (metis filter.simps(2) filter_is_subset list.set_intros(1) subsetD)
      with Cons.prems f have "p \<noteq> p'" by force
      with Cons False f show ?thesis by auto
    qed
  qed simp
  then show ?thesis by (simp add: take_failure_def)
qed

lemma after_failures_Suc: "after_failures meth path (Suc n) m = after_failures meth path n (after_failures meth path (Suc 0) m)"
  by (simp add: after_failures_def drop_due_Suc [of path n])

lemma mock_Context_simps: "ctx_timer mock_Context n s = (True, s)" "ctx_Err mock_Context s = None"
  by (simp_all add: mock_Context_def)

lemma mock_doOnce_failure:
  assumes "distinct (map fst (mk_FailNext m))" and "filter (due path) (mk_FailNext m) = (p, code) # rest" and "transient code"
  shows "\<exists>err. nobus_doOnce mock_Env c ctx meth path q b decode m = (Inl err, after_failures meth path (Suc 0) m) \<and>
    errors_is err ErrUnavailable"
  using assms(3)
  by (auto simp: nobus_doOnce_def mock_Env_simps mock_serve_def take_failure_due [OF assms(1,2)] Let_def WriteJSON_def
      after_failures_def nobus_mapHTTPError_def transient_def)

lemma mock_fails_from:
  assumes "distinct (map fst (mk_FailNext m))" and "k \<le> length (filter (due path) (mk_FailNext m))"
    and "\<forall>f \<in> set (mk_FailNext m). due path f \<longrightarrow> transient (snd f)"
  shows "fails_from (nobus_doOnce mock_Env c mock_Context meth path q b decode) mock_Context attempt k m
    (after_failures meth path k m)"
  using assms
proof (induction k arbitrary: m attempt)
  case (Suc k)
  from Suc.prems(2) obtain p code rest where first: "filter (due path) (mk_FailNext m) = (p, code) # rest"
    by (cases "filter (due path) (mk_FailNext m)") auto
  then have "(p, code) \<in> set (filter (due path) (mk_FailNext m))" by simp
  with Suc.prems(3) have "transient code" by auto
  from mock_doOnce_failure [OF Suc.prems(1) first this] obtain err where
    once: "nobus_doOnce mock_Env c mock_Context meth path q b decode m = (Inl err, after_failures meth path (Suc 0) m)"
    "errors_is err ErrUnavailable" by blast
  let ?m = "after_failures meth path (Suc 0) m"
  have fails: "mk_FailNext ?m = drop_due path (Suc 0) (mk_FailNext m)" by (simp add: after_failures_def)
  have "fails_from (nobus_doOnce mock_Env c mock_Context meth path q b decode) mock_Context (attempt + 1) k ?m
      (after_failures meth path k ?m)"
    using Suc.prems drop_due_set [of path "Suc 0" "mk_FailNext m"]
    by (intro Suc.IH) (auto simp: fails drop_due_distinct drop_due_count simp del: drop_due.simps)
  then show ?case by (simp add: once mock_Context_simps after_failures_Suc [of _ _ k])
qed (simp add: after_failures_def)

text \<open>
  C37. Failures that pass are hidden, up to three of them.  When the in-memory API has been asked to fail
  requests on a path with codes that are tried again, a call is answered as its last attempt is, by the
  state in which the due failures are used up, when there are fewer than four of them; with four or more
  the call fails as unavailable and nothing but the failures and the list of calls has changed.
\<close>

theorem transient_failures_hidden:
  assumes "distinct (map fst (mk_FailNext m))" and "\<forall>f \<in> set (mk_FailNext m). due path f \<longrightarrow> transient (snd f)"
    and "n = length (filter (due path) (mk_FailNext m))"
    and "case fst (nobus_doOnce mock_Env c mock_Context meth path q b decode (after_failures meth path n m)) of
        Inl err \<Rightarrow> \<not> errors_is err ErrUnavailable | Inr _ \<Rightarrow> True"
  shows "if n < 4
    then nobus_do mock_Env c mock_Context meth path q b decode m =
      nobus_doOnce mock_Env c mock_Context meth path q b decode (after_failures meth path n m)
    else \<exists>err. nobus_do mock_Env c mock_Context meth path q b decode m = (Inl err, after_failures meth path 4 m) \<and>
      errors_is err ErrUnavailable"
proof (cases "n < 4")
  case True
  have "fails_from (nobus_doOnce mock_Env c mock_Context meth path q b decode) mock_Context 1 n m (after_failures meth path n m)"
    using assms(1,2) by (intro mock_fails_from) (simp_all add: assms(3))
  from do_from_hides [OF this, of 3] True assms(4) show ?thesis
    by (simp add: nobus_do_def maxAttempts_def do_from_settled del: nobus_do_from.simps)
next
  case False
  let ?once = "nobus_doOnce mock_Env c mock_Context meth path q b decode"
  have "fails_from ?once mock_Context 1 4 m (after_failures meth path 4 m)"
    using assms(1,2) False by (intro mock_fails_from) (simp_all add: assms(3))
  then have "fails_from ?once mock_Context 1 (Suc 3) m (after_failures meth path 4 m)" by simp
  from fails_from_last [OF this] obtain s err where "fails_from ?once mock_Context 1 3 m s"
    and "?once s = (Inl err, after_failures meth path 4 m)" and "errors_is err ErrUnavailable" by (auto simp: mock_Context_simps)
  with False do_from_hides [of ?once mock_Context 1 3 m s 3] show ?thesis
    by (auto simp: nobus_do_def maxAttempts_def do_from_last simp del: nobus_do_from.simps)
qed

text \<open>Two failures on the way, and the key pair is made once.\<close>

definition failing_Mock :: Mock where
  "failing_Mock = mock_New\<lparr>mk_FailNext := [(''/api/v3/keypair'', 503), (''/api/v3/'', 429)]\<rparr>"

lemma transient_failures_hidden_witness:
  "let r = nobus_do mock_Env pulumi_client mock_Context ''POST'' ''/api/v3/keypair/'' None
       (Some (JObject [(''name'', JString ''k'')])) discard failing_Mock
   in fst r = Inr () \<and> map fst (mk_keypairs (snd r)) = [''kp-k''] \<and>
     mk_Calls (snd r) = replicate 3 ''POST /api/v3/keypair/'' \<and> mk_FailNext (snd r) = []"
proof -
  let ?path = "''/api/v3/keypair/''" and ?body = "Some (JObject [(''name'', JString ''k'')])"
  let ?once = "nobus_doOnce mock_Env pulumi_client mock_Context ''POST'' ?path None ?body discard"
  let ?m = "after_failures ''POST'' ?path 2 failing_Mock"
  let ?item = "[(''id'', JString ''kp-k''), (''name'', JString ''k''), (''public_key'', JString ''ssh-rsa A''),
    (''private_key'', JString ''PRIV''), (''fingerprint'', JString ''aa:bb''), (''type'', JString ''ssh'')]"
  have due: "filter (due ?path) (mk_FailNext failing_Mock) = [(''/api/v3/keypair'', 503), (''/api/v3/'', 429)]"
    by (simp add: failing_Mock_def strings_HasPrefix_def)
  have fails: "mk_FailNext ?m = []"
    by (simp add: after_failures_def failing_Mock_def strings_HasPrefix_def numeral_2_eq_2)
  have calls: "mk_Calls ?m = replicate 2 ''POST /api/v3/keypair/''" "mk_keypairs ?m = []"
    by (simp_all add: after_failures_def failing_Mock_def mock_New_def)
  have once: "?once ?m = (Inr (), (called ''POST'' ?path ?m)\<lparr>mk_keypairs := [(''kp-k'', ?item)]\<rparr>)"
    by (simp add: mock_doOnce [OF fails] mock_routes_def route_keypair_def bodies WriteJSON_def discard_def Let_def calls(2)
        called_def)
  have "distinct (map fst (mk_FailNext failing_Mock))" by (simp add: failing_Mock_def)
  moreover have "\<forall>f \<in> set (mk_FailNext failing_Mock). due ?path f \<longrightarrow> transient (snd f)"
    by (simp add: failing_Mock_def transient_def)
  moreover have "2 = length (filter (due ?path) (mk_FailNext failing_Mock))" unfolding due by simp
  moreover have "case fst (?once ?m) of Inl err \<Rightarrow> \<not> errors_is err ErrUnavailable | Inr _ \<Rightarrow> True" by (simp add: once)
  ultimately have "if (2::nat) < 4 then nobus_do mock_Env pulumi_client mock_Context ''POST'' ?path None ?body discard failing_Mock = ?once ?m
    else \<exists>err. nobus_do mock_Env pulumi_client mock_Context ''POST'' ?path None ?body discard failing_Mock =
      (Inl err, after_failures ''POST'' ?path 4 failing_Mock) \<and> errors_is err ErrUnavailable"
    by (rule transient_failures_hidden)
  then have answered: "nobus_do mock_Env pulumi_client mock_Context ''POST'' ?path None ?body discard failing_Mock =
      (Inr (), (called ''POST'' ?path ?m)\<lparr>mk_keypairs := [(''kp-k'', ?item)]\<rparr>)"
    unfolding once by simp
  show ?thesis unfolding answered Let_def using calls fails by (simp add: called_def numeral_3_eq_3 numeral_2_eq_2)
qed

end
