(* ===== verification/Spec2Isabelle.thy ===== *)
theory Spec2Isabelle
  imports Concurrent ClientProps Server MockCrud MockVolumes MockInstances MockRetries
begin

text \<open>
  Verification of the Nobus CSI driver and of the Nobus provider for Pulumi.

  The repository holds two programs.  The first is a CSI driver: \<open>cmd/nobus-csi\<close> reads a configuration
  and starts a gRPC server (\<open>internal/driver/server.go\<close>) whose identity, controller and node services
  (\<open>internal/driver\<close>) work on two interfaces, the provider of volumes \<open>Cloud\<close> (\<open>internal/cloud\<close>: the client
  of the HTTP API and an in-memory provider) and the \<open>Mounter\<close> of the node (\<open>internal/mount\<close>: Linux, and an
  in-memory one).  \<open>internal/metadata\<close> tells a node who it is.  The second is \<open>pulumi-nobus/provider\<close>: a client
  of the same API with retries (\<open>pkg/nobusapi\<close>), thirteen resources with the methods Check, Create, Read,
  Diff, Update and Delete on top of it (\<open>pkg/provider\<close>), and the in-memory API its tests run against
  (\<open>internal/testapi\<close>).  The two programs share no code.

  How the code is read.  A Go struct is a record, an enumeration a datatype, \<open>int64\<close> a 64-bit word that
  wraps around, a Go string a list of bytes, an error the tree of what was wrapped (\<open>goerr\<close>, so that
  \<open>errors.Is\<close> and the older \<open>os.IsNotExist\<close> differ as they do in Go), a fallible call a sum with the error
  left.  Everything outside the process is a world of any type \<open>'s\<close>, passed through: an interface value is
  a record of functions on it, and so are the transport, the context with its timers, the operating
  system.  Theorems hold for every such world unless they name one.  The outcome of a timer says whether
  it fired or the context ended first.  JSON documents are trees; encoding and decoding follow the tags
  of the structs.  A map that the code ranges over is an association list whose order is arbitrary.
\<close>

text \<open>
  The theories, from the bottom.

  \<open>GoPrelude\<close>: the parts of Go's library the code uses, the collections of rules, lemmas on lists and words.
  \<open>GoErrors\<close>: \<open>internal/cloud/errors.go\<close> and \<open>internal/driver/errors.go\<close>, with the table from errors to gRPC
  statuses.  \<open>CloudTypes\<close>: \<open>internal/cloud/cloud.go\<close>.  \<open>CsiTypes\<close>: the protocol's messages.  \<open>Json\<close>: documents.

  The driver.  \<open>Config\<close>: \<open>internal/driver/config.go\<close>.  \<open>Locks\<close>: \<open>locks.go\<close>, and concurrent calls as a step
  relation whose reachable states never let two calls hold one identifier.  \<open>Params\<close>: \<open>params.go\<close> and the
  snapshot identifiers; capacities are rounded on words, and both the result and the overflow are
  proved.  \<open>Driver\<close>: \<open>driver.go\<close>, \<open>identity.go\<close>, the \<open>Mounter\<close> interface.  \<open>Controller\<close>, \<open>SnapshotService\<close>,
  \<open>NodeService\<close>: \<open>controller.go\<close>, \<open>snapshot.go\<close>, \<open>node.go\<close>, every handler.  \<open>Server\<close>: \<open>server.go\<close> and \<open>main.go\<close>.
  \<open>Handlers\<close> proves what holds of every handler over any provider and mounter: errors are statuses, a lock
  that is held aborts, locks are released, searches are bounded.  \<open>VolumeStore\<close> is the contract between the
  controller and a provider, a locale whose lemmas bound what \<open>CreateVolume\<close> may delete and what it keeps;
  \<open>FakeStore\<close> interprets it on the in-memory provider (\<open>FakeCloud\<close>, from \<open>internal/cloud/fake.go\<close>) and proves that
  provider's invariant.  \<open>FakeService\<close> and \<open>FakeLifecycle\<close> state what each handler promises as an abstract
  specification over the provider's volumes and snapshots, and prove that the handlers refine it.
  \<open>Concurrent\<close> puts one handler among others: between any two of its own requests the other calls of the
  driver may run any number of steps on the same provider, and what a handler's own requests do, and what
  its answer says of the provider, is proved under that interference.
  \<open>MountTable\<close> is the contract of a mounter, a locale, and its extension to mounters that do not fail, under
  which the life of a volume on a node is determined; both are interpreted on \<open>internal/mount/fake.go\<close>.  It
  holds the device names of \<open>devices.go\<close> too; \<open>MountLinux\<close> models \<open>linux.go\<close> over the operating system.

  The driver's providers.  \<open>Pagination\<close>: \<open>paginate\<close> of \<open>internal/cloud/client.go\<close>, which both share.
  \<open>CloudClient\<close>: the rest of that file.  \<open>ClientProps\<close>: sizes, classification of errors, zones, polling.
  \<open>CloudInit\<close>: \<open>internal/metadata/cloudinit.go\<close>.

  The Pulumi provider.  \<open>NobusApi\<close>: \<open>pkg/nobusapi/client.go\<close>, requests with retries and the polling loop.
  \<open>NobusStorage\<close>, \<open>Addresses\<close>, \<open>NobusCompute\<close>, \<open>NobusNetwork\<close>: the other files of \<open>pkg/nobusapi\<close>, every call.
  \<open>PulumiScope\<close>: scoped identifiers, differences, checks and configuration of \<open>pkg/provider\<close>.
  \<open>PulumiVolume\<close>, \<open>PulumiBackup\<close>, \<open>PulumiCompute\<close>, \<open>PulumiNetwork\<close>, \<open>PulumiSecurity\<close>: the thirteen resources.
  \<open>Effects\<close>: a view of the server's state and how the client's calls change it; the locale \<open>repeatable\<close> holds
  what follows when a request can be repeated, and is interpreted on the effects of the calls, in
  \<open>PulumiUpdate\<close> for the security groups of an instance and in \<open>PulumiServer\<close> for the field of a resource.
  \<open>PulumiProps\<close> proves properties of identifiers, comparisons and retries; \<open>PulumiDiffs\<close> compares the \<open>Diff\<close> of
  each resource with a reference, the comparison of its fixed and its changeable inputs, and proves that
  there is no difference after a read; \<open>PulumiUpdate\<close> and \<open>PulumiServer\<close> what an update leaves on the server; \<open>PulumiWait\<close> when a wait
  ends well and when it ends too early.  \<open>MockApi\<close>: \<open>internal/testapi/server.go\<close>, every route.  \<open>PulumiMock\<close>
  makes it the world of the client.  \<open>MockCrud\<close> (the six resources behind \<open>handleGenericCRUD\<close>, each an
  interpretation of the locale \<open>crud_store\<close>), \<open>MockVolumes\<close> (an attachment) and \<open>MockInstances\<close> run resources
  against it, from creation over import or update to deletion; \<open>MockRetries\<close> proves which of its failures the
  client's retries hide.
\<close>

text \<open>
  Bounds.  Loops over lists are structural.  The retry loop of \<open>CreateVolume\<close> recurses on the attempts left,
  which are seven: at most eight listings and 12.7 seconds of waiting (\<open>reconcileCreatedVolume_bounded\<close>).
  The client's \<open>waitVolumeDeleted\<close> and \<open>waitAttachedDevice\<close>, the Pulumi client's \<open>waitUntil\<close> and the Linux
  mounter's \<open>FindDevice\<close> poll until a deadline; the model counts the polls that have room before it, the
  timeout divided by the interval, which is enough because each pause takes at least one interval of the
  deadline's time: when the count is used up the deadline has passed, and the code returns there as the
  model does.  The Pulumi client sends a request at most four times and pauses 2.8 seconds at most
  (\<open>nobus_do_bounded\<close>).  No theorem is conditional on fuel being left.

  What is assumed.  Nothing is an axiom.  Hypotheses about a world are definitions of their own:
  \<open>timers_fire\<close> (the context is not cancelled), \<open>serves\<close> (an answered request had its documented effect on what it
  names and on nothing else, a failed one may have had it), \<open>foreign_errors\<close> (the transport does not answer
  the client's own sentinels), \<open>comes_up\<close> (the object has the wanted status after so many polls),
  \<open>others_drive\<close> (what happens in between is done by calls of the driver).

  Not modelled.  Logging, gRPC, sockets, signals and flag parsing; \<open>net/http\<close> and \<open>net/url\<close>, which are the
  transport; the operating system and \<open>k8s.io/mount-utils\<close> under the Linux mounter (on other systems \<open>mount.New\<close>
  answers the in-memory mounter, and \<open>requireLinuxNode\<close> of \<open>main.go\<close> refuses to start a node service); the Pulumi engine and the schema annotations of the resources, which have no
  effect on what they do; the HTTP server and the test framework around the in-memory API; the SDKs
  under \<open>pulumi-nobus/sdk\<close>, which are generated from the schema; the examples, the plugin's \<open>main\<close>, charts
  and manifests.  Time is counted in milliseconds.  The in-memory provider's counters are natural
  numbers; the code's are of type \<open>int\<close> and would wrap around after \<open>2\<close> to the 63 creations.  The mutex of an in-memory store makes each call on it
  one step.  Handlers that run at the same time are modelled by their locks (\<open>Locks\<close>) and by the steps of
  others between their own requests (\<open>Concurrent\<close>); concurrent runs of the Pulumi provider are not.
\<close>

end
